(* ===== verification/Prelude.thy ===== *)
theory Prelude
  imports Complex_Main "HOL-Library.Sublist" "HOL-Library.AList"
    "HOL-Library.List_Lexorder" "HOL-Library.Char_ord"
begin

section \<open>Prelude: collections, results and generic lemmas\<close>

text \<open>
  What every component shares: the collections of rewrite rules the proofs pass to the
  simplifier, the type of a Go result (\<open>error\<close> or value), and lemmas on lists and
  association lists that are not about the program.
\<close>

named_theorems go_text \<open>unfolding the models of Go's string functions\<close>
named_theorems store_op \<open>unfolding one operation of the SQLite store\<close>
named_theorems worker_op \<open>unfolding one operation of the worker\<close>
named_theorems result_iff \<open>when a composed computation returns a value or an error\<close>

subsection \<open>Errors and results\<close>

text \<open>
  A Go function that returns \<open>(value, error)\<close> is a function into \<open>gerr + 'a\<close>: \<open>Inl\<close> is a
  non-nil error.  The constructors keep what the callers distinguish with \<open>errors.Is\<close> and
  \<open>errors.As\<close>: a missing file, a refused connection, an unverifiable or departed client owner (\<open>errHostUnverified\<close>
  and \<open>errOwnerGone\<close> of lifecycle.go), a cancelled handoff, an RPC error answered by the
  app-server, and a run-time panic; every other error carries its message.
\<close>

datatype gerr =
    Failure string
  | NotExist
  | ConnRefused
  | HostUnverified string
  | OwnerGone string
  | RpcRejected int string
  | HandoffCanceled
  | Panic string

type_synonym 'a res = "gerr + 'a"

definition is_ok :: "'a res \<Rightarrow> bool" where
  "is_ok r = (case r of Inl _ \<Rightarrow> False | Inr _ \<Rightarrow> True)"

lemma is_ok_simps [simp]: "is_ok (Inr x)" "\<not> is_ok (Inl e)"
  by (simp_all add: is_ok_def)

definition rbind :: "'a res \<Rightarrow> ('a \<Rightarrow> 'b res) \<Rightarrow> 'b res" where
  "rbind r f = (case r of Inl e \<Rightarrow> Inl e | Inr x \<Rightarrow> f x)"

lemma rbind_simps [simp]: "rbind (Inr x) f = f x" "rbind (Inl e) f = Inl e"
  by (simp_all add: rbind_def)

lemma rbind_Inr [result_iff]: "rbind r f = Inr y \<longleftrightarrow> (\<exists>x. r = Inr x \<and> f x = Inr y)"
  by (cases r) simp_all

lemma rbind_Inl [result_iff]: "rbind r f = Inl e \<longleftrightarrow> r = Inl e \<or> (\<exists>x. r = Inr x \<and> f x = Inl e)"
  by (cases r) simp_all

lemma is_ok_iff: "is_ok r \<longleftrightarrow> (\<exists>x. r = Inr x)"
  by (cases r) simp_all

subsection \<open>Lists\<close>

definition count_if :: "('a \<Rightarrow> bool) \<Rightarrow> 'a list \<Rightarrow> nat" where
  "count_if P xs = length (filter P xs)"

lemma count_if_simps [simp]:
  "count_if P [] = 0"
  "count_if P (x # xs) = (if P x then Suc (count_if P xs) else count_if P xs)"
  "count_if P (xs @ ys) = count_if P xs + count_if P ys"
  by (simp_all add: count_if_def)

lemma count_if_le_length: "count_if P xs \<le> length xs"
  by (simp add: count_if_def)

lemma count_if_mono:
  assumes "\<And>x. x \<in> set xs \<Longrightarrow> P x \<Longrightarrow> Q x"
  shows "count_if P xs \<le> count_if Q xs"
  using assms by (induction xs) auto

lemma count_if_cong [cong]:
  assumes "xs = ys" and "\<And>x. x \<in> set ys \<Longrightarrow> P x = Q x"
  shows "count_if P xs = count_if Q ys"
  unfolding assms(1) using assms(2) by (induction ys) auto

lemma count_if_eq_0_iff: "count_if P xs = 0 \<longleftrightarrow> (\<forall>x \<in> set xs. \<not> P x)"
  by (induction xs) auto

lemma count_if_pos: "x \<in> set xs \<Longrightarrow> P x \<Longrightarrow> 0 < count_if P xs"
  by (induction xs) auto

lemma count_if_filter: "count_if P (filter Q xs) = count_if (\<lambda>x. P x \<and> Q x) xs"
  by (induction xs) auto

lemma count_if_map: "count_if P (map f xs) = count_if (P \<circ> f) xs"
  by (induction xs) auto

lemma sorted_wrt_map_filter:
  "sorted_wrt R (map f xs) \<Longrightarrow> sorted_wrt R (map f (filter P xs))"
  by (induction xs) auto

lemma distinct_map_filter_eq:
  "distinct (map f xs) \<Longrightarrow> x \<in> set xs \<Longrightarrow> filter (\<lambda>y. f y = f x) xs = [x]"
  by (induction xs) (auto simp: filter_empty_conv image_iff)

lemma distinct_map_inj:
  "distinct (map f xs) \<Longrightarrow> x \<in> set xs \<Longrightarrow> y \<in> set xs \<Longrightarrow> f x = f y \<Longrightarrow> x = y"
  by (metis distinct_map inj_onD)

lemma find_SomeD: "List.find P xs = Some x \<Longrightarrow> x \<in> set xs \<and> P x"
  by (induction xs) (auto split: if_splits)

lemma find_distinct:
  "distinct (map f xs) \<Longrightarrow> x \<in> set xs \<Longrightarrow> List.find (\<lambda>y. f y = f x) xs = Some x"
  by (induction xs) auto

lemma take_filter_subset: "set (take n (filter P xs)) \<subseteq> set (filter P xs)"
  by (rule set_take_subset)

lemma hd_sort_key_min:
  assumes "xs \<noteq> []"
  shows "hd (sort_key f xs) \<in> set xs \<and> (\<forall>y \<in> set xs. f (hd (sort_key f xs)) \<le> f y)"
proof -
  have ne: "sort_key f xs \<noteq> []"
    using assms by (metis set_empty set_sort)
  then obtain z zs where z: "sort_key f xs = z # zs"
    by (cases "sort_key f xs") auto
  have "sorted (map f (z # zs))"
    using sorted_sort_key [of f xs] z by simp
  then have "\<forall>y \<in> set (z # zs). f z \<le> f y" by auto
  moreover have "set (z # zs) = set xs" using z by (metis set_sort)
  ultimately show ?thesis using z by auto
qed

subsection \<open>Association lists as Go maps\<close>

lemma map_of_update [simp]:
  "map_of (AList.update k v m) k' = (if k' = k then Some v else map_of m k')"
  by (simp add: update_conv')

lemma distinct_keys_update:
  "distinct (map fst m) \<Longrightarrow> distinct (map fst (AList.update k v m))"
  by (rule distinct_update)

end
