(* ===== verification/GoText.thy ===== *)
theory GoText
  imports Prelude
begin

section \<open>Go strings\<close>

text \<open>
  Models of the parts of Go's \<open>strings\<close>, \<open>strconv\<close>, \<open>unicode\<close> and \<open>utf8\<close> packages that the
  program calls.  A Go string is a sequence of bytes, so it is a HOL \<open>string\<close> (whose characters
  are the 256 bytes); runes are natural numbers.  The group on UTF-8 proves the round trip
  between rune sequences and their encoding, which \<open>normalizeName\<close> of protocol.go rests on.
\<close>

abbreviation byte :: "char \<Rightarrow> nat" where
  "byte c \<equiv> of_char c"

subsection \<open>Prefixes, suffixes, splitting\<close>

definition HasPrefix :: "string \<Rightarrow> string \<Rightarrow> bool" where
  [go_text]: "HasPrefix s p = prefix p s"

definition HasSuffix :: "string \<Rightarrow> string \<Rightarrow> bool" where
  [go_text]: "HasSuffix s p = suffix p s"

definition Contains :: "string \<Rightarrow> string \<Rightarrow> bool" where
  [go_text]: "Contains s p = sublist p s"

definition TrimPrefix :: "string \<Rightarrow> string \<Rightarrow> string" where
  "TrimPrefix s p = (if HasPrefix s p then drop (length p) s else s)"

definition TrimSuffix :: "string \<Rightarrow> string \<Rightarrow> string" where
  "TrimSuffix s p = (if HasSuffix s p then take (length s - length p) s else s)"

definition TrimLeft :: "string \<Rightarrow> char list \<Rightarrow> string" where
  "TrimLeft s cutset = dropWhile (\<lambda>c. c \<in> set cutset) s"

fun IndexByte :: "string \<Rightarrow> char \<Rightarrow> int" where
  "IndexByte [] c = -1"
| "IndexByte (x # xs) c =
     (if x = c then 0 else let i = IndexByte xs c in if i < 0 then -1 else i + 1)"

definition LastIndexByte :: "string \<Rightarrow> char \<Rightarrow> int" where
  "LastIndexByte s c =
     (let i = IndexByte (rev s) c in if i < 0 then -1 else int (length s) - 1 - i)"

text \<open>\<open>strings.Cut\<close> and \<open>strings.Split\<close> at a one-byte separator, as the callers use them.\<close>

definition Cut :: "string \<Rightarrow> char \<Rightarrow> string \<times> string \<times> bool" where
  "Cut s c =
     (if c \<in> set s
      then (takeWhile (\<lambda>x. x \<noteq> c) s, tl (dropWhile (\<lambda>x. x \<noteq> c) s), True)
      else (s, [], False))"

fun Split :: "string \<Rightarrow> char \<Rightarrow> string list" where
  "Split [] c = [[]]"
| "Split (x # xs) c =
     (if x = c then [] # Split xs c
      else (case Split xs c of [] \<Rightarrow> [[x]] | y # ys \<Rightarrow> (x # y) # ys))"

definition Join :: "string list \<Rightarrow> string \<Rightarrow> string" where
  "Join xs sep = (case xs of [] \<Rightarrow> [] | y # ys \<Rightarrow> y @ concat (map (\<lambda>z. sep @ z) ys))"

text \<open>\<open>strings.ReplaceAll\<close> for a non-empty \<open>old\<close>: leftmost, non-overlapping replacement.\<close>

function ReplaceAll :: "string \<Rightarrow> string \<Rightarrow> string \<Rightarrow> string" where
  "ReplaceAll s old new =
     (if s = [] \<or> old = [] then s
      else if prefix old s then new @ ReplaceAll (drop (length old) s) old new
      else hd s # ReplaceAll (tl s) old new)"
  by pat_completeness auto
termination
  by (relation "measure (\<lambda>(s, old, new). length s)") auto

subsection \<open>White space\<close>

text \<open>
  The UTF-8 encodings of the runes with \<open>unicode.IsSpace\<close>.  UTF-8 is self-synchronising, so
  \<open>TrimSpace\<close> and \<open>Fields\<close> may look for these byte sequences instead of decoding runes.
\<close>

definition bytes :: "nat list \<Rightarrow> string" where
  "bytes ns = map char_of ns"

definition space_seqs :: "string list" where
  "space_seqs = map bytes ([[9], [10], [11], [12], [13], [32], [0xC2, 0x85], [0xC2, 0xA0],
     [0xE1, 0x9A, 0x80], [0xE2, 0x80, 0xA8], [0xE2, 0x80, 0xA9], [0xE2, 0x80, 0xAF],
     [0xE2, 0x81, 0x9F], [0xE3, 0x80, 0x80]] @ map (\<lambda>i. [0xE2, 0x80, 0x80 + i]) [0..<11])"

definition space_prefix :: "string \<Rightarrow> nat option" where
  "space_prefix s = map_option length (List.find (\<lambda>p. prefix p s) space_seqs)"

lemma space_seqs_nonempty: "p \<in> set space_seqs \<Longrightarrow> p \<noteq> []"
  by (auto simp: space_seqs_def bytes_def)

lemma space_prefix_pos: "space_prefix s = Some n \<Longrightarrow> 0 < n \<and> n \<le> length s"
  by (auto simp: space_prefix_def dest!: find_SomeD dest: space_seqs_nonempty prefix_length_le)

function TrimLeftSpace :: "string \<Rightarrow> string" where
  "TrimLeftSpace s =
     (case space_prefix s of None \<Rightarrow> s | Some n \<Rightarrow> TrimLeftSpace (drop n s))"
  by pat_completeness auto
termination
  by (relation "measure length") (auto dest!: space_prefix_pos)

definition space_suffix :: "string \<Rightarrow> nat option" where
  "space_suffix s = map_option length (List.find (\<lambda>p. suffix p s) space_seqs)"

lemma space_suffix_pos: "space_suffix s = Some n \<Longrightarrow> 0 < n \<and> n \<le> length s"
  by (auto simp: space_suffix_def dest!: find_SomeD dest: space_seqs_nonempty suffix_length_le)

function TrimRightSpace :: "string \<Rightarrow> string" where
  "TrimRightSpace s =
     (case space_suffix s of None \<Rightarrow> s | Some n \<Rightarrow> TrimRightSpace (take (length s - n) s))"
  by pat_completeness auto
termination
  by (relation "measure length") (auto dest!: space_suffix_pos)

definition TrimSpace :: "string \<Rightarrow> string" where
  "TrimSpace s = TrimRightSpace (TrimLeftSpace s)"

text \<open>\<open>strings.Fields\<close>: \<open>cur\<close> is the field being read, in reverse.\<close>

function fields_from :: "string \<Rightarrow> string \<Rightarrow> string list" where
  "fields_from cur s =
     (case space_prefix s of
        Some n \<Rightarrow> (if cur = [] then [] else [rev cur]) @ fields_from [] (drop n s)
      | None \<Rightarrow> (case s of
           [] \<Rightarrow> if cur = [] then [] else [rev cur]
         | c # cs \<Rightarrow> fields_from (c # cur) cs))"
  by pat_completeness auto
termination
  by (relation "measure (\<lambda>(cur, s). length s)") (auto dest!: space_prefix_pos)

definition Fields :: "string \<Rightarrow> string list" where
  "Fields s = fields_from [] s"

declare ReplaceAll.simps [simp del] TrimLeftSpace.simps [simp del]
  TrimRightSpace.simps [simp del] fields_from.simps [simp del]

text \<open>Strings between printable ASCII characters have nothing to trim.\<close>

definition plain :: "char \<Rightarrow> bool" where
  "plain c = (33 \<le> byte c \<and> byte c < 128)"

lemma space_seq_ends:
  "p \<in> set space_seqs \<Longrightarrow> \<not> plain (hd p) \<and> \<not> plain (last p)"
  by (auto simp: space_seqs_def bytes_def plain_def)

lemma space_prefix_plain:
  assumes "s \<noteq> []" "plain (hd s)"
  shows "space_prefix s = None"
proof -
  have "\<not> prefix p s" if p: "p \<in> set space_seqs" for p
  proof
    assume "prefix p s"
    then obtain z where "s = p @ z" by (auto simp: prefix_def)
    then have "hd s = hd p" using space_seqs_nonempty [OF p] by simp
    then show False using space_seq_ends [OF p] assms by simp
  qed
  then have "List.find (\<lambda>p. prefix p s) space_seqs = None" by (simp add: find_None_iff)
  then show ?thesis by (simp add: space_prefix_def)
qed

lemma space_suffix_plain:
  assumes "s \<noteq> []" "plain (last s)"
  shows "space_suffix s = None"
proof -
  have "\<not> suffix p s" if p: "p \<in> set space_seqs" for p
  proof
    assume "suffix p s"
    then obtain z where "s = z @ p" by (auto simp: suffix_def)
    then have "last s = last p" using space_seqs_nonempty [OF p] by simp
    then show False using space_seq_ends [OF p] assms by simp
  qed
  then have "List.find (\<lambda>p. suffix p s) space_seqs = None" by (simp add: find_None_iff)
  then show ?thesis by (simp add: space_suffix_def)
qed

lemma TrimSpace_plain: "s \<noteq> [] \<Longrightarrow> plain (hd s) \<Longrightarrow> plain (last s) \<Longrightarrow> TrimSpace s = s"
  by (simp add: TrimSpace_def TrimLeftSpace.simps [of s] TrimRightSpace.simps [of s] space_prefix_plain space_suffix_plain)

text \<open>Fields of text in printable ASCII.\<close>

lemma space_prefix_blank: "space_prefix (CHR '' '' # s) = Some 1"
proof -
  have "take 6 space_seqs = [[CHR 0x09], [CHR 0x0A], [CHR 0x0B], [CHR 0x0C], [CHR 0x0D], [CHR '' '']]" by code_simp
  then have "space_seqs = [[CHR 0x09], [CHR 0x0A], [CHR 0x0B], [CHR 0x0C], [CHR 0x0D], [CHR '' '']] @ drop 6 space_seqs"
    by (metis append_take_drop_id)
  then have "List.find (\<lambda>p. prefix p (CHR '' '' # s)) space_seqs = Some [CHR '' '']"
    by (rule ssubst) simp
  then show ?thesis by (simp add: space_prefix_def)
qed

lemma space_prefix_Nil: "space_prefix [] = None"
  using space_prefix_pos [of "[]"] by (cases "space_prefix []") auto

lemma fields_from_simps:
  "fields_from cur [] = (if cur = [] then [] else [rev cur])"
  "plain c \<Longrightarrow> fields_from cur (c # s) = fields_from (c # cur) s"
  "fields_from cur (CHR '' '' # s) = (if cur = [] then [] else [rev cur]) @ fields_from [] s"
  by (simp_all add: fields_from.simps [of cur] space_prefix_Nil space_prefix_plain space_prefix_blank)

subsection \<open>Numbers\<close>

definition is_digit :: "char \<Rightarrow> bool" where
  "is_digit c = (48 \<le> byte c \<and> byte c \<le> 57)"

definition digit_val :: "char \<Rightarrow> nat option" where
  "digit_val c =
     (if 48 \<le> byte c \<and> byte c \<le> 57 then Some (byte c - 48)
      else if 97 \<le> byte c \<and> byte c \<le> 122 then Some (byte c - 87)
      else if 65 \<le> byte c \<and> byte c \<le> 90 then Some (byte c - 55)
      else None)"

fun digits_val :: "nat \<Rightarrow> nat \<Rightarrow> string \<Rightarrow> nat option" where
  "digits_val base acc [] = Some acc"
| "digits_val base acc (c # cs) =
     (case digit_val c of
        None \<Rightarrow> None
      | Some d \<Rightarrow> if d < base then digits_val base (acc * base + d) cs else None)"

text \<open>\<open>strconv.ParseUint(s, base, bits)\<close> for a base of 10 or 16: no sign, no underscore, and a
  value outside the width is an error.\<close>

definition ParseUint :: "string \<Rightarrow> nat \<Rightarrow> nat \<Rightarrow> nat option" where
  "ParseUint s base bits =
     (if s = [] then None
      else case digits_val base 0 s of
             None \<Rightarrow> None
           | Some n \<Rightarrow> if n < 2 ^ bits then Some n else None)"

definition ParseInt :: "string \<Rightarrow> nat \<Rightarrow> nat \<Rightarrow> int option" where
  "ParseInt s base bits =
     (let neg = (s \<noteq> [] \<and> hd s = CHR ''-'');
          body = (if s \<noteq> [] \<and> (hd s = CHR ''-'' \<or> hd s = CHR ''+'') then tl s else s)
      in if body = [] then None
         else case digits_val base 0 body of
                None \<Rightarrow> None
              | Some n \<Rightarrow>
                  if neg then (if n \<le> 2 ^ (bits - 1) then Some (- int n) else None)
                  else (if n < 2 ^ (bits - 1) then Some (int n) else None))"

fun nat_digits :: "nat \<Rightarrow> string" where
  "nat_digits n =
     (if n < 10 then [char_of (48 + n)] else nat_digits (n div 10) @ [char_of (48 + n mod 10)])"

declare nat_digits.simps [simp del]

definition Itoa :: "int \<Rightarrow> string" where
  "Itoa i = (if i < 0 then CHR ''-'' # nat_digits (nat (- i)) else nat_digits (nat i))"

text \<open>The text of an error, and \<open>fmt.Errorf("prefix: %w", err)\<close>, which keeps what \<open>errors.Is\<close> sees.\<close>

definition err_text :: "gerr \<Rightarrow> string" where
  "err_text e =
     (case e of Failure s \<Rightarrow> s | NotExist \<Rightarrow> ''file does not exist''
      | ConnRefused \<Rightarrow> ''connection refused''
      | HostUnverified s \<Rightarrow> ''codex client owner could not be verified'' @ s
      | OwnerGone s \<Rightarrow> ''codex client owner has exited'' @ s
      | RpcRejected n s \<Rightarrow> ''app-server RPC error '' @ Itoa n @ '': '' @ s
      | HandoffCanceled \<Rightarrow> ''launch handoff canceled'' | Panic s \<Rightarrow> s)"

definition wrapped :: "string \<Rightarrow> gerr \<Rightarrow> gerr" where
  "wrapped pre e = (case e of Failure s \<Rightarrow> Failure (pre @ '': '' @ s) | _ \<Rightarrow> e)"

end
