(* ===== verification/Utf8.thy ===== *)
theory Utf8
  imports GoText
begin

section \<open>Runes and UTF-8\<close>

text \<open>
  Go converts between strings and runes in \<open>range\<close> loops, \<open>[]rune(s)\<close> and \<open>string(r)\<close>.  The
  definitions follow \<open>unicode/utf8\<close>: an invalid byte decodes to \<open>U+FFFD\<close> with width one, an
  invalid rune encodes as \<open>U+FFFD\<close>.  The lemmas show that decoding yields valid runes only and
  that decoding an encoding gives the runes back.
\<close>

definition rune_error :: nat where
  "rune_error = 0xFFFD"

definition valid_rune :: "nat \<Rightarrow> bool" where
  "valid_rune r = (r < 0xD800 \<or> 0xDFFF < r \<and> r \<le> 0x10FFFF)"

definition cont :: "char \<Rightarrow> bool" where
  "cont c = (0x80 \<le> byte c \<and> byte c \<le> 0xBF)"

definition in_range :: "nat \<Rightarrow> nat \<Rightarrow> char \<Rightarrow> bool" where
  "in_range lo hi c = (lo \<le> byte c \<and> byte c \<le> hi)"

definition decode2 :: "nat \<Rightarrow> string \<Rightarrow> nat \<times> nat" where
  "decode2 b cs = (case cs of
      d # _ \<Rightarrow> if cont d then ((b - 0xC0) * 64 + (byte d - 0x80), 2) else (rune_error, 1)
    | [] \<Rightarrow> (rune_error, 1))"

definition decode3 :: "nat \<Rightarrow> string \<Rightarrow> nat \<times> nat" where
  "decode3 b cs = (case cs of
      d # e # _ \<Rightarrow>
        if in_range (if b = 0xE0 then 0xA0 else 0x80) (if b = 0xED then 0x9F else 0xBF) d \<and> cont e
        then ((b - 0xE0) * 4096 + (byte d - 0x80) * 64 + (byte e - 0x80), 3)
        else (rune_error, 1)
    | _ \<Rightarrow> (rune_error, 1))"

definition decode4 :: "nat \<Rightarrow> string \<Rightarrow> nat \<times> nat" where
  "decode4 b cs = (case cs of
      d # e # f # _ \<Rightarrow>
        if in_range (if b = 0xF0 then 0x90 else 0x80) (if b = 0xF4 then 0x8F else 0xBF) d
           \<and> cont e \<and> cont f
        then ((b - 0xF0) * 262144 + (byte d - 0x80) * 4096 + (byte e - 0x80) * 64
               + (byte f - 0x80), 4)
        else (rune_error, 1)
    | _ \<Rightarrow> (rune_error, 1))"

text \<open>\<open>utf8.DecodeRuneInString\<close> on a non-empty string \<open>c # cs\<close>: the rune and its width.\<close>

definition decode_rune :: "char \<Rightarrow> string \<Rightarrow> nat \<times> nat" where
  "decode_rune c cs =
     (let b = byte c in
      if b < 0x80 then (b, 1)
      else if 0xC2 \<le> b \<and> b \<le> 0xDF then decode2 b cs
      else if 0xE0 \<le> b \<and> b \<le> 0xEF then decode3 b cs
      else if 0xF0 \<le> b \<and> b \<le> 0xF4 then decode4 b cs
      else (rune_error, 1))"

text \<open>\<open>[]rune(s)\<close>; the result of each step is the rest after the rune's width.\<close>

function runes :: "string \<Rightarrow> nat list" where
  "runes [] = []"
| "runes (c # cs) =
     (let (r, w) = decode_rune c cs in r # runes (drop (w - 1) cs))"
  by pat_completeness auto
termination
  by (relation "measure length") auto

text \<open>\<open>utf8.ValidString\<close>: no invalid byte is met.\<close>

function ValidString :: "string \<Rightarrow> bool" where
  "ValidString [] = True"
| "ValidString (c # cs) =
     (let (r, w) = decode_rune c cs in
      (byte c < 0x80 \<or> 1 < w) \<and> ValidString (drop (w - 1) cs))"
  by pat_completeness auto
termination
  by (relation "measure length") auto

definition encode_rune :: "nat \<Rightarrow> string" where
  "encode_rune r =
     (if r < 0x80 then bytes [r]
      else if r < 0x800 then bytes [0xC0 + r div 64, 0x80 + r mod 64]
      else if \<not> valid_rune r then bytes [0xEF, 0xBF, 0xBD]
      else if r < 0x10000 then bytes [0xE0 + r div 4096, 0x80 + r div 64 mod 64, 0x80 + r mod 64]
      else bytes [0xF0 + r div 262144, 0x80 + r div 4096 mod 64, 0x80 + r div 64 mod 64,
                  0x80 + r mod 64])"

definition encode_runes :: "nat list \<Rightarrow> string" where
  "encode_runes rs = concat (map encode_rune rs)"

declare runes.simps(2) [simp del] ValidString.simps(2) [simp del]

subsection \<open>Decoding yields valid runes\<close>

lemma byte_less [simp]: "byte c < 256"
proof -
  have "byte c = byte c mod 256" by simp
  also have "\<dots> < 256" by simp
  finally show ?thesis .
qed

lemma decode2_valid: "0xC2 \<le> b \<Longrightarrow> b \<le> 0xDF \<Longrightarrow> valid_rune (fst (decode2 b cs))"
  by (auto simp: decode2_def valid_rune_def rune_error_def cont_def split: list.split)

lemma decode3_value_valid:
  assumes "0xE0 \<le> b" "b \<le> 0xEF" "d \<le> 0xBF" "e \<le> 0xBF" "0x80 \<le> d" "0x80 \<le> e"
    and "b = 0xED \<Longrightarrow> d \<le> 0x9F"
  shows "valid_rune ((b - 0xE0) * 4096 + (d - 0x80) * 64 + (e - 0x80))"
proof -
  define a where "a = b - 0xE0"
  define x where "x = d - 0x80"
  define y where "y = e - 0x80"
  have bounds: "a < 16" "x < 64" "y < 64" using assms by (auto simp: a_def x_def y_def)
  have sur: "x < 32" if "a = 13"
  proof -
    have "b = 0xED" using that assms(1) by (simp add: a_def)
    then have "d \<le> 0x9F" by (rule assms(7))
    then show ?thesis by (simp add: x_def)
  qed
  consider "a \<le> 12" | "a = 13" | "14 \<le> a" by linarith
  then have "valid_rune (a * 4096 + x * 64 + y)"
    by cases (use bounds sur in \<open>auto simp: valid_rune_def\<close>)
  then show ?thesis by (simp add: a_def x_def y_def)
qed

lemma decode3_valid:
  assumes "0xE0 \<le> b" "b \<le> 0xEF"
  shows "valid_rune (fst (decode3 b cs))"
proof -
  have err: "valid_rune rune_error" by (simp add: valid_rune_def rune_error_def)
  have "valid_rune ((b - 0xE0) * 4096 + (byte d - 0x80) * 64 + (byte e - 0x80))"
    if "in_range (if b = 0xE0 then 0xA0 else 0x80) (if b = 0xED then 0x9F else 0xBF) d" "cont e"
    for d e
    by (rule decode3_value_valid)
      (use assms that in \<open>auto simp: in_range_def cont_def split: if_splits\<close>)
  with err show ?thesis by (auto simp: decode3_def split: list.split)
qed

lemma decode4_value_valid:
  assumes "0xF0 \<le> b" "b \<le> 0xF4" "d \<le> 0xBF" "e \<le> 0xBF" "f \<le> 0xBF"
    and "b = 0xF0 \<Longrightarrow> 0x90 \<le> d" and "b = 0xF4 \<Longrightarrow> d \<le> 0x8F"
  shows "valid_rune ((b - 0xF0) * 262144 + (d - 0x80) * 4096 + (e - 0x80) * 64 + (f - 0x80))"
proof -
  define a where "a = b - 0xF0"
  define x where "x = d - 0x80"
  define y where "y = e - 0x80"
  define z where "z = f - 0x80"
  have bounds: "a < 5" "x < 64" "y < 64" "z < 64"
    using assms by (auto simp: a_def x_def y_def z_def)
  have high: "x < 16" if "a = 4"
  proof -
    have "b = 0xF4" using that assms(1) by (simp add: a_def)
    then have "d \<le> 0x8F" by (rule assms(7))
    then show ?thesis by (simp add: x_def)
  qed
  have low: "16 \<le> x" if "a = 0"
  proof -
    have "b = 0xF0" using that assms(1) by (simp add: a_def)
    then have "0x90 \<le> d" by (rule assms(6))
    then show ?thesis by (simp add: x_def)
  qed
  consider "a = 0" | "1 \<le> a" "a \<le> 3" | "a = 4" using bounds by linarith
  then have "valid_rune (a * 262144 + x * 4096 + y * 64 + z)"
    by cases (use bounds low high in \<open>auto simp: valid_rune_def\<close>)
  then show ?thesis by (simp add: a_def x_def y_def z_def)
qed

lemma decode4_valid:
  assumes "0xF0 \<le> b" "b \<le> 0xF4"
  shows "valid_rune (fst (decode4 b cs))"
proof -
  have err: "valid_rune rune_error" by (simp add: valid_rune_def rune_error_def)
  have "valid_rune ((b - 0xF0) * 262144 + (byte d - 0x80) * 4096 + (byte e - 0x80) * 64
          + (byte f - 0x80))"
    if "in_range (if b = 0xF0 then 0x90 else 0x80) (if b = 0xF4 then 0x8F else 0xBF) d"
      "cont e" "cont f" for d e f
    by (rule decode4_value_valid)
      (use assms that in \<open>auto simp: in_range_def cont_def split: if_splits\<close>)
  with err show ?thesis by (auto simp: decode4_def split: list.split)
qed

lemma decode_rune_valid: "valid_rune (fst (decode_rune c cs))"
proof -
  have "valid_rune rune_error" by (simp add: valid_rune_def rune_error_def)
  moreover have "valid_rune b" if "b < 0x80" for b using that by (simp add: valid_rune_def)
  ultimately show ?thesis
    by (simp add: decode_rune_def Let_def decode2_valid decode3_valid decode4_valid)
qed

lemma runes_valid: "r \<in> set (runes s) \<Longrightarrow> valid_rune r"
proof (induction s rule: runes.induct)
  case 1
  then show ?case by simp
next
  case (2 c cs)
  then show ?case
    using decode_rune_valid [of c cs]
    by (cases "decode_rune c cs") (auto simp: runes.simps(2))
qed

subsection \<open>Decoding an encoding\<close>

lemma byte_char_of [simp]: "byte (char_of n) = n mod 256"
  by (simp add: of_char_of)

lemma encode_rune_nonempty [simp]: "encode_rune r \<noteq> []"
  by (simp add: encode_rune_def bytes_def)

lemma byte_char_of_less: "n < 256 \<Longrightarrow> byte (char_of n) = n"
  by simp

lemma div_mod64: "(n::nat) = 64 * (n div 64) + n mod 64"
  by simp

lemma div_64_64: "(n::nat) div 64 div 64 = n div 4096"
  and div_4096_64: "(n::nat) div 4096 div 64 = n div 262144"
  by (simp_all add: div_mult2_eq [symmetric])

lemma decode_rune2:
  assumes "byte x = 0xC0 + a" "byte d = 0x80 + b" "2 \<le> a" "a < 32" "b < 64"
  shows "decode_rune x (d # s) = (a * 64 + b, 2)"
  using assms by (simp add: decode_rune_def decode2_def cont_def Let_def)

lemma decode_rune3:
  assumes "byte x = 0xE0 + a" "byte d = 0x80 + b" "byte e = 0x80 + c"
    and "a < 16" "b < 64" "c < 64" and "a = 0 \<Longrightarrow> 32 \<le> b" and "a = 13 \<Longrightarrow> b < 32"
  shows "decode_rune x (d # e # s) = (a * 4096 + b * 64 + c, 3)"
  using assms by (auto simp: decode_rune_def decode3_def cont_def in_range_def Let_def)

lemma decode_rune4:
  assumes "byte x = 0xF0 + a" "byte d = 0x80 + b" "byte e = 0x80 + c" "byte f = 0x80 + g"
    and "a < 5" "b < 64" "c < 64" "g < 64" and "a = 0 \<Longrightarrow> 16 \<le> b" and "a = 4 \<Longrightarrow> b < 16"
  shows "decode_rune x (d # e # f # s) = (a * 262144 + b * 4096 + c * 64 + g, 4)"
  using assms by (auto simp: decode_rune_def decode4_def cont_def in_range_def Let_def)

lemma decode_encode2:
  assumes "0x80 \<le> r" "r < 0x800"
  shows "decode_rune (char_of (0xC0 + r div 64)) (char_of (0x80 + r mod 64) # s) = (r, 2)"
proof -
  have b: "2 \<le> r div 64" "r div 64 < 32" "r mod 64 < 64" using assms by auto
  have "decode_rune (char_of (0xC0 + r div 64)) (char_of (0x80 + r mod 64) # s)
          = (r div 64 * 64 + r mod 64, 2)"
    by (rule decode_rune2) (use b in \<open>simp_all add: byte_char_of_less del: byte_char_of\<close>)
  then show ?thesis by simp
qed

lemma decode_encode3:
  assumes "0x800 \<le> r" "r < 0x10000" "valid_rune r"
  shows "decode_rune (char_of (0xE0 + r div 4096))
           (char_of (0x80 + r div 64 mod 64) # char_of (0x80 + r mod 64) # s) = (r, 3)"
proof -
  define a where "a = r div 4096"
  define b where "b = r div 64 mod 64"
  define c where "c = r mod 64"
  have bounds: "a < 16" "b < 64" "c < 64" using assms by (auto simp: a_def b_def c_def)
  have split: "r = a * 4096 + b * 64 + c"
    using div_mod64 [of r] div_mod64 [of "r div 64"]
    unfolding a_def b_def c_def div_64_64 by linarith
  have low: "a = 0 \<Longrightarrow> 32 \<le> b" using assms(1) split bounds by linarith
  have high: "a = 13 \<Longrightarrow> b < 32"
    using assms(3) split bounds unfolding valid_rune_def by linarith
  have "decode_rune (char_of (0xE0 + a)) (char_of (0x80 + b) # char_of (0x80 + c) # s)
          = (a * 4096 + b * 64 + c, 3)"
    by (rule decode_rune3)
      (use bounds low high in \<open>simp_all add: byte_char_of_less del: byte_char_of\<close>)
  with split show ?thesis by (simp add: a_def b_def c_def)
qed

lemma decode_encode4:
  assumes "0x10000 \<le> r" "valid_rune r"
  shows "decode_rune (char_of (0xF0 + r div 262144))
           (char_of (0x80 + r div 4096 mod 64) # char_of (0x80 + r div 64 mod 64)
             # char_of (0x80 + r mod 64) # s) = (r, 4)"
proof -
  define a where "a = r div 262144"
  define b where "b = r div 4096 mod 64"
  define c where "c = r div 64 mod 64"
  define d where "d = r mod 64"
  have bounds: "a < 5" "b < 64" "c < 64" "d < 64"
    using assms by (auto simp: a_def b_def c_def d_def valid_rune_def)
  have split: "r = a * 262144 + b * 4096 + c * 64 + d"
    using div_mod64 [of r] div_mod64 [of "r div 64"] div_mod64 [of "r div 4096"]
    unfolding a_def b_def c_def d_def div_64_64 div_4096_64 by linarith
  have low: "a = 0 \<Longrightarrow> 16 \<le> b" using assms(1) split bounds by linarith
  have high: "a = 4 \<Longrightarrow> b < 16"
    using assms(2) split bounds unfolding valid_rune_def by linarith
  have "decode_rune (char_of (0xF0 + a))
          (char_of (0x80 + b) # char_of (0x80 + c) # char_of (0x80 + d) # s)
          = (a * 262144 + b * 4096 + c * 64 + d, 4)"
    by (rule decode_rune4)
      (use bounds low high in \<open>simp_all add: byte_char_of_less del: byte_char_of\<close>)
  with split show ?thesis by (simp add: a_def b_def c_def d_def)
qed

lemma runes_encode_rune:
  assumes "valid_rune r"
  shows "runes (encode_rune r @ s) = r # runes s"
proof -
  consider "r < 0x80" | "0x80 \<le> r" "r < 0x800" | "0x800 \<le> r" "r < 0x10000" | "0x10000 \<le> r"
    by linarith
  then show ?thesis
  proof cases
    case 1
    then show ?thesis
      by (simp add: encode_rune_def bytes_def runes.simps(2) decode_rune_def)
  next
    case 2
    then show ?thesis
      by (simp add: encode_rune_def bytes_def runes.simps(2) decode_encode2)
  next
    case 3
    then show ?thesis
      using assms by (simp add: encode_rune_def bytes_def runes.simps(2) decode_encode3)
  next
    case 4
    then show ?thesis
      using assms by (simp add: encode_rune_def bytes_def runes.simps(2) decode_encode4)
  qed
qed

lemma runes_encode_runes [simp]:
  "\<forall>r \<in> set rs. valid_rune r \<Longrightarrow> runes (encode_runes rs) = rs"
  by (induction rs) (simp_all add: encode_runes_def runes_encode_rune)

lemma encode_runes_runes_encode_runes:
  "runes (encode_runes (runes s)) = runes s"
  by (rule runes_encode_runes) (blast dest: runes_valid)

lemma runes_ascii:
  "\<forall>c \<in> set s. byte c < 0x80 \<Longrightarrow> runes s = map byte s"
  by (induction s) (simp_all add: runes.simps(2) decode_rune_def)

lemma encode_runes_ascii:
  "\<forall>c \<in> set s. byte c < 0x80 \<Longrightarrow> encode_runes (map byte s) = s"
  by (induction s) (simp_all add: encode_runes_def encode_rune_def bytes_def)

lemma encode_runes_append [simp]:
  "encode_runes (rs @ rs') = encode_runes rs @ encode_runes rs'"
  by (simp add: encode_runes_def)

end
