(* ===== verification/Values.thy ===== *)
theory Values
  imports Utf8
begin

section \<open>Dynamic values and their JSON encoding\<close>

text \<open>
  \<open>Object = map[string]any\<close> of protocol.go and the helpers that read it, and \<open>compact\<close>, the JSON
  encoder every frame, database column and control response goes through.  A value of Go's type
  \<open>any\<close> is a \<open>gval\<close>; a map is an association list with distinct keys, read with \<open>map_of\<close> and
  written with \<open>AList.update\<close>.  A \<open>float64\<close> is a rational: rounding is not modelled.
\<close>

datatype gval =
    GNil
  | GBool bool
  | GFloat rat
  | GInt int
  | GStr string
  | GArr "gval list"
  | GObj "(string \<times> gval) list"

type_synonym obj = "(string \<times> gval) list"

text \<open>\<open>m[key]\<close>: a missing key reads as nil.\<close>

definition fld :: "obj \<Rightarrow> string \<Rightarrow> gval" where
  "fld m key = (case map_of m key of None \<Rightarrow> GNil | Some v \<Rightarrow> v)"

abbreviation set_fld :: "obj \<Rightarrow> string \<Rightarrow> gval \<Rightarrow> obj" where
  "set_fld m key v \<equiv> AList.update key v m"

definition str :: "obj \<Rightarrow> string \<Rightarrow> string" where
  "str m key = (case fld m key of GStr s \<Rightarrow> s | _ \<Rightarrow> [])"

definition number :: "obj \<Rightarrow> string \<Rightarrow> rat \<Rightarrow> rat" where
  "number m key fallback =
     (case fld m key of GFloat x \<Rightarrow> x | GInt n \<Rightarrow> of_int n | _ \<Rightarrow> fallback)"

definition clone :: "obj \<Rightarrow> obj" where
  "clone m = foldl (\<lambda>n (k, v). set_fld n k v) [] m"

text \<open>Go's conversion \<open>int(x)\<close> of a \<open>float64\<close> truncates towards zero.\<close>

definition trunc :: "rat \<Rightarrow> int" where
  "trunc x = (if 0 \<le> x then \<lfloor>x\<rfloor> else \<lceil>x\<rceil>)"

subsection \<open>The encoder\<close>

definition hex_digit :: "nat \<Rightarrow> char" where
  "hex_digit n = char_of (if n < 10 then 48 + n else 87 + n)"

definition backslash :: char where
  "backslash = CHR 0x5C"

definition quote :: char where
  "quote = CHR 0x22"

definition escape_ascii :: "char \<Rightarrow> string" where
  "escape_ascii c =
     (if c = quote \<or> c = backslash then [backslash, c]
      else if 0x20 \<le> byte c then [c]
      else if byte c = 8 then [backslash, CHR ''b'']
      else if byte c = 12 then [backslash, CHR ''f'']
      else if byte c = 10 then [backslash, CHR ''n'']
      else if byte c = 13 then [backslash, CHR ''r'']
      else if byte c = 9 then [backslash, CHR ''t'']
      else [backslash] @ ''u00'' @ [hex_digit (byte c div 16), hex_digit (byte c mod 16)])"

function json_chars :: "string \<Rightarrow> string" where
  "json_chars [] = []"
| "json_chars (c # cs) =
     (if byte c < 0x80 then escape_ascii c @ json_chars cs
      else let (r, w) = decode_rune c cs in
        if w \<le> 1 then [backslash] @ ''ufffd'' @ json_chars cs
        else if r = 0x2028 \<or> r = 0x2029
          then [backslash] @ ''u202'' @ [hex_digit (r mod 16)] @ json_chars (drop (w - 1) cs)
        else (c # take (w - 1) cs) @ json_chars (drop (w - 1) cs))"
  by pat_completeness auto
termination
  by (relation "measure length") auto

declare json_chars.simps(2) [simp del]

definition json_str :: "string \<Rightarrow> string" where
  "json_str s = [quote] @ json_chars s @ [quote]"

text \<open>
  \<open>compact\<close>: keys of a map in ascending byte order, no HTML escaping, no trailing newline.  \<open>ff\<close> is
  the shortest decimal form of a \<open>float64\<close> that \<open>strconv\<close> prints.
\<close>

fun compact :: "(rat \<Rightarrow> string) \<Rightarrow> gval \<Rightarrow> string" where
  "compact ff GNil = ''null''"
| "compact ff (GBool b) = (if b then ''true'' else ''false'')"
| "compact ff (GFloat x) = ff x"
| "compact ff (GInt n) = Itoa n"
| "compact ff (GStr s) = json_str s"
| "compact ff (GArr vs) = ''['' @ Join (map (compact ff) vs) '','' @ '']''"
| "compact ff (GObj m) =
     ''{'' @ Join (map (\<lambda>(k, t). json_str k @ '':'' @ t)
       (sort_key fst (map (\<lambda>kv. (fst kv, compact ff (snd kv))) m))) '','' @ ''}''"

subsection \<open>Reading and writing fields\<close>

lemma fld_set [simp]: "fld (set_fld m k v) k' = (if k' = k then v else fld m k')"
  by (simp add: fld_def)

lemma str_set [simp]:
  "str (set_fld m k v) k' = (if k' = k then (case v of GStr s \<Rightarrow> s | _ \<Rightarrow> []) else str m k')"
  by (simp add: str_def)

lemma fld_Nil [simp]: "fld [] k = GNil"
  by (simp add: fld_def)

lemma str_Nil [simp]: "str [] k = []"
  by (simp add: str_def)

lemma update_new_key: "k \<notin> fst ` set n \<Longrightarrow> set_fld n k v = n @ [(k, v)]"
  by (induction n) auto

lemma foldl_update_append:
  "distinct (map fst (n @ m)) \<Longrightarrow> foldl (\<lambda>n (k, v). set_fld n k v) n m = n @ m"
proof (induction m arbitrary: n)
  case Nil
  then show ?case by simp
next
  case (Cons kv m)
  obtain k v where kv: "kv = (k, v)" by (cases kv)
  have "k \<notin> fst ` set n" using Cons.prems kv by auto
  then have "set_fld n k v = n @ [(k, v)]" by (rule update_new_key)
  with Cons.IH [of "n @ [(k, v)]"] Cons.prems kv show ?case by simp
qed

lemma clone_eq: "distinct (map fst m) \<Longrightarrow> clone m = m"
  using foldl_update_append [of "[]" m] by (simp add: clone_def)

subsection \<open>Length of an encoding\<close>

text \<open>
  The read budget of \<open>Store.Page\<close> counts bytes of \<open>compact\<close>.  \<open>entry_len\<close> is what one entry of a
  map contributes, its comma included; the order of the keys does not matter.
\<close>

definition jlen :: "(rat \<Rightarrow> string) \<Rightarrow> gval \<Rightarrow> nat" where
  "jlen ff v = length (compact ff v)"

definition entry_len :: "(rat \<Rightarrow> string) \<Rightarrow> string \<times> gval \<Rightarrow> nat" where
  "entry_len ff kv = length (json_str (fst kv)) + jlen ff (snd kv) + 2"

lemma length_Join:
  "length sep = 1 \<Longrightarrow>
     length (Join xs sep) = (if xs = [] then 0 else sum_list (map (\<lambda>x. length x + 1) xs) - 1)"
  by (cases xs) (simp_all add: Join_def length_concat comp_def)

lemma sum_list_insort_key:
  "sum_list (map (h :: 'a \<Rightarrow> nat) (insort_key f x xs)) = h x + sum_list (map h xs)"
  by (induction xs) simp_all

lemma sum_list_sort_key:
  "sum_list (map (h :: 'a \<Rightarrow> nat) (sort_key f xs)) = sum_list (map h xs)"
  by (induction xs) (simp_all add: sum_list_insort_key)

lemma sum_list_ge_1: "xs \<noteq> [] \<Longrightarrow> (\<And>x. x \<in> set xs \<Longrightarrow> 1 \<le> h x) \<Longrightarrow> (1::nat) \<le> sum_list (map h xs)"
  by (cases xs) (auto simp: trans_le_add1)

lemma jlen_GArr:
  "jlen ff (GArr vs) = (if vs = [] then 2 else 1 + sum_list (map (\<lambda>v. jlen ff v + 1) vs))"
proof (cases "vs = []")
  case True
  then show ?thesis by (simp add: jlen_def Join_def)
next
  case False
  then have "1 \<le> sum_list (map (\<lambda>v. jlen ff v + 1) vs)"
    by (intro sum_list_ge_1) auto
  with False show ?thesis by (simp add: jlen_def length_Join comp_def)
qed

lemma jlen_GObj:
  "jlen ff (GObj m) = (if m = [] then 2 else 1 + sum_list (map (entry_len ff) m))"
proof (cases "m = []")
  case True
  then show ?thesis by (simp add: jlen_def Join_def)
next
  case False
  let ?h = "\<lambda>(k, t). length (json_str k) + length (t :: string) + 2"
  have eq: "map (entry_len ff) m = map ?h (map (\<lambda>kv. (fst kv, compact ff (snd kv))) m)"
    by (simp add: entry_len_def jlen_def comp_def)
  have one: "1 \<le> sum_list (map (entry_len ff) m)"
    using False by (intro sum_list_ge_1) (auto simp: entry_len_def)
  have "jlen ff (GObj m) = 2 + (sum_list (map ?h (sort_key fst
      (map (\<lambda>kv. (fst kv, compact ff (snd kv))) m))) - 1)"
    using False by (simp add: jlen_def length_Join comp_def case_prod_unfold)
  then show ?thesis using False one by (simp add: sum_list_sort_key eq del: map_map)
qed

lemma entry_sum_update:
  "distinct (map fst m) \<Longrightarrow> map_of m k = Some v \<Longrightarrow>
     sum_list (map (entry_len ff) (set_fld m k w)) + jlen ff v
       = sum_list (map (entry_len ff) m) + jlen ff w"
  by (induction m) (auto simp: entry_len_def split: if_splits)

lemma jlen_GObj_update:
  assumes "distinct (map fst m)" "map_of m k = Some v"
  shows "jlen ff (GObj (set_fld m k w)) + jlen ff v = jlen ff (GObj m) + jlen ff w"
proof -
  have "m \<noteq> []" "set_fld m k w \<noteq> []" using assms(2) by auto
  then show ?thesis using entry_sum_update [OF assms] by (simp add: jlen_GObj)
qed

end
