(* ===== verification/GoPath.thy ===== *)
theory GoPath
  imports Values
begin

section \<open>Lexical paths\<close>

text \<open>
  The lexical functions of Go's \<open>path/filepath\<close> on Unix (\<open>IsAbs\<close>, \<open>Clean\<close>, \<open>Dir\<close>, \<open>Base\<close>, \<open>Join\<close>,
  \<open>Ext\<close>): they never look at the file system.
\<close>

definition IsAbs :: "string \<Rightarrow> bool" where
  [go_text]: "IsAbs p = HasPrefix p ''/''"

text \<open>The components kept by \<open>Clean\<close>; \<open>acc\<close> holds them in reverse.\<close>

fun clean_parts :: "bool \<Rightarrow> string list \<Rightarrow> string list \<Rightarrow> string list" where
  "clean_parts rooted acc [] = rev acc"
| "clean_parts rooted acc (c # cs) =
     (if c = [] \<or> c = ''.'' then clean_parts rooted acc cs
      else if c = ''..'' then
        (case acc of
           [] \<Rightarrow> clean_parts rooted (if rooted then [] else [c]) cs
         | a # as \<Rightarrow> if a = ''..'' then clean_parts rooted (c # acc) cs
                     else clean_parts rooted as cs)
      else clean_parts rooted (c # acc) cs)"

definition Clean :: "string \<Rightarrow> string" where
  "Clean p =
     (if p = [] then ''.''
      else let rooted = IsAbs p; parts = clean_parts rooted [] (Split p CHR ''/'') in
        if rooted then ''/'' @ Join parts ''/''
        else if parts = [] then ''.'' else Join parts ''/'')"

text \<open>What follows the last slash, and what comes before it (the slash included).\<close>

definition file_part :: "string \<Rightarrow> string" where
  "file_part p = rev (takeWhile (\<lambda>c. c \<noteq> CHR ''/'') (rev p))"

definition dir_part :: "string \<Rightarrow> string" where
  "dir_part p = rev (dropWhile (\<lambda>c. c \<noteq> CHR ''/'') (rev p))"

definition Dir :: "string \<Rightarrow> string" where
  "Dir p = Clean (dir_part p)"

definition Base :: "string \<Rightarrow> string" where
  "Base p =
     (if p = [] then ''.''
      else let q = rev (dropWhile (\<lambda>c. c = CHR ''/'') (rev p)) in
        if q = [] then ''/'' else file_part q)"

definition JoinPath :: "string list \<Rightarrow> string" where
  "JoinPath ps =
     (let qs = dropWhile (\<lambda>p. p = []) ps in if qs = [] then [] else Clean (Join qs ''/''))"

text \<open>The suffix from the last dot of the last element.\<close>

definition Ext :: "string \<Rightarrow> string" where
  "Ext p =
     (let f = file_part p in
      if CHR ''.'' \<in> set f then CHR ''.'' # rev (takeWhile (\<lambda>c. c \<noteq> CHR ''.'') (rev f)) else [])"

lemma file_dir_part: "dir_part p @ file_part p = p"
  by (metis dir_part_def file_part_def rev_append rev_rev_ident takeWhile_dropWhile_id)

lemma file_part_no_slash: "CHR ''/'' \<notin> set (file_part p)"
  by (auto simp: file_part_def dest: set_takeWhileD)

lemma dir_part_ends: "dir_part p = [] \<or> last (dir_part p) = CHR ''/''"
proof (cases "dropWhile (\<lambda>c. c \<noteq> CHR ''/'') (rev p) = []")
  case True
  then show ?thesis by (simp add: dir_part_def)
next
  case False
  then have "hd (dropWhile (\<lambda>c. c \<noteq> CHR ''/'') (rev p)) = CHR ''/''"
    using hd_dropWhile by blast
  with False show ?thesis by (simp add: dir_part_def last_rev del: dropWhile_eq_Nil_conv)
qed

lemma dir_file_part_append:
  assumes "d = [] \<or> last d = CHR ''/''" and "CHR ''/'' \<notin> set f"
  shows "dir_part (d @ f) = d" and "file_part (d @ f) = f"
proof -
  have all: "c \<noteq> CHR ''/''" if "c \<in> set (rev f)" for c using assms(2) that by auto
  have stop: "rev d = [] \<or> hd (rev d) = CHR ''/''" using assms(1) by (auto simp: hd_rev)
  have "dropWhile (\<lambda>c. c \<noteq> CHR ''/'') (rev f @ rev d)
          = dropWhile (\<lambda>c. c \<noteq> CHR ''/'') (rev d)"
    using all by (rule dropWhile_append2)
  also have "\<dots> = rev d" using stop by (cases "rev d") simp_all
  finally have "dropWhile (\<lambda>c. c \<noteq> CHR ''/'') (rev f @ rev d) = rev d" .
  then show "dir_part (d @ f) = d" by (simp add: dir_part_def)
  have "takeWhile (\<lambda>c. c \<noteq> CHR ''/'') (rev f @ rev d)
          = rev f @ takeWhile (\<lambda>c. c \<noteq> CHR ''/'') (rev d)"
    using all by (rule takeWhile_append2)
  also have "\<dots> = rev f" using stop by (cases "rev d") simp_all
  finally have "takeWhile (\<lambda>c. c \<noteq> CHR ''/'') (rev f @ rev d) = rev f" .
  then show "file_part (d @ f) = f" by (simp add: file_part_def)
qed

end
