(* ===== verification/Protocol.thy ===== *)
theory Protocol
  imports Identity GoPath
begin

section \<open>The peer wire protocol\<close>

text \<open>
  The pure part of protocol.go: peer names, the user frame with its envelope and the inverse
  \<open>decodeUser\<close>, addresses of peer sockets, line framing.  Third-party and table-driven code is a
  parameter, the record \<open>lib\<close>: \<open>uuid_parse\<close> is \<open>uuid.Parse\<close> followed by \<open>String\<close> (None for an
  error), \<open>unescape\<close> is \<open>html.UnescapeString\<close>, \<open>fmt_float\<close> prints a \<open>float64\<close>.
\<close>

record lib =
  uuid_parse :: "string \<Rightarrow> string option"
  unescape :: "string \<Rightarrow> string"
  fmt_float :: "rat \<Rightarrow> string"

definition MaxBuffer :: nat where "MaxBuffer = 1048576"
definition MaxSerialized :: nat where "MaxSerialized = 1000000"
definition MaxRPCResponse :: nat where "MaxRPCResponse = 55 * MaxBuffer"
definition MaxReadResponse :: nat where "MaxReadResponse = 8 * MaxBuffer"

definition tag_name :: string where
  "tag_name = ''cross-session-message''"

definition closingTag :: string where
  "closingTag = ''</'' @ tag_name @ ''>''"

definition escapedClosingTag :: string where
  "escapedClosingTag = ''<'' @ [backslash] @ ''/'' @ tag_name @ ''>''"

definition newline :: char where
  "newline = CHR 0x0A"

subsection \<open>Threads and names\<close>

definition nil_uuid :: string where
  "nil_uuid = ''00000000-0000-0000-0000-000000000000''"

definition canonicalThread :: "lib \<Rightarrow> string \<Rightarrow> string res" where
  "canonicalThread L s =
     (case uuid_parse L s of
        None \<Rightarrow> Inl (Failure ''an explicit current Codex thread UUID is required'')
      | Some c \<Rightarrow>
          if c = nil_uuid then Inl (Failure ''an explicit current Codex thread UUID is required'')
          else Inr c)"

text \<open>The Unicode categories \<open>Cc\<close>, \<open>Cf\<close>, \<open>Cs\<close>, \<open>Zl\<close> and \<open>Zp\<close>, as ranges of runes.\<close>

definition control_ranges :: "(nat \<times> nat) list" where
  "control_ranges =
     [(0x00, 0x1F), (0x7F, 0x9F),
      (0xAD, 0xAD), (0x600, 0x605), (0x61C, 0x61C), (0x6DD, 0x6DD), (0x70F, 0x70F),
      (0x890, 0x891), (0x8E2, 0x8E2), (0x180E, 0x180E), (0x200B, 0x200F), (0x202A, 0x202E),
      (0x2060, 0x2064), (0x2066, 0x206F), (0xFEFF, 0xFEFF), (0xFFF9, 0xFFFB),
      (0x110BD, 0x110BD), (0x110CD, 0x110CD), (0x13430, 0x1343F), (0x1BCA0, 0x1BCA3),
      (0x1D173, 0x1D17A), (0xE0001, 0xE0001), (0xE0020, 0xE007F),
      (0xD800, 0xDFFF), (0x2028, 0x2028), (0x2029, 0x2029)]"

definition removed_rune :: "nat \<Rightarrow> bool" where
  "removed_rune r = list_ex (\<lambda>(lo, hi). lo \<le> r \<and> r \<le> hi) control_ranges"

definition is_space_rune :: "nat \<Rightarrow> bool" where
  "is_space_rune r =
     (r \<in> {9, 10, 11, 12, 13, 32, 0x85, 0xA0, 0x1680, 0x2028, 0x2029, 0x202F, 0x205F, 0x3000}
      \<or> 0x2000 \<le> r \<and> r \<le> 0x200A)"

definition trim_runes :: "nat list \<Rightarrow> nat list" where
  "trim_runes rs = rev (dropWhile is_space_rune (rev (dropWhile is_space_rune rs)))"

text \<open>
  \<open>strings.Map\<close> writes the kept runes as UTF-8, so \<open>TrimSpace\<close> and the conversion to \<open>[]rune\<close> that
  follow see exactly these runes (\<open>runes_encode_runes\<close>); \<open>0x2026\<close> is the ellipsis.
\<close>

definition normalizeName :: "string \<Rightarrow> string" where
  "normalizeName name =
     (let r = trim_runes (filter (\<lambda>x. \<not> removed_rune x) (runes name)) in
      if 64 < length r then encode_runes (take 63 r @ [0x2026]) else encode_runes r)"

subsection \<open>User frames\<close>

definition EscapeChar :: "char \<Rightarrow> string" where
  "EscapeChar c =
     (if c = CHR ''&'' then ''&amp;''
      else if byte c = 39 then ''&#39;''
      else if c = CHR ''<'' then ''&lt;''
      else if c = CHR ''>'' then ''&gt;''
      else if c = quote then ''&#34;''
      else [c])"

definition EscapeString :: "string \<Rightarrow> string" where
  "EscapeString s = concat (map EscapeChar s)"

definition attribute :: "string \<Rightarrow> string \<Rightarrow> string" where
  "attribute key v = key @ ''='' @ [quote] @ v @ [quote]"

definition envelope :: "string \<Rightarrow> string \<Rightarrow> string \<Rightarrow> string \<Rightarrow> string" where
  "envelope address name mode body =
     ''<'' @ tag_name @ '' '' @ attribute ''from'' (EscapeString address)
       @ '' '' @ attribute ''from-name'' (EscapeString (normalizeName name))
       @ '' '' @ attribute ''from-mode'' mode @ ''>'' @ [newline]
       @ ReplaceAll body closingTag escapedClosingTag @ [newline] @ closingTag"

definition utf16_length :: "nat list \<Rightarrow> nat" where
  "utf16_length rs = sum_list (map (\<lambda>r. if 0x10000 \<le> r then 2 else 1) rs)"

definition userFrame :: "lib \<Rightarrow> string \<Rightarrow> string \<Rightarrow> string \<Rightarrow> string \<Rightarrow> string \<Rightarrow> obj res" where
  "userFrame L newid body address name mode =
     (if body = [] \<or> \<not> ValidString body
      then Inl (Failure ''body must be nonempty UTF-8 text'')
      else if mode \<noteq> ''prompting'' \<and> mode \<noteq> ''bypass''
      then Inl (Failure ''unknown permission class'')
      else let f = [(''msgV'', GInt 1), (''msg_id'', GStr newid), (''type'', GStr ''user''),
                    (''message'', GObj [(''role'', GStr ''user''),
                        (''content'', GStr (envelope address name mode body))]),
                    (''priority'', GStr ''next''), (''from'', GStr address)];
               b = compact (fmt_float L) (GObj f)
           in if MaxBuffer < length b + 1 \<or> MaxSerialized < utf16_length (runes b)
              then Inl (Failure ''message exceeds the peer size limit'')
              else Inr f)"

text \<open>\<open>\<setminus>s\<close> and \<open>[\<setminus>w-]\<close> of Go's regular expressions.\<close>

definition re_space :: "char \<Rightarrow> bool" where
  "re_space c = (byte c \<in> {9, 10, 12, 13, 32})"

definition attr_char :: "char \<Rightarrow> bool" where
  "attr_char c =
     (is_digit c \<or> 65 \<le> byte c \<and> byte c \<le> 90 \<or> 97 \<le> byte c \<and> byte c \<le> 122
      \<or> c = CHR ''_'' \<or> c = CHR ''-'')"

text \<open>
  \<open>envelopeRE\<close>: the attribute text and the body.  The attribute text runs to the first \<open>>\<close>; the
  greedy \<open>\<setminus>s+\<close> leaves it at least one character.
\<close>

definition envelopeRE :: "string \<Rightarrow> (string \<times> string) option" where
  "envelopeRE text =
     (let head = ''<'' @ tag_name; tail = [newline] @ closingTag in
      if \<not> HasPrefix text head then None
      else let rest = drop (length head) text;
               inner = takeWhile (\<lambda>c. c \<noteq> CHR ''>'') rest;
               after = dropWhile (\<lambda>c. c \<noteq> CHR ''>'') rest;
               ws = takeWhile re_space inner;
               attrs = dropWhile re_space inner;
               group = (if attrs \<noteq> [] then attrs else if 2 \<le> length ws then [last ws] else [])
           in if ws = [] \<or> group = [] \<or> \<not> HasPrefix after (''>'' @ [newline])
                 \<or> \<not> HasSuffix (drop 2 after) tail
              then None
              else Some (group, take (length after - 2 - length tail) (drop 2 after)))"

function attrRE :: "string \<Rightarrow> (string \<times> string) list" where
  "attrRE [] = []"
| "attrRE (c # cs) =
     (let run = takeWhile attr_char (c # cs); rest = dropWhile attr_char (c # cs);
          v = takeWhile (\<lambda>x. x \<noteq> quote) (drop 2 rest);
          after = dropWhile (\<lambda>x. x \<noteq> quote) (drop 2 rest)
      in if run \<noteq> [] \<and> prefix (''='' @ [quote]) rest \<and> after \<noteq> []
         then (run, v) # attrRE (tl after)
         else attrRE cs)"
  by pat_completeness auto
termination
proof (relation "measure length", goal_cases)
  case 1
  then show ?case by simp
next
  case (2 c cs run rest v after)
  have "length (tl after) < length (c # cs)"
    using 2 by (metis One_nat_def diff_less dropWhile_eq_self_iff le_less_trans length_dropWhile_le
        length_drop length_greater_0_conv length_tl less_one list.distinct(1) order.strict_trans2
        diff_le_self le_trans)
  then show ?case by simp
next
  case 3
  then show ?case by simp
qed

declare attrRE.simps(2) [simp del]

definition decodeUser :: "lib \<Rightarrow> obj \<Rightarrow> obj res" where
  "decodeUser L frame =
     (if number frame ''msgV'' 0 \<noteq> 1 \<or> str frame ''type'' \<noteq> ''user''
      then Inl (Failure ''unsupported user frame'')
      else if uuid_parse L (str frame ''msg_id'') = None
      then Inl (Failure ''invalid message UUID'')
      else case fld frame ''message'' of
        GObj m \<Rightarrow>
          if str m ''role'' \<noteq> ''user'' then Inl (Failure ''invalid user frame'')
          else (case fld m ''content'' of
            GStr text \<Rightarrow>
              (let (attrs, body) =
                 (case envelopeRE text of
                    None \<Rightarrow> ([], text)
                  | Some (a, b) \<Rightarrow>
                      (foldl (\<lambda>n (k, v). set_fld n k (GStr (unescape L v))) [] (attrRE a),
                       ReplaceAll b escapedClosingTag closingTag))
               in Inr [(''wire_id'', fld frame ''msg_id''), (''body'', GStr body),
                       (''from'', fld frame ''from''),
                       (''from_name'', GStr (normalizeName (str attrs ''from-name''))),
                       (''from_mode'', fld attrs ''from-mode''),
                       (''raw_envelope'', GStr text),
                       (''hop_chain'', GStr (str attrs ''hop-chain''))])
          | _ \<Rightarrow> Inl (Failure ''invalid user content''))
      | _ \<Rightarrow> Inl (Failure ''invalid user frame''))"

subsection \<open>Socket addresses\<close>

definition decimal_id :: "string \<Rightarrow> bool" where
  "decimal_id s = (s = ''0'' \<or> positive_decimal s)"

definition numbered_dir :: "string \<Rightarrow> string \<Rightarrow> bool" where
  "numbered_dir base d =
     (d = base \<or> HasPrefix d (base @ ''-'') \<and> decimal_id (drop (length base + 1) d))"

definition socketDirRE :: "string \<Rightarrow> bool" where
  "socketDirRE d =
     (numbered_dir ''/tmp/cc-socks'' d \<or> numbered_dir ''/private/tmp/cc-socks'' d
      \<or> numbered_dir ''/data/data/com.termux/files/usr/tmp/cc-socks'' d
      \<or> HasPrefix d ''/run/user/'' \<and> HasSuffix d ''/cc-socks'' \<and> 19 \<le> length d
        \<and> decimal_id (take (length d - 19) (drop 10 d)))"

definition socketNameRE :: "string \<Rightarrow> bool" where
  "socketNameRE n = (HasSuffix n ''.sock'' \<and> positive_decimal (take (length n - 5) n))"

definition tokenRE :: "string \<Rightarrow> bool" where
  "tokenRE t = (length t = 32 \<and> list_all is_hex_lower t)"

definition socketPath :: "string \<Rightarrow> string res" where
  "socketPath address =
     (let p = TrimPrefix address ''uds:'' in
      if p = address \<or> \<not> IsAbs p \<or> Clean p \<noteq> p
         \<or> list_ex (\<lambda>c. byte c \<in> {32, 9, 10, 13}) p
         \<or> \<not> socketDirRE (Dir p) \<or> \<not> socketNameRE (Base p)
      then Inl (Failure ''not a Claude-compatible local uds: peer address'')
      else Inr p)"

subsection \<open>Line framing\<close>

text \<open>
  \<open>readLine\<close>: \<open>ReadSlice\<close> returns at most one buffer of \<open>bufsize\<close> bytes (4096 for the default
  reader), with \<open>ErrBufferFull\<close> when no newline was met, and the loop collects the pieces up to
  \<open>cap\<close> bytes.  The result is the line, its newline included, and the unread input.
\<close>

definition read_slice :: "nat \<Rightarrow> string \<Rightarrow> string \<times> string \<times> bool option" where
  \<comment> \<open>the slice, the rest, and Some True for a full buffer, Some False for another error\<close>
  "read_slice bufsize input =
     (let window = take bufsize input in
      if newline \<in> set window
      then let line = takeWhile (\<lambda>c. c \<noteq> newline) window @ [newline]
           in (line, drop (length line) input, None)
      else if bufsize \<le> length input then (window, drop bufsize input, Some True)
      else (input, [], Some False))"

function read_line :: "nat \<Rightarrow> nat \<Rightarrow> string \<Rightarrow> string \<Rightarrow> (string \<times> string) res" where
  "read_line bufsize cap all input =
     (case read_slice bufsize input of
        (b, rest, err) \<Rightarrow>
          if cap < length all + length b then Inl (Failure ''frame exceeds size limit'')
          else case err of
                 None \<Rightarrow> Inr (all @ b, rest)
               | Some False \<Rightarrow> Inl (Failure ''EOF'')
               | Some True \<Rightarrow>
                   if b = [] then Inl (Failure ''EOF'')
                   else read_line bufsize cap (all @ b) rest)"
  by pat_completeness auto
termination
  by (relation "measure (\<lambda>(bufsize, cap, all, input). length input)")
    (auto simp: read_slice_def Let_def split: if_splits)

declare read_line.simps [simp del]

definition readLine :: "nat \<Rightarrow> string \<Rightarrow> (string \<times> string) res" where
  "readLine cap input = read_line 4096 cap [] input"

end
