(* ===== verification/Store.thy ===== *)
theory Store
  imports Protocol
begin

section \<open>The durable inbox\<close>

text \<open>
  store.go.  The database is a record of its three tables.  The rows of \<open>inbox\<close> are kept in the
  order of SQLite's \<open>rowid\<close>, in which a scan visits them; an insert takes the next number after
  the largest.  A \<open>data\<close>, \<open>target\<close> or metadata column holds the decoded value of its JSON text.
  Every operation holds the store's mutex and multi-statement operations run in a transaction, so
  each is one step from the old database to the new one; an error leaves the database as it was.
  The clock (\<open>now\<close>, in seconds) and fresh UUIDs are arguments.  Faults of the disk are not modelled.
\<close>

record row =
  rowid :: nat
  rid :: string
  wire :: string
  sender :: string
  received :: rat
  rstate :: string
  rdata :: obj

record outrow =
  oid :: string
  created :: rat
  target :: Peer
  ostate :: string
  detail :: gval

record store =
  inbox :: "row list"
  outbound :: "outrow list"
  metadata :: "(string \<times> gval) list"

definition empty_store :: store where
  "empty_store = \<lparr>inbox = [], outbound = [], metadata = []\<rparr>"

subsection \<open>Metadata\<close>

text \<open>\<open>meta\<close> leaves the caller's zero value when the key is missing, and JSON null decodes to it.\<close>

definition meta :: "store \<Rightarrow> string \<Rightarrow> gval" where
  "meta st key = (case map_of (metadata st) key of None \<Rightarrow> GNil | Some v \<Rightarrow> v)"

definition meta_int :: "store \<Rightarrow> string \<Rightarrow> int res" where
  "meta_int st key =
     (case meta st key of GNil \<Rightarrow> Inr 0 | GInt n \<Rightarrow> Inr n
      | _ \<Rightarrow> Inl (Failure ''json: cannot unmarshal into int64''))"

definition meta_obj :: "store \<Rightarrow> string \<Rightarrow> obj option res" where
  "meta_obj st key =
     (case meta st key of GNil \<Rightarrow> Inr None | GObj m \<Rightarrow> Inr (Some m)
      | _ \<Rightarrow> Inl (Failure ''json: cannot unmarshal into map''))"

definition setMeta :: "store \<Rightarrow> string \<Rightarrow> gval \<Rightarrow> store" where
  "setMeta st key v = st\<lparr>metadata := AList.update key v (metadata st)\<rparr>"

subsection \<open>Counting and reading\<close>

definition cursor_gone :: gerr where
  "cursor_gone = Failure ''inbox cursor is no longer available; restart the read without --after''"

definition find_row :: "store \<Rightarrow> string \<Rightarrow> row option" where
  "find_row st mid = List.find (\<lambda>r. rid r = mid) (inbox st)"

definition cursor_row :: "store \<Rightarrow> string \<Rightarrow> nat res" where
  "cursor_row st after =
     (if after = [] then Inr 0
      else case find_row st after of None \<Rightarrow> Inl cursor_gone | Some r \<Rightarrow> Inr (rowid r))"

abbreviation num_state :: "store \<Rightarrow> string \<Rightarrow> nat" where
  "num_state st state \<equiv> count_if (\<lambda>r. rstate r = state) (inbox st)"

definition count :: "store \<Rightarrow> string \<Rightarrow> string \<Rightarrow> nat res" where
  "count st state after =
     (case cursor_row st after of
        Inl e \<Rightarrow> Inl e
      | Inr row \<Rightarrow> Inr (count_if (\<lambda>r. rstate r = state \<and> row < rowid r) (inbox st)))"

text \<open>The rows of a query \<open>state = ? AND rowid > ? ORDER BY rowid LIMIT ?\<close>, as messages with their
  state.\<close>

definition select_rows :: "store \<Rightarrow> string \<Rightarrow> nat \<Rightarrow> nat \<Rightarrow> obj list" where
  "select_rows st state row limit =
     map (\<lambda>r. set_fld (rdata r) ''state'' (GStr (rstate r)))
       (take limit (filter (\<lambda>r. rstate r = state \<and> row < rowid r) (inbox st)))"

definition readRows :: "store \<Rightarrow> string \<Rightarrow> string \<Rightarrow> nat \<Rightarrow> obj list res" where
  "readRows st state after limit =
     (case cursor_row st after of
        Inl e \<Rightarrow> Inl cursor_gone
      | Inr row \<Rightarrow> Inr (select_rows st state row limit))"

text \<open>The loop of \<open>Page\<close>: messages until the byte budget is spent.  \<open>None\<close> stands for a first
  message that does not fit.\<close>

fun page_loop :: "(rat \<Rightarrow> string) \<Rightarrow> nat \<Rightarrow> obj list \<Rightarrow> obj list \<Rightarrow> obj list option" where
  "page_loop ff used msgs [] = Some msgs"
| "page_loop ff used msgs (m # ms) =
     (let n = jlen ff (GObj m) + 1 in
      if MaxReadResponse < used + n then (if msgs = [] then None else Some msgs)
      else page_loop ff (used + n) (msgs @ [m]) ms)"

definition Page :: "lib \<Rightarrow> store \<Rightarrow> string \<Rightarrow> string \<Rightarrow> nat \<Rightarrow> obj \<Rightarrow> obj res" where
  "Page L st state after limit info =
     (case count st state after of
        Inl e \<Rightarrow> Inl e
      | Inr available \<Rightarrow>
        (case cursor_row st after of
           Inl e \<Rightarrow> Inl e
         | Inr row \<Rightarrow>
           (let rows = select_rows st state row limit;
                result = set_fld (set_fld (set_fld (set_fld (clone info)
                  ''messages'' (GArr [])) ''remaining'' (GInt (int available)))
                  ''has_more'' (GBool (0 < available))) ''next_after'' GNil;
                used = jlen (fmt_float L) (GObj [(''result'', GObj result)]) + 129
            in case page_loop (fmt_float L) used [] rows of
                 None \<Rightarrow> Inl (Failure ''stored message exceeds the read response budget'')
               | Some messages \<Rightarrow>
                   (let result1 = set_fld (set_fld (set_fld result
                      ''messages'' (GArr (map GObj messages)))
                      ''remaining'' (GInt (int available - int (length messages))))
                      ''has_more'' (GBool (length messages < available))
                    in if length messages < available
                       then (if messages = [] then Inl (Panic ''index out of range [-1]'')
                             else Inr (set_fld result1 ''next_after'' (fld (last messages) ''id'')))
                       else Inr result1))))"

definition Get :: "store \<Rightarrow> string \<Rightarrow> obj option" where
  "Get st mid =
     map_option (\<lambda>r. set_fld (rdata r) ''state'' (GStr (rstate r))) (find_row st mid)"

subsection \<open>Accepting a message\<close>

definition set_state :: "store \<Rightarrow> (row \<Rightarrow> bool) \<Rightarrow> string \<Rightarrow> store" where
  "set_state st sel state =
     st\<lparr>inbox := map (\<lambda>r. if sel r then r\<lparr>rstate := state\<rparr> else r) (inbox st)\<rparr>"

definition next_rowid :: "store \<Rightarrow> nat" where
  "next_rowid st = Suc (foldr (\<lambda>r n. max (rowid r) n) (inbox st) 0)"

text \<open>\<open>INSERT INTO inbox\<close>: the primary key and \<open>UNIQUE(peer,wire_id)\<close> reject duplicates.\<close>

definition insert_row :: "store \<Rightarrow> row \<Rightarrow> store res" where
  "insert_row st r =
     (if list_ex (\<lambda>x. rid x = rid r \<or> sender x = sender r \<and> wire x = wire r) (inbox st)
      then Inl (Failure ''UNIQUE constraint failed: inbox'')
      else Inr (st\<lparr>inbox := inbox st @ [r]\<rparr>))"

definition evict_oldest :: "store \<Rightarrow> (obj \<times> store) res" where
  "evict_oldest st =
     (case sort_key received (filter (\<lambda>r. rstate r = ''held'') (inbox st)) of
        [] \<Rightarrow> Inl (Failure ''sql: no rows in result set'')
      | r # _ \<Rightarrow> Inr (rdata r, set_state st (\<lambda>x. rid x = rid r) ''expired''))"

text \<open>The reasons for which \<open>Accept\<close> drops a message, in the order of its checks.\<close>

definition drop_reason :: "rat \<Rightarrow> store \<Rightarrow> obj \<Rightarrow> string \<Rightarrow> string \<Rightarrow> string option" where
  "drop_reason now st message identity state =
     (if list_ex (\<lambda>r. sender r = identity \<and> wire r = str message ''wire_id'') (inbox st)
      then Some ''duplicate''
      else let recent = filter (\<lambda>r. sender r = identity \<and> now - 10 < received r) (inbox st) in
        if list_ex (\<lambda>r. fld (rdata r) ''body'' = fld message ''body'') recent
        then Some ''duplicate''
        else if 20 \<le> length recent then Some ''rate_limit''
        else if state = ''unread'' \<and> 50 \<le> num_state st state then Some ''full_queue''
        else None)"

definition make_room :: "store \<Rightarrow> string \<Rightarrow> (obj option \<times> store) res" where
  "make_room st state =
     (if state = ''held'' \<and> 100 \<le> num_state st state
      then (case evict_oldest st of Inl e \<Rightarrow> Inl e | Inr (m, s) \<Rightarrow> Inr (Some m, s))
      else Inr (None, st))"

text \<open>The message and the row that \<open>Accept\<close> writes.\<close>

definition accepted_message :: "string \<Rightarrow> rat \<Rightarrow> obj \<Rightarrow> obj" where
  "accepted_message newid now message =
     set_fld (set_fld (clone message) ''id'' (GStr newid)) ''received_at'' (GFloat now)"

definition accepted_row :: "string \<Rightarrow> rat \<Rightarrow> store \<Rightarrow> obj \<Rightarrow> string \<Rightarrow> string \<Rightarrow> row" where
  "accepted_row newid now st accepted identity state =
     \<lparr>rowid = next_rowid st, rid = newid, wire = str accepted ''wire_id'', sender = identity,
      received = now, rstate = state, rdata = accepted\<rparr>"

text \<open>The four results of \<open>Accept\<close>: the stored message, the reason for a drop, the evicted
  message, and the new database.\<close>

definition Accept ::
  "string \<Rightarrow> rat \<Rightarrow> store \<Rightarrow> obj \<Rightarrow> string \<Rightarrow> string
    \<Rightarrow> ((obj option \<times> string \<times> obj option) \<times> store) res" where
  "Accept newid now st message identity state =
     (case drop_reason now st message identity state of
        Some reason \<Rightarrow> Inr ((None, reason, None), st)
      | None \<Rightarrow>
        (case make_room st state of
           Inl e \<Rightarrow> Inl e
         | Inr (evicted, st1) \<Rightarrow>
             (let accepted = accepted_message newid now message in
              case insert_row st1 (accepted_row newid now st1 accepted identity state) of
                Inl e \<Rightarrow> Inl e
              | Inr st2 \<Rightarrow> Inr ((Some accepted, [], evicted), st2))))"

subsection \<open>State transitions\<close>

definition row_state :: "store \<Rightarrow> string \<Rightarrow> string" where
  "row_state st mid = (case find_row st mid of None \<Rightarrow> [] | Some r \<Rightarrow> rstate r)"

text \<open>How many of the identifiers would be released, each counted once.\<close>

fun count_releasing :: "store \<Rightarrow> string \<Rightarrow> string list \<Rightarrow> string list \<Rightarrow> nat" where
  "count_releasing st before seen [] = 0"
| "count_releasing st before seen (mid # ids) =
     (if mid \<in> set seen then count_releasing st before seen ids
      else (if row_state st mid = before then 1 else 0)
             + count_releasing st before (mid # seen) ids)"

fun update_loop :: "store \<Rightarrow> string \<Rightarrow> string \<Rightarrow> string list \<Rightarrow> string list \<times> store" where
  "update_loop st before after [] = ([], st)"
| "update_loop st before after (mid # ids) =
     (let hit = list_ex (\<lambda>r. rid r = mid \<and> rstate r = before) (inbox st);
          st1 = set_state st (\<lambda>r. rid r = mid \<and> rstate r = before) after;
          (changed, st2) = update_loop st1 before after ids
      in (if hit then mid # changed else changed, st2))"

text \<open>After an acknowledgement: bump the revision and clear a notice that was submitted.\<close>

definition note_ack :: "store \<Rightarrow> store res" where
  "note_ack st =
     (case meta_int st ''ack_revision'' of
        Inl e \<Rightarrow> Inl e
      | Inr revn \<Rightarrow>
        (let st1 = setMeta st ''ack_revision'' (GInt (revn + 1)) in
         case meta_obj st1 ''wake'' of
           Inl e \<Rightarrow> Inl e
         | Inr wake \<Rightarrow>
             (let w = (case wake of None \<Rightarrow> [] | Some m \<Rightarrow> m) in
              if fld w ''submitted'' = GBool True \<and> fld w ''needs_manual_action'' \<noteq> GBool True
              then Inr (setMeta st1 ''wake'' GNil) else Inr st1)))"

definition clear_when_empty :: "store \<Rightarrow> store" where
  "clear_when_empty st =
     (if num_state st ''unread'' = 0
      then setMeta (setMeta st ''wake'' GNil) ''delivery_waiting'' GNil else st)"

definition transition ::
  "store \<Rightarrow> string list \<Rightarrow> string \<Rightarrow> string \<Rightarrow> (string list \<times> store) res" where
  "transition st ids before after =
     (if after = ''unread''
         \<and> 50 < num_state st ''unread'' + count_releasing st before [] ids
      then Inl (Failure ''accepted inbox is full; acknowledge messages first'')
      else let (changed, st1) = update_loop st before after ids in
        case (if changed \<noteq> [] \<and> before = ''unread'' then note_ack st1 else Inr st1) of
          Inl e \<Rightarrow> Inl e
        | Inr st2 \<Rightarrow> Inr (changed, clear_when_empty st2))"

text \<open>\<open>Transition\<close> runs it in a transaction: after an error the database is unchanged.\<close>

definition Transition ::
  "store \<Rightarrow> string list \<Rightarrow> string \<Rightarrow> string \<Rightarrow> string list res \<times> store" where
  "Transition st ids before after =
     (case transition st ids before after of
        Inl e \<Rightarrow> (Inl e, st)
      | Inr (changed, st1) \<Rightarrow> (Inr changed, st1))"

subsection \<open>Expiry\<close>

definition settled :: "row \<Rightarrow> bool" where
  "settled r = (rstate r \<noteq> ''unread'' \<and> rstate r \<noteq> ''held'')"

definition delete_old :: "rat \<Rightarrow> store \<Rightarrow> store" where
  "delete_old now st =
     st\<lparr>inbox := filter (\<lambda>r. \<not> (settled r \<and> received r < now - 604800)) (inbox st)\<rparr>"

text \<open>\<open>ORDER BY received DESC LIMIT -1 OFFSET 1000\<close>: all but the 1000 newest settled rows.\<close>

definition overflow_ids :: "store \<Rightarrow> string list" where
  "overflow_ids st =
     map rid (drop 1000 (sort_key (\<lambda>r. - received r) (filter settled (inbox st))))"

definition delete_overflow :: "store \<Rightarrow> store" where
  "delete_overflow st =
     (let gone = overflow_ids st in st\<lparr>inbox := filter (\<lambda>r. rid r \<notin> set gone) (inbox st)\<rparr>)"

definition delete_sent :: "rat \<Rightarrow> store \<Rightarrow> store" where
  "delete_sent now st =
     st\<lparr>outbound := filter (\<lambda>r. \<not> created r < now - 604800) (outbound st)\<rparr>"

definition expired_items :: "rat \<Rightarrow> obj list \<Rightarrow> obj list" where
  "expired_items now items = filter (\<lambda>m. number m ''received_at'' now < now - 300) items"

definition Expire :: "rat \<Rightarrow> store \<Rightarrow> obj list res \<times> store" where
  "Expire now st =
     (case readRows st ''held'' [] 100 of
        Inl e \<Rightarrow> (Inl e, st)
      | Inr items \<Rightarrow>
        (let old = expired_items now items; ids = map (\<lambda>m. str m ''id'') old in
         case transition st ids ''held'' ''expired'' of
           Inl e \<Rightarrow> (Inl e, st)
         | Inr (_, st1) \<Rightarrow>
             (Inr old, delete_sent now (delete_overflow (delete_old now st1)))))"

subsection \<open>Outgoing messages\<close>

definition Outgoing :: "rat \<Rightarrow> store \<Rightarrow> obj \<Rightarrow> Peer \<Rightarrow> store res" where
  "Outgoing now st frame peer =
     (if list_ex (\<lambda>r. oid r = str frame ''msg_id'') (outbound st)
      then Inl (Failure ''UNIQUE constraint failed: outbound.id'')
      else Inr (st\<lparr>outbound := outbound st @
        [\<lparr>oid = str frame ''msg_id'', created = now, target = peer, ostate = ''sending'',
          detail = GNil\<rparr>]\<rparr>))"

definition set_sent :: "store \<Rightarrow> (outrow \<Rightarrow> bool) \<Rightarrow> string \<Rightarrow> gval \<Rightarrow> store" where
  "set_sent st sel state d =
     st\<lparr>outbound := map (\<lambda>r. if sel r then r\<lparr>ostate := state, detail := d\<rparr> else r) (outbound st)\<rparr>"

definition unconfirmed :: "outrow \<Rightarrow> bool" where
  "unconfirmed r = (ostate r = ''sending'' \<or> ostate r = ''sent_unconfirmed'')"

definition Sent :: "store \<Rightarrow> string \<Rightarrow> string \<Rightarrow> gval \<Rightarrow> store" where
  "Sent st mid state d =
     (if state = ''sent_unconfirmed'' \<or> state = ''failed''
      then set_sent st (\<lambda>r. oid r = mid \<and> unconfirmed r) state d
      else set_sent st (\<lambda>r. oid r = mid) state d)"

text \<open>The JSON form of a \<open>Peer\<close>, with its \<open>omitempty\<close> fields.\<close>

definition opt_str :: "string \<Rightarrow> string \<Rightarrow> obj" where
  "opt_str key v = (if v = [] then [] else [(key, GStr v)])"

definition opt_int :: "string \<Rightarrow> int \<Rightarrow> obj" where
  "opt_int key v = (if v = 0 then [] else [(key, GInt v)])"

definition peer_json :: "Peer \<Rightarrow> obj" where
  "peer_json p =
     [(''pid'', GInt (PID p)), (''procStart'', GStr (PStart p)), (''pidDomain'', GStr (PDomain p)),
      (''messagingSocketPath'', GStr (PSocket p))]
     @ opt_str ''name'' (PName p) @ opt_str ''sessionId'' (PThread p)
     @ opt_int ''hostPid'' (PHostPID p) @ opt_str ''hostStart'' (PHostStart p)
     @ (if PFeatures p = [] then [] else [(''peerFeatures'', GArr (map GStr (PFeatures p)))])
     @ opt_str ''ref'' (PRef p) @ opt_str ''cwd'' (PCWD p) @ opt_str ''status'' (PStatus p)
     @ (case PActivity p of None \<Rightarrow> [] | Some a \<Rightarrow> if a = [] then [] else [(''activity'', GObj a)])
     @ opt_str ''version'' (PVersion p) @ opt_int ''peerProtocol'' (PProtocol p)"

definition sent_item :: "outrow \<Rightarrow> obj" where
  "sent_item r =
     [(''id'', GStr (oid r)), (''created'', GFloat (created r)),
      (''target'', GObj (peer_json (target r))), (''state'', GStr (ostate r)),
      (''detail'', detail r)]"

definition SentStatus :: "store \<Rightarrow> string \<Rightarrow> obj list" where
  "SentStatus st mid =
     map sent_item
       (if mid \<noteq> [] then filter (\<lambda>r. oid r = mid) (outbound st)
        else take 20 (sort_key (\<lambda>r. - created r) (outbound st)))"

definition receipt_states :: "string list" where
  "receipt_states = [''held'', ''declined'', ''expired'', ''released'', ''refused'', ''dropped'',
     ''accepted'', ''read'']"

text \<open>One identifier of a receipt frame: who may report, and which reports are stale.\<close>

definition correlate_one :: "host \<Rightarrow> obj \<Rightarrow> int \<Rightarrow> string \<Rightarrow> store \<Rightarrow> gval \<Rightarrow> store" where
  "correlate_one h frame pid start st item =
     (case item of
        GStr mid \<Rightarrow>
          (case List.find (\<lambda>r. oid r = mid) (outbound st) of
             None \<Rightarrow> st
           | Some r \<Rightarrow>
               if \<not> peerReceiptMatches h (target r) pid start then st
               else if ostate r = ''read'' then st
               else if str frame ''status'' = ''accepted'' \<and> ostate r \<noteq> ''sending''
                  \<and> ostate r \<noteq> ''sent_unconfirmed'' \<and> ostate r \<noteq> ''held'' \<and> ostate r \<noteq> ''released''
               then st
               else set_sent st (\<lambda>x. oid x = mid) (str frame ''status'') (GObj frame))
      | _ \<Rightarrow> st)"

definition Correlate :: "host \<Rightarrow> store \<Rightarrow> obj \<Rightarrow> int \<Rightarrow> string \<Rightarrow> store" where
  "Correlate h st frame pid start =
     (if str frame ''status'' \<notin> set receipt_states then st
      else let ids = fld frame ''orig_msg_id'' #
                 (case fld frame ''dropped_msg_ids'' of GArr vs \<Rightarrow> vs | _ \<Rightarrow> [])
           in foldl (correlate_one h frame pid start) st (take 101 ids))"

subsection \<open>Wake notices\<close>

definition stringsWithoutHyphens :: "string \<Rightarrow> string" where
  "stringsWithoutHyphens s = encode_runes (filter (\<lambda>c. c \<noteq> 0x2D) (runes s))"

definition new_wake :: "string \<Rightarrow> int \<Rightarrow> int \<Rightarrow> obj" where
  "new_wake mid revn now =
     [(''id'', GStr mid), (''name'', GStr (''cross_session_inbox_'' @ stringsWithoutHyphens mid)),
      (''state'', GStr ''attempted''), (''submitted'', GBool False),
      (''needs_manual_action'', GBool True), (''ack_revision'', GInt revn), (''created_at'', GInt now)]"

definition BeginWake :: "int \<Rightarrow> store \<Rightarrow> string \<Rightarrow> obj option res \<times> store" where
  "BeginWake now st mid =
     (case meta_obj st ''wake'' of
        Inl e \<Rightarrow> (Inl e, st)
      | Inr existing \<Rightarrow>
        if num_state st ''unread'' = 0 \<or> existing \<noteq> None then (Inr None, st)
        else (case meta_int st ''ack_revision'' of
                Inl e \<Rightarrow> (Inl e, st)
              | Inr revn \<Rightarrow>
                  (let w = new_wake mid revn now in (Inr (Some w), setMeta st ''wake'' (GObj w)))))"

definition FinishWake :: "store \<Rightarrow> string \<Rightarrow> string \<Rightarrow> string \<Rightarrow> unit res \<times> store" where
  "FinishWake st mid state d =
     (case meta_obj st ''wake'' of
        Inl e \<Rightarrow> (Inl e, st)
      | Inr wake \<Rightarrow>
        if str (case wake of None \<Rightarrow> [] | Some w \<Rightarrow> w) ''id'' \<noteq> mid then (Inr (), st)
        else (case meta_int st ''ack_revision'' of
          Inl e \<Rightarrow> (Inl e, st)
        | Inr revn \<Rightarrow>
          if state = ''rejected'' then (Inr (), setMeta st ''wake'' GNil)
          else (case wake of
            None \<Rightarrow> (Inl (Panic ''assignment to entry in nil map''), st)
          | Some w \<Rightarrow>
            (let submitted = (state = ''submitted'' \<or> state = ''recorded'');
                 w1 = set_fld (set_fld (set_fld (set_fld w ''state'' (GStr state))
                        ''detail'' (GStr d)) ''submitted'' (GBool submitted))
                        ''needs_manual_action''
                        (GBool (state = ''uncertain'' \<or> state = ''attempted''))
             in if num_state st ''unread'' = 0
                   \<or> submitted \<and> trunc (number w1 ''ack_revision'' (-1)) \<noteq> revn
                then (Inr (), setMeta st ''wake'' GNil)
                else (Inr (), setMeta st ''wake'' (GObj w1))))))"

definition ResetDelivery :: "store \<Rightarrow> unit res \<times> store" where
  "ResetDelivery st =
     (case meta_obj st ''wake'' of
        Inl e \<Rightarrow> (Inl e, st)
      | Inr (Some w) \<Rightarrow> (Inl (Failure (''a notification is pending; read and acknowledge the inbox''
                               @ '' before changing delivery'')), st)
      | Inr None \<Rightarrow> (Inr (), foldl (\<lambda>s key. setMeta s key GNil) st
                       [''retry_at'', ''delivery_waiting'', ''delivery_error'']))"

end
