(* ===== verification/Store_Rows.thy ===== *)
theory Store_Rows
  imports Store
begin

section \<open>Rows of the inbox: what each operation does to them\<close>

text \<open>
  Closed forms of the loops of store.go and their effect on the rows: the number of rows in a
  state, the state of one message, the identity of rows.  The invariant of the database and the
  theorems about whole operations (\<open>Store_Inv\<close>, \<open>Wake\<close>) rest on these lemmas.
\<close>

definition rows_wf :: "store \<Rightarrow> bool" where
  "rows_wf st \<longleftrightarrow>
     sorted_wrt (<) (map rowid (inbox st)) \<and> (\<forall>r \<in> set (inbox st). 0 < rowid r)
     \<and> distinct (map rid (inbox st)) \<and> distinct (map (\<lambda>r. (sender r, wire r)) (inbox st))
     \<and> (\<forall>r \<in> set (inbox st). rid r \<noteq> [] \<and> distinct (map fst (rdata r))
          \<and> fld (rdata r) ''id'' = GStr (rid r)
          \<and> fld (rdata r) ''received_at'' = GFloat (received r))"

text \<open>The state of one message, by its inbox identifier.\<close>

definition status :: "store \<Rightarrow> string \<Rightarrow> string option" where
  "status st mid = map_option rstate (find_row st mid)"

lemma rows_wf_distinct [dest]: "rows_wf st \<Longrightarrow> distinct (map rid (inbox st))"
  by (simp add: rows_wf_def)

subsection \<open>Counting\<close>

lemma count_if_disj:
  assumes "\<And>x. x \<in> set xs \<Longrightarrow> \<not> (P x \<and> Q x)"
  shows "count_if (\<lambda>x. P x \<or> Q x) xs = count_if P xs + count_if Q xs"
  using assms by (induction xs) auto

lemma count_if_split: "count_if P xs = count_if (\<lambda>x. P x \<and> Q x) xs + count_if (\<lambda>x. P x \<and> \<not> Q x) xs"
  by (induction xs) auto

lemma count_if_key_le_1:
  "distinct (map f xs) \<Longrightarrow> count_if (\<lambda>x. f x = k \<and> P x) xs \<le> 1"
proof (induction xs)
  case Nil
  then show ?case by simp
next
  case (Cons a xs)
  have "f a = k \<Longrightarrow> count_if (\<lambda>x. f x = k \<and> P x) xs = 0"
    using Cons.prems by (simp add: count_if_eq_0_iff) (metis image_eqI)
  with Cons show ?case by (cases "f a = k") auto
qed

subsection \<open>Looking a row up\<close>

lemma find_row_in: "find_row st mid = Some r \<Longrightarrow> r \<in> set (inbox st) \<and> rid r = mid"
  by (auto simp: find_row_def dest: find_SomeD)

lemma find_row_member:
  "distinct (map rid (inbox st)) \<Longrightarrow> r \<in> set (inbox st) \<Longrightarrow> find_row st (rid r) = Some r"
  unfolding find_row_def by (rule find_distinct)

lemma find_row_None: "find_row st mid = None \<longleftrightarrow> mid \<notin> rid ` set (inbox st)"
  by (auto simp: find_row_def find_None_iff)

lemma status_Some_iff:
  "distinct (map rid (inbox st)) \<Longrightarrow>
     status st mid = Some s \<longleftrightarrow> (\<exists>r \<in> set (inbox st). rid r = mid \<and> rstate r = s)"
  by (auto simp: status_def dest: find_row_in intro: find_row_member)

lemma row_state_status: "row_state st mid = (case status st mid of None \<Rightarrow> [] | Some s \<Rightarrow> s)"
  by (simp add: row_state_def status_def split: option.split)

subsection \<open>Changing the state of selected rows\<close>

lemma inbox_set_state:
  "inbox (set_state st sel s) = map (\<lambda>r. if sel r then r\<lparr>rstate := s\<rparr> else r) (inbox st)"
  by (simp add: set_state_def)

lemma set_state_frame [simp]:
  "outbound (set_state st sel s) = outbound st" "metadata (set_state st sel s) = metadata st"
  "meta (set_state st sel s) k = meta st k"
  by (simp_all add: set_state_def meta_def)

lemma map_key_set_state:
  assumes "\<And>r. f (r\<lparr>rstate := s\<rparr>) = f r"
  shows "map f (inbox (set_state st sel s)) = map f (inbox st)"
  by (simp add: inbox_set_state assms)

lemma keys_set_state [simp]:
  "map rid (inbox (set_state st sel s)) = map rid (inbox st)"
  "map rowid (inbox (set_state st sel s)) = map rowid (inbox st)"
  "map (\<lambda>r. (sender r, wire r)) (inbox (set_state st sel s)) = map (\<lambda>r. (sender r, wire r)) (inbox st)"
  by (simp_all add: map_key_set_state)

lemma rows_wf_set_state [simp]: "rows_wf (set_state st sel s) = rows_wf st"
proof -
  have "(\<forall>r \<in> set (inbox (set_state st sel s)). Q r) = (\<forall>r \<in> set (inbox st). Q r)"
    if "\<And>r. Q (r\<lparr>rstate := s\<rparr>) = Q r" for Q :: "row \<Rightarrow> bool"
  proof -
    have "Q (if sel r then r\<lparr>rstate := s\<rparr> else r) = Q r" for r using that by simp
    then show ?thesis by (simp only: inbox_set_state set_map ball_simps)
  qed
  then show ?thesis by (simp add: rows_wf_def)
qed

lemma num_state_set_state:
  "num_state (set_state st sel s) t =
     (if t = s then count_if (\<lambda>r. sel r \<or> rstate r = s) (inbox st)
      else count_if (\<lambda>r. \<not> sel r \<and> rstate r = t) (inbox st))"
  by (auto simp: inbox_set_state count_if_map comp_def intro!: count_if_cong)

lemma find_row_set_state:
  "find_row (set_state st sel s) mid =
     map_option (\<lambda>r. if sel r then r\<lparr>rstate := s\<rparr> else r) (find_row st mid)"
proof -
  have "List.find (\<lambda>r. rid r = mid) (map (\<lambda>r. if sel r then r\<lparr>rstate := s\<rparr> else r) xs) =
      map_option (\<lambda>r. if sel r then r\<lparr>rstate := s\<rparr> else r) (List.find (\<lambda>r. rid r = mid) xs)"
    for xs by (induction xs) auto
  then show ?thesis by (simp add: find_row_def inbox_set_state)
qed

subsection \<open>The update loop of a transition\<close>

lemma set_state_twice:
  assumes "b \<noteq> a"
  shows "set_state (set_state st (\<lambda>r. P r \<and> rstate r = b) a) (\<lambda>r. Q r \<and> rstate r = b) a
           = set_state st (\<lambda>r. (P r \<or> Q r) \<and> rstate r = b) a"
  using assms by (auto simp: set_state_def)

lemma set_state_none: "\<forall>r \<in> set (inbox st). \<not> sel r \<Longrightarrow> set_state st sel s = st"
  by (simp add: set_state_def map_idI)

lemma update_loop_store:
  "b \<noteq> a \<Longrightarrow> snd (update_loop st b a ids) = set_state st (\<lambda>r. rid r \<in> set ids \<and> rstate r = b) a"
proof (induction ids arbitrary: st)
  case Nil
  then show ?case by (simp add: set_state_none)
next
  case (Cons i ids)
  then show ?case
    by (simp add: Let_def split_beta set_state_twice)
qed

lemma ex_row_after:
  "b \<noteq> a \<Longrightarrow>
     (\<exists>r \<in> set (inbox (set_state st (\<lambda>r. rid r = i \<and> rstate r = b) a)). rid r = j \<and> rstate r = b)
       \<longleftrightarrow> j \<noteq> i \<and> (\<exists>r \<in> set (inbox st). rid r = j \<and> rstate r = b)"
  by (auto simp: inbox_set_state)

lemma update_loop_changed:
  "b \<noteq> a \<Longrightarrow> set (fst (update_loop st b a ids)) =
     {i \<in> set ids. \<exists>r \<in> set (inbox st). rid r = i \<and> rstate r = b}"
proof (induction ids arbitrary: st)
  case Nil
  then show ?case by simp
next
  case (Cons i ids)
  let ?st1 = "set_state st (\<lambda>r. rid r = i \<and> rstate r = b) a"
  have rest: "set (fst (update_loop ?st1 b a ids)) =
      {j \<in> set ids. j \<noteq> i \<and> (\<exists>r \<in> set (inbox st). rid r = j \<and> rstate r = b)}"
    by (simp only: Cons.IH [OF Cons.prems] ex_row_after [OF Cons.prems])
  have "fst (update_loop st b a (i # ids)) =
      (if \<exists>r \<in> set (inbox st). rid r = i \<and> rstate r = b
       then i # fst (update_loop ?st1 b a ids) else fst (update_loop ?st1 b a ids))"
    by (simp add: Let_def split_beta list_ex_iff)
  then show ?case using rest
    by (cases "\<exists>r \<in> set (inbox st). rid r = i \<and> rstate r = b") auto
qed

lemma update_loop_distinct: "b \<noteq> a \<Longrightarrow> distinct (fst (update_loop st b a ids))"
proof (induction ids arbitrary: st)
  case Nil
  then show ?case by simp
next
  case (Cons i ids)
  let ?st1 = "set_state st (\<lambda>r. rid r = i \<and> rstate r = b) a"
  have "i \<notin> set (fst (update_loop ?st1 b a ids))"
    by (simp only: update_loop_changed [OF Cons.prems] ex_row_after [OF Cons.prems]) simp
  then show ?case using Cons by (simp add: Let_def split_beta)
qed

lemma count_releasing_eq:
  assumes "distinct (map rid (inbox st))" and "b \<noteq> []"
  shows "count_releasing st b seen ids =
    count_if (\<lambda>r. rid r \<in> set ids - set seen \<and> rstate r = b) (inbox st)"
proof (induction ids arbitrary: seen)
  case Nil
  then show ?case by (simp add: count_if_eq_0_iff)
next
  case (Cons i ids)
  show ?case
  proof (cases "i \<in> set seen")
    case True
    then show ?thesis using Cons by (auto intro!: count_if_cong)
  next
    case False
    let ?one = "count_if (\<lambda>r. rid r = i \<and> rstate r = b) (inbox st)"
    have one: "?one = (if row_state st i = b then 1 else 0)"
    proof (cases "row_state st i = b")
      case True
      then obtain r where "r \<in> set (inbox st)" "rid r = i" "rstate r = b"
        using assms(2) by (auto simp: row_state_def dest: find_row_in split: option.splits)
      then have "0 < ?one" by (auto intro: count_if_pos)
      with count_if_key_le_1 [OF assms(1), of i "\<lambda>r. rstate r = b"] True show ?thesis by simp
    next
      case no: False
      have "\<not> (rid r = i \<and> rstate r = b)" if "r \<in> set (inbox st)" for r
        using no find_row_member [OF assms(1) that] by (auto simp: row_state_def)
      with no show ?thesis by (simp add: count_if_eq_0_iff)
    qed
    have "count_if (\<lambda>r. rid r \<in> set (i # ids) - set seen \<and> rstate r = b) (inbox st)
        = count_if (\<lambda>r. (rid r = i \<and> rstate r = b)
            \<or> (rid r \<in> set ids - set (i # seen) \<and> rstate r = b)) (inbox st)"
      using False by (auto intro!: count_if_cong)
    also have "\<dots> = ?one + count_if (\<lambda>r. rid r \<in> set ids - set (i # seen) \<and> rstate r = b) (inbox st)"
      by (rule count_if_disj) auto
    finally show ?thesis using False one Cons.IH [of "i # seen"] by simp
  qed
qed

subsection \<open>Metadata\<close>

lemma meta_setMeta [simp]: "meta (setMeta st k v) k' = (if k' = k then v else meta st k')"
  by (simp add: meta_def setMeta_def)

lemma setMeta_frame [simp]:
  "inbox (setMeta st k v) = inbox st" "outbound (setMeta st k v) = outbound st"
  "find_row (setMeta st k v) = find_row st" "status (setMeta st k v) = status st"
  "rows_wf (setMeta st k v) = rows_wf st"
  by (simp_all add: setMeta_def find_row_def fun_eq_iff status_def rows_wf_def)

lemma clear_when_empty_frame [simp]:
  "inbox (clear_when_empty st) = inbox st" "outbound (clear_when_empty st) = outbound st"
  "status (clear_when_empty st) = status st" "rows_wf (clear_when_empty st) = rows_wf st"
  by (simp_all add: clear_when_empty_def)

lemma note_ack_frame:
  assumes "note_ack st = Inr st'"
  shows "inbox st' = inbox st" "outbound st' = outbound st"
    "status st' = status st" "rows_wf st' = rows_wf st"
  using assms by (auto simp: note_ack_def Let_def split: sum.splits if_splits)

subsection \<open>A successful transition\<close>

lemma transition_SomeE:
  assumes "transition st ids b a = Inr (changed, st')" and "b \<noteq> a"
  obtains "a = ''unread'' \<Longrightarrow> num_state st ''unread'' + count_releasing st b [] ids \<le> 50"
    and "changed = fst (update_loop st b a ids)"
    and "inbox st' = inbox (set_state st (\<lambda>r. rid r \<in> set ids \<and> rstate r = b) a)"
    and "outbound st' = outbound st"
proof -
  from assms(1) obtain st1 st2 where
    full: "\<not> (a = ''unread'' \<and> 50 < num_state st ''unread'' + count_releasing st b [] ids)"
    and loop: "update_loop st b a ids = (changed, st1)"
    and ack: "(if changed \<noteq> [] \<and> b = ''unread'' then note_ack st1 else Inr st1) = Inr st2"
    and st': "st' = clear_when_empty st2"
    by (auto simp: transition_def Let_def split: if_splits prod.splits sum.splits)
  have st1: "st1 = set_state st (\<lambda>r. rid r \<in> set ids \<and> rstate r = b) a"
    using loop update_loop_store [OF assms(2), of st ids] by simp
  have "inbox st2 = inbox st1" "outbound st2 = outbound st1"
    using ack note_ack_frame by (auto split: if_splits)
  with full loop st' st1 show thesis by (intro that) auto
qed

lemma status_by_rows:
  "inbox st = inbox st' \<Longrightarrow> status st = status st'"
  by (simp add: status_def find_row_def fun_eq_iff)

lemma transition_status:
  assumes "transition st ids b a = Inr (changed, st')" and "b \<noteq> a"
  shows "status st' = (\<lambda>i. if i \<in> set ids \<and> status st i = Some b then Some a else status st i)"
proof -
  have "status st' = status (set_state st (\<lambda>r. rid r \<in> set ids \<and> rstate r = b) a)"
    by (rule transition_SomeE [OF assms]) (rule status_by_rows)
  also have "\<dots> = (\<lambda>i. if i \<in> set ids \<and> status st i = Some b then Some a else status st i)"
  proof
    fix i
    show "status (set_state st (\<lambda>r. rid r \<in> set ids \<and> rstate r = b) a) i =
        (if i \<in> set ids \<and> status st i = Some b then Some a else status st i)"
      by (cases "find_row st i") (auto simp: status_def find_row_set_state dest: find_row_in)
  qed
  finally show ?thesis .
qed

lemma transition_changed:
  assumes "transition st ids b a = Inr (changed, st')" and "b \<noteq> a"
    and "distinct (map rid (inbox st))"
  shows "distinct changed" and "set changed = {i \<in> set ids. status st i = Some b}"
proof -
  have "changed = fst (update_loop st b a ids)"
    by (rule transition_SomeE [OF assms(1,2)])
  then show "distinct changed" "set changed = {i \<in> set ids. status st i = Some b}"
    using assms(2,3) by (simp_all add: update_loop_distinct update_loop_changed status_Some_iff)
qed

end
