(* ===== verification/Store_Inv.thy ===== *)
theory Store_Inv
  imports Store_Rows
begin

section \<open>The invariant of the database\<close>

text \<open>
  What is true of the three tables between operations: rows are numbered, unique and carry their
  own identifier; at most 50 messages are unread and 100 held; a pending notice implies an unread
  message; outgoing identifiers are unique.  Every operation of store.go keeps it, hence every
  interleaving of operations does (\<open>store_step\<close>, one operation per step, in any order).
\<close>

definition queue_bounds :: "store \<Rightarrow> bool" where
  "queue_bounds st \<longleftrightarrow> num_state st ''unread'' \<le> 50 \<and> num_state st ''held'' \<le> 100"

definition meta_wf :: "store \<Rightarrow> bool" where
  "meta_wf st \<longleftrightarrow> (meta st ''wake'' = GNil \<or> (\<exists>w. meta st ''wake'' = GObj w))
     \<and> (meta st ''ack_revision'' = GNil \<or> (\<exists>n \<ge> 0. meta st ''ack_revision'' = GInt n))"

definition wake_live :: "store \<Rightarrow> bool" where
  "wake_live st \<longleftrightarrow> (meta st ''wake'' = GNil \<or> 0 < num_state st ''unread'')"

definition sent_wf :: "store \<Rightarrow> bool" where
  "sent_wf st \<longleftrightarrow> distinct (map oid (outbound st))"

definition store_inv :: "store \<Rightarrow> bool" where
  "store_inv st \<longleftrightarrow> rows_wf st \<and> queue_bounds st \<and> meta_wf st \<and> wake_live st \<and> sent_wf st"

text \<open>The operations as the worker calls them.  Other callers of \<open>SetMeta\<close> (\<open>notify\<close> and
  \<open>configure\<close>) write the keys of \<open>delivery_keys\<close> only.\<close>

datatype store_op =
    DoAccept string rat obj string string
  | DoAck "string list"
  | DoRelease "string list"
  | DoDecline "string list"
  | DoExpire rat
  | DoOutgoing rat obj Peer
  | DoSent string string gval
  | DoCorrelate obj int string
  | DoBeginWake int string
  | DoFinishWake string string string
  | DoResetDelivery
  | DoSetMeta string gval

definition delivery_keys :: "string list" where
  "delivery_keys = [''delivery_error'', ''delivery_waiting'', ''retry_at'']"

inductive store_step :: "host \<Rightarrow> store_op \<Rightarrow> store \<Rightarrow> store \<Rightarrow> bool" for h :: host where
  accept: "Accept newid now st m identity state = Inr (out, st') \<Longrightarrow> newid \<noteq> [] \<Longrightarrow>
     distinct (map fst m) \<Longrightarrow> state = ''unread'' \<or> state = ''held'' \<Longrightarrow>
     store_step h (DoAccept newid now m identity state) st st'"
| ack: "Transition st ids ''unread'' ''read'' = (out, st') \<Longrightarrow> store_step h (DoAck ids) st st'"
| release: "Transition st ids ''held'' ''unread'' = (out, st') \<Longrightarrow>
     store_step h (DoRelease ids) st st'"
| decline: "Transition st ids ''held'' ''declined'' = (out, st') \<Longrightarrow>
     store_step h (DoDecline ids) st st'"
| expire: "Expire now st = (out, st') \<Longrightarrow> store_step h (DoExpire now) st st'"
| outgoing: "Outgoing now st frame peer = Inr st' \<Longrightarrow>
     store_step h (DoOutgoing now frame peer) st st'"
| sent: "state = ''sent_unconfirmed'' \<or> state = ''failed'' \<Longrightarrow>
     store_step h (DoSent mid state d) st (Sent st mid state d)"
| correlate: "store_step h (DoCorrelate frame pid start) st (Correlate h st frame pid start)"
| begin_wake: "BeginWake t st mid = (out, st') \<Longrightarrow> store_step h (DoBeginWake t mid) st st'"
| finish_wake: "FinishWake st mid state d = (out, st') \<Longrightarrow>
     store_step h (DoFinishWake mid state d) st st'"
| reset: "ResetDelivery st = (out, st') \<Longrightarrow> store_step h DoResetDelivery st st'"
| set_meta: "key \<in> set delivery_keys \<Longrightarrow> store_step h (DoSetMeta key v) st (setMeta st key v)"

inductive_cases store_stepE:
  "store_step h (DoAccept newid now m identity state) st st'"
  "store_step h (DoAck ids) st st'"
  "store_step h (DoRelease ids) st st'"
  "store_step h (DoDecline ids) st st'"
  "store_step h (DoExpire now) st st'"
  "store_step h (DoBeginWake t mid) st st'"
  "store_step h (DoFinishWake mid state d) st st'"

text \<open>The answers of the host may differ from step to step.\<close>

inductive reachable :: "store \<Rightarrow> bool" where
  start: "reachable empty_store"
| step: "reachable st \<Longrightarrow> store_step h op st st' \<Longrightarrow> reachable st'"

lemmas inv_defs = store_inv_def queue_bounds_def meta_wf_def wake_live_def sent_wf_def

lemma store_invD:
  assumes "store_inv st"
  shows "rows_wf st" "queue_bounds st" "meta_wf st" "wake_live st" "sent_wf st"
  using assms by (simp_all add: store_inv_def)

subsection \<open>The metadata of a well-formed database decodes\<close>

lemma meta_obj_ok:
  "meta_wf st \<Longrightarrow> meta_obj st ''wake'' = Inr (case meta st ''wake'' of GObj w \<Rightarrow> Some w | _ \<Rightarrow> None)"
  by (auto simp: meta_wf_def meta_obj_def)

lemma meta_int_ok:
  "meta_wf st \<Longrightarrow>
     meta_int st ''ack_revision'' = Inr (case meta st ''ack_revision'' of GInt n \<Rightarrow> n | _ \<Rightarrow> 0)"
  by (auto simp: meta_wf_def meta_int_def)

lemma meta_wf_setMeta:
  "meta_wf st \<Longrightarrow> k \<noteq> ''wake'' \<Longrightarrow> k \<noteq> ''ack_revision'' \<Longrightarrow> meta_wf (setMeta st k v)"
  "meta_wf st \<Longrightarrow> meta_wf (setMeta st ''wake'' GNil)"
  "meta_wf st \<Longrightarrow> meta_wf (setMeta st ''wake'' (GObj w))"
  "meta_wf st \<Longrightarrow> 0 \<le> n \<Longrightarrow> meta_wf (setMeta st ''ack_revision'' (GInt n))"
  by (simp_all add: meta_wf_def)

lemma meta_wf_frame: "metadata st' = metadata st \<Longrightarrow> meta_wf st \<Longrightarrow> meta_wf st'"
  by (simp add: meta_wf_def meta_def)

lemma note_ack_ok: "meta_wf st \<Longrightarrow> \<exists>st'. note_ack st = Inr st'"
  by (auto simp: note_ack_def meta_int_ok meta_obj_ok meta_wf_def Let_def meta_obj_def)

lemma note_ack_meta_wf: "meta_wf st \<Longrightarrow> note_ack st = Inr st' \<Longrightarrow> meta_wf st'"
  by (auto simp: note_ack_def Let_def meta_wf_def meta_int_def split: sum.splits if_splits)

lemma clear_when_empty_meta_wf: "meta_wf st \<Longrightarrow> meta_wf (clear_when_empty st)"
  by (simp add: clear_when_empty_def meta_wf_setMeta)

lemma clear_when_empty_live: "wake_live (clear_when_empty st)"
  by (simp add: wake_live_def clear_when_empty_def)

subsection \<open>Transitions\<close>

lemma transition_meta_wf:
  assumes "transition st ids b a = Inr (changed, st')" "b \<noteq> a" "meta_wf st"
  shows "meta_wf st'"
proof -
  from assms(1) obtain st1 st2 where loop: "update_loop st b a ids = (changed, st1)"
    and ack: "(if changed \<noteq> [] \<and> b = ''unread'' then note_ack st1 else Inr st1) = Inr st2"
    and st': "st' = clear_when_empty st2"
    by (auto simp: transition_def Let_def split: if_splits prod.splits sum.splits)
  have "st1 = set_state st (\<lambda>r. rid r \<in> set ids \<and> rstate r = b) a"
    using loop update_loop_store [OF assms(2), of st ids] by simp
  then have "metadata st1 = metadata st" by simp
  then have "meta_wf st1" using assms(3) by (rule meta_wf_frame)
  then have "meta_wf st2" using ack note_ack_meta_wf by (auto split: if_splits)
  then show ?thesis by (simp add: st' clear_when_empty_meta_wf)
qed

lemma transition_live:
  assumes "transition st ids b a = Inr (changed, st')"
  shows "wake_live st'"
  using assms
  by (auto simp: transition_def Let_def clear_when_empty_live split: if_splits prod.splits sum.splits)

lemma transition_num_state:
  assumes "transition st ids b a = Inr (changed, st')" "b \<noteq> a"
  shows "s \<noteq> a \<Longrightarrow> num_state st' s \<le> num_state st s"
    and "num_state st' a =
      num_state st a + count_if (\<lambda>r. rid r \<in> set ids \<and> rstate r = b) (inbox st)"
proof -
  have "inbox st' = inbox (set_state st (\<lambda>r. rid r \<in> set ids \<and> rstate r = b) a)"
    by (rule transition_SomeE [OF assms])
  then have n: "num_state st' s = num_state (set_state st (\<lambda>r. rid r \<in> set ids \<and> rstate r = b) a) s"
    for s by simp
  show "num_state st' s \<le> num_state st s" if "s \<noteq> a"
    unfolding n using that by (simp add: num_state_set_state) (rule count_if_mono, simp)
  show "num_state st' a =
      num_state st a + count_if (\<lambda>r. rid r \<in> set ids \<and> rstate r = b) (inbox st)"
    unfolding n using assms(2)
    by (simp add: num_state_set_state) (subst count_if_disj, auto)
qed

lemma transition_rows_wf:
  assumes "transition st ids b a = Inr (changed, st')" "b \<noteq> a" "rows_wf st"
  shows "rows_wf st'"
proof -
  have "inbox st' = inbox (set_state st (\<lambda>r. rid r \<in> set ids \<and> rstate r = b) a)"
    by (rule transition_SomeE [OF assms(1,2)])
  then have "rows_wf st' = rows_wf (set_state st (\<lambda>r. rid r \<in> set ids \<and> rstate r = b) a)"
    by (simp only: rows_wf_def)
  with assms(3) show ?thesis by simp
qed

lemma transition_queue_bounds:
  assumes "transition st ids b a = Inr (changed, st')" "b \<noteq> a" "b \<noteq> []" "a \<noteq> ''held''"
    and "rows_wf st" "queue_bounds st"
  shows "queue_bounds st'"
proof -
  have full: "num_state st ''unread'' + count_releasing st b [] ids \<le> 50" if "a = ''unread''"
    by (rule transition_SomeE [OF assms(1,2)]) (simp add: that)
  have "num_state st' ''unread'' \<le> 50"
  proof (cases "a = ''unread''")
    case True
    then show ?thesis
      using full transition_num_state(2) [OF assms(1,2)] assms(3)
        count_releasing_eq [OF rows_wf_distinct [OF assms(5)], of b "[]" ids] by simp
  next
    case False
    then have "num_state st' ''unread'' \<le> num_state st ''unread''"
      by (intro transition_num_state(1) [OF assms(1,2)]) simp
    with assms(6) show ?thesis by (simp add: queue_bounds_def)
  qed
  moreover have "num_state st' ''held'' \<le> num_state st ''held''"
    using transition_num_state(1) [OF assms(1,2), of "''held''"] assms(4) by simp
  ultimately show ?thesis using assms(6) by (simp add: queue_bounds_def)
qed

lemma transition_outbound:
  assumes "transition st ids b a = Inr (changed, st')" "b \<noteq> a"
  shows "outbound st' = outbound st"
  by (rule transition_SomeE [OF assms])

lemma transition_inv:
  assumes "transition st ids b a = Inr (changed, st')" "b \<noteq> a" "b \<noteq> []" "a \<noteq> ''held''"
    and "store_inv st"
  shows "store_inv st'"
proof -
  note inv = store_invD [OF assms(5)] and t = assms(1,2)
  have "sent_wf st'" using inv(5) by (simp add: sent_wf_def transition_outbound [OF t])
  moreover have "queue_bounds st'"
    by (rule transition_queue_bounds [OF t assms(3,4) inv(1,2)])
  ultimately show ?thesis
    using transition_rows_wf [OF t inv(1)] transition_meta_wf [OF t inv(3)]
      transition_live [OF assms(1)]
    by (simp add: store_inv_def)
qed

lemma Transition_inv:
  assumes "Transition st ids b a = (out, st')" "b \<noteq> a" "b \<noteq> []" "a \<noteq> ''held''" "store_inv st"
  shows "store_inv st'"
  using assms transition_inv
  by (auto simp: Transition_def split: sum.splits prod.splits)

subsection \<open>Accepting\<close>

lemma rowid_less_next: "r \<in> set (inbox st) \<Longrightarrow> rowid r < next_rowid st"
proof -
  have "r \<in> set xs \<Longrightarrow> rowid r \<le> foldr (\<lambda>r n. max (rowid r) n) xs 0" for xs
    by (induction xs) auto
  then show "r \<in> set (inbox st) \<Longrightarrow> rowid r < next_rowid st"
    by (simp add: next_rowid_def less_Suc_eq_le)
qed

lemma insert_rowE:
  assumes "insert_row st r = Inr st'"
  obtains "inbox st' = inbox st @ [r]" "outbound st' = outbound st" "metadata st' = metadata st"
    and "\<forall>x \<in> set (inbox st). rid x \<noteq> rid r \<and> (sender x, wire x) \<noteq> (sender r, wire r)"
  using assms by (auto simp: insert_row_def list_ex_iff split: if_splits)

lemma insert_row_rows_wf:
  assumes "insert_row st r = Inr st'" "rows_wf st" "rowid r = next_rowid st" "rid r \<noteq> []"
    and "distinct (map fst (rdata r))" "fld (rdata r) ''id'' = GStr (rid r)"
    and "fld (rdata r) ''received_at'' = GFloat (received r)"
  shows "rows_wf st'"
proof (rule insert_rowE [OF assms(1)])
  assume inb: "inbox st' = inbox st @ [r]"
    and new: "\<forall>x \<in> set (inbox st). rid x \<noteq> rid r \<and> (sender x, wire x) \<noteq> (sender r, wire r)"
  have "0 < rowid r" by (simp add: assms(3) next_rowid_def)
  moreover have "sorted_wrt (<) (map rowid (inbox st'))"
    using assms(2,3) rowid_less_next by (auto simp: inb rows_wf_def sorted_wrt_append)
  moreover have "distinct (map rid (inbox st'))"
    "distinct (map (\<lambda>r. (sender r, wire r)) (inbox st'))"
    using assms(2) new by (auto simp: inb rows_wf_def)
  ultimately show ?thesis
    using assms by (auto simp: inb rows_wf_def)
qed

lemma evict_oldestE:
  assumes "evict_oldest st = Inr (m, st')"
  obtains r where "r \<in> set (inbox st)" "rstate r = ''held''" "m = rdata r"
    and "st' = set_state st (\<lambda>x. rid x = rid r) ''expired''"
    and "\<forall>x \<in> set (inbox st). rstate x = ''held'' \<longrightarrow> received r \<le> received x"
proof -
  let ?held = "filter (\<lambda>r. rstate r = ''held'') (inbox st)"
  from assms obtain r rs where sorted: "sort_key received ?held = r # rs"
    and m: "m = rdata r" "st' = set_state st (\<lambda>x. rid x = rid r) ''expired''"
    by (auto simp: evict_oldest_def split: list.splits)
  then have "?held \<noteq> []" by auto
  from hd_sort_key_min [OF this, of received] sorted
  show thesis by (intro that [OF _ _ m]) auto
qed

lemma evict_oldest_held:
  assumes "evict_oldest st = Inr (m, st')"
  shows "num_state st' ''held'' < num_state st ''held''"
    "num_state st' ''unread'' \<le> num_state st ''unread''"
    "rows_wf st' = rows_wf st" "outbound st' = outbound st" "metadata st' = metadata st"
proof -
  obtain r where r: "r \<in> set (inbox st)" "rstate r = ''held''"
    "st' = set_state st (\<lambda>x. rid x = rid r) ''expired''"
    by (rule evict_oldestE [OF assms])
  have "0 < count_if (\<lambda>x. rstate x = ''held'' \<and> rid x = rid r) (inbox st)"
    using r by (auto intro: count_if_pos)
  then show "num_state st' ''held'' < num_state st ''held''"
    using count_if_split [of "\<lambda>x. rstate x = ''held''" "inbox st" "\<lambda>x. rid x = rid r"]
    by (simp add: r(3) num_state_set_state conj_commute)
  show "num_state st' ''unread'' \<le> num_state st ''unread''"
    by (simp add: r(3) num_state_set_state) (rule count_if_mono, simp)
  show "rows_wf st' = rows_wf st" "outbound st' = outbound st" "metadata st' = metadata st"
    by (simp_all add: r(3))
qed

lemma evict_oldest_ok: "0 < num_state st ''held'' \<Longrightarrow> \<exists>m st'. evict_oldest st = Inr (m, st')"
proof -
  assume "0 < num_state st ''held''"
  then have "filter (\<lambda>r. rstate r = ''held'') (inbox st) \<noteq> []" by (simp add: count_if_def)
  then have "sort_key received (filter (\<lambda>r. rstate r = ''held'') (inbox st)) \<noteq> []"
    by (metis set_empty set_sort)
  then show ?thesis by (auto simp: evict_oldest_def neq_Nil_conv)
qed

lemma evict_oldest_unread:
  assumes "evict_oldest st = Inr (m, st')" "rows_wf st"
  shows "num_state st' ''unread'' = num_state st ''unread''"
proof -
  obtain r where r: "r \<in> set (inbox st)" "rstate r = ''held''"
    "st' = set_state st (\<lambda>x. rid x = rid r) ''expired''"
    by (rule evict_oldestE [OF assms(1)])
  have "rid x = rid r \<Longrightarrow> x = r" if "x \<in> set (inbox st)" for x
    using distinct_map_inj [OF rows_wf_distinct [OF assms(2)] that r(1)] .
  then have "rid x = rid r \<Longrightarrow> rstate x \<noteq> ''unread''" if "x \<in> set (inbox st)" for x
    using that r(2) by fastforce
  then show ?thesis by (auto simp: r(3) num_state_set_state intro!: count_if_cong)
qed

lemma make_room_cases:
  assumes "make_room st state = Inr (evicted, st1)"
  obtains (room) "\<not> (state = ''held'' \<and> 100 \<le> num_state st state)" "evicted = None" "st1 = st"
  | (full) m where "state = ''held''" "100 \<le> num_state st ''held''" "evicted = Some m"
      "evict_oldest st = Inr (m, st1)"
proof (cases "state = ''held'' \<and> 100 \<le> num_state st state")
  case True
  with assms obtain m where "evict_oldest st = Inr (m, st1)" "evicted = Some m"
    by (cases "evict_oldest st") (auto simp: make_room_def)
  with True show thesis by (intro full) auto
next
  case False
  with assms show thesis by (intro room) (simp_all add: make_room_def)
qed

lemma make_room_frame:
  assumes "make_room st state = Inr (evicted, st1)"
  shows "rows_wf st1 = rows_wf st" "outbound st1 = outbound st" "metadata st1 = metadata st"
    "rows_wf st \<Longrightarrow> num_state st1 ''unread'' = num_state st ''unread''"
    "num_state st1 ''held'' \<le> num_state st ''held''"
    "num_state st ''held'' \<le> 100 \<Longrightarrow> state = ''held'' \<Longrightarrow> num_state st1 ''held'' < 100"
proof -
  have "(rows_wf st1 = rows_wf st \<and> outbound st1 = outbound st \<and> metadata st1 = metadata st)
    \<and> (rows_wf st \<longrightarrow> num_state st1 ''unread'' = num_state st ''unread'')
    \<and> num_state st1 ''held'' \<le> num_state st ''held''
    \<and> (num_state st ''held'' \<le> 100 \<longrightarrow> state = ''held'' \<longrightarrow> num_state st1 ''held'' < 100)"
  proof (cases rule: make_room_cases [OF assms])
    case 1
    then show ?thesis by auto
  next
    case (2 m)
    from evict_oldest_held [OF 2(4)] evict_oldest_unread [OF 2(4)] show ?thesis by auto
  qed
  then show "rows_wf st1 = rows_wf st" "outbound st1 = outbound st" "metadata st1 = metadata st"
    "rows_wf st \<Longrightarrow> num_state st1 ''unread'' = num_state st ''unread''"
    "num_state st1 ''held'' \<le> num_state st ''held''"
    "num_state st ''held'' \<le> 100 \<Longrightarrow> state = ''held'' \<Longrightarrow> num_state st1 ''held'' < 100"
    by blast+
qed

lemma Accept_cases:
  assumes "Accept newid now st message identity state = Inr ((acc, reason, evicted), st')"
  obtains (dropped) "drop_reason now st message identity state = Some reason"
      "acc = None" "evicted = None" "st' = st"
  | (stored) st1 where "drop_reason now st message identity state = None" "reason = []"
      "acc = Some (accepted_message newid now message)" "make_room st state = Inr (evicted, st1)"
      "insert_row st1 (accepted_row newid now st1 (accepted_message newid now message)
         identity state) = Inr st'"
  using assms
  by (auto simp: Accept_def Let_def split: option.splits sum.splits prod.splits)

lemma accepted_message_wf:
  assumes "distinct (map fst message)"
  shows "distinct (map fst (accepted_message newid now message))"
    "fld (accepted_message newid now message) ''id'' = GStr newid"
    "fld (accepted_message newid now message) ''received_at'' = GFloat now"
    "k \<noteq> ''id'' \<Longrightarrow> k \<noteq> ''received_at'' \<Longrightarrow>
      fld (accepted_message newid now message) k = fld message k"
  using assms by (simp_all add: accepted_message_def clone_eq distinct_keys_update)

lemma Accept_inv:
  assumes acc: "Accept newid now st m identity state = Inr (out, st')" and inv: "store_inv st"
    and new: "newid \<noteq> []" "distinct (map fst m)" and state: "state = ''unread'' \<or> state = ''held''"
  shows "store_inv st'"
proof -
  obtain a r e where out: "out = (a, r, e)" by (cases out)
  show ?thesis
  proof (cases rule: Accept_cases [OF acc [unfolded out]])
    case 1
    then show ?thesis using inv by simp
  next
    case (2 st1)
    let ?r = "accepted_row newid now st1 (accepted_message newid now m) identity state"
    note ins = 2(5) and room = make_room_frame [OF 2(4)] and inv' = store_invD [OF inv]
    have wf: "rows_wf st'"
      by (rule insert_row_rows_wf [OF ins])
        (use room(1) inv'(1) new in \<open>simp_all add: accepted_row_def accepted_message_wf\<close>)
    have st': "inbox st' = inbox st1 @ [?r]" "outbound st' = outbound st" "metadata st' = metadata st"
      by (rule insert_rowE [OF ins], simp add: room(2,3))+
    have n: "num_state st' s = num_state st1 s + (if s = state then 1 else 0)" for s
      by (simp add: st' accepted_row_def)
    have "state = ''unread'' \<Longrightarrow> num_state st ''unread'' < 50"
      using 2(1) by (auto simp: drop_reason_def Let_def split: if_splits)
    then have q: "queue_bounds st'"
      using inv'(2) room(4) [OF inv'(1)] room(5,6) state by (auto simp: queue_bounds_def n)
    have "metadata st1 = metadata st" "meta st' = meta st"
      using room(3) st' by (simp_all add: meta_def fun_eq_iff)
    moreover have "num_state st ''unread'' \<le> num_state st' ''unread''"
      using room(4) inv'(1) by (simp add: n)
    ultimately have "wake_live st'" using inv'(4) by (auto simp: wake_live_def)
    with wf q inv' st' show ?thesis
      by (auto simp: store_inv_def sent_wf_def intro: meta_wf_frame)
  qed
qed

subsection \<open>Expiry\<close>

text \<open>The three deletions of \<open>Expire\<close> as one: settled rows only, unread and held rows stay.\<close>

lemma delete_keeps:
  assumes "inbox st' = filter P (inbox st)" "metadata st' = metadata st"
    and "\<forall>r \<in> set (inbox st). \<not> P r \<longrightarrow> settled r"
    and "outbound st' = filter Q (outbound st)" and "store_inv st"
  shows "store_inv st'"
proof -
  note inv = store_invD [OF assms(5)]
  have n: "num_state st' s = num_state st s" if "s = ''unread'' \<or> s = ''held''" for s
    unfolding assms(1) count_if_filter using assms(3) that
    by (intro count_if_cong) (auto simp: settled_def)
  have "rows_wf st'"
    using inv(1) unfolding rows_wf_def assms(1)
    by (auto intro: sorted_wrt_map_filter distinct_map_filter)
  moreover have "sent_wf st'"
    using inv(5) by (simp add: sent_wf_def assms(4) distinct_map_filter)
  moreover have "meta st' = meta st" by (simp add: meta_def assms(2) fun_eq_iff)
  ultimately show ?thesis
    using inv(2,3,4) by (simp add: store_inv_def queue_bounds_def wake_live_def meta_wf_def n)
qed

lemma overflow_settled:
  assumes "rows_wf st" "r \<in> set (inbox st)" "rid r \<in> set (overflow_ids st)"
  shows "settled r"
proof -
  from assms(3) obtain x where "x \<in> set (filter settled (inbox st))" "rid x = rid r"
    by (auto simp: overflow_ids_def dest!: in_set_dropD)
  with distinct_map_inj [OF rows_wf_distinct [OF assms(1)], of x r] assms(2)
  show ?thesis by auto
qed

lemma delete_old_inv: "store_inv st \<Longrightarrow> store_inv (delete_old now st)"
  by (rule delete_keeps [where Q = "\<lambda>_. True"]) (auto simp: delete_old_def)

lemma delete_overflow_inv: "store_inv st \<Longrightarrow> store_inv (delete_overflow st)"
  by (rule delete_keeps [where Q = "\<lambda>_. True" and P = "\<lambda>r. rid r \<notin> set (overflow_ids st)"])
    (auto simp: delete_overflow_def Let_def intro: overflow_settled store_invD)

lemma delete_sent_inv: "store_inv st \<Longrightarrow> store_inv (delete_sent now st)"
  by (rule delete_keeps [where P = "\<lambda>_. True"]) (auto simp: delete_sent_def)

lemma Expire_inv:
  assumes "Expire now st = (out, st')" "store_inv st"
  shows "store_inv st'"
proof (cases "out")
  case (Inl e)
  with assms show ?thesis
    by (auto simp: Expire_def Let_def split: sum.splits prod.splits)
next
  case (Inr old)
  with assms(1) obtain ids c st1 where "transition st ids ''held'' ''expired'' = Inr (c, st1)"
    and st': "st' = delete_sent now (delete_overflow (delete_old now st1))"
    by (auto simp: Expire_def Let_def split: sum.splits prod.splits)
  with assms(2) have "store_inv st1" by (auto elim: transition_inv)
  then show ?thesis by (simp add: st' delete_old_inv delete_overflow_inv delete_sent_inv)
qed

subsection \<open>Outgoing messages\<close>

lemma outbound_only_inv:
  "inbox st' = inbox st \<Longrightarrow> metadata st' = metadata st \<Longrightarrow> sent_wf st' \<Longrightarrow> store_inv st \<Longrightarrow>
     store_inv st'"
  by (simp add: inv_defs rows_wf_def meta_def)

lemma set_sent_frame [simp]:
  "inbox (set_sent st sel s d) = inbox st" "metadata (set_sent st sel s d) = metadata st"
  "map oid (outbound (set_sent st sel s d)) = map oid (outbound st)"
  by (simp_all add: set_sent_def o_def if_distrib cong: if_cong)

lemma set_sent_inv [simp]: "store_inv st \<Longrightarrow> store_inv (set_sent st sel s d)"
  by (rule outbound_only_inv [where st = st]) (simp_all add: store_inv_def sent_wf_def)

lemma Outgoing_inv: "Outgoing now st frame peer = Inr st' \<Longrightarrow> store_inv st \<Longrightarrow> store_inv st'"
  by (rule outbound_only_inv [where st = st])
    (force simp: Outgoing_def store_inv_def sent_wf_def list_ex_iff split: if_splits)+

lemma Sent_inv: "store_inv st \<Longrightarrow> store_inv (Sent st mid s d)"
  by (simp add: Sent_def)

lemma correlate_one_inv: "store_inv st \<Longrightarrow> store_inv (correlate_one h frame pid start st item)"
  by (simp add: correlate_one_def split: gval.splits option.splits)

lemma foldl_keeps: "P a \<Longrightarrow> (\<And>a x. P a \<Longrightarrow> P (f a x)) \<Longrightarrow> P (foldl f a xs)"
  by (induction xs arbitrary: a) auto

lemma Correlate_inv: "store_inv st \<Longrightarrow> store_inv (Correlate h st frame pid start)"
  by (simp add: Correlate_def Let_def foldl_keeps correlate_one_inv)

subsection \<open>Notices\<close>

lemma setMeta_inv:
  "store_inv st \<Longrightarrow> k \<noteq> ''wake'' \<Longrightarrow> k \<noteq> ''ack_revision'' \<Longrightarrow> store_inv (setMeta st k v)"
  "store_inv st \<Longrightarrow> store_inv (setMeta st ''wake'' GNil)"
  "store_inv st \<Longrightarrow> 0 < num_state st ''unread'' \<Longrightarrow> store_inv (setMeta st ''wake'' (GObj w))"
  by (simp_all add: store_inv_def queue_bounds_def wake_live_def sent_wf_def meta_wf_setMeta)

lemma BeginWake_inv: "BeginWake t st mid = (out, st') \<Longrightarrow> store_inv st \<Longrightarrow> store_inv st'"
  by (auto simp: BeginWake_def Let_def split: sum.splits if_splits intro: setMeta_inv(3))

lemma FinishWake_inv: "FinishWake st mid s d = (out, st') \<Longrightarrow> store_inv st \<Longrightarrow> store_inv st'"
  by (auto simp: FinishWake_def Let_def split: sum.splits if_splits option.splits
      intro: setMeta_inv(2,3))

lemma ResetDelivery_inv:
  assumes "ResetDelivery st = (out, st')" "store_inv st"
  shows "store_inv st'"
proof -
  have "st' = st \<or> st' = foldl (\<lambda>s key. setMeta s key GNil) st
      [''retry_at'', ''delivery_waiting'', ''delivery_error'']"
    using assms(1) by (cases "meta_obj st ''wake''")
      (auto simp: ResetDelivery_def split: option.splits)
  with assms(2) show ?thesis by (elim disjE) (simp_all add: setMeta_inv(1))
qed

subsection \<open>Every reachable database\<close>

lemma store_step_inv: "store_step h op st st' \<Longrightarrow> store_inv st \<Longrightarrow> store_inv st'"
proof (induction rule: store_step.induct)
  case (accept newid now st m identity state out st')
  show ?case by (rule Accept_inv [OF accept(1) accept(5) accept(2,3,4)])
next
  case (set_meta key st v)
  then show ?case by (auto simp: delivery_keys_def intro: setMeta_inv(1))
qed (auto elim: Transition_inv Expire_inv Outgoing_inv BeginWake_inv FinishWake_inv
    ResetDelivery_inv intro: Sent_inv Correlate_inv)

lemma empty_store_inv: "store_inv empty_store"
  by (simp add: inv_defs empty_store_def rows_wf_def meta_def)

lemma reachable_inv: "reachable st \<Longrightarrow> store_inv st"
  by (induction rule: reachable.induct) (auto intro: empty_store_inv store_step_inv)

end
