(* ===== verification/Message_States.thy ===== *)
theory Message_States
  imports Store_Inv
begin

section \<open>The life of one message\<close>

text \<open>
  The states a message goes through, over every operation of the store.  The interface
  \<open>message_states\<close> is what the worker's client operations (acknowledge, release, decline) rely on;
  the store's \<open>transition\<close> provides it.
\<close>

text \<open>The edges of the life cycle; \<open>None\<close> is a message that is not in the inbox.\<close>

definition life_edges :: "(string option \<times> string option) list" where
  "life_edges =
     [(None, Some ''unread''), (None, Some ''held''),
      (Some ''held'', Some ''unread''), (Some ''held'', Some ''declined''),
      (Some ''held'', Some ''expired''), (Some ''unread'', Some ''read''),
      (Some ''read'', None), (Some ''declined'', None), (Some ''expired'', None),
      (Some ''held'', None)]"

locale message_states =
  fixes inv :: "'s \<Rightarrow> bool"
    and status :: "'s \<Rightarrow> string \<Rightarrow> string option"
    and move :: "'s \<Rightarrow> string list \<Rightarrow> string \<Rightarrow> string \<Rightarrow> (string list \<times> 's) res"
  assumes move_status: "move s ids b a = Inr (changed, s') \<Longrightarrow> b \<noteq> a \<Longrightarrow>
      status s' = (\<lambda>i. if i \<in> set ids \<and> status s i = Some b then Some a else status s i)"
    and move_changed: "move s ids b a = Inr (changed, s') \<Longrightarrow> b \<noteq> a \<Longrightarrow> inv s \<Longrightarrow>
      distinct changed \<and> set changed = {i \<in> set ids. status s i = Some b}"
    and move_inv: "move s ids b a = Inr (changed, s') \<Longrightarrow> b \<noteq> a \<Longrightarrow> b \<noteq> [] \<Longrightarrow> a \<noteq> ''held'' \<Longrightarrow>
      inv s \<Longrightarrow> inv s'"
begin

lemma move_again:
  assumes "move s ids b a = Inr (changed, s')" "b \<noteq> a" "b \<noteq> []" "a \<noteq> ''held''" "inv s"
    and "set ids' \<subseteq> set ids" "move s' ids' b a = Inr (changed', s'')"
  shows "changed' = [] \<and> status s'' = status s'"
proof -
  have none: "\<not> (i \<in> set ids' \<and> status s' i = Some b)" for i
    using move_status [OF assms(1,2)] assms(2,6) by auto
  moreover have "set changed' = {i \<in> set ids'. status s' i = Some b}"
    using move_changed [OF assms(7,2)] move_inv [OF assms(1-5)] by simp
  ultimately have "set changed' = {}" by auto
  then have "changed' = []" by simp
  moreover have "status s'' = status s'"
    unfolding move_status [OF assms(7,2)] using none by (intro ext) auto
  ultimately show ?thesis by simp
qed

text \<open>Two competing decisions on a message: the first one wins.\<close>

lemma move_exclusive:
  assumes "move s ids b a = Inr (changed, s')" "b \<noteq> a" "b \<noteq> []" "a \<noteq> ''held''" "inv s"
    and "move s' ids' b a' = Inr (changed', s'')" "b \<noteq> a'"
  shows "set changed \<inter> set changed' = {}"
    and "i \<in> set changed \<Longrightarrow> status s'' i = Some a"
proof -
  have c: "set changed = {i \<in> set ids. status s i = Some b}"
    using move_changed [OF assms(1,2,5)] by simp
  have "set changed' = {i \<in> set ids'. status s' i = Some b}"
    using move_changed [OF assms(6,7)] move_inv [OF assms(1-5)] by simp
  then show "set changed \<inter> set changed' = {}"
    using c move_status [OF assms(1,2)] assms(2) by auto
  show "status s'' i = Some a" if "i \<in> set changed"
    using that c assms(2) by (simp add: move_status [OF assms(6,7)] move_status [OF assms(1,2)])
qed

end

interpretation inbox: message_states store_inv status transition
proof unfold_locales
  show "status s' = (\<lambda>i. if i \<in> set ids \<and> status s i = Some b then Some a else status s i)"
    if "transition s ids b a = Inr (changed, s')" "b \<noteq> a" for s ids b a changed s'
    using that by (rule transition_status)
  show "distinct changed \<and> set changed = {i \<in> set ids. status s i = Some b}"
    if "transition s ids b a = Inr (changed, s')" "b \<noteq> a" "store_inv s" for s ids b a changed s'
    using transition_changed [OF that(1,2)] rows_wf_distinct [OF store_invD(1) [OF that(3)]] by simp
  show "store_inv s'"
    if "transition s ids b a = Inr (changed, s')" "b \<noteq> a" "b \<noteq> []" "a \<noteq> ''held''" "store_inv s"
    for s ids b a changed s'
    using that by (rule transition_inv)
qed

subsection \<open>Status after each operation\<close>

lemma status_append:
  "distinct (map rid (inbox st @ [r])) \<Longrightarrow> inbox st' = inbox st @ [r] \<Longrightarrow>
     status st' = (status st)(rid r \<mapsto> rstate r)"
proof -
  have find_append: "List.find P (xs @ ys) = (case List.find P xs of None \<Rightarrow> List.find P ys | Some x \<Rightarrow> Some x)"
    for P :: "row \<Rightarrow> bool" and xs ys by (induction xs) auto
  assume d: "distinct (map rid (inbox st @ [r]))" and st': "inbox st' = inbox st @ [r]"
  have "find_row st (rid r) = None" using d by (auto simp: find_row_None)
  then show ?thesis
    by (auto simp: fun_eq_iff status_def find_row_def st' find_append split: option.splits)
qed

lemma status_evict:
  assumes "evict_oldest st = Inr (m, st')" "rows_wf st"
  obtains i where "status st i = Some ''held''" "status st' = (status st)(i \<mapsto> ''expired'')"
    "fld m ''id'' = GStr i"
proof -
  obtain r where r: "r \<in> set (inbox st)" "rstate r = ''held''" "m = rdata r"
    "st' = set_state st (\<lambda>x. rid x = rid r) ''expired''"
    by (rule evict_oldestE [OF assms(1)])
  have f: "find_row st (rid r) = Some r"
    using find_row_member [OF rows_wf_distinct [OF assms(2)] r(1)] .
  show thesis
  proof (rule that [of "rid r"])
    show "status st (rid r) = Some ''held''" using f r(2) by (simp add: status_def)
    show "status st' = (status st)(rid r \<mapsto> ''expired'')"
    proof
      fix i
      show "status st' i = ((status st)(rid r \<mapsto> ''expired'')) i"
        using f by (cases "find_row st i") (auto simp: status_def r(4) find_row_set_state dest: find_row_in)
    qed
    show "fld m ''id'' = GStr (rid r)" using r(1,3) assms(2) by (simp add: rows_wf_def)
  qed
qed

lemma status_filter:
  assumes "inbox st' = filter P (inbox st)" "rows_wf st" "\<forall>r \<in> set (inbox st). \<not> P r \<longrightarrow> settled r"
  shows "status st' i = status st i \<or>
    status st' i = None \<and> (\<exists>s. status st i = Some s \<and> s \<noteq> ''unread'' \<and> s \<noteq> ''held'')"
proof (cases "find_row st i")
  case None
  then have "find_row st' i = None" using assms(1) by (auto simp: find_row_None)
  with None show ?thesis by (simp add: status_def)
next
  case (Some r)
  then have r: "r \<in> set (inbox st)" "rid r = i" by (auto dest: find_row_in)
  have d: "distinct (map rid (inbox st'))"
    using rows_wf_distinct [OF assms(2)] by (simp add: assms(1) distinct_map_filter)
  show ?thesis
  proof (cases "P r")
    case True
    then have "r \<in> set (inbox st')" using r assms(1) by simp
    from find_row_member [OF d this] Some r show ?thesis by (simp add: status_def)
  next
    case False
    have "i \<notin> rid ` set (inbox st')"
      using distinct_map_inj [OF rows_wf_distinct [OF assms(2)] r(1)] False r(2) assms(1) by auto
    then have "find_row st' i = None" by (simp add: find_row_None)
    moreover have "settled r" using assms(3) False r(1) by simp
    ultimately show ?thesis using Some by (auto simp: status_def settled_def)
  qed
qed

subsection \<open>Every step follows an edge\<close>

definition state_names :: "string list" where
  "state_names = [''unread'', ''held'', ''read'', ''declined'', ''expired'']"

definition states_ok :: "store \<Rightarrow> bool" where
  "states_ok st \<longleftrightarrow> (\<forall>i s. status st i = Some s \<longrightarrow> s \<in> set state_names)"

definition follows :: "string option \<Rightarrow> string option \<Rightarrow> bool" where
  "follows a b \<longleftrightarrow> a = b \<or> (a, b) \<in> set life_edges"

lemma follows_refl [simp]: "follows a a"
  by (simp add: follows_def)

lemma follows_new: "s = ''unread'' \<or> s = ''held'' \<Longrightarrow> follows None (Some s)"
  by (auto simp: follows_def life_edges_def)

lemma follows_expired: "follows (Some ''held'') (Some ''expired'')" "follows (Some ''held'') None"
  by (simp_all add: follows_def life_edges_def)

lemma follows_settled:
  "s \<in> set state_names \<Longrightarrow> s \<noteq> ''unread'' \<Longrightarrow> s \<noteq> ''held'' \<Longrightarrow> follows (Some s) None"
  by (auto simp: follows_def life_edges_def state_names_def)

lemma Accept_status:
  assumes "Accept newid now st m identity state = Inr ((acc, reason, evicted), st')" "store_inv st"
    and "state = ''unread'' \<or> state = ''held''"
  shows "follows (status st i) (status st' i)"
proof (cases rule: Accept_cases [OF assms(1)])
  case 1
  then show ?thesis by simp
next
  case (2 st1)
  let ?r = "accepted_row newid now st1 (accepted_message newid now m) identity state"
  note inv = store_invD [OF assms(2)]
  have wf1: "rows_wf st1" using make_room_frame(1) [OF 2(4)] inv(1) by simp
  have app: "inbox st' = inbox st1 @ [?r]" by (rule insert_rowE [OF 2(5)])
  have new: "newid \<notin> rid ` set (inbox st1)"
    by (rule insert_rowE [OF 2(5)]) (auto simp: accepted_row_def)
  then have after: "status st' = (status st1)(newid \<mapsto> state)"
    using status_append [OF _ app] rows_wf_distinct [OF wf1] by (simp add: accepted_row_def)
  have none: "status st1 newid = None"
    using new by (simp add: status_def find_row_None)
  have room: "status st1 = status st \<or> (\<exists>j. status st j = Some ''held''
      \<and> status st1 = (status st)(j \<mapsto> ''expired''))"
  proof (cases rule: make_room_cases [OF 2(4)])
    case (2 e)
    obtain j where "status st j = Some ''held''" "status st1 = (status st)(j \<mapsto> ''expired'')"
      by (rule status_evict [OF 2(4) inv(1)])
    then show ?thesis by blast
  qed simp
  show ?thesis
  proof (cases "i = newid")
    case True
    have "status st newid = None" using room none by (auto simp del: not_None_eq split: if_splits)
    with True after assms(3) show ?thesis by (simp add: follows_new)
  next
    case False
    then have "status st' i = status st1 i" by (simp add: after)
    with room show ?thesis by (auto simp: follows_expired)
  qed
qed

lemma transition_follows:
  assumes "Transition st ids b a = (out, st')" "(Some b, Some a) \<in> set life_edges" "b \<noteq> a"
  shows "follows (status st i) (status st' i)"
proof (cases "transition st ids b a")
  case (Inl e)
  with assms(1) show ?thesis by (simp add: Transition_def)
next
  case (Inr res)
  then obtain changed st1 where t: "transition st ids b a = Inr (changed, st1)" by (cases res) simp
  with assms(1) have "st' = st1" by (simp add: Transition_def)
  then show ?thesis using transition_status [OF t assms(3)] assms(2) by (simp add: follows_def)
qed

lemma purge_rows:
  assumes "store_inv st"
  obtains keep where "\<And>r. r \<in> set (inbox st) \<Longrightarrow> \<not> keep r \<Longrightarrow> settled r"
    and "inbox (delete_sent now (delete_overflow (delete_old now st))) = filter keep (inbox st)"
proof
  let ?gone = "set (overflow_ids (delete_old now st))"
  let ?keep = "\<lambda>r. \<not> (settled r \<and> received r < now - 604800) \<and> rid r \<notin> ?gone"
  show "inbox (delete_sent now (delete_overflow (delete_old now st))) = filter ?keep (inbox st)"
    by (auto simp: delete_sent_def delete_overflow_def Let_def delete_old_def intro: filter_cong)
  show "settled r" if r: "r \<in> set (inbox st)" "\<not> ?keep r" for r
  proof (rule ccontr)
    assume ns: "\<not> settled r"
    then have "r \<in> set (inbox (delete_old now st))" using r(1) by (simp add: delete_old_def)
    from overflow_settled [OF store_invD(1) [OF delete_old_inv [OF assms]] this] ns r(2)
    show False by auto
  qed
qed

lemma Expire_status:
  assumes "Expire now st = (out, st')" "store_inv st" "states_ok st"
  shows "follows (status st i) (status st' i)"
proof (cases out)
  case (Inl e)
  with assms(1) show ?thesis
    by (auto simp: Expire_def Let_def split: sum.splits prod.splits)
next
  case (Inr old)
  with assms(1) obtain ids c st1 where t: "transition st ids ''held'' ''expired'' = Inr (c, st1)"
    and st': "st' = delete_sent now (delete_overflow (delete_old now st1))"
    by (auto simp: Expire_def Let_def split: sum.splits prod.splits)
  have inv1: "store_inv st1" by (rule transition_inv [OF t]) (simp_all add: assms(2))
  obtain keep where "\<And>r. r \<in> set (inbox st1) \<Longrightarrow> \<not> keep r \<Longrightarrow> settled r"
    and inb: "inbox st' = filter keep (inbox st1)"
    using purge_rows [OF inv1, of now] st' by metis
  then have "status st' i = status st1 i \<or> status st' i = None
      \<and> (\<exists>s. status st1 i = Some s \<and> s \<noteq> ''unread'' \<and> s \<noteq> ''held'')"
    by (intro status_filter [OF inb store_invD(1) [OF inv1]]) auto
  moreover have "status st1 i = status st i
      \<or> status st i = Some ''held'' \<and> status st1 i = Some ''expired''"
    by (simp add: transition_status [OF t])
  moreover have "status st i = Some s \<Longrightarrow> s \<in> set state_names" for s
    using assms(3) by (simp add: states_ok_def)
  ultimately show ?thesis by (auto intro: follows_expired follows_settled)
qed

text \<open>Operations on outgoing messages and notices leave the inbox alone.\<close>

lemma correlate_one_inbox: "inbox (correlate_one h frame pid start st item) = inbox st"
  by (simp add: correlate_one_def split: gval.splits option.splits)

lemma Correlate_inbox: "inbox (Correlate h st frame pid start) = inbox st"
  by (simp add: Correlate_def Let_def foldl_keeps [where P = "\<lambda>s. inbox s = inbox st"]
      correlate_one_inbox)

lemma BeginWake_inbox: "BeginWake t st mid = (out, st') \<Longrightarrow> inbox st' = inbox st"
  by (auto simp: BeginWake_def Let_def split: sum.splits if_splits)

lemma FinishWake_inbox: "FinishWake st mid s d = (out, st') \<Longrightarrow> inbox st' = inbox st"
  by (auto simp: FinishWake_def Let_def split: sum.splits if_splits option.splits)

lemma ResetDelivery_inbox: "ResetDelivery st = (out, st') \<Longrightarrow> inbox st' = inbox st"
  by (cases "meta_obj st ''wake''") (auto simp: ResetDelivery_def split: option.splits)

lemma Outgoing_inbox: "Outgoing now st frame peer = Inr st' \<Longrightarrow> inbox st' = inbox st"
  by (auto simp: Outgoing_def split: if_splits)

lemma Sent_inbox: "inbox (Sent st mid s d) = inbox st"
  by (simp add: Sent_def)

lemma life_edges_moves:
  "(Some ''unread'', Some ''read'') \<in> set life_edges"
  "(Some ''held'', Some ''unread'') \<in> set life_edges"
  "(Some ''held'', Some ''declined'') \<in> set life_edges"
  by (simp_all add: life_edges_def)

lemma store_step_follows:
  "store_step h op st st' \<Longrightarrow> store_inv st \<Longrightarrow> states_ok st \<Longrightarrow> follows (status st i) (status st' i)"
proof (induction rule: store_step.induct)
  case (accept newid now st m identity state out st')
  obtain a r e where "out = (a, r, e)" by (cases out)
  with accept show ?case using Accept_status [of newid now st m identity state a r e st'] by simp
next
  case (ack st ids out st')
  show ?case by (rule transition_follows [OF ack(1) life_edges_moves(1)]) simp
next
  case (release st ids out st')
  show ?case by (rule transition_follows [OF release(1) life_edges_moves(2)]) simp
next
  case (decline st ids out st')
  show ?case by (rule transition_follows [OF decline(1) life_edges_moves(3)]) simp
next
  case (expire now st out st')
  show ?case by (rule Expire_status [OF expire])
qed (simp_all add: status_by_rows [OF Correlate_inbox] status_by_rows [OF Sent_inbox]
    status_by_rows [OF Outgoing_inbox] status_by_rows [OF BeginWake_inbox]
    status_by_rows [OF FinishWake_inbox] status_by_rows [OF ResetDelivery_inbox])

lemma follows_state: "follows a b \<Longrightarrow> \<forall>s. a = Some s \<longrightarrow> s \<in> set state_names \<Longrightarrow>
    b = Some s \<Longrightarrow> s \<in> set state_names"
  by (auto simp: follows_def life_edges_def state_names_def)

lemma reachable_states_ok: "reachable st \<Longrightarrow> states_ok st"
proof (induction rule: reachable.induct)
  case start
  then show ?case by (simp add: states_ok_def status_def find_row_def empty_store_def)
next
  case (step st h op st')
  have "follows (status st i) (status st' i)" for i
    using step reachable_inv store_step_follows by blast
  with step(3) show ?case unfolding states_ok_def using follows_state by blast
qed

end
