(* ===== verification/Inbox.thy ===== *)
theory Inbox
  imports Message_States "HOL-Library.Multiset"
begin

section \<open>Whole operations on the inbox\<close>

text \<open>
  The theorems about accepting, deciding on and expiring messages, over the invariant of
  \<open>Store_Inv\<close> and the interface \<open>message_states\<close>.
\<close>

subsection \<open>A concrete database\<close>

definition sample_message :: obj where
  "sample_message = [(''wire_id'', GStr ''w1''), (''body'', GStr ''hello''), (''from'', GStr ''uds:/s'')]"

definition sample_row :: "nat \<Rightarrow> string \<Rightarrow> rat \<Rightarrow> string \<Rightarrow> row" where
  "sample_row n mid t state =
     \<lparr>rowid = n, rid = mid, wire = mid, sender = ''7:1'', received = t, rstate = state,
      rdata = [(''body'', GStr mid), (''wire_id'', GStr mid), (''id'', GStr mid), (''received_at'', GFloat t)]\<rparr>"

definition sample_store :: store where
  "sample_store = empty_store\<lparr>inbox :=
     [sample_row 1 ''a'' 10 ''held'', sample_row 2 ''b'' 50 ''unread'', sample_row 3 ''c'' 900 ''held'']\<rparr>"

lemma sample_store_inv: "store_inv sample_store"
  by (simp add: inv_defs rows_wf_def sample_store_def sample_row_def empty_store_def meta_def fld_def)

subsection \<open>Accepting\<close>

lemma make_room_ok: "\<exists>evicted st1. make_room st state = Inr (evicted, st1)"
proof (cases "state = ''held'' \<and> 100 \<le> num_state st state")
  case True
  then have "0 < num_state st ''held''" by auto
  from evict_oldest_ok [OF this] True show ?thesis by (auto simp: make_room_def)
next
  case False
  then have "make_room st state = Inr (None, st)" unfolding make_room_def by (rule if_not_P)
  then show ?thesis by blast
qed

abbreviation blank :: "row \<Rightarrow> row" where
  "blank r \<equiv> r\<lparr>rstate := []\<rparr>"

lemma make_room_blank:
  assumes "make_room st state = Inr (evicted, st1)"
  shows "map blank (inbox st1) = map blank (inbox st)"
proof (cases rule: make_room_cases [OF assms])
  case (2 m)
  obtain r where "r \<in> set (inbox st)" "st1 = set_state st (\<lambda>x. rid x = rid r) ''expired''"
    by (rule evict_oldestE [OF 2(4)])
  then show ?thesis by (simp add: set_state_def o_def if_distrib cong: if_cong)
qed simp

lemma count_if_blank:
  assumes "map blank xs = map blank ys" and "\<And>r. P (blank r) = P r"
  shows "count_if P xs = count_if P ys"
proof -
  have "count_if P zs = count_if P (map blank zs)" for zs
    by (simp add: count_if_map o_def assms(2))
  with assms(1) show ?thesis by metis
qed

lemma insert_row_ok:
  assumes "drop_reason now st m identity state = None" "newid \<notin> rid ` set (inbox st)"
    and "make_room st state = Inr (evicted, st1)" "distinct (map fst m)"
  shows "insert_row st1 (accepted_row newid now st1 (accepted_message newid now m) identity state) =
    Inr (st1\<lparr>inbox := inbox st1 @
      [accepted_row newid now st1 (accepted_message newid now m) identity state]\<rparr>)"
proof -
  let ?r = "accepted_row newid now st1 (accepted_message newid now m) identity state"
  let ?clash = "\<lambda>x. rid x = newid \<or> sender x = identity \<and> wire x = str m ''wire_id''"
  have "count_if ?clash (inbox st) = 0"
    using assms(1,2) by (auto simp: count_if_eq_0_iff list_ex_iff drop_reason_def split: if_splits)
  then have "count_if ?clash (inbox st1) = 0"
    using count_if_blank [OF make_room_blank [OF assms(3)], of ?clash] by simp
  moreover have "str (accepted_message newid now m) ''wire_id'' = str m ''wire_id''"
    using assms(4) by (simp add: str_def accepted_message_wf)
  ultimately have "\<not> list_ex (\<lambda>x. rid x = rid ?r \<or> sender x = sender ?r \<and> wire x = wire ?r) (inbox st1)"
    by (auto simp: accepted_row_def list_ex_iff count_if_eq_0_iff)
  then show ?thesis unfolding insert_row_def by (rule if_not_P)
qed

lemma Get_append:
  assumes "distinct (map rid (inbox st @ [r]))" "inbox st' = inbox st @ [r]"
  shows "Get st' (rid r) = Some (set_fld (rdata r) ''state'' (GStr (rstate r)))"
  using find_row_member [of st' r] assms by (simp add: Get_def)

lemma Accept_result:
  assumes "store_inv st" and "drop_reason now st m identity state = None"
    and "newid \<notin> rid ` set (inbox st)" and "distinct (map fst m)"
  shows "\<exists>evicted st'. Accept newid now st m identity state =
      Inr ((Some (accepted_message newid now m), [], evicted), st')
    \<and> Get st' newid = Some (set_fld (accepted_message newid now m) ''state'' (GStr state))
    \<and> (case evicted of
         None \<Rightarrow> status st' = (status st)(newid \<mapsto> state)
       | Some old \<Rightarrow> state = ''held'' \<and> num_state st ''held'' = 100
           \<and> (\<exists>r \<in> set (inbox st). rdata r = old \<and> rstate r = ''held''
                \<and> (\<forall>x \<in> set (inbox st). rstate x = ''held'' \<longrightarrow> received r \<le> received x)
                \<and> status st' = (status st)(rid r \<mapsto> ''expired'', newid \<mapsto> state)))"
proof -
  note inv = store_invD [OF assms(1)]
  obtain evicted st1 where room: "make_room st state = Inr (evicted, st1)" using make_room_ok by blast
  let ?a = "accepted_message newid now m"
  let ?r = "accepted_row newid now st1 ?a identity state"
  define st' where "st' = st1\<lparr>inbox := inbox st1 @ [?r]\<rparr>"
  have acc: "Accept newid now st m identity state = Inr ((Some ?a, [], evicted), st')"
    using insert_row_ok [OF assms(2,3) room assms(4)] assms(2) room
    by (simp add: Accept_def Let_def st'_def)
  have "map rid (inbox st1) = map rid (inbox st)"
    using arg_cong [OF make_room_blank [OF room], of "map rid"] by (simp add: o_def)
  then have d: "distinct (map rid (inbox st1 @ [?r]))"
    using assms(3) rows_wf_distinct [OF inv(1)] by (simp add: accepted_row_def flip: set_map)
  have get: "Get st' newid = Some (set_fld ?a ''state'' (GStr state))"
    using Get_append [OF d, of st'] by (simp add: st'_def accepted_row_def)
  have status: "status st' = (status st1)(newid \<mapsto> state)"
    using status_append [OF d, of st'] by (simp add: st'_def accepted_row_def)
  show ?thesis
  proof (cases rule: make_room_cases [OF room])
    case 1
    with acc get status show ?thesis by (intro exI [of _ evicted] exI [of _ st']) simp
  next
    case (2 old)
    obtain r where r: "r \<in> set (inbox st)" "rstate r = ''held''" "old = rdata r"
      "st1 = set_state st (\<lambda>x. rid x = rid r) ''expired''"
      "\<forall>x \<in> set (inbox st). rstate x = ''held'' \<longrightarrow> received r \<le> received x"
      by (rule evict_oldestE [OF 2(4)])
    obtain i where i: "status st1 = (status st)(i \<mapsto> ''expired'')" "fld old ''id'' = GStr i"
      by (rule status_evict [OF 2(4) inv(1)])
    have "i = rid r" using i(2) r(1,3) inv(1) by (simp add: rows_wf_def)
    moreover have "num_state st ''held'' = 100" using 2(2) inv(2) by (simp add: queue_bounds_def)
    ultimately show ?thesis using acc get status 2 i(1) r(1,2,3,5)
      by (intro exI [of _ evicted] exI [of _ st']) auto
  qed
qed

text \<open>A message that no check drops is stored: \<open>Accept\<close> returns no error, the message can be read
  back under its new identifier with the state it was accepted in, and no other message changes,
  except that a full held queue expires its oldest message, which is returned as evicted.\<close>

theorem accept_stores:
  assumes "store_inv st" and "drop_reason now st m identity state = None"
    and "newid \<notin> rid ` set (inbox st)" and "distinct (map fst m)"
  shows "\<exists>evicted st'. Accept newid now st m identity state =
      Inr ((Some (accepted_message newid now m), [], evicted), st')
    \<and> Get st' newid = Some (set_fld (accepted_message newid now m) ''state'' (GStr state))
    \<and> (case evicted of
         None \<Rightarrow> status st' = (status st)(newid \<mapsto> state)
       | Some old \<Rightarrow> state = ''held'' \<and> num_state st ''held'' = 100
           \<and> (\<exists>r \<in> set (inbox st). rdata r = old \<and> rstate r = ''held''
                \<and> (\<forall>x \<in> set (inbox st). rstate x = ''held'' \<longrightarrow> received r \<le> received x)
                \<and> status st' = (status st)(rid r \<mapsto> ''expired'', newid \<mapsto> state)))"
  by (rule Accept_result [OF assms])

theorem accept_stores_witness:
  "\<exists>evicted st'. Accept ''m1'' 100 empty_store sample_message ''7:1'' ''held'' =
      Inr ((Some (accepted_message ''m1'' 100 sample_message), [], evicted), st')
    \<and> Get st' ''m1'' = Some (set_fld (accepted_message ''m1'' 100 sample_message) ''state'' (GStr ''held''))"
proof -
  have "drop_reason 100 empty_store sample_message ''7:1'' ''held'' = None"
    by (simp add: drop_reason_def empty_store_def)
  from accept_stores [OF empty_store_inv this, of "''m1''"] show ?thesis
    by (force simp: empty_store_def sample_message_def)
qed

text \<open>The rate limit: after a message is stored, its sender has at most twenty messages less than ten
  seconds old in the inbox, and no two of the recent ones have the body that was just stored.\<close>

theorem accept_rate_limit:
  assumes "Accept newid now st m identity state = Inr ((Some a, reason, evicted), st')"
    and "distinct (map fst m)"
  shows "count_if (\<lambda>r. sender r = identity \<and> now - 10 < received r) (inbox st') \<le> 20
    \<and> count_if (\<lambda>r. (sender r = identity \<and> now - 10 < received r)
         \<and> fld (rdata r) ''body'' = fld m ''body'') (inbox st') = 1"
proof (cases rule: Accept_cases [OF assms(1)])
  case 1
  then show ?thesis by simp
next
  case (2 st1)
  let ?r = "accepted_row newid now st1 (accepted_message newid now m) identity state"
  let ?recent = "\<lambda>r. sender r = identity \<and> now - 10 < received r"
  let ?same = "\<lambda>r. ?recent r \<and> fld (rdata r) ''body'' = fld m ''body''"
  have inb: "inbox st' = inbox st1 @ [?r]" by (rule insert_rowE [OF 2(5)])
  have few: "count_if ?recent (inbox st) < 20" and new: "count_if ?same (inbox st) = 0"
    using 2(1) by (auto simp: drop_reason_def Let_def count_if_eq_0_iff list_ex_iff count_if_def
        split: if_splits)
  have "count_if ?recent (inbox st1) = count_if ?recent (inbox st)"
    "count_if ?same (inbox st1) = count_if ?same (inbox st)"
    by (rule count_if_blank [OF make_room_blank [OF 2(4)]]; simp)+
  moreover have "fld (rdata ?r) ''body'' = fld m ''body''"
    using assms(2) by (simp add: accepted_row_def accepted_message_wf)
  ultimately show ?thesis using few new by (simp add: inb accepted_row_def)
qed

theorem accept_rate_limit_witness:
  "\<exists>st' :: store. count_if (\<lambda>r. sender r = ''7:1'' \<and> (100::rat) - 10 < received r) (inbox st') \<le> 20
     \<and> inbox st' \<noteq> []"
proof -
  obtain a e st' where "Accept ''m1'' 100 empty_store sample_message ''7:1'' ''held'' =
      Inr ((Some a, [], e), st')" "inbox st' \<noteq> []"
    by (simp add: Accept_def drop_reason_def empty_store_def make_room_def insert_row_def Let_def)
  then show ?thesis
    using accept_rate_limit [of "''m1''" 100 empty_store sample_message "''7:1''" "''held''" a "[]" e st']
    by (intro exI [of _ st']) (simp add: sample_message_def)
qed

subsection \<open>Deciding\<close>

lemma num_named:
  assumes "distinct (map rid (inbox st))"
  shows "count_if (\<lambda>r. rid r \<in> set ids \<and> rstate r = b) (inbox st) =
    card {i \<in> set ids. status st i = Some b}"
proof -
  let ?rs = "filter (\<lambda>r. rid r \<in> set ids \<and> rstate r = b) (inbox st)"
  have "{i \<in> set ids. status st i = Some b} = set (map rid ?rs)"
    using status_Some_iff [OF assms] by auto
  moreover have "distinct (map rid ?rs)" using assms by (rule distinct_map_filter)
  ultimately show ?thesis using distinct_card [of "map rid ?rs"] by (simp only: count_if_def length_map)
qed

lemma transition_ok:
  assumes "store_inv st" "b \<noteq> a" "b \<noteq> []"
    and "\<not> (a = ''unread'' \<and> 50 < num_state st ''unread'' + card {i \<in> set ids. status st i = Some b})"
  obtains changed st' where "transition st ids b a = Inr (changed, st')"
proof -
  have wf: "distinct (map rid (inbox st))" using assms(1) by (auto simp: store_inv_def)
  obtain changed st1 where loop: "update_loop st b a ids = (changed, st1)" by fastforce
  then have "st1 = set_state st (\<lambda>r. rid r \<in> set ids \<and> rstate r = b) a"
    using update_loop_store [OF assms(2), of st ids] by simp
  then have "metadata st1 = metadata st" by simp
  then have "meta_wf st1" using store_invD(3) [OF assms(1)] by (rule meta_wf_frame)
  then obtain st2 where "(if changed \<noteq> [] \<and> b = ''unread'' then note_ack st1 else Inr st1) = Inr st2"
    using note_ack_ok by (cases "changed \<noteq> [] \<and> b = ''unread''") auto
  moreover have "\<not> (a = ''unread'' \<and> 50 < num_state st ''unread'' + count_releasing st b [] ids)"
    using assms(4) by (simp add: count_releasing_eq [OF wf assms(3)] num_named [OF wf])
  ultimately have "transition st ids b a = Inr (changed, clear_when_empty st2)"
    unfolding transition_def using loop by simp
  then show thesis by (rule that)
qed

text \<open>C6. \<open>transition\<close> fails exactly when it would make more than fifty messages unread, each named
  message counted once; otherwise it moves exactly the named messages that are in the state it
  starts from, reports each of them once, and changes no other message.\<close>

theorem transition_spec:
  assumes "store_inv st" and "b \<noteq> a" and "b \<noteq> []"
  shows "if a = ''unread'' \<and> 50 < num_state st ''unread'' + card {i \<in> set ids. status st i = Some b}
    then \<exists>e. Transition st ids b a = (Inl e, st)
    else \<exists>changed st'. Transition st ids b a = (Inr changed, st') \<and> distinct changed
      \<and> set changed = {i \<in> set ids. status st i = Some b}
      \<and> status st' = (\<lambda>i. if i \<in> set changed then Some a else status st i)"
proof (cases "a = ''unread'' \<and> 50 < num_state st ''unread'' + card {i \<in> set ids. status st i = Some b}")
  case True
  have wf: "distinct (map rid (inbox st))" using assms(1) by (auto simp: store_inv_def)
  have "transition st ids b a = Inl (Failure ''accepted inbox is full; acknowledge messages first'')"
    using True by (simp add: transition_def count_releasing_eq [OF wf assms(3)] num_named [OF wf])
  with True show ?thesis by (simp add: Transition_def)
next
  case False
  obtain changed st' where t: "transition st ids b a = Inr (changed, st')"
    by (rule transition_ok [OF assms False])
  note c = inbox.move_changed [OF t assms(2,1)]
  have "status st' = (\<lambda>i. if i \<in> set changed then Some a else status st i)"
    using inbox.move_status [OF t assms(2)] c by simp
  then have "\<exists>changed st'. Transition st ids b a = (Inr changed, st') \<and> distinct changed
      \<and> set changed = {i \<in> set ids. status st i = Some b}
      \<and> status st' = (\<lambda>i. if i \<in> set changed then Some a else status st i)"
    using c t by (intro exI [of _ changed] exI [of _ st']) (simp add: Transition_def)
  then show ?thesis by (simp only: False if_False)
qed

theorem transition_spec_witness:
  "\<exists>changed st'. Transition sample_store [''a'', ''b'', ''a'', ''z''] ''held'' ''unread'' = (Inr changed, st')
     \<and> set changed = {''a''} \<and> status st' ''a'' = Some ''unread'' \<and> status st' ''b'' = Some ''unread''"
proof -
  have s: "{i \<in> set [''a'', ''b'', ''a'', ''z'']. status sample_store i = Some ''held''} = {''a''}"
    and n: "num_state sample_store ''unread'' = 1" and b: "status sample_store ''b'' = Some ''unread''"
    by (auto simp: status_def find_row_def sample_store_def sample_row_def)
  from transition_spec [OF sample_store_inv, of "''held''" "''unread''" "[''a'', ''b'', ''a'', ''z'']"]
  obtain changed st' where
    "Transition sample_store [''a'', ''b'', ''a'', ''z''] ''held'' ''unread'' = (Inr changed, st')"
    and c: "set changed = {''a''}"
    and st': "status st' = (\<lambda>i. if i \<in> set changed then Some ''unread'' else status sample_store i)"
    unfolding s n by auto
  then show ?thesis using b by (intro exI conjI) (assumption, simp_all)
qed

text \<open>Two decisions that start from the same state, such as releasing and declining a held message,
  never both take effect on a message: what the first one changed the second one does not.\<close>

theorem decisions_exclusive:
  assumes "store_inv st"
    and "transition st ids ''held'' ''unread'' = Inr (released, st')"
    and "transition st' ids' ''held'' ''declined'' = Inr (declined, st'')"
  shows "set released \<inter> set declined = {}
    \<and> (\<forall>i \<in> set released. status st'' i = Some ''unread'')"
  using inbox.move_exclusive [OF assms(2) _ _ _ assms(1) assms(3)] by simp

theorem decisions_exclusive_witness:
  "\<exists>released st' declined st''. transition sample_store [''a''] ''held'' ''unread'' = Inr (released, st')
     \<and> transition st' [''a'', ''c''] ''held'' ''declined'' = Inr (declined, st'')
     \<and> set released \<inter> set declined = {}"
proof -
  obtain released st' where r: "transition sample_store [''a''] ''held'' ''unread'' = Inr (released, st')"
    by (rule transition_ok [OF sample_store_inv, of "''held''" "''unread''" "[''a'']"])
      (simp_all add: status_def find_row_def sample_store_def sample_row_def)
  have "store_inv st'" by (rule transition_inv [OF r]) (simp_all add: sample_store_inv)
  then obtain declined st'' where d: "transition st' [''a'', ''c''] ''held'' ''declined'' = Inr (declined, st'')"
    by (rule transition_ok [of st' "''held''" "''declined''" "[''a'', ''c'']"]) simp_all
  from decisions_exclusive [OF sample_store_inv r d] r d show ?thesis by blast
qed

subsection \<open>Expiry\<close>

text \<open>The limit of 100 in the scan of \<open>Expire\<close> covers the whole held queue.\<close>

lemma Expire_scan:
  assumes "store_inv st"
  shows "readRows st ''held'' [] 100 =
    Inr (map (\<lambda>r. set_fld (rdata r) ''state'' (GStr (rstate r)))
      (filter (\<lambda>r. rstate r = ''held'') (inbox st)))"
proof -
  have "filter (\<lambda>r. rstate r = ''held'' \<and> 0 < rowid r) (inbox st) = filter (\<lambda>r. rstate r = ''held'') (inbox st)"
    using store_invD(1) [OF assms] by (intro filter_cong) (auto simp: rows_wf_def)
  moreover have "length (filter (\<lambda>r. rstate r = ''held'') (inbox st)) \<le> 100"
    using store_invD(2) [OF assms] by (simp add: queue_bounds_def count_if_def)
  ultimately show ?thesis by (simp add: readRows_def cursor_row_def select_rows_def)
qed

lemma expired_scan:
  assumes "rows_wf st"
  shows "expired_items now (map (\<lambda>r. set_fld (rdata r) ''state'' (GStr (rstate r)))
      (filter (\<lambda>r. rstate r = ''held'') (inbox st))) =
    map (\<lambda>r. set_fld (rdata r) ''state'' (GStr (rstate r)))
      (filter (\<lambda>r. rstate r = ''held'' \<and> received r < now - 300) (inbox st))"
proof -
  have n: "number (set_fld (rdata r) ''state'' (GStr s)) ''received_at'' now = received r"
    if "r \<in> set (inbox st)" for r s
    using that assms by (simp add: number_def rows_wf_def)
  show ?thesis
    unfolding expired_items_def filter_map filter_filter o_def
    by (rule arg_cong [where f = "map _"], rule filter_cong) (auto simp: n)
qed

lemma delete_overflow_settled:
  assumes "distinct (map rid (inbox st))"
  shows "count_if settled (inbox (delete_overflow st)) \<le> 1000"
proof -
  let ?ys = "sort_key (\<lambda>r. - received r) (filter settled (inbox st))"
  let ?left = "filter settled (inbox (delete_overflow st))"
  have "mset (map rid ?ys) = mset (map rid (filter settled (inbox st)))" by simp
  then have dy: "distinct (map rid ?ys)"
    using distinct_map_filter [OF assms] by (metis mset_eq_imp_distinct_iff)
  have "set ?left \<subseteq> set (take 1000 ?ys)"
  proof
    fix r assume "r \<in> set ?left"
    then have r: "r \<in> set ?ys" "rid r \<notin> rid ` set (drop 1000 ?ys)"
      by (auto simp: delete_overflow_def overflow_ids_def Let_def)
    then show "r \<in> set (take 1000 ?ys)"
      by (metis Un_iff append_take_drop_id image_eqI set_append)
  qed
  then have "card (set ?left) \<le> card (set (take 1000 ?ys))" by (intro card_mono) simp_all
  also have "\<dots> \<le> length (take 1000 ?ys)" by (rule card_length)
  finally have "card (set ?left) \<le> 1000" by simp
  moreover have "distinct ?left"
    using assms by (auto simp: delete_overflow_def Let_def distinct_map)
  ultimately show ?thesis unfolding count_if_def by (simp only: distinct_card)
qed

lemma filter_filter_id: "(\<And>x. x \<in> set xs \<Longrightarrow> P x \<Longrightarrow> K x) \<Longrightarrow> filter P (filter K xs) = filter P xs"
  by (induction xs) auto

lemma filter_map_id:
  "(\<And>x. x \<in> set xs \<Longrightarrow> P (f x) \<Longrightarrow> f x = x) \<Longrightarrow> filter P (map f xs) = filter (\<lambda>x. P (f x)) xs"
  by (induction xs) auto

lemma Expire_runs:
  fixes now :: rat
  assumes "store_inv st"
  defines "old \<equiv> filter (\<lambda>r. rstate r = ''held'' \<and> received r < now - 300) (inbox st)"
  obtains st1 where "store_inv st1"
    and "Expire now st = (Inr (map (\<lambda>r. set_fld (rdata r) ''state'' (GStr (rstate r))) old),
      delete_sent now (delete_overflow (delete_old now st1)))"
    and "inbox st1 = map (\<lambda>r. if r \<in> set old then r\<lparr>rstate := ''expired''\<rparr> else r) (inbox st)"
proof -
  let ?msgs = "map (\<lambda>r. set_fld (rdata r) ''state'' (GStr (rstate r))) old"
  note wf = store_invD(1) [OF assms(1)]
  have ids: "map (\<lambda>m. str m ''id'') ?msgs = map rid old"
    using wf by (auto simp: old_def str_def rows_wf_def)
  obtain c st1 where t: "transition st (map rid old) ''held'' ''expired'' = Inr (c, st1)"
    by (rule transition_ok [OF assms(1), of "''held''" "''expired''"]) simp_all
  have "inbox st1 = inbox (set_state st (\<lambda>r. rid r \<in> set (map rid old) \<and> rstate r = ''held'') ''expired'')"
    by (rule transition_SomeE [OF t]) simp_all
  moreover have "rid r \<in> set (map rid old) \<and> rstate r = ''held'' \<longleftrightarrow> r \<in> set old"
    if "r \<in> set (inbox st)" for r
    using distinct_map_inj [OF rows_wf_distinct [OF wf] that] that by (auto simp: old_def)
  ultimately have "inbox st1 =
      map (\<lambda>r. if r \<in> set old then r\<lparr>rstate := ''expired''\<rparr> else r) (inbox st)"
    by (simp add: set_state_def)
  moreover have "Expire now st = (Inr ?msgs, delete_sent now (delete_overflow (delete_old now st1)))"
    unfolding Expire_def Expire_scan [OF assms(1)] expired_scan [OF wf] Let_def sum.case
      old_def [symmetric] ids t by simp
  moreover have "store_inv st1" by (rule transition_inv [OF t]) (simp_all add: assms(1))
  ultimately show thesis by (intro that)
qed

text \<open>Rows that are still held or unread after \<open>Expire\<close>.\<close>

lemma purge_live:
  assumes "store_inv st1" "s = ''unread'' \<or> s = ''held''"
    and "inbox st1 = map (\<lambda>r. if r \<in> old then r\<lparr>rstate := ''expired''\<rparr> else r) (inbox st)"
  shows "filter (\<lambda>r. rstate r = s) (inbox (delete_sent now (delete_overflow (delete_old now st1)))) =
    filter (\<lambda>r. rstate r = s \<and> r \<notin> old) (inbox st)"
proof -
  obtain keep where keep: "\<And>r. r \<in> set (inbox st1) \<Longrightarrow> \<not> keep r \<Longrightarrow> settled r"
    "inbox (delete_sent now (delete_overflow (delete_old now st1))) = filter keep (inbox st1)"
    using purge_rows [OF assms(1), of now] by metis
  have "filter (\<lambda>r. rstate r = s) (filter keep (inbox st1)) = filter (\<lambda>r. rstate r = s) (inbox st1)"
    using keep(1) assms(2) by (intro filter_filter_id) (auto simp: settled_def)
  also have "\<dots> = filter (\<lambda>r. rstate r = s \<and> r \<notin> old) (inbox st)"
    unfolding assms(3) using assms(2) by (subst filter_map_id) (auto intro!: filter_cong)
  finally show ?thesis unfolding keep(2) .
qed

text \<open>\<open>Expire\<close> never fails on a well-formed database.  The messages it returns are exactly those held
  for more than five minutes, in arrival order; afterwards none is left held that long, the other
  held and the unread messages are untouched, and at most a thousand settled messages remain.\<close>

theorem expire_spec:
  assumes "store_inv st"
  shows "\<exists>old st'. Expire now st = (Inr old, st')
    \<and> map (\<lambda>m. str m ''id'') old =
        map rid (filter (\<lambda>r. rstate r = ''held'' \<and> received r < now - 300) (inbox st))
    \<and> filter (\<lambda>r. rstate r = ''held'') (inbox st') =
        filter (\<lambda>r. rstate r = ''held'' \<and> now - 300 \<le> received r) (inbox st)
    \<and> filter (\<lambda>r. rstate r = ''unread'') (inbox st') = filter (\<lambda>r. rstate r = ''unread'') (inbox st)
    \<and> count_if settled (inbox st') \<le> 1000"
proof -
  let ?old = "filter (\<lambda>r. rstate r = ''held'' \<and> received r < now - 300) (inbox st)"
  obtain st1 where inv1: "store_inv st1"
    and run: "Expire now st = (Inr (map (\<lambda>r. set_fld (rdata r) ''state'' (GStr (rstate r))) ?old),
      delete_sent now (delete_overflow (delete_old now st1)))"
    and inb1: "inbox st1 = map (\<lambda>r. if r \<in> set ?old then r\<lparr>rstate := ''expired''\<rparr> else r) (inbox st)"
    by (rule Expire_runs [OF assms])
  define st' where "st' = delete_sent now (delete_overflow (delete_old now st1))"
  note live = purge_live [OF inv1 _ inb1, where now = now, folded st'_def]
  have "filter (\<lambda>r. rstate r = ''held'') (inbox st') =
      filter (\<lambda>r. rstate r = ''held'' \<and> now - 300 \<le> received r) (inbox st)"
    unfolding live [OF disjI2 [OF refl]] by (intro filter_cong) auto
  moreover have "filter (\<lambda>r. rstate r = ''unread'') (inbox st') = filter (\<lambda>r. rstate r = ''unread'') (inbox st)"
    unfolding live [OF disjI1 [OF refl]] by (intro filter_cong) auto
  moreover have "count_if settled (inbox st') \<le> 1000"
    using delete_overflow_settled [OF rows_wf_distinct [OF store_invD(1) [OF delete_old_inv [OF inv1]]]]
    by (simp add: st'_def delete_sent_def)
  moreover have "map (\<lambda>m. str m ''id'') (map (\<lambda>r. set_fld (rdata r) ''state'' (GStr (rstate r))) ?old) =
      map rid ?old"
    using store_invD(1) [OF assms] by (auto simp: str_def rows_wf_def)
  ultimately show ?thesis using run [folded st'_def] by blast
qed

theorem expire_spec_witness:
  "\<exists>old st'. Expire 1000 sample_store = (Inr old, st') \<and> map (\<lambda>m. str m ''id'') old = [''a'']
     \<and> filter (\<lambda>r. rstate r = ''unread'') (inbox st') = [sample_row 2 ''b'' 50 ''unread'']"
  using expire_spec [OF sample_store_inv, of 1000]
  by (elim exE conjE, intro exI conjI) (assumption, simp_all add: sample_store_def sample_row_def)

subsection \<open>Every reachable database\<close>

definition bare_host :: host where
  "bare_host = \<lparr>goos = ''linux'', ps_output = \<lambda>_. Inl (Failure ''exit status 1''), kill_esrch = \<lambda>_. True,
     read_file = \<lambda>_. Inl NotExist, read_link = \<lambda>_. Inl NotExist\<rparr>"

lemma sample_step:
  obtains st' where
    "store_step bare_host (DoAccept ''m1'' 100 sample_message ''7:1'' ''held'') empty_store st'"
    and "status st' ''m1'' = Some ''held''"
proof -
  have "drop_reason 100 empty_store sample_message ''7:1'' ''held'' = None"
    by (simp add: drop_reason_def empty_store_def)
  then obtain st' where
    acc: "Accept ''m1'' 100 empty_store sample_message ''7:1'' ''held'' =
      Inr ((Some (accepted_message ''m1'' 100 sample_message), [], None), st')"
    and st': "inbox st' = [accepted_row ''m1'' 100 empty_store
      (accepted_message ''m1'' 100 sample_message) ''7:1'' ''held'']"
    by (simp add: Accept_def make_room_def insert_row_def Let_def empty_store_def)
  show thesis
  proof (rule that)
    show "store_step bare_host (DoAccept ''m1'' 100 sample_message ''7:1'' ''held'') empty_store st'"
      by (rule store_step.accept [OF acc]) (simp_all add: sample_message_def)
    show "status st' ''m1'' = Some ''held''"
      by (simp add: status_def find_row_def st' accepted_row_def)
  qed
qed

text \<open>C2. Whatever operations run, in whatever order: at most fifty messages are unread and a hundred held,
  message identifiers and (sender, wire identifier) pairs are unique, a pending notice implies an
  unread message, and every message is in one of the five states.\<close>

theorem reachable_bounds:
  assumes "reachable st"
  shows "num_state st ''unread'' \<le> 50 \<and> num_state st ''held'' \<le> 100
    \<and> distinct (map rid (inbox st)) \<and> distinct (map (\<lambda>r. (sender r, wire r)) (inbox st))
    \<and> (meta st ''wake'' = GNil \<or> 0 < num_state st ''unread'')
    \<and> (\<forall>r \<in> set (inbox st). rstate r \<in> set state_names)"
proof -
  note inv = store_invD [OF reachable_inv [OF assms]]
  have "rstate r \<in> set state_names" if "r \<in> set (inbox st)" for r
    using reachable_states_ok [OF assms] that find_row_member [OF rows_wf_distinct [OF inv(1)] that]
    by (auto simp: states_ok_def status_def)
  with inv show ?thesis by (auto simp: queue_bounds_def rows_wf_def wake_live_def)
qed

theorem reachable_bounds_witness:
  "\<exists>st. reachable st \<and> inbox st \<noteq> [] \<and> num_state st ''unread'' \<le> 50 \<and> num_state st ''held'' \<le> 100"
proof -
  obtain st' where s: "store_step bare_host (DoAccept ''m1'' 100 sample_message ''7:1'' ''held'') empty_store st'"
    "status st' ''m1'' = Some ''held''" by (rule sample_step)
  then have r: "reachable st'" by (intro reachable.step [OF reachable.start s(1)])
  from s(2) have "inbox st' \<noteq> []" by (auto simp: status_def find_row_def)
  with reachable_bounds [OF r] r show ?thesis by blast
qed

text \<open>C7. One operation moves a message at most along one edge of its life cycle: it arrives unread or held,
  a held message is released, declined or expired, an unread one is read, and only a message that
  is neither unread nor held (or has just expired) is ever deleted.\<close>

theorem life_cycle:
  assumes "reachable st" and "store_step h op st st'"
  shows "status st' i = status st i \<or> (status st i, status st' i) \<in> set life_edges"
  using store_step_follows [OF assms(2) reachable_inv [OF assms(1)] reachable_states_ok [OF assms(1)], of i]
  by (auto simp: follows_def)

theorem life_cycle_witness:
  "\<exists>st'. store_step bare_host (DoAccept ''m1'' 100 sample_message ''7:1'' ''held'') empty_store st'
     \<and> (status empty_store ''m1'', status st' ''m1'') \<in> set life_edges"
proof -
  obtain st' where s: "store_step bare_host (DoAccept ''m1'' 100 sample_message ''7:1'' ''held'') empty_store st'"
    "status st' ''m1'' = Some ''held''" by (rule sample_step)
  have "status empty_store ''m1'' = None" by (simp add: status_def find_row_def empty_store_def)
  with life_cycle [OF reachable.start s(1), of "''m1''"] s show ?thesis by auto
qed

end
