(* ===== verification/Wake.thy ===== *)
theory Wake
  imports Inbox
begin

section \<open>Wake notices\<close>

text \<open>
  The notice that tells the session about unread messages is a latch in the metadata: \<open>BeginWake\<close>
  sets it before the app-server is asked to show the notice, \<open>FinishWake\<close> records the outcome, and
  acknowledging messages clears a notice that was shown.  A notice whose outcome is unknown is
  never issued again by itself.
\<close>

definition notice :: "store \<Rightarrow> obj option" where
  "notice st = (case meta st ''wake'' of GObj w \<Rightarrow> Some w | _ \<Rightarrow> None)"

definition uncertain :: "obj \<Rightarrow> bool" where
  "uncertain w \<longleftrightarrow> fld w ''needs_manual_action'' = GBool True"

text \<open>The only operation that decides the outcome of the notice with this identifier.\<close>

definition resolves :: "store_op \<Rightarrow> string \<Rightarrow> bool" where
  "resolves op i \<longleftrightarrow> (case op of DoFinishWake mid _ _ \<Rightarrow> mid = i | _ \<Rightarrow> False)"

locale notice_latch =
  fixes inv :: "'s \<Rightarrow> bool" and unread :: "'s \<Rightarrow> nat" and pending :: "'s \<Rightarrow> 'n option"
    and open_notice :: "'s \<Rightarrow> string \<Rightarrow> 'n option res \<times> 's"
    and step :: "'e \<Rightarrow> 's \<Rightarrow> 's \<Rightarrow> bool" and decides :: "'e \<Rightarrow> 'n \<Rightarrow> bool" and unsure :: "'n \<Rightarrow> bool"
  assumes step_inv: "step e s s' \<Longrightarrow> inv s \<Longrightarrow> inv s'"
    and opened: "inv s \<Longrightarrow> open_notice s i = (out, s') \<Longrightarrow>
      (if 0 < unread s \<and> pending s = None then \<exists>w. out = Inr (Some w) \<and> pending s' = Some w \<and> unsure w
       else out = Inr None \<and> s' = s)"
    and latched: "step e s s' \<Longrightarrow> inv s \<Longrightarrow> pending s = Some w \<Longrightarrow> unsure w \<Longrightarrow> \<not> decides e w \<Longrightarrow>
      0 < unread s' \<Longrightarrow> pending s' = Some w"
begin

text \<open>Any run of operations that neither decides the outcome nor empties the unread queue.\<close>

abbreviation undecided_run :: "'n \<Rightarrow> 's \<Rightarrow> 's \<Rightarrow> bool" where
  "undecided_run w \<equiv> (\<lambda>s s'. \<exists>e. step e s s' \<and> \<not> decides e w \<and> 0 < unread s')\<^sup>*\<^sup>*"

lemma undecided_run_keeps:
  assumes "undecided_run w s s'" "inv s" "pending s = Some w" "unsure w"
  shows "pending s' = Some w \<and> inv s'"
  using assms(1)
proof (induction rule: rtranclp_induct)
  case base
  then show ?case using assms by simp
next
  case (step s1 s2)
  then obtain e where e: "step e s1 s2" "\<not> decides e w" "0 < unread s2" by blast
  show ?case using latched [OF e(1) _ _ assms(4) e(2,3)] step_inv [OF e(1)] step.IH by simp
qed

lemma no_second_notice:
  assumes "inv s" "open_notice s i = (Inr (Some w), s1)" "inv s1"
    and "undecided_run w s1 s2" "open_notice s2 j = (out, s3)"
  shows "out = Inr None \<and> s3 = s2"
proof -
  have "pending s1 = Some w \<and> unsure w"
    using opened [OF assms(1,2)] by (auto split: if_splits)
  with undecided_run_keeps [OF assms(4,3)] have "pending s2 = Some w" "inv s2" by auto
  with opened [OF _ assms(5)] show ?thesis by simp
qed

end

subsection \<open>The store provides the latch\<close>

lemma notice_meta: "meta_wf st \<Longrightarrow> meta st ''wake'' = (case notice st of None \<Rightarrow> GNil | Some w \<Rightarrow> GObj w)"
  by (auto simp: notice_def meta_wf_def)

lemma meta_obj_notice: "meta_wf st \<Longrightarrow> meta_obj st ''wake'' = Inr (notice st)"
  by (auto simp: notice_def meta_wf_def meta_obj_def)

lemma notice_setMeta [simp]:
  "notice (setMeta st ''wake'' GNil) = None" "notice (setMeta st ''wake'' (GObj w)) = Some w"
  "k \<noteq> ''wake'' \<Longrightarrow> notice (setMeta st k v) = notice st"
  by (simp_all add: notice_def)

lemma notice_frame: "metadata st' = metadata st \<Longrightarrow> notice st' = notice st"
  by (simp add: notice_def meta_def)

text \<open>The revision counts the acknowledgements that changed something.\<close>

definition revision :: "store \<Rightarrow> int" where
  "revision st = (case meta st ''ack_revision'' of GInt n \<Rightarrow> n | _ \<Rightarrow> 0)"

lemma meta_int_revision: "meta_wf st \<Longrightarrow> meta_int st ''ack_revision'' = Inr (revision st)"
  by (auto simp: revision_def meta_wf_def meta_int_def)

lemma revision_setMeta [simp]:
  "k \<noteq> ''ack_revision'' \<Longrightarrow> revision (setMeta st k v) = revision st"
  "revision (setMeta st ''ack_revision'' (GInt n)) = n"
  by (simp_all add: revision_def)

lemma BeginWake_eq:
  assumes "store_inv st"
  shows "BeginWake t st mid =
    (if 0 < num_state st ''unread'' \<and> notice st = None
     then (Inr (Some (new_wake mid (revision st) t)), setMeta st ''wake'' (GObj (new_wake mid (revision st) t)))
     else (Inr None, st))"
  using store_invD(3) [OF assms]
  by (simp add: BeginWake_def meta_obj_notice meta_int_revision Let_def)

lemma note_ack_eq:
  assumes "meta_wf st"
  shows "note_ack st = Inr (let st1 = setMeta st ''ack_revision'' (GInt (revision st + 1)) in
    case notice st of
      Some w \<Rightarrow> if fld w ''submitted'' = GBool True \<and> \<not> uncertain w then setMeta st1 ''wake'' GNil else st1
    | None \<Rightarrow> st1)"
proof -
  have "meta_obj (setMeta st ''ack_revision'' v) ''wake'' = Inr (notice st)" for v
    using assms by (simp add: meta_obj_def notice_def meta_wf_def split: gval.splits) auto
  then show ?thesis
    using assms by (simp add: note_ack_def meta_int_revision Let_def uncertain_def fld_def split: option.splits)
qed

lemma transition_metadata:
  assumes "transition st ids b a = Inr (changed, st')" "b \<noteq> a" "meta_wf st"
  obtains st2 where "notice st' = (if num_state st' ''unread'' = 0 then None else notice st2)"
    and "revision st' = revision st2" "meta_wf st2"
    and "if changed \<noteq> [] \<and> b = ''unread'' then
        (\<exists>st1. note_ack st1 = Inr st2 \<and> metadata st1 = metadata st) else metadata st2 = metadata st"
proof -
  from assms(1) obtain st1 st2 where loop: "update_loop st b a ids = (changed, st1)"
    and ack: "(if changed \<noteq> [] \<and> b = ''unread'' then note_ack st1 else Inr st1) = Inr st2"
    and st': "st' = clear_when_empty st2"
    by (auto simp: transition_def Let_def split: if_splits prod.splits sum.splits)
  have "st1 = set_state st (\<lambda>r. rid r \<in> set ids \<and> rstate r = b) a"
    using loop update_loop_store [OF assms(2), of st ids] by simp
  then have m1: "metadata st1 = metadata st" by simp
  then have "meta_wf st1" using assms(3) by (rule meta_wf_frame)
  then have "meta_wf st2" using ack note_ack_meta_wf by (auto split: if_splits)
  with ack m1 st' show thesis
    by (intro that [of st2]) (auto simp: clear_when_empty_def split: if_splits)
qed

lemma note_ack_latched:
  "note_ack st = Inr st' \<Longrightarrow> meta_wf st \<Longrightarrow> notice st = Some w \<Longrightarrow> uncertain w \<Longrightarrow> notice st' = Some w"
  by (auto simp: note_ack_eq Let_def)

lemma transition_latched:
  assumes "transition st ids b a = Inr (changed, st')" "b \<noteq> a" "meta_wf st"
    and "notice st = Some w" "uncertain w" "0 < num_state st' ''unread''"
  shows "notice st' = Some w"
proof (rule transition_metadata [OF assms(1-3)])
  fix st2
  assume n: "notice st' = (if num_state st' ''unread'' = 0 then None else notice st2)"
    and st2: "if changed \<noteq> [] \<and> b = ''unread'' then
        (\<exists>st1. note_ack st1 = Inr st2 \<and> metadata st1 = metadata st) else metadata st2 = metadata st"
  have "notice st2 = Some w"
  proof (cases "changed \<noteq> [] \<and> b = ''unread''")
    case True
    with st2 obtain st1 where st1: "note_ack st1 = Inr st2" "metadata st1 = metadata st" by auto
    show ?thesis
      using note_ack_latched [OF st1(1) meta_wf_frame [OF st1(2) assms(3)]] notice_frame [OF st1(2)] assms(4,5)
      by simp
  next
    case False
    then have "metadata st2 = metadata st" using st2 by (simp only: if_False)
    from notice_frame [OF this] assms(4) show ?thesis by simp
  qed
  then show ?thesis using n assms(6) by simp
qed

lemma Transition_latched:
  assumes "Transition st ids b a = (out, st')" "b \<noteq> a" "meta_wf st"
    and "notice st = Some w" "uncertain w" "0 < num_state st' ''unread''"
  shows "notice st' = Some w"
proof (cases "transition st ids b a")
  case (Inl e)
  with assms show ?thesis by (simp add: Transition_def)
next
  case (Inr res)
  then obtain c st1 where t: "transition st ids b a = Inr (c, st1)" by (cases res) simp
  with assms(1) have "st' = st1" by (simp add: Transition_def)
  then show ?thesis using transition_latched [OF t assms(2-5)] assms(6) by simp
qed

lemma Expire_latched:
  assumes "Expire now st = (out, st')" "store_inv st"
    and "notice st = Some w" "uncertain w" "0 < num_state st' ''unread''"
  shows "notice st' = Some w"
proof (cases out)
  case (Inl e)
  with assms show ?thesis
    by (auto simp: Expire_def Let_def split: sum.splits prod.splits)
next
  case (Inr old)
  with assms(1) obtain ids c st1 where t: "transition st ids ''held'' ''expired'' = Inr (c, st1)"
    and st': "st' = delete_sent now (delete_overflow (delete_old now st1))"
    by (auto simp: Expire_def Let_def split: sum.splits prod.splits)
  have inv1: "store_inv st1" by (rule transition_inv [OF t]) (simp_all add: assms(2))
  obtain keep where "inbox st' = filter keep (inbox st1)"
    using purge_rows [OF inv1, of now] st' by metis
  then have "num_state st' ''unread'' \<le> num_state st1 ''unread''"
    by (simp add: count_if_filter) (rule count_if_mono, simp)
  then have "notice st1 = Some w"
    using transition_latched [OF t _ store_invD(3) [OF assms(2)] assms(3,4)] assms(5) by simp
  moreover have "notice st' = notice st1"
    by (rule notice_frame) (simp add: st' delete_sent_def delete_overflow_def Let_def delete_old_def)
  ultimately show ?thesis by simp
qed

lemma Accept_notice:
  assumes "Accept newid now st m identity state = Inr (out, st')"
  shows "notice st' = notice st"
proof -
  obtain a r e where out: "out = (a, r, e)" by (cases out)
  show ?thesis
  proof (cases rule: Accept_cases [OF assms [unfolded out]])
    case (2 st1)
    have "metadata st' = metadata st1" by (rule insert_rowE [OF 2(5)])
    then show ?thesis using make_room_frame(3) [OF 2(4)] by (intro notice_frame) simp
  qed simp
qed

lemma Correlate_metadata: "metadata (Correlate h st frame pid start) = metadata st"
proof -
  have "metadata (correlate_one h frame pid start s i) = metadata s" for s i
    by (simp add: correlate_one_def split: gval.splits option.splits)
  then show ?thesis
    by (simp add: Correlate_def Let_def foldl_keeps [where P = "\<lambda>s. metadata s = metadata st"])
qed

lemma FinishWake_eq:
  assumes "store_inv st" "notice st = Some w"
  defines "sub state \<equiv> state = ''submitted'' \<or> state = ''recorded''"
    and "w1 state d \<equiv> set_fld (set_fld (set_fld (set_fld w ''state'' (GStr state)) ''detail'' (GStr d))
      ''submitted'' (GBool (state = ''submitted'' \<or> state = ''recorded''))) ''needs_manual_action''
      (GBool (state = ''uncertain'' \<or> state = ''attempted''))"
  shows "FinishWake st mid state d = (Inr (),
    if str w ''id'' \<noteq> mid then st
    else if state = ''rejected'' \<or> sub state \<and> trunc (number w ''ack_revision'' (-1)) \<noteq> revision st
    then setMeta st ''wake'' GNil else setMeta st ''wake'' (GObj (w1 state d)))"
proof -
  note inv = store_invD [OF assms(1)]
  have "0 < num_state st ''unread''"
    using inv(4) assms(2) by (auto simp: wake_live_def notice_def)
  moreover have "number (w1 state d) ''ack_revision'' x = number w ''ack_revision'' x" for state d x
    by (simp add: number_def w1_def)
  ultimately show ?thesis
    using inv(3) assms(2)
    by (simp add: FinishWake_def meta_obj_notice meta_int_revision Let_def sub_def w1_def)
qed

lemma store_step_latched:
  "store_step h op st st' \<Longrightarrow> store_inv st \<Longrightarrow> notice st = Some w \<Longrightarrow> uncertain w \<Longrightarrow>
     \<not> resolves op (str w ''id'') \<Longrightarrow> 0 < num_state st' ''unread'' \<Longrightarrow> notice st' = Some w"
proof (induction rule: store_step.induct)
  case (accept newid now st m identity state out st')
  then show ?case using Accept_notice [OF accept(1)] by simp
next
  case (ack st ids out st')
  show ?case by (rule Transition_latched [OF ack(1)]) (use ack store_invD(3) in simp_all)
next
  case (release st ids out st')
  show ?case by (rule Transition_latched [OF release(1)]) (use release store_invD(3) in simp_all)
next
  case (decline st ids out st')
  show ?case by (rule Transition_latched [OF decline(1)]) (use decline store_invD(3) in simp_all)
next
  case (expire now st out st')
  show ?case by (rule Expire_latched [OF expire(1,2,3,4,6)])
next
  case (outgoing now st frame peer st')
  then have "metadata st' = metadata st" by (auto simp: Outgoing_def split: if_splits)
  from notice_frame [OF this] outgoing(3) show ?case by simp
next
  case (sent state mid d st)
  have "metadata (Sent st mid state d) = metadata st" by (simp add: Sent_def)
  from notice_frame [OF this] sent show ?case by simp
next
  case (correlate frame pid start st)
  then show ?case using notice_frame [OF Correlate_metadata] by simp
next
  case (begin_wake t st mid out st')
  then show ?case by (simp add: BeginWake_eq)
next
  case (finish_wake st mid state d out st')
  then show ?case by (simp add: FinishWake_eq resolves_def)
next
  case (reset st out st')
  then show ?case by (simp add: ResetDelivery_def meta_obj_notice store_invD(3))
next
  case (set_meta key v st)
  then show ?case by (auto simp: delivery_keys_def)
qed

interpretation wake: notice_latch store_inv "\<lambda>st. num_state st ''unread''" notice "BeginWake t"
  "\<lambda>(h, op). store_step h op" "\<lambda>(h, op) w. resolves op (str w ''id'')" uncertain for t
proof unfold_locales
  show "store_inv s'" if "(case e of (h, op) \<Rightarrow> store_step h op) s s'" "store_inv s" for e s s'
    using that by (cases e) (auto intro: store_step_inv)
  show "if 0 < num_state s ''unread'' \<and> notice s = None
      then \<exists>w. out = Inr (Some w) \<and> notice s' = Some w \<and> uncertain w else out = Inr None \<and> s' = s"
    if "store_inv s" "BeginWake t s i = (out, s')" for s i out s'
    using that by (auto simp: BeginWake_eq uncertain_def new_wake_def fld_def split: if_splits)
  show "notice s' = Some w"
    if "(case e of (h, op) \<Rightarrow> store_step h op) s s'" "store_inv s" "notice s = Some w" "uncertain w"
      "\<not> (case e of (h, op) \<Rightarrow> \<lambda>w. resolves op (str w ''id'')) w" "0 < num_state s' ''unread''" for e s s' w
    using that by (cases e) (auto intro: store_step_latched)
qed

subsection \<open>Theorems\<close>

lemma new_wake_fields:
  "str (new_wake i n t) ''id'' = i" "fld (new_wake i n t) ''submitted'' = GBool False"
  "number (new_wake i n t) ''ack_revision'' x = of_int n" "uncertain (new_wake i n t)"
  by (simp_all add: new_wake_def str_def fld_def number_def uncertain_def)

lemma BeginWake_new:
  "store_inv st \<Longrightarrow> BeginWake t st i = (Inr (Some w), st') \<Longrightarrow>
     w = new_wake i (revision st) t \<and> notice st = None \<and> 0 < num_state st ''unread''
     \<and> st' = setMeta st ''wake'' (GObj w)"
  by (auto simp: BeginWake_eq split: if_splits)

lemma sample_reachable:
  obtains st where "reachable st" and "num_state st ''unread'' = 1" and "notice st = None"
proof -
  have "drop_reason 100 empty_store sample_message ''7:1'' ''unread'' = None"
    by (simp add: drop_reason_def empty_store_def)
  then obtain st' where
    acc: "Accept ''m1'' 100 empty_store sample_message ''7:1'' ''unread'' =
      Inr ((Some (accepted_message ''m1'' 100 sample_message), [], None), st')"
    and st': "num_state st' ''unread'' = 1"
    by (simp add: Accept_def make_room_def insert_row_def Let_def empty_store_def accepted_row_def)
  have step: "store_step bare_host (DoAccept ''m1'' 100 sample_message ''7:1'' ''unread'') empty_store st'"
    by (rule store_step.accept [OF acc]) (simp_all add: sample_message_def)
  have "notice st' = notice empty_store" by (rule Accept_notice [OF acc])
  with st' show thesis
    by (intro that [OF reachable.step [OF reachable.start step]]) (simp_all add: notice_def meta_def empty_store_def)
qed

lemma sample_notice:
  obtains w st1 where "BeginWake 5 sample_store ''n1'' = (Inr (Some w), st1)"
    "notice st1 = Some w" "uncertain w" "store_inv st1" "inbox st1 = inbox sample_store"
proof -
  have "num_state sample_store ''unread'' = 1" "notice sample_store = None"
    by (simp_all add: sample_store_def sample_row_def notice_def meta_def empty_store_def)
  then have b: "BeginWake 5 sample_store ''n1'' = (Inr (Some (new_wake ''n1'' (revision sample_store) 5)),
      setMeta sample_store ''wake'' (GObj (new_wake ''n1'' (revision sample_store) 5)))"
    by (simp add: BeginWake_eq sample_store_inv)
  show thesis by (rule that [OF b]) (use BeginWake_inv [OF b sample_store_inv] in \<open>simp_all add: new_wake_fields\<close>)
qed

lemma sample_ack:
  assumes "store_inv st" "inbox st = inbox sample_store"
  obtains changed st' where "transition st [''b''] ''unread'' ''read'' = Inr (changed, st')"
    "changed = [''b'']"
proof -
  obtain changed st' where t: "transition st [''b''] ''unread'' ''read'' = Inr (changed, st')"
    by (rule transition_ok [OF assms(1), of "''unread''" "''read''" "[''b'']"]) simp_all
  have "changed = fst (update_loop st ''unread'' ''read'' [''b''])"
    by (rule transition_SomeE [OF t]) simp_all
  then have "changed = [''b'']"
    by (simp add: assms(2) sample_store_def sample_row_def)
  with t that show thesis by blast
qed

text \<open>C3. No blind replay: once a notice has been started, no run of other operations, in any order, lets
  \<open>BeginWake\<close> start another one, until \<open>FinishWake\<close> decides this notice or the unread queue is empty.\<close>

theorem no_blind_replay:
  assumes "reachable st" and "BeginWake t st i = (Inr (Some w), st1)"
    and "(\<lambda>s s'. \<exists>h op. store_step h op s s' \<and> \<not> resolves op i \<and> 0 < num_state s' ''unread'')\<^sup>*\<^sup>* st1 st2"
    and "BeginWake t st2 j = (out, st3)"
  shows "out = Inr None \<and> st3 = st2 \<and> notice st2 = Some w"
proof -
  note inv = reachable_inv [OF assms(1)]
  have inv1: "store_inv st1" using BeginWake_inv [OF assms(2) inv] .
  have w: "str w ''id'' = i" "notice st1 = Some w" "uncertain w"
    using BeginWake_new [OF inv assms(2)] new_wake_fields by auto
  have run: "wake.undecided_run w st1 st2" using assms(3) by (simp add: w(1))
  show ?thesis
    using wake.no_second_notice [OF inv assms(2) inv1 run assms(4)]
      wake.undecided_run_keeps [OF run inv1 w(2,3)] by simp
qed

theorem no_blind_replay_witness:
  "\<exists>st w st1 st2. reachable st \<and> BeginWake 5 st ''n1'' = (Inr (Some w), st1)
     \<and> st2 = setMeta st1 ''delivery_error'' GNil \<and> BeginWake 5 st2 ''n2'' = (Inr None, st2)"
proof -
  obtain st where st: "reachable st" "num_state st ''unread'' = 1" "notice st = None"
    by (rule sample_reachable)
  obtain w st1 where b: "BeginWake 5 st ''n1'' = (Inr (Some w), st1)" and n: "inbox st1 = inbox st"
    using st by (simp add: BeginWake_eq reachable_inv)
  let ?st2 = "setMeta st1 ''delivery_error'' GNil"
  have "store_step bare_host (DoSetMeta ''delivery_error'' GNil) st1 ?st2"
    by (rule store_step.set_meta) (simp add: delivery_keys_def)
  then have "(\<lambda>s s'. \<exists>h op. store_step h op s s' \<and> \<not> resolves op ''n1''
      \<and> 0 < num_state s' ''unread'')\<^sup>*\<^sup>* st1 ?st2"
    using n st(2) by (intro r_into_rtranclp exI [of _ bare_host] exI [of _ "DoSetMeta ''delivery_error'' GNil"]) (simp add: resolves_def)
  from no_blind_replay [OF st(1) b this, of "''n2''"] have "BeginWake 5 ?st2 ''n2'' = (Inr None, ?st2)"
    by (cases "BeginWake 5 ?st2 ''n2''") simp
  with st b show ?thesis by blast
qed

text \<open>In a well-formed database with unread messages either a notice is pending, or \<open>BeginWake\<close> starts
  one, marked as needing manual action until its outcome is known; without unread messages or with
  a pending notice it changes nothing.\<close>

theorem begin_wake_spec:
  assumes "store_inv st"
  shows "if 0 < num_state st ''unread'' \<and> notice st = None
    then \<exists>w st'. BeginWake t st i = (Inr (Some w), st') \<and> notice st' = Some w \<and> str w ''id'' = i
      \<and> uncertain w \<and> fld w ''submitted'' = GBool False \<and> inbox st' = inbox st
    else BeginWake t st i = (Inr None, st)"
  using assms by (auto simp: BeginWake_eq new_wake_fields)

theorem begin_wake_spec_witness:
  "\<exists>w st'. BeginWake 5 sample_store ''n1'' = (Inr (Some w), st') \<and> notice st' = Some w \<and> str w ''id'' = ''n1''"
proof -
  have "num_state sample_store ''unread'' = 1" "notice sample_store = None"
    by (simp_all add: sample_store_def sample_row_def notice_def meta_def empty_store_def)
  with begin_wake_spec [OF sample_store_inv, of 5 "''n1''"] show ?thesis by auto
qed

lemma Transition_ok: "Transition st ids b a = (Inr changed, st') \<longleftrightarrow> transition st ids b a = Inr (changed, st')"
  by (auto simp: Transition_def split: sum.splits prod.splits)

lemma ack_metadata:
  assumes "store_inv st" "transition st ids ''unread'' ''read'' = Inr (changed, st')"
    and "changed \<noteq> []" "notice st = Some w"
  shows "revision st' = revision st + 1"
    and "notice st' = (if num_state st' ''unread'' = 0 \<or> fld w ''submitted'' = GBool True \<and> \<not> uncertain w
        then None else Some w)"
proof -
  note wf = store_invD(3) [OF assms(1)]
  obtain st2 where n: "notice st' = (if num_state st' ''unread'' = 0 then None else notice st2)"
    and r: "revision st' = revision st2" "meta_wf st2"
    and s: "if changed \<noteq> [] \<and> ''unread'' = ''unread'' then
        (\<exists>st1. note_ack st1 = Inr st2 \<and> metadata st1 = metadata st) else metadata st2 = metadata st"
    by (rule transition_metadata [OF assms(2) _ wf]) auto
  then obtain st1 where st1: "note_ack st1 = Inr st2" "metadata st1 = metadata st"
    using assms(3) by auto
  have "revision st1 = revision st" using st1(2) by (simp add: revision_def meta_def)
  then show "revision st' = revision st + 1"
    "notice st' = (if num_state st' ''unread'' = 0 \<or> fld w ''submitted'' = GBool True \<and> \<not> uncertain w
        then None else Some w)"
    using st1(1) note_ack_eq [OF meta_wf_frame [OF st1(2) wf]] notice_frame [OF st1(2)] assms(4) n r
    by (auto simp: Let_def split: if_splits)
qed

lemma empty_ack:
  assumes "store_inv st" "transition st ids ''unread'' ''read'' = Inr ([], st')" "0 < num_state st ''unread''"
  shows "inbox st' = inbox st \<and> notice st' = notice st \<and> revision st' = revision st"
proof -
  note wf = store_invD [OF assms(1)]
  have none: "{i \<in> set ids. status st i = Some ''unread''} = {}"
    using transition_changed(2) [OF assms(2) _ rows_wf_distinct [OF wf(1)]] by simp
  then have "\<forall>r \<in> set (inbox st). \<not> (rid r \<in> set ids \<and> rstate r = ''unread'')"
    using status_Some_iff [OF rows_wf_distinct [OF wf(1)]] by auto
  moreover have "inbox st' = inbox (set_state st (\<lambda>r. rid r \<in> set ids \<and> rstate r = ''unread'') ''read'')"
    by (rule transition_SomeE [OF assms(2)]) simp_all
  ultimately have inb: "inbox st' = inbox st" by (simp add: set_state_none)
  obtain st2 where "notice st' = (if num_state st' ''unread'' = 0 then None else notice st2)"
    "revision st' = revision st2" "metadata st2 = metadata st"
    by (rule transition_metadata [OF assms(2) _ wf(3)]) auto
  then show ?thesis using inb assms(3) notice_frame [of st2 st] by (simp add: revision_def meta_def)
qed

text \<open>An acknowledgement that changed something advances the revision and clears a notice that was
  shown; a notice whose outcome is unknown stays until the unread queue is empty.\<close>

theorem ack_clears_notice:
  assumes "store_inv st" and "Transition st ids ''unread'' ''read'' = (Inr changed, st')"
    and "changed \<noteq> []" and "notice st = Some w"
  shows "revision st' = revision st + 1
    \<and> notice st' = (if num_state st' ''unread'' = 0 \<or> fld w ''submitted'' = GBool True \<and> \<not> uncertain w
        then None else Some w)"
  using ack_metadata [OF assms(1) _ assms(3,4)] assms(2) by (simp add: Transition_ok)

theorem ack_clears_notice_witness:
  "\<exists>w st1 st'. BeginWake 5 sample_store ''n1'' = (Inr (Some w), st1)
     \<and> Transition st1 [''b''] ''unread'' ''read'' = (Inr [''b''], st') \<and> revision st' = revision st1 + 1"
proof -
  obtain w st1 where b: "BeginWake 5 sample_store ''n1'' = (Inr (Some w), st1)" "notice st1 = Some w"
    "store_inv st1" "inbox st1 = inbox sample_store" by (rule sample_notice)
  obtain c st' where t: "transition st1 [''b''] ''unread'' ''read'' = Inr (c, st')" "c = [''b'']"
    by (rule sample_ack [OF b(3,4)])
  from ack_clears_notice [OF b(3) _ _ b(2), of "[''b'']" "[''b'']" st'] t b(1) show ?thesis
    by (simp add: Transition_ok)
qed

text \<open>The race between showing a notice and reading the inbox: when messages are acknowledged after a
  notice was started and before its success is recorded, recording it leaves no notice behind, so
  the messages that are still unread get a new one; without such an acknowledgement it is kept.\<close>

theorem finish_after_ack:
  assumes "store_inv st" and "i \<noteq> []" and "BeginWake t st i = (Inr (Some w), st1)"
    and "Transition st1 ids ''unread'' ''read'' = (Inr changed, st2)"
  shows "\<exists>st3. FinishWake st2 i ''submitted'' d = (Inr (), st3)
    \<and> (if changed \<noteq> [] then notice st3 = None
       else \<exists>w'. notice st3 = Some w' \<and> fld w' ''submitted'' = GBool True \<and> \<not> uncertain w')"
proof -
  note new = BeginWake_new [OF assms(1,3)] and inv1 = BeginWake_inv [OF assms(3,1)]
  have t: "transition st1 ids ''unread'' ''read'' = Inr (changed, st2)" using assms(4) by (simp add: Transition_ok)
  have inv2: "store_inv st2" by (rule transition_inv [OF t]) (simp_all add: inv1)
  have w: "notice st1 = Some w" "uncertain w" "str w ''id'' = i"
    "trunc (number w ''ack_revision'' (-1)) = revision st1" "0 < num_state st1 ''unread''"
    using new new_wake_fields by (auto simp: trunc_def)
  show ?thesis
  proof (cases "changed = []")
    case True
    then have "notice st2 = Some w" "revision st2 = revision st1"
      using empty_ack [OF inv1 _ w(5)] t w(1) by auto
    then show ?thesis using True w FinishWake_eq [OF inv2] by (simp add: uncertain_def)
  next
    case False
    note ack = ack_metadata [OF inv1 t False w(1)]
    show ?thesis
    proof (cases "notice st2")
      case None
      then have "FinishWake st2 i ''submitted'' d = (Inr (), st2)"
        using store_invD(3) [OF inv2] assms(2)
        by (simp add: FinishWake_def meta_obj_notice str_def fld_def)
      then show ?thesis using None False by simp
    next
      case (Some w')
      then have "w' = w" using ack(2) by (simp split: if_splits)
      then show ?thesis using Some False w ack(1) FinishWake_eq [OF inv2] by simp
    qed
  qed
qed

theorem finish_after_ack_witness:
  "\<exists>w st1 st2 st3. BeginWake 5 sample_store ''n1'' = (Inr (Some w), st1)
     \<and> Transition st1 [''b''] ''unread'' ''read'' = (Inr [''b''], st2)
     \<and> FinishWake st2 ''n1'' ''submitted'' [] = (Inr (), st3) \<and> notice st3 = None"
proof -
  obtain w st1 where b: "BeginWake 5 sample_store ''n1'' = (Inr (Some w), st1)" "notice st1 = Some w"
    "store_inv st1" "inbox st1 = inbox sample_store" by (rule sample_notice)
  obtain c st2 where t: "transition st1 [''b''] ''unread'' ''read'' = Inr (c, st2)" "c = [''b'']"
    by (rule sample_ack [OF b(3,4)])
  then have "Transition st1 [''b''] ''unread'' ''read'' = (Inr [''b''], st2)" by (simp add: Transition_ok)
  with finish_after_ack [OF sample_store_inv _ b(1) this, of "[]"] b(1) show ?thesis by auto
qed

end
