(* ===== verification/Receipts.thy ===== *)
theory Receipts
  imports Wake
begin

section \<open>Outgoing messages and their receipts\<close>

text \<open>
  What \<open>Sent\<close> and \<open>Correlate\<close> do to the table of sent messages.  Receipts arrive on separate
  connections and in any order; a receipt counts only when it comes from the process the message was
  sent to.
\<close>

definition sent_row :: "store \<Rightarrow> string \<Rightarrow> outrow option" where
  "sent_row st i = List.find (\<lambda>r. oid r = i) (outbound st)"

definition sent_state :: "store \<Rightarrow> string \<Rightarrow> string option" where
  "sent_state st i = map_option ostate (sent_row st i)"

text \<open>Which state a receipt may replace.\<close>

definition may_replace :: "string \<Rightarrow> string \<Rightarrow> bool" where
  "may_replace new old \<longleftrightarrow> old \<noteq> ''read'' \<and>
     (new = ''accepted'' \<longrightarrow> old \<in> {''sending'', ''sent_unconfirmed'', ''held'', ''released''})"

definition receipt_row :: "host \<Rightarrow> obj \<Rightarrow> int \<Rightarrow> string \<Rightarrow> outrow \<Rightarrow> outrow" where
  "receipt_row h frame pid start r =
     (if peerReceiptMatches h (target r) pid start \<and> may_replace (str frame ''status'') (ostate r)
      then r\<lparr>ostate := str frame ''status'', detail := GObj frame\<rparr> else r)"

definition named_ids :: "obj \<Rightarrow> string list" where
  "named_ids frame =
     List.map_filter (\<lambda>v. case v of GStr s \<Rightarrow> Some s | _ \<Rightarrow> None)
       (take 101 (fld frame ''orig_msg_id'' #
          (case fld frame ''dropped_msg_ids'' of GArr vs \<Rightarrow> vs | _ \<Rightarrow> [])))"

lemma receipt_row_frame [simp]: "oid (receipt_row h frame pid start r) = oid r"
  "target (receipt_row h frame pid start r) = target r" "created (receipt_row h frame pid start r) = created r"
  by (simp_all add: receipt_row_def)

lemma receipt_row_twice [simp]:
  "receipt_row h frame pid start (receipt_row h frame pid start r) = receipt_row h frame pid start r"
  by (auto simp: receipt_row_def may_replace_def)

lemma correlate_one_eq:
  assumes "distinct (map oid (outbound st))"
  shows "correlate_one h frame pid start st item =
    st\<lparr>outbound := map (\<lambda>r. if item = GStr (oid r) then receipt_row h frame pid start r else r) (outbound st)\<rparr>"
proof (cases item)
  case (GStr mid)
  show ?thesis
  proof (cases "List.find (\<lambda>r. oid r = mid) (outbound st)")
    case None
    then have "oid r \<noteq> mid" if "r \<in> set (outbound st)" for r using that by (auto simp: find_None_iff)
    then have "map (\<lambda>r. if item = GStr (oid r) then receipt_row h frame pid start r else r) (outbound st) = outbound st"
      by (intro map_idI) (auto simp: GStr)
    with None show ?thesis by (simp add: correlate_one_def GStr)
  next
    case (Some r)
    have r: "r \<in> set (outbound st)" "oid r = mid" using find_SomeD [OF Some] by auto
    have same: "x = r" if "x \<in> set (outbound st)" "oid x = mid" for x
      using distinct_map_inj [OF assms that(1) r(1)] that(2) r(2) by simp
    show ?thesis
    proof (cases "peerReceiptMatches h (target r) pid start \<and> may_replace (str frame ''status'') (ostate r)")
      case True
      then have "correlate_one h frame pid start st item =
          set_sent st (\<lambda>x. oid x = mid) (str frame ''status'') (GObj frame)"
        using Some by (auto simp: correlate_one_def GStr may_replace_def)
      moreover have "map (\<lambda>x. if oid x = mid then x\<lparr>ostate := str frame ''status'', detail := GObj frame\<rparr> else x)
          (outbound st) = map (\<lambda>x. if item = GStr (oid x) then receipt_row h frame pid start x else x) (outbound st)"
        using True same by (intro map_cong refl) (auto simp: GStr receipt_row_def)
      ultimately show ?thesis by (simp add: set_sent_def)
    next
      case False
      then have "correlate_one h frame pid start st item = st"
        using Some by (auto simp: correlate_one_def GStr may_replace_def)
      moreover have "map (\<lambda>r. if item = GStr (oid r) then receipt_row h frame pid start r else r) (outbound st) = outbound st"
        using same False by (intro map_idI) (auto simp: GStr receipt_row_def)
      ultimately show ?thesis by simp
    qed
  qed
qed (simp_all add: correlate_one_def)

lemma correlate_loop:
  assumes "distinct (map oid (outbound st))"
  shows "foldl (correlate_one h frame pid start) st items =
    st\<lparr>outbound := map (\<lambda>r. if GStr (oid r) \<in> set items then receipt_row h frame pid start r else r) (outbound st)\<rparr>"
  using assms
proof (induction items arbitrary: st)
  case (Cons item items)
  let ?st1 = "correlate_one h frame pid start st item"
  have st1: "?st1 = st\<lparr>outbound := map (\<lambda>r. if item = GStr (oid r) then receipt_row h frame pid start r else r) (outbound st)\<rparr>"
    by (rule correlate_one_eq [OF Cons.prems])
  have "map oid (outbound ?st1) = map oid (outbound st)" unfolding st1 by simp
  with Cons.IH [of ?st1] Cons.prems
  have "foldl (correlate_one h frame pid start) st (item # items) =
    ?st1\<lparr>outbound := map (\<lambda>r. if GStr (oid r) \<in> set items then receipt_row h frame pid start r else r) (outbound ?st1)\<rparr>"
    by simp
  then show ?case unfolding st1 by (auto simp: o_def)
qed simp

lemma strings_iff:
  "s \<in> set (List.map_filter (\<lambda>v. case v of GStr s \<Rightarrow> Some s | _ \<Rightarrow> None) vs) \<longleftrightarrow> GStr s \<in> set vs"
proof (induction vs)
  case (Cons v vs)
  then show ?case by (cases v) (auto simp: List.map_filter_def)
qed (simp add: List.map_filter_def)

lemma named_ids_iff:
  "s \<in> set (named_ids frame) \<longleftrightarrow> GStr s \<in> set (take 101 (fld frame ''orig_msg_id'' #
          (case fld frame ''dropped_msg_ids'' of GArr vs \<Rightarrow> vs | _ \<Rightarrow> [])))"
  unfolding named_ids_def by (rule strings_iff)

text \<open>A receipt frame changes exactly the sent messages it names (at most 101 of them) whose target is
  the observed process and whose state the receipt may replace: an acknowledged message is final,
  and an acceptance does not override a later receipt.  All other rows and tables stay the same.\<close>

theorem correlate_spec:
  assumes "store_inv st" and "str frame ''status'' \<in> set receipt_states"
  shows "Correlate h st frame pid start =
    st\<lparr>outbound := map (\<lambda>r. if oid r \<in> set (named_ids frame) then receipt_row h frame pid start r else r)
        (outbound st)\<rparr>"
  using assms correlate_loop [of st] by (simp add: Correlate_def Let_def named_ids_iff store_inv_def sent_wf_def)

definition sample_peer :: Peer where
  "sample_peer = \<lparr>PID = 7, PStart = ''1'', PDomain = ''linux'', PSocket = ''/s'', PName = [], PThread = [],
     PHostPID = 0, PHostStart = [], PFeatures = [], PRef = [], PCWD = [], PStatus = [], PActivity = None,
     PVersion = [], PProtocol = 0\<rparr>"

definition sample_sent :: store where
  "sample_sent = empty_store\<lparr>outbound := [\<lparr>oid = ''o1'', created = 5, target = sample_peer,
     ostate = ''sending'', detail = GNil\<rparr>]\<rparr>"

definition sample_receipt :: obj where
  "sample_receipt = [(''status'', GStr ''read''), (''orig_msg_id'', GStr ''o1'')]"

lemma sample_sent_inv: "store_inv sample_sent"
  using empty_store_inv by (simp add: inv_defs sample_sent_def rows_wf_def meta_def)

theorem correlate_spec_witness:
  "Correlate bare_host sample_sent sample_receipt 7 ''1'' =
     sample_sent\<lparr>outbound := [\<lparr>oid = ''o1'', created = 5, target = sample_peer, ostate = ''read'',
       detail = GObj sample_receipt\<rparr>]\<rparr>"
proof -
  have r: "str sample_receipt ''status'' = ''read''"
    by (simp add: sample_receipt_def str_def fld_def)
  then have s: "str sample_receipt ''status'' \<in> set receipt_states" by (simp add: receipt_states_def)
  have n: "named_ids sample_receipt = [''o1'']"
    by (simp add: named_ids_def sample_receipt_def fld_def List.map_filter_def)
  have m: "peerReceiptMatches bare_host sample_peer 7 ''1''"
    by (simp add: peerReceiptMatches_def sample_peer_def bare_host_def)
  show ?thesis unfolding correlate_spec [OF sample_sent_inv s] n
    by (simp add: sample_sent_def receipt_row_def r m may_replace_def empty_store_def)
qed

subsection \<open>The life of a sent message\<close>

text \<open>From one state to another in one operation.\<close>

definition sent_edge :: "string \<Rightarrow> string \<Rightarrow> bool" where
  "sent_edge old new \<longleftrightarrow>
     (if new = ''sent_unconfirmed'' \<or> new = ''failed'' then old = ''sending'' \<or> old = ''sent_unconfirmed''
      else new \<in> set receipt_states \<and> may_replace new old)"

lemma sent_row_map:
  assumes "outbound st' = map f (outbound st)" and "\<And>r. oid (f r) = oid r"
  shows "sent_row st' i = map_option f (sent_row st i)"
proof -
  have "List.find (\<lambda>r. oid r = i) (map f xs) = map_option f (List.find (\<lambda>r. oid r = i) xs)" for xs
    by (induction xs) (simp_all add: assms(2))
  then show ?thesis by (simp add: sent_row_def assms(1))
qed

lemma Accept_outbound:
  assumes "Accept newid now st m identity state = Inr (out, st')"
  shows "outbound st' = outbound st"
proof -
  obtain a r e where out: "out = (a, r, e)" by (cases out)
  show ?thesis
  proof (cases rule: Accept_cases [OF assms [unfolded out]])
    case (2 st1)
    have "outbound st' = outbound st1" by (rule insert_rowE [OF 2(5)])
    then show ?thesis using make_room_frame(2) [OF 2(4)] by simp
  qed simp
qed

lemma Transition_outbound:
  assumes "Transition st ids b a = (out, st')" "b \<noteq> a"
  shows "outbound st' = outbound st"
proof (cases "transition st ids b a")
  case (Inl e)
  with assms show ?thesis by (simp add: Transition_def)
next
  case (Inr res)
  then obtain c st1 where t: "transition st ids b a = Inr (c, st1)" by (cases res) simp
  with assms(1) have "st' = st1" by (simp add: Transition_def)
  then show ?thesis using transition_outbound [OF t assms(2)] by simp
qed

lemma Expire_outbound:
  assumes "Expire now st = (out, st')"
  shows "outbound st' = outbound st \<or> outbound st' = filter (\<lambda>r. \<not> created r < now - 604800) (outbound st)"
proof (cases out)
  case (Inl e)
  with assms show ?thesis
    by (auto simp: Expire_def Let_def split: sum.splits prod.splits)
next
  case (Inr old)
  with assms(1) obtain ids c st1 where t: "transition st ids ''held'' ''expired'' = Inr (c, st1)"
    and st': "st' = delete_sent now (delete_overflow (delete_old now st1))"
    by (auto simp: Expire_def Let_def split: sum.splits prod.splits)
  then show ?thesis
    using transition_outbound [OF t] by (simp add: delete_sent_def delete_overflow_def Let_def delete_old_def)
qed

lemma sent_row_filter:
  assumes "distinct (map oid (outbound st))" "outbound st' = filter P (outbound st)" "sent_row st' i = Some r"
  shows "sent_row st i = Some r"
proof -
  have "r \<in> set (outbound st)" "oid r = i"
    using find_SomeD [of "\<lambda>r. oid r = i" "outbound st'" r] assms(2,3) by (auto simp: sent_row_def)
  then show ?thesis using find_distinct [OF assms(1)] by (auto simp: sent_row_def)
qed

text \<open>The operations that leave the table of sent messages alone.\<close>

lemma wake_outbound:
  "BeginWake t st mid = (out, st') \<Longrightarrow> outbound st' = outbound st"
  "FinishWake st mid s d = (out', st') \<Longrightarrow> outbound st' = outbound st"
  "ResetDelivery st = (out'', st') \<Longrightarrow> outbound st' = outbound st"
  by (auto simp: BeginWake_def FinishWake_def ResetDelivery_def Let_def
      split: sum.splits if_splits option.splits)

lemma Sent_state:
  assumes "state = ''sent_unconfirmed'' \<or> state = ''failed''" "sent_row st i = Some r"
    and "sent_row (Sent st mid state d) i = Some r'"
  shows "ostate r' = ostate r \<or> sent_edge (ostate r) (ostate r')"
proof -
  let ?f = "\<lambda>r. if oid r = mid \<and> unconfirmed r then r\<lparr>ostate := state, detail := d\<rparr> else r"
  have "outbound (Sent st mid state d) = map ?f (outbound st)"
    using assms(1) by (auto simp: Sent_def set_sent_def)
  from sent_row_map [OF this, of i] assms(2,3) have "r' = ?f r" by simp
  then show ?thesis using assms(1) by (auto simp: sent_edge_def unconfirmed_def)
qed

lemma Correlate_state:
  assumes "store_inv st" "sent_row st i = Some r" "sent_row (Correlate h st frame pid start) i = Some r'"
  shows "ostate r' = ostate r \<or> sent_edge (ostate r) (ostate r')"
proof (cases "str frame ''status'' \<in> set receipt_states")
  case True
  let ?items = "take 101 (fld frame ''orig_msg_id'' #
    (case fld frame ''dropped_msg_ids'' of GArr vs \<Rightarrow> vs | _ \<Rightarrow> []))"
  let ?f = "\<lambda>r. if GStr (oid r) \<in> set ?items then receipt_row h frame pid start r else r"
  have "outbound (Correlate h st frame pid start) = map ?f (outbound st)"
    using True correlate_loop [of st] assms(1) by (simp add: Correlate_def Let_def store_inv_def sent_wf_def)
  from sent_row_map [OF this, of i] assms(2,3) have "r' = ?f r" by simp
  then have "r' = r \<or> ostate r' = str frame ''status'' \<and> may_replace (str frame ''status'') (ostate r)"
    by (auto simp: receipt_row_def split: if_splits)
  moreover have "str frame ''status'' \<noteq> ''sent_unconfirmed'' \<and> str frame ''status'' \<noteq> ''failed''"
    using True by (auto simp: receipt_states_def)
  ultimately show ?thesis using True by (auto simp: sent_edge_def)
next
  case False
  with assms show ?thesis by (simp add: Correlate_def)
qed

lemma same_table: "outbound st' = outbound st \<Longrightarrow> sent_row st i = Some r \<Longrightarrow> sent_row st' i = Some r' \<Longrightarrow> r' = r"
  by (simp add: sent_row_def)

lemma Outgoing_row:
  "Outgoing now st frame peer = Inr st' \<Longrightarrow> sent_row st i = Some r \<Longrightarrow> sent_row st' i = Some r"
proof -
  have "List.find P xs = Some x \<Longrightarrow> List.find P (xs @ ys) = Some x" for P xs ys and x :: outrow
    by (induction xs) auto
  then show "Outgoing now st frame peer = Inr st' \<Longrightarrow> sent_row st i = Some r \<Longrightarrow> ?thesis"
    by (auto simp: Outgoing_def sent_row_def split: if_splits)
qed

lemma store_step_sent:
  "store_step h op st st' \<Longrightarrow> store_inv st \<Longrightarrow> sent_row st i = Some r \<Longrightarrow> sent_row st' i = Some r' \<Longrightarrow>
     ostate r' = ostate r \<or> sent_edge (ostate r) (ostate r')"
proof (induction rule: store_step.induct)
  case (accept newid now st m identity state out st')
  then show ?case using same_table [OF Accept_outbound [OF accept(1)]] by blast
next
  case (ack st ids out st')
  from same_table [OF Transition_outbound [OF ack(1)] ack(3,4)] show ?case by simp
next
  case (release st ids out st')
  from same_table [OF Transition_outbound [OF release(1)] release(3,4)] show ?case by simp
next
  case (decline st ids out st')
  from same_table [OF Transition_outbound [OF decline(1)] decline(3,4)] show ?case by simp
next
  case (expire now st out st')
  have d: "distinct (map oid (outbound st))" using expire(2) by (simp add: store_inv_def sent_wf_def)
  have "sent_row st i = Some r'"
    using Expire_outbound [OF expire(1)] sent_row_filter [OF d _ expire(4)] expire(4)
    by (auto simp: sent_row_def)
  then show ?case using expire(3) by simp
next
  case (outgoing now st frame peer st')
  then show ?case using Outgoing_row [OF outgoing(1,3)] by simp
next
  case (sent state mid d st)
  show ?case by (rule Sent_state [OF sent(1,3,4)])
next
  case (correlate frame pid start st)
  show ?case by (rule Correlate_state [OF correlate])
next
  case (begin_wake t st mid out st')
  from same_table [OF wake_outbound(1) [OF begin_wake(1)] begin_wake(3,4)] show ?case by simp
next
  case (finish_wake st mid state d out st')
  from same_table [OF wake_outbound(2) [OF finish_wake(1)] finish_wake(3,4)] show ?case by simp
next
  case (reset st out st')
  from same_table [OF wake_outbound(3) [OF reset(1)] reset(3,4)] show ?case by simp
next
  case (set_meta key v st)
  then show ?case by (simp add: sent_row_def)
qed

text \<open>Whatever operation runs, a message that was acknowledged as read keeps that state, the result of
  writing it (\<open>sent_unconfirmed\<close>, \<open>failed\<close>) never overrides a receipt, and an acceptance only replaces
  an unconfirmed, held or released message.\<close>

theorem sent_progress:
  assumes "reachable st" and "store_step h op st st'"
    and "sent_state st i = Some old" and "sent_state st' i = Some new" and "new \<noteq> old"
  shows "old \<noteq> ''read''
    \<and> (new = ''sent_unconfirmed'' \<or> new = ''failed'' \<longrightarrow> old = ''sending'' \<or> old = ''sent_unconfirmed'')
    \<and> (new = ''accepted'' \<longrightarrow> old \<in> {''sending'', ''sent_unconfirmed'', ''held'', ''released''})
    \<and> new \<noteq> ''sending''"
proof -
  obtain r r' where r: "sent_row st i = Some r" "sent_row st' i = Some r'"
    "ostate r = old" "ostate r' = new"
    using assms(3,4) by (auto simp: sent_state_def)
  have e: "sent_edge old new"
    using store_step_sent [OF assms(2) reachable_inv [OF assms(1)] r(1,2)] r(3,4) assms(5) by simp
  have "old \<noteq> ''read''" "new \<noteq> ''sending''"
    using e by (auto simp: sent_edge_def may_replace_def receipt_states_def split: if_splits)
  moreover have "new = ''accepted'' \<longrightarrow> old \<in> {''sending'', ''sent_unconfirmed'', ''held'', ''released''}"
    using e by (auto simp: sent_edge_def may_replace_def split: if_splits)
  ultimately show ?thesis using e by (simp add: sent_edge_def)
qed

theorem sent_progress_witness:
  "\<exists>st. reachable st \<and> sent_state st ''o1'' = Some ''sending''
     \<and> sent_state (Sent st ''o1'' ''failed'' GNil) ''o1'' = Some ''failed'' \<and> ''sending'' \<noteq> ''read''"
proof -
  let ?st = sample_sent
  have "Outgoing 5 empty_store [(''msg_id'', GStr ''o1'')] sample_peer = Inr ?st"
    by (simp add: Outgoing_def sample_sent_def empty_store_def str_def fld_def)
  then have r: "reachable ?st"
    by (rule reachable.step [OF reachable.start store_step.outgoing [where h = bare_host]])
  have a: "sent_state ?st ''o1'' = Some ''sending''"
    "sent_state (Sent ?st ''o1'' ''failed'' GNil) ''o1'' = Some ''failed''"
    by (simp_all add: sent_state_def sent_row_def sample_sent_def Sent_def set_sent_def unconfirmed_def)
  have "store_step bare_host (DoSent ''o1'' ''failed'' GNil) ?st (Sent ?st ''o1'' ''failed'' GNil)"
    by (rule store_step.sent) simp
  from sent_progress [OF r this a] r a show ?thesis by blast
qed

end
