(* ===== verification/Frames.thy ===== *)
theory Frames
  imports Protocol
begin

section \<open>Frames and names\<close>

text \<open>
  The theorems about protocol.go: line framing, normalised names, and the round trip of a user
  frame through its envelope.
\<close>

subsection \<open>Line framing\<close>

definition line_of :: "string \<Rightarrow> string" where
  "line_of input = takeWhile (\<lambda>c. c \<noteq> newline) input @ [newline]"

lemma takeWhile_take_member:
  "x \<in> set (take n xs) \<Longrightarrow> takeWhile (\<lambda>c. c \<noteq> x) (take n xs) = takeWhile (\<lambda>c. c \<noteq> x) xs"
proof (induction xs arbitrary: n)
  case (Cons a xs)
  then show ?case by (cases n) auto
qed simp

lemma takeWhile_split_off:
  "x \<notin> set (take n xs) \<Longrightarrow> takeWhile (\<lambda>c. c \<noteq> x) xs = take n xs @ takeWhile (\<lambda>c. c \<noteq> x) (drop n xs)"
proof (induction xs arbitrary: n)
  case (Cons a xs)
  then show ?case by (cases n) auto
qed simp

lemma read_line_spec:
  "0 < bufsize \<Longrightarrow> read_line bufsize cap all input =
    (if newline \<in> set input \<and> length all + length (line_of input) \<le> cap
     then Inr (all @ line_of input, drop (length (line_of input)) input)
     else if newline \<notin> set input \<and> length all + length input \<le> cap then Inl (Failure ''EOF'')
     else Inl (Failure ''frame exceeds size limit''))"
proof (induction bufsize cap all input rule: read_line.induct)
  case (1 bufsize cap all input)
  let ?w = "take bufsize input"
  show ?case
  proof (cases "newline \<in> set ?w")
    case True
    then have "newline \<in> set input" using set_take_subset by fast
    then show ?thesis using True
      by (subst read_line.simps)
        (simp add: read_slice_def Let_def line_of_def takeWhile_take_member)
  next
    case False
    note none = False
    show ?thesis
    proof (cases "bufsize \<le> length input")
      case True
      have slice: "read_slice bufsize input = (?w, drop bufsize input, Some True)"
        using none True by (simp add: read_slice_def Let_def)
      have w: "?w \<noteq> []" "length ?w = bufsize" using True "1.prems" by auto
      have line: "line_of input = ?w @ line_of (drop bufsize input)"
        using takeWhile_split_off [OF none] by (simp add: line_of_def)
      have mem: "newline \<in> set input \<longleftrightarrow> newline \<in> set (drop bufsize input)"
        using none by (metis Un_iff append_take_drop_id set_append)
      have "read_line bufsize cap all input =
          (if cap < length all + bufsize then Inl (Failure ''frame exceeds size limit'')
           else read_line bufsize cap (all @ ?w) (drop bufsize input))"
        using w by (subst read_line.simps) (simp add: slice del: take_eq_Nil)
      moreover have "\<not> cap < length all + bufsize \<Longrightarrow>
          read_line bufsize cap (all @ ?w) (drop bufsize input) =
          (if newline \<in> set (drop bufsize input)
              \<and> length (all @ ?w) + length (line_of (drop bufsize input)) \<le> cap
           then Inr ((all @ ?w) @ line_of (drop bufsize input),
             drop (length (line_of (drop bufsize input))) (drop bufsize input))
           else if newline \<notin> set (drop bufsize input)
              \<and> length (all @ ?w) + length (drop bufsize input) \<le> cap then Inl (Failure ''EOF'')
           else Inl (Failure ''frame exceeds size limit''))"
        using "1.IH" [OF slice [symmetric] refl] w "1.prems" by (simp del: take_eq_Nil)
      ultimately show ?thesis using w True unfolding mem line by (simp add: add.commute del: take_eq_Nil)
    next
      case False
      then have "newline \<notin> set input" using none by simp
      then show ?thesis using False
        by (subst read_line.simps) (simp add: read_slice_def Let_def)
    qed
  qed
qed

text \<open>C39. \<open>readLine\<close> returns exactly the first line of the input, newline included, and leaves exactly the
  rest, when that line fits the limit, however the reader's buffer cuts it; a longer line, or input
  that ends without a newline, is an error, and it never returns more than the limit.\<close>

theorem readLine_spec:
  "readLine cap input =
    (if newline \<in> set input \<and> length (line_of input) \<le> cap
     then Inr (line_of input, drop (length (line_of input)) input)
     else if newline \<notin> set input \<and> length input \<le> cap then Inl (Failure ''EOF'')
     else Inl (Failure ''frame exceeds size limit''))"
  by (simp add: readLine_def read_line_spec)

subsection \<open>Names\<close>

definition visible :: "nat list \<Rightarrow> bool" where
  "visible rs \<longleftrightarrow> list_all (\<lambda>r. \<not> removed_rune r) rs
     \<and> (rs \<noteq> [] \<longrightarrow> \<not> is_space_rune (hd rs) \<and> \<not> is_space_rune (last rs))"

lemma dropWhile_hd: "xs = [] \<or> \<not> P (hd xs) \<Longrightarrow> dropWhile P xs = xs"
  by (cases xs) auto

lemma trim_runes_visible: "visible rs \<Longrightarrow> trim_runes rs = rs"
  by (cases "rs = []") (simp_all add: trim_runes_def visible_def dropWhile_hd hd_rev)

lemma filter_visible: "visible rs \<Longrightarrow> filter (\<lambda>r. \<not> removed_rune r) rs = rs"
  by (auto simp: visible_def list_all_iff intro: filter_True)

lemma trim_runes_ends:
  "rs' = trim_runes rs \<Longrightarrow> rs' \<noteq> [] \<Longrightarrow> \<not> is_space_rune (hd rs') \<and> \<not> is_space_rune (last rs')"
proof -
  assume rs': "rs' = trim_runes rs" and ne: "rs' \<noteq> []"
  let ?a = "dropWhile is_space_rune rs" and ?b = "dropWhile is_space_rune (rev (dropWhile is_space_rune rs))"
  have b: "?b \<noteq> []" "rs' = rev ?b" using rs' ne by (auto simp: trim_runes_def)
  have "\<not> is_space_rune (hd ?b)" using hd_dropWhile [OF b(1)] .
  then have l: "\<not> is_space_rune (last rs')" using b by (simp add: last_rev)
  have a: "?a \<noteq> []" using b(1) by (metis dropWhile.simps(1) rev.simps(1))
  obtain zs where "rev ?a = zs @ ?b" using takeWhile_dropWhile_id by metis
  then have "?a = rev ?b @ rev zs" by (metis rev_append rev_rev_ident)
  then have "hd ?a = hd rs'" using b ne by (metis hd_append2)
  then show ?thesis using l hd_dropWhile [OF a] by simp
qed

lemma set_trim_runes: "set (trim_runes rs) \<subseteq> set rs"
  by (auto simp: trim_runes_def dest!: set_dropWhileD)

lemma trim_filter_visible: "visible (trim_runes (filter (\<lambda>r. \<not> removed_rune r) rs))"
  using set_trim_runes [of "filter (\<lambda>r. \<not> removed_rune r) rs"] trim_runes_ends [OF refl]
  by (auto simp: visible_def list_all_iff)

lemma ellipsis: "\<not> removed_rune 0x2026" "\<not> is_space_rune 0x2026" "valid_rune 0x2026"
  by (simp_all add: removed_rune_def control_ranges_def is_space_rune_def valid_rune_def)

lemma visible_cut: "visible r \<Longrightarrow> 64 < length r \<Longrightarrow> visible (take 63 r @ [0x2026])"
  by (cases r) (auto simp: visible_def list_all_iff ellipsis dest: in_set_takeD)

lemma normalizeName_runes:
  obtains rs where "normalizeName name = encode_runes rs" "visible rs" "length rs \<le> 64"
    "\<forall>r \<in> set rs. valid_rune r"
proof -
  let ?r = "trim_runes (filter (\<lambda>x. \<not> removed_rune x) (runes name))"
  have v: "visible ?r" by (rule trim_filter_visible)
  have ok: "\<forall>r \<in> set ?r. valid_rune r"
    using set_trim_runes [of "filter (\<lambda>x. \<not> removed_rune x) (runes name)"] runes_valid by auto
  show thesis
  proof (cases "64 < length ?r")
    case True
    show thesis
      by (rule that [of "take 63 ?r @ [0x2026]"])
        (use True v ok visible_cut ellipsis in \<open>auto simp: normalizeName_def Let_def dest: in_set_takeD\<close>)
  next
    case False
    then show thesis using v ok by (intro that [of ?r]) (auto simp: normalizeName_def Let_def)
  qed
qed

lemma normalizeName_encode:
  assumes "visible rs" "length rs \<le> 64" "\<forall>r \<in> set rs. valid_rune r"
  shows "normalizeName (encode_runes rs) = encode_runes rs"
  using assms by (simp add: normalizeName_def Let_def filter_visible trim_runes_visible)

lemma normalizeName_idem: "normalizeName (normalizeName name) = normalizeName name"
  by (rule normalizeName_runes [of name]) (simp add: normalizeName_encode)

text \<open>A normalised name has at most 64 runes, none of them a control, format or line-separator rune, does
  not begin or end with white space, and normalising it again changes nothing.\<close>

theorem normalizeName_canonical:
  "length (runes (normalizeName name)) \<le> 64
   \<and> list_all (\<lambda>r. \<not> removed_rune r) (runes (normalizeName name))
   \<and> trim_runes (runes (normalizeName name)) = runes (normalizeName name)
   \<and> normalizeName (normalizeName name) = normalizeName name"
proof -
  obtain rs where rs: "normalizeName name = encode_runes rs" "visible rs" "length rs \<le> 64"
    "\<forall>r \<in> set rs. valid_rune r" by (rule normalizeName_runes)
  then have "runes (normalizeName name) = rs" by simp
  moreover have "trim_runes rs = rs" "list_all (\<lambda>r. \<not> removed_rune r) rs"
    using trim_runes_visible [OF rs(2)] rs(2) by (simp_all add: visible_def)
  ultimately show ?thesis using rs(3) normalizeName_idem by simp
qed

subsection \<open>Replacing the closing tag and back\<close>

lemma ReplaceAll_match: "old \<noteq> [] \<Longrightarrow> ReplaceAll (old @ s) old new = new @ ReplaceAll s old new"
  by (subst ReplaceAll.simps) simp

lemma ReplaceAll_Nil [simp]: "ReplaceAll [] old new = []"
  by (subst ReplaceAll.simps) simp

lemma ReplaceAll_skip:
  "old \<noteq> [] \<Longrightarrow> \<not> prefix old (c # s) \<Longrightarrow> ReplaceAll (c # s) old new = c # ReplaceAll s old new"
  by (subst ReplaceAll.simps) simp

text \<open>A piece without the first byte of the replacement was in the text before.\<close>

lemma prefix_ReplaceAll:
  assumes "old = c # old'" "new = c # new'" "c \<notin> set p" "prefix p (ReplaceAll s old new)"
  shows "prefix p s"
  using assms(3,4)
proof (induction p arbitrary: s)
  case (Cons a p)
  show ?case
  proof (cases "prefix old s")
    case True
    then obtain t where "s = old @ t" by (auto simp: prefix_def)
    then have "prefix (a # p) (new @ ReplaceAll t old new)"
      using Cons.prems(2) ReplaceAll_match [of old t new] assms(1) by simp
    then show ?thesis using Cons.prems(1) assms(2) by simp
  next
    case False
    show ?thesis
    proof (cases s)
      case Nil
      then show ?thesis using Cons.prems(2) by simp
    next
      case (Cons b t)
      with False Cons.prems(2) have "prefix (a # p) (b # ReplaceAll t old new)"
        using ReplaceAll_skip [of old b t new] assms(1) by simp
      then show ?thesis using Cons.IH [of t] Cons.prems(1) \<open>s = b # t\<close> by simp
    qed
  qed
qed simp

lemma ReplaceAll_inverse:
  assumes "old = c # old'" "new = c # new'" "c \<notin> set new'" "\<not> sublist new s"
  shows "ReplaceAll (ReplaceAll s old new) new old = s"
  using assms(4)
proof (induction "length s" arbitrary: s rule: less_induct)
  case less
  have ne: "old \<noteq> []" "new \<noteq> []" using assms by auto
  show ?case
  proof (cases "prefix old s")
    case True
    then obtain t where t: "s = old @ t" by (auto simp: prefix_def)
    have "\<not> sublist new t" using less.prems t by (simp add: sublist_append)
    then have "ReplaceAll (ReplaceAll t old new) new old = t" using less.hyps t ne by simp
    then show ?thesis using t ne by (simp add: ReplaceAll_match)
  next
    case no: False
    show ?thesis
    proof (cases s)
      case (Cons b t)
      let ?r = "ReplaceAll t old new"
      have r: "ReplaceAll s old new = b # ?r" using no Cons ne by (simp add: ReplaceAll_skip)
      have "\<not> prefix new (b # ?r)"
      proof
        assume "prefix new (b # ?r)"
        then have "b = c" "prefix new' ?r" using assms(2) by auto
        then have "prefix new s"
          using prefix_ReplaceAll [OF assms(1,2,3)] Cons assms(2) by auto
        with less.prems show False by (auto dest: prefix_imp_sublist)
      qed
      moreover have "\<not> sublist new t" using less.prems Cons by (simp add: sublist_Cons_right)
      ultimately show ?thesis using r less.hyps [of t] Cons ne by (simp add: ReplaceAll_skip)
    qed simp
  qed
qed

lemma closing_round_trip:
  "\<not> Contains body escapedClosingTag \<Longrightarrow>
     ReplaceAll (ReplaceAll body closingTag escapedClosingTag) escapedClosingTag closingTag = body"
  by (rule ReplaceAll_inverse [where c = "CHR ''<''"])
    (auto simp: closingTag_def escapedClosingTag_def tag_name_def backslash_def Contains_def)

subsection \<open>The envelope\<close>

lemma EscapeString_clean:
  "CHR ''>'' \<notin> set (EscapeString s)" "quote \<notin> set (EscapeString s)"
  by (auto simp: EscapeString_def EscapeChar_def quote_def split: if_splits)

lemma takeWhile_until: "x \<notin> set a \<Longrightarrow> takeWhile (\<lambda>c. c \<noteq> x) (a @ x # b) = a"
  by (induction a) auto

lemma dropWhile_until: "x \<notin> set a \<Longrightarrow> dropWhile (\<lambda>c. c \<noteq> x) (a @ x # b) = x # b"
  by (induction a) auto

definition attr_text :: "string \<Rightarrow> string \<Rightarrow> string \<Rightarrow> string" where
  "attr_text address name mode =
     attribute ''from'' (EscapeString address) @ '' '' @ attribute ''from-name'' (EscapeString name)
       @ '' '' @ attribute ''from-mode'' mode"

lemma attr_text_clean: "CHR ''>'' \<notin> set mode \<Longrightarrow> CHR ''>'' \<notin> set (attr_text address name mode)"
  using EscapeString_clean by (auto simp: attr_text_def attribute_def quote_def)

lemma envelopeRE_match:
  assumes "CHR ''>'' \<notin> set (c # a)" "\<not> re_space c"
  shows "envelopeRE (''<'' @ tag_name @ '' '' @ (c # a) @ ''>'' @ [newline] @ body @ [newline] @ closingTag) =
    Some (c # a, body)"
proof -
  let ?rest = "'' '' @ (c # a) @ ''>'' @ [newline] @ body @ [newline] @ closingTag"
  have inner: "takeWhile (\<lambda>x. x \<noteq> CHR ''>'') ?rest = CHR '' '' # c # a"
    and after: "dropWhile (\<lambda>x. x \<noteq> CHR ''>'') ?rest = CHR ''>'' # newline # body @ [newline] @ closingTag"
    using takeWhile_until [of "CHR ''>''" "c # a"] dropWhile_until [of "CHR ''>''" "c # a"] assms(1) by auto
  have ws: "takeWhile re_space (CHR '' '' # c # a) = '' ''" "dropWhile re_space (CHR '' '' # c # a) = c # a"
    using assms(2) by (simp_all add: re_space_def)
  show ?thesis
    unfolding envelopeRE_def Let_def
    using inner after ws by (simp add: HasPrefix_def HasSuffix_def suffix_def)
qed

lemma attrRE_attribute:
  assumes "k \<noteq> []" "list_all attr_char k" "quote \<notin> set v"
  shows "attrRE (attribute k v @ s) = (k, v) # attrRE s"
proof -
  have eq: "\<not> attr_char CHR ''=''" by (simp add: attr_char_def is_digit_def)
  obtain c cs where k: "k = c # cs" using assms(1) by (cases k) auto
  have run: "takeWhile attr_char (attribute k v @ s) = k"
    "dropWhile attr_char (attribute k v @ s) = CHR ''='' # quote # v @ quote # s"
    using assms(2) eq by (simp_all add: attribute_def takeWhile_append2 dropWhile_append2 list_all_iff)
  have "attribute k v @ s = c # (cs @ ''='' @ [quote] @ v @ [quote] @ s)" by (simp add: attribute_def k)
  then have "attrRE (attribute k v @ s) =
      (let run = takeWhile attr_char (attribute k v @ s); rest = dropWhile attr_char (attribute k v @ s);
          w = takeWhile (\<lambda>x. x \<noteq> quote) (drop 2 rest);
          after = dropWhile (\<lambda>x. x \<noteq> quote) (drop 2 rest)
      in if run \<noteq> [] \<and> prefix (''='' @ [quote]) rest \<and> after \<noteq> []
         then (run, w) # attrRE (tl after)
         else attrRE (cs @ ''='' @ [quote] @ v @ [quote] @ s))"
    by (simp only: attrRE.simps(2))
  then show ?thesis
    unfolding run Let_def using assms(1,3) takeWhile_until [of quote v s] dropWhile_until [of quote v s] by simp
qed

lemma attrRE_space: "attrRE (CHR '' '' # s) = attrRE s"
  by (subst attrRE.simps(2)) (simp add: attr_char_def is_digit_def)

lemma attrRE_text:
  assumes "quote \<notin> set mode"
  shows "attrRE (attr_text address name mode) =
    [(''from'', EscapeString address), (''from-name'', EscapeString name), (''from-mode'', mode)]"
proof -
  have k: "list_all attr_char ''from''" "list_all attr_char ''from-name''" "list_all attr_char ''from-mode''"
    by (simp_all add: attr_char_def is_digit_def)
  have "attr_text address name mode = attribute ''from'' (EscapeString address) @ (CHR '' '' #
      (attribute ''from-name'' (EscapeString name) @ (CHR '' '' # (attribute ''from-mode'' mode @ []))))"
    by (simp add: attr_text_def)
  then show ?thesis
    by (simp only: attrRE_attribute [OF _ k(1) EscapeString_clean(2)] attrRE_attribute [OF _ k(2) EscapeString_clean(2)]
      attrRE_attribute [OF _ k(3) assms] attrRE_space attrRE.simps(1) list.distinct not_False_eq_True)
qed

lemma envelope_parses:
  assumes "mode = ''prompting'' \<or> mode = ''bypass''"
  shows "envelopeRE (envelope address name mode body) =
    Some (attr_text address (normalizeName name) mode, ReplaceAll body closingTag escapedClosingTag)"
proof -
  let ?t = "attr_text address (normalizeName name) mode"
  obtain a where a: "?t = CHR ''f'' # a" by (simp add: attr_text_def attribute_def)
  have "CHR ''>'' \<notin> set ?t" using assms by (intro attr_text_clean) auto
  then show ?thesis
    using envelopeRE_match [of "CHR ''f''" a "ReplaceAll body closingTag escapedClosingTag"]
    by (simp add: envelope_def a [symmetric] re_space_def) (simp add: attr_text_def)
qed

text \<open>C26. A user frame survives the wire: decoding what \<open>userFrame\<close> built gives back the message identifier,
  the body, the address, the normalised name and the permission class, whatever bytes the address,
  the name and the body contain, the closing tag included; the body only must not contain the
  escaped form of the closing tag itself.\<close>

theorem user_frame_round_trip:
  assumes "userFrame L newid body address name mode = Inr frame"
    and "uuid_parse L newid \<noteq> None" and "\<And>s. unescape L (EscapeString s) = s"
    and "\<not> Contains body escapedClosingTag"
  shows "decodeUser L frame = Inr [(''wire_id'', GStr newid), (''body'', GStr body), (''from'', GStr address),
     (''from_name'', GStr (normalizeName name)), (''from_mode'', GStr mode),
     (''raw_envelope'', GStr (envelope address name mode body)), (''hop_chain'', GStr [])]"
proof -
  have mode: "mode = ''prompting'' \<or> mode = ''bypass''"
    and frame: "frame = [(''msgV'', GInt 1), (''msg_id'', GStr newid), (''type'', GStr ''user''),
      (''message'', GObj [(''role'', GStr ''user''), (''content'', GStr (envelope address name mode body))]),
      (''priority'', GStr ''next''), (''from'', GStr address)]"
    using assms(1) by (auto simp: userFrame_def Let_def split: if_splits)
  have q: "quote \<notin> set mode" using mode by (auto simp: quote_def)
  have "EscapeString mode = mode" using mode by (auto simp: EscapeString_def EscapeChar_def quote_def)
  then have m: "unescape L mode = mode" using assms(3) [of mode] by simp
  show ?thesis
    unfolding decodeUser_def frame using assms(2,3) m
    by (simp add: number_def str_def fld_def envelope_parses [OF mode] attrRE_text [OF q]
      closing_round_trip [OF assms(4)] normalizeName_idem)
qed

text \<open>A concrete library: an unescape function for the five entities that \<open>EscapeString\<close> writes.\<close>

definition entities :: "(string \<times> char) list" where
  "entities = [(''amp;'', CHR ''&''), (''#39;'', CHR 0x27), (''lt;'', CHR ''<''), (''gt;'', CHR ''>''), (''#34;'', quote)]"

fun sample_unescape :: "string \<Rightarrow> string" where
  "sample_unescape [] = []"
| "sample_unescape (c # cs) =
     (if c \<noteq> CHR ''&'' then c # sample_unescape cs
      else case List.find (\<lambda>e. prefix (fst e) cs) entities of
             None \<Rightarrow> c # sample_unescape cs
           | Some e \<Rightarrow> snd e # sample_unescape (drop (length (fst e)) cs))"

definition sample_lib :: lib where
  "sample_lib = \<lparr>uuid_parse = (\<lambda>s. if length s = 36 then Some s else None),
     unescape = sample_unescape, fmt_float = (\<lambda>x. Itoa \<lfloor>x\<rfloor>)\<rparr>"

definition sample_uuid :: string where
  "sample_uuid = ''6ba7b810-9dad-41d1-80b4-00c04fd430c8''"

lemma sample_unescape_char: "sample_unescape (EscapeChar c @ s) = c # sample_unescape s"
proof -
  have "byte c = 39 \<Longrightarrow> c = CHR 0x27"
    using of_char_eq_iff [of c "CHR 0x27", where 'a = nat] by simp
  then show ?thesis by (auto simp: EscapeChar_def entities_def quote_def)
qed

lemma sample_unescape_inverse: "sample_unescape (EscapeString s) = s"
  by (induction s) (simp_all add: EscapeString_def sample_unescape_char)

text \<open>Size of an encoded string: six bytes per byte at most.\<close>

lemma json_chars_length: "length (json_chars s) \<le> 6 * length s"
proof (induction s rule: json_chars.induct)
  case (2 c cs)
  have e: "length (escape_ascii c) \<le> 6" by (simp add: escape_ascii_def)
  obtain r w where rw: "decode_rune c cs = (r, w)" by fastforce
  show ?case
  proof (cases "byte c < 0x80")
    case True
    then show ?thesis using 2(1) e by (simp add: json_chars.simps(2))
  next
    case False
    then show ?thesis
      using 2(2) [OF False rw [symmetric] refl] 2(3) [OF False rw [symmetric] refl] 2(4) [OF False rw [symmetric] refl]
      by (auto simp: json_chars.simps(2) rw)
  qed
qed simp

lemma runes_length: "length (runes s) \<le> length s"
proof (induction s rule: runes.induct)
  case (2 c cs)
  obtain r w where rw: "decode_rune c cs = (r, w)" by fastforce
  show ?case using 2 [OF rw [symmetric] refl] by (simp add: runes.simps(2) rw)
qed simp

lemma utf16_length_le: "utf16_length rs \<le> 2 * length rs"
  by (induction rs) (simp_all add: utf16_length_def)

definition sample_body :: string where
  "sample_body = ''a'' @ closingTag"

lemma sample_frame:
  obtains frame where "userFrame sample_lib sample_uuid sample_body ''uds:/s'' [] ''prompting'' = Inr frame"
proof -
  let ?env = "envelope ''uds:/s'' [] ''prompting'' sample_body"
  have "ReplaceAll sample_body closingTag escapedClosingTag = ''a'' @ escapedClosingTag"
    using ReplaceAll_match [of closingTag "[]" escapedClosingTag]
    by (simp add: sample_body_def ReplaceAll_skip closingTag_def)
  moreover have "normalizeName [] = []"
    by (simp add: normalizeName_def Let_def trim_runes_def encode_runes_def)
  ultimately have len: "length ?env \<le> 200"
    by (simp add: envelope_def EscapeString_def EscapeChar_def attribute_def tag_name_def closingTag_def
        escapedClosingTag_def quote_def)
  let ?f = "[(''msgV'', GInt 1), (''msg_id'', GStr sample_uuid), (''type'', GStr ''user''),
      (''message'', GObj [(''role'', GStr ''user''), (''content'', GStr ?env)]),
      (''priority'', GStr ''next''), (''from'', GStr ''uds:/s'')]"
  let ?b = "compact (fmt_float sample_lib) (GObj ?f)"
  have js: "length (json_str s) \<le> 6 * length s + 2" for s
    using json_chars_length [of s] by (simp add: json_str_def)
  have "length ?b \<le> 100000"
  proof -
    have "length (json_str ?env) \<le> 1202" using js [of ?env] len by linarith
    moreover have "length (Itoa 1) = 1" by (simp add: Itoa_def nat_digits.simps)
    ultimately show ?thesis
      using js [of sample_uuid] js [of "''user''"] js [of "''next''"] js [of "''uds:/s''"] js [of "''msgV''"]
        js [of "''msg_id''"] js [of "''type''"] js [of "''message''"] js [of "''priority''"] js [of "''from''"]
        js [of "''role''"] js [of "''content''"]
      by (simp add: sample_uuid_def length_Join)
  qed
  moreover have "utf16_length (runes ?b) \<le> 2 * length ?b"
    using utf16_length_le [of "runes ?b"] runes_length [of ?b] by linarith
  moreover have "ValidString sample_body"
    by (simp add: sample_body_def closingTag_def tag_name_def ValidString.simps(2) decode_rune_def)
  ultimately show thesis
    by (intro that [of ?f]) (simp add: userFrame_def Let_def MaxBuffer_def MaxSerialized_def sample_body_def)
qed

theorem user_frame_round_trip_witness:
  "\<exists>frame. userFrame sample_lib sample_uuid sample_body ''uds:/s'' [] ''prompting'' = Inr frame
     \<and> map_sum (\<lambda>_. ()) (\<lambda>m. fld m ''body'') (decodeUser sample_lib frame) = Inr (GStr sample_body)"
proof -
  obtain frame where f: "userFrame sample_lib sample_uuid sample_body ''uds:/s'' [] ''prompting'' = Inr frame"
    by (rule sample_frame)
  have "\<not> Contains sample_body escapedClosingTag"
    by (simp add: Contains_def sample_body_def closingTag_def escapedClosingTag_def tag_name_def backslash_def
        sublist_Cons_right)
  moreover have "uuid_parse sample_lib sample_uuid \<noteq> None" by (simp add: sample_lib_def sample_uuid_def)
  moreover have "unescape sample_lib (EscapeString s) = s" for s
    by (simp add: sample_lib_def sample_unescape_inverse)
  ultimately show ?thesis using user_frame_round_trip [OF f] f by (simp add: fld_def)
qed

end
