(* ===== verification/Paging.thy ===== *)
theory Paging
  imports Receipts Frames
begin

section \<open>Reading the inbox in pages\<close>

text \<open>
  \<open>Store.Page\<close>: the response never exceeds the 8 MiB budget, a page never panics, and following
  \<open>next_after\<close> visits every message exactly once.
\<close>

definition rows_after :: "store \<Rightarrow> string \<Rightarrow> nat \<Rightarrow> row list" where
  "rows_after st state row = filter (\<lambda>r. rstate r = state \<and> row < rowid r) (inbox st)"

definition as_message :: "row \<Rightarrow> obj" where
  "as_message r = set_fld (rdata r) ''state'' (GStr (rstate r))"

abbreviation msgs_len :: "(rat \<Rightarrow> string) \<Rightarrow> obj list \<Rightarrow> nat" where
  "msgs_len ff ms \<equiv> sum_list (map (\<lambda>m. jlen ff (GObj m) + 1) ms)"

lemma page_loop_Some:
  "page_loop ff used msgs ms = Some out \<Longrightarrow>
     \<exists>k \<le> length ms. out = msgs @ take k ms \<and> (0 < k \<longrightarrow> used + msgs_len ff (take k ms) \<le> MaxReadResponse)
       \<and> (msgs = [] \<longrightarrow> ms \<noteq> [] \<longrightarrow> 0 < k)"
proof (induction ff used msgs ms rule: page_loop.induct)
  case (1 ff used msgs)
  then show ?case by simp
next
  case (2 ff used msgs m ms)
  let ?n = "jlen ff (GObj m) + 1"
  show ?case
  proof (cases "MaxReadResponse < used + ?n")
    case True
    with 2(2) show ?thesis by (intro exI [of _ 0]) (auto simp: Let_def split: if_splits)
  next
    case False
    with 2(2) have "page_loop ff (used + ?n) (msgs @ [m]) ms = Some out" by (simp add: Let_def)
    with 2(1) [OF refl False] obtain k where k: "k \<le> length ms" "out = (msgs @ [m]) @ take k ms"
      "0 < k \<longrightarrow> used + ?n + msgs_len ff (take k ms) \<le> MaxReadResponse" by blast
    show ?thesis
      using k False by (intro exI [of _ "Suc k"]) (cases "k = 0"; auto)
  qed
qed

lemma page_loop_rows:
  assumes "page_loop ff used [] (map f (take limit rows)) = Some messages"
  obtains k where "k \<le> length rows" "k \<le> limit" "messages = map f (take k rows)"
    "0 < k \<longrightarrow> used + msgs_len ff messages \<le> MaxReadResponse" "rows \<noteq> [] \<and> 0 < limit \<longrightarrow> 0 < k"
proof -
  obtain k where k: "k \<le> length (map f (take limit rows))" "messages = [] @ take k (map f (take limit rows))"
    "0 < k \<longrightarrow> used + msgs_len ff (take k (map f (take limit rows))) \<le> MaxReadResponse"
    "map f (take limit rows) \<noteq> [] \<longrightarrow> 0 < k"
    using page_loop_Some [OF assms] by blast
  have le: "k \<le> length rows" "k \<le> limit" using k(1) by auto
  then have m: "messages = map f (take k rows)" using k(2) by (simp add: take_map min_absorb1)
  have "0 < k \<longrightarrow> used + msgs_len ff messages \<le> MaxReadResponse" using k(2,3) by simp
  moreover have "rows \<noteq> [] \<and> 0 < limit \<longrightarrow> 0 < k" using k(4) by simp
  ultimately show thesis using that le m by blast
qed

lemma nat_digits_length_mono: "m \<le> n \<Longrightarrow> length (nat_digits m) \<le> length (nat_digits n)"
proof (induction n arbitrary: m rule: nat_digits.induct)
  case (1 n)
  show ?case
  proof (cases "m < 10 \<or> n < 10")
    case True
    then show ?thesis using 1(2) by (subst (1 2) nat_digits.simps) auto
  next
    case False
    then have "length (nat_digits (m div 10)) \<le> length (nat_digits (n div 10))"
      using 1 by (simp add: div_le_mono)
    with False show ?thesis by (subst (1 2) nat_digits.simps) simp
  qed
qed

lemma Itoa_length_mono: "n \<le> a \<Longrightarrow> length (Itoa (int a - int n)) \<le> length (Itoa (int a))"
  by (simp add: Itoa_def nat_digits_length_mono)

text \<open>The object before the messages are read, and how filling it in changes its length.\<close>

definition page_start :: "obj \<Rightarrow> nat \<Rightarrow> obj" where
  "page_start info available =
     set_fld (set_fld (set_fld (set_fld (clone info) ''messages'' (GArr []))
       ''remaining'' (GInt (int available))) ''has_more'' (GBool (0 < available))) ''next_after'' GNil"

definition page_fill :: "obj \<Rightarrow> nat \<Rightarrow> obj list \<Rightarrow> obj" where
  "page_fill result available messages =
     set_fld (set_fld (set_fld result ''messages'' (GArr (map GObj messages)))
       ''remaining'' (GInt (int available - int (length messages))))
       ''has_more'' (GBool (length messages < available))"

lemma distinct_page:
  "distinct (map fst info) \<Longrightarrow> distinct (map fst (page_start info available))"
  "distinct (map fst r) \<Longrightarrow> distinct (map fst (page_fill r available messages))"
  by (simp_all add: page_start_def page_fill_def clone_eq distinct_keys_update)

lemma map_of_page:
  "map_of (page_start info available) ''messages'' = Some (GArr [])"
  "map_of (page_start info available) ''remaining'' = Some (GInt (int available))"
  "map_of (page_start info available) ''has_more'' = Some (GBool (0 < available))"
  "map_of (page_start info available) ''next_after'' = Some GNil"
  "map_of (page_fill r available messages) ''next_after'' = map_of r ''next_after''"
  by (simp_all add: page_start_def page_fill_def)

lemma page_fill_length:
  assumes "distinct (map fst info)" "length messages \<le> available"
  shows "jlen ff (GObj (page_fill (page_start info available) available messages))
    \<le> jlen ff (GObj (page_start info available)) + msgs_len ff messages + 1"
proof -
  let ?r = "page_start info available"
  let ?r1 = "set_fld ?r ''messages'' (GArr (map GObj messages))"
  let ?r2 = "set_fld ?r1 ''remaining'' (GInt (int available - int (length messages)))"
  note d = distinct_page(1) [OF assms(1), of available]
  have 1: "jlen ff (GObj ?r1) + 2 = jlen ff (GObj ?r) + jlen ff (GArr (map GObj messages))"
    using jlen_GObj_update [OF d map_of_page(1)] by (simp add: jlen_GArr)
  have 2: "jlen ff (GObj ?r2) + jlen ff (GInt (int available)) =
      jlen ff (GObj ?r1) + jlen ff (GInt (int available - int (length messages)))"
    by (rule jlen_GObj_update) (simp_all add: distinct_keys_update d map_of_page)
  have 3: "jlen ff (GObj (page_fill ?r available messages)) + jlen ff (GBool (0 < available)) =
      jlen ff (GObj ?r2) + jlen ff (GBool (length messages < available))"
    unfolding page_fill_def by (rule jlen_GObj_update) (simp_all add: distinct_keys_update d map_of_page)
  have "jlen ff (GArr (map GObj messages)) \<le> msgs_len ff messages + 2"
    by (simp add: jlen_GArr comp_def)
  moreover have "jlen ff (GInt (int available - int (length messages))) \<le> jlen ff (GInt (int available))"
    using Itoa_length_mono [OF assms(2)] by (simp add: jlen_def)
  moreover have "jlen ff (GBool (length messages < available)) \<le> jlen ff (GBool (0 < available)) + 1"
    by (simp add: jlen_def)
  ultimately show ?thesis using 1 2 3 by linarith
qed

lemma Page_cases:
  assumes "Page L st state after limit info = Inr result"
  obtains row messages where "cursor_row st after = Inr row"
    "page_loop (fmt_float L) (jlen (fmt_float L) (GObj [(''result'',
       GObj (page_start info (length (rows_after st state row))))]) + 129) []
       (map as_message (take limit (rows_after st state row))) = Some messages"
    "result = (let r = page_fill (page_start info (length (rows_after st state row)))
         (length (rows_after st state row)) messages
       in if length messages < length (rows_after st state row)
          then set_fld r ''next_after'' (fld (last messages) ''id'') else r)"
    "length messages < length (rows_after st state row) \<longrightarrow> messages \<noteq> []"
proof -
  from assms obtain row where row: "cursor_row st after = Inr row"
    by (auto simp: Page_def Store.count_def split: sum.splits)
  have c: "Store.count st state after = Inr (length (rows_after st state row))"
    by (simp add: Store.count_def row count_if_def rows_after_def)
  have s: "select_rows st state row limit = map as_message (take limit (rows_after st state row))"
    by (simp add: select_rows_def rows_after_def as_message_def)
  let ?start = "page_start info (length (rows_after st state row))"
  obtain messages where loop: "page_loop (fmt_float L) (jlen (fmt_float L) (GObj [(''result'', GObj ?start)]) + 129) []
       (map as_message (take limit (rows_after st state row))) = Some messages"
    using assms unfolding Page_def c row sum.case s Let_def page_start_def
    by (auto split: option.splits)
  show thesis
  proof (rule that [OF row loop])
    show "result = (let r = page_fill ?start (length (rows_after st state row)) messages
       in if length messages < length (rows_after st state row)
          then set_fld r ''next_after'' (fld (last messages) ''id'') else r)"
      "length messages < length (rows_after st state row) \<longrightarrow> messages \<noteq> []"
      using assms loop unfolding Page_def c row sum.case s Let_def page_start_def page_fill_def
      by (auto split: if_splits)
  qed
qed

lemma jlen_result: "jlen ff (GObj [(''result'', v)]) = length (json_str ''result'') + jlen ff v + 3"
  by (simp add: jlen_GObj entry_len_def)

lemma fld_as_message: "rows_wf st \<Longrightarrow> r \<in> set (inbox st) \<Longrightarrow> fld (as_message r) ''id'' = GStr (rid r)"
  by (simp add: as_message_def rows_wf_def)

lemma last_take_row:
  "0 < k \<Longrightarrow> k \<le> length rows \<Longrightarrow> last (map f (take k rows)) = f (rows ! (k - 1))"
proof -
  assume k: "0 < k" "k \<le> length rows"
  then have "take k rows \<noteq> []" by auto
  then show ?thesis using k by (simp add: last_map last_conv_nth)
qed

text \<open>C38. A page that carries messages is at most 8 MiB on the wire, its envelope and newline included, for
  every inbox whose identifiers take at most 130 bytes encoded (a UUID takes 38).\<close>

theorem page_within_budget:
  assumes "rows_wf st" and "Page L st state after limit info = Inr result" and "distinct (map fst info)"
    and "fld result ''messages'' \<noteq> GArr []" and "\<forall>r \<in> set (inbox st). length (json_str (rid r)) \<le> 130"
  shows "jlen (fmt_float L) (GObj [(''result'', GObj result)]) + 1 \<le> MaxReadResponse"
proof (rule Page_cases [OF assms(2)])
  fix row messages
  let ?ff = "fmt_float L" and ?rows = "rows_after st state row"
  let ?start = "page_start info (length ?rows)"
  let ?full = "page_fill ?start (length ?rows) messages"
  assume loop: "page_loop ?ff (jlen ?ff (GObj [(''result'', GObj ?start)]) + 129) []
       (map as_message (take limit ?rows)) = Some messages"
    and res: "result = (let r = ?full in if length messages < length ?rows
      then set_fld r ''next_after'' (fld (last messages) ''id'') else r)"
  obtain k where k: "k \<le> length ?rows" "messages = map as_message (take k ?rows)"
    "0 < k \<longrightarrow> jlen ?ff (GObj [(''result'', GObj ?start)]) + 129 + msgs_len ?ff messages \<le> MaxReadResponse"
    by (rule page_loop_rows [OF loop]) blast
  have le: "length messages \<le> length ?rows" using k(1,2) by simp
  have "fld result ''messages'' = GArr (map GObj messages)"
    by (simp add: res Let_def page_fill_def)
  with assms(4) k(2) have pos: "0 < k" by auto
  have last: "last messages = as_message (?rows ! (k - 1))"
    using pos k(1) unfolding k(2) by (subst last_take_row) auto
  have "?rows ! (k - 1) \<in> set ?rows" using pos k(1) by (intro nth_mem) simp
  then have mem: "?rows ! (k - 1) \<in> set (inbox st)" by (simp add: rows_after_def)
  have nxt: "jlen ?ff (fld (last messages) ''id'') \<le> 130"
    using fld_as_message [OF assms(1) mem] assms(5) mem last by (simp add: jlen_def)
  note full = page_fill_length [OF assms(3) le, of ?ff]
  have "jlen ?ff (GObj (set_fld ?full ''next_after'' (fld (last messages) ''id''))) + jlen ?ff GNil =
      jlen ?ff (GObj ?full) + jlen ?ff (fld (last messages) ''id'')"
    by (rule jlen_GObj_update) (simp_all add: distinct_page assms(3) map_of_page)
  then have "jlen ?ff (GObj result) \<le> jlen ?ff (GObj ?full) + 126"
    using nxt by (simp add: res Let_def jlen_def)
  then show ?thesis using full k(3) pos by (simp add: jlen_result)
qed

subsection \<open>Following the cursor\<close>

lemma filter_after_sorted:
  assumes "sorted_wrt (<) (map rowid rows)" "0 < k" "k \<le> length rows"
  shows "filter (\<lambda>r. rowid (rows ! (k - 1)) < rowid r) rows = drop k rows"
proof -
  let ?P = "\<lambda>r. rowid (rows ! (k - 1)) < rowid r"
  have s: "\<And>i j. i < j \<Longrightarrow> j < length rows \<Longrightarrow> rowid (rows ! i) < rowid (rows ! j)"
    using assms(1) by (simp add: sorted_wrt_iff_nth_less)
  have "filter ?P (take k rows) = []"
  proof (rule filter_False, rule ballI)
    fix r assume "r \<in> set (take k rows)"
    then obtain i where "i < k" "r = rows ! i" using assms(3) by (auto simp: in_set_conv_nth)
    moreover have "k - 1 < length rows" using assms(2,3) by simp
    moreover have "i < k - 1 \<or> i = k - 1" using \<open>i < k\<close> by linarith
    ultimately show "\<not> ?P r" using s [of i "k - 1"] by auto
  qed
  moreover have "filter ?P (drop k rows) = drop k rows"
  proof (rule filter_True, rule ballI)
    fix r assume "r \<in> set (drop k rows)"
    then obtain i where "i < length rows - k" "r = rows ! (k + i)" by (auto simp: in_set_conv_nth)
    then show "?P r" using s [of "k - 1" "k + i"] assms(2) by simp
  qed
  ultimately show ?thesis by (metis append_Nil append_take_drop_id filter_append)
qed

lemma rows_after_cursor:
  assumes "rows_wf st" "0 < k" "k \<le> length (rows_after st state row)"
  shows "rows_after st state (rowid (rows_after st state row ! (k - 1))) = drop k (rows_after st state row)"
proof -
  let ?rows = "rows_after st state row"
  have "sorted_wrt (<) (map rowid ?rows)"
    using assms(1) by (simp add: rows_after_def rows_wf_def sorted_wrt_map_filter)
  from filter_after_sorted [OF this assms(2,3)]
  have f: "filter (\<lambda>r. rowid (?rows ! (k - 1)) < rowid r) ?rows = drop k ?rows" .
  have "?rows ! (k - 1) \<in> set ?rows" using assms(2,3) by (intro nth_mem) simp
  then have "row < rowid (?rows ! (k - 1))" by (simp add: rows_after_def)
  then have "rows_after st state (rowid (?rows ! (k - 1))) =
      filter (\<lambda>r. rowid (?rows ! (k - 1)) < rowid r) ?rows"
    by (auto simp: rows_after_def intro!: filter_cong)
  with f show ?thesis by simp
qed

text \<open>C27. Pages neither skip nor repeat messages: with a positive limit a page holds the next messages of the
  state in arrival order, at least one when there is any, it reports exactly how many remain, and
  the cursor it returns stands for exactly those.\<close>

theorem page_walk:
  assumes "rows_wf st" and "Page L st state after limit info = Inr result" and "0 < limit"
  shows "\<exists>row k. cursor_row st after = Inr row \<and> k \<le> limit \<and> (rows_after st state row = [] \<or> 0 < k)
    \<and> fld result ''messages'' = GArr (map (GObj \<circ> as_message) (take k (rows_after st state row)))
    \<and> fld result ''remaining'' = GInt (int (length (drop k (rows_after st state row))))
    \<and> (if drop k (rows_after st state row) \<noteq> []
       then \<exists>i row'. fld result ''next_after'' = GStr i \<and> cursor_row st i = Inr row'
         \<and> rows_after st state row' = drop k (rows_after st state row)
       else fld result ''next_after'' = GNil)"
proof (rule Page_cases [OF assms(2)])
  fix row messages
  let ?ff = "fmt_float L" and ?rows = "rows_after st state row"
  let ?start = "page_start info (length ?rows)"
  let ?full = "page_fill ?start (length ?rows) messages"
  assume row: "cursor_row st after = Inr row"
    and loop: "page_loop ?ff (jlen ?ff (GObj [(''result'', GObj ?start)]) + 129) []
       (map as_message (take limit ?rows)) = Some messages"
    and res: "result = (let r = ?full in if length messages < length ?rows
      then set_fld r ''next_after'' (fld (last messages) ''id'') else r)"
  obtain k where k: "k \<le> length ?rows \<and> k \<le> limit" "messages = map as_message (take k ?rows)"
    "?rows \<noteq> [] \<and> 0 < limit \<longrightarrow> 0 < k"
    by (rule page_loop_rows [OF loop]) auto
  have len: "length messages = k" using k(1,2) by simp
  have f: "fld result ''messages'' = GArr (map (GObj \<circ> as_message) (take k ?rows))"
    "fld result ''remaining'' = GInt (int (length (drop k ?rows)))"
    "fld result ''next_after'' = (if k < length ?rows then fld (last messages) ''id'' else GNil)"
    using k(1,2) by (auto simp: res Let_def page_fill_def page_start_def len of_nat_diff)
  have any: "?rows = [] \<or> 0 < k" using k(3) assms(3) by auto
  have "\<exists>i row'. fld result ''next_after'' = GStr i \<and> cursor_row st i = Inr row'
      \<and> rows_after st state row' = drop k ?rows" if more: "k < length ?rows"
  proof -
    have pos: "0 < k" using any more by auto
    let ?r = "?rows ! (k - 1)"
    have "?r \<in> set ?rows" using more by (intro nth_mem) simp
    then have mem: "?r \<in> set (inbox st)" by (simp add: rows_after_def)
    have "last messages = as_message ?r" unfolding k(2) using pos more by (subst last_take_row) auto
    then have "fld result ''next_after'' = GStr (rid ?r)"
      using f(3) more fld_as_message [OF assms(1) mem] by simp
    moreover have "rid ?r \<noteq> []" using assms(1) mem by (simp add: rows_wf_def)
    then have "cursor_row st (rid ?r) = Inr (rowid ?r)"
      using find_row_member [OF rows_wf_distinct [OF assms(1)] mem] by (simp add: cursor_row_def)
    ultimately show ?thesis using rows_after_cursor [OF assms(1) pos] more by auto
  qed
  then show ?thesis using row any f k(1) by (intro exI [of _ row] exI [of _ k]) auto
qed

subsection \<open>A concrete page\<close>

lemma json_str_short: "length (json_str s) \<le> 6 * length s + 2"
  using json_chars_length [of s] by (simp add: json_str_def)

lemma sample_page:
  obtains result where "Page sample_lib sample_store ''held'' [] 1 [] = Inr result"
    "fld result ''messages'' = GArr [GObj (as_message (sample_row 1 ''a'' 10 ''held''))]"
proof -
  let ?m = "as_message (sample_row 1 ''a'' 10 ''held'')"
  let ?ff = "fmt_float sample_lib"
  have rows: "rows_after sample_store ''held'' 0 = [sample_row 1 ''a'' 10 ''held'', sample_row 3 ''c'' 900 ''held'']"
    by (simp add: rows_after_def sample_store_def sample_row_def)
  have dig: "length (Itoa \<lfloor>10 :: rat\<rfloor>) = 2" "length (Itoa 2) = 1" by (simp_all add: Itoa_def nat_digits.simps)
  have m: "jlen ?ff (GObj ?m) \<le> 1000"
    using json_str_short [of "''body''"] json_str_short [of "''wire_id''"] json_str_short [of "''id''"]
      json_str_short [of "''received_at''"] json_str_short [of "''state''"] json_str_short [of "''a''"]
      json_str_short [of "''held''"] dig
    by (simp add: jlen_GObj as_message_def sample_row_def entry_len_def sample_lib_def) (simp add: jlen_def)
  have b: "jlen ?ff (GObj [(''result'', GObj (page_start [] 2))]) \<le> 1000"
    using json_str_short [of "''messages''"] json_str_short [of "''remaining''"] json_str_short [of "''has_more''"]
      json_str_short [of "''next_after''"] json_str_short [of "''result''"] dig
    by (simp add: jlen_GObj entry_len_def page_start_def clone_def jlen_GArr) (simp add: jlen_def)
  have s: "select_rows sample_store ''held'' 0 1 = [?m]"
    using rows by (simp add: select_rows_def rows_after_def as_message_def)
  have c: "Store.count sample_store ''held'' [] = Inr 2"
    by (simp add: Store.count_def cursor_row_def sample_store_def sample_row_def)
  have cr: "cursor_row sample_store [] = Inr 0" by (simp add: cursor_row_def)
  have loop: "page_loop ?ff (jlen ?ff (GObj [(''result'', GObj (page_start [] 2))]) + 129) [] [?m] = Some [?m]"
    using m b by (simp add: MaxReadResponse_def MaxBuffer_def)
  have "Page sample_lib sample_store ''held'' [] 1 [] =
      Inr (set_fld (page_fill (page_start [] 2) 2 [?m]) ''next_after'' (fld ?m ''id''))"
    unfolding Page_def c cr sum.case s Let_def loop [unfolded page_start_def] option.case
      page_start_def page_fill_def
    by simp
  then show thesis by (rule that) (simp add: page_fill_def)
qed

theorem page_within_budget_witness:
  "\<exists>result. Page sample_lib sample_store ''held'' [] 1 [] = Inr result
     \<and> jlen (fmt_float sample_lib) (GObj [(''result'', GObj result)]) + 1 \<le> MaxReadResponse"
proof -
  obtain result where r: "Page sample_lib sample_store ''held'' [] 1 [] = Inr result"
    "fld result ''messages'' = GArr [GObj (as_message (sample_row 1 ''a'' 10 ''held''))]" by (rule sample_page)
  have ids: "length (json_str ''a'') \<le> 130" "length (json_str ''b'') \<le> 130" "length (json_str ''c'') \<le> 130"
    using json_str_short [of "''a''"] json_str_short [of "''b''"] json_str_short [of "''c''"] by simp_all
  have "\<forall>x \<in> set (inbox sample_store). length (json_str (rid x)) \<le> 130"
    using ids by (simp add: sample_store_def sample_row_def)
  with page_within_budget [OF store_invD(1) [OF sample_store_inv] r(1)] r show ?thesis by simp
qed

theorem page_walk_witness:
  "\<exists>result row k. Page sample_lib sample_store ''held'' [] 1 [] = Inr result \<and> k \<le> 1
     \<and> fld result ''remaining'' = GInt (int (length (drop k (rows_after sample_store ''held'' row))))"
proof -
  obtain result where r: "Page sample_lib sample_store ''held'' [] 1 [] = Inr result" by (rule sample_page)
  from page_walk [OF store_invD(1) [OF sample_store_inv] r] r show ?thesis by auto
qed

end
