(* ===== verification/Peers.thy ===== *)
theory Peers
  imports Frames
begin

section \<open>Trusted files, discovery of peers, sending\<close>

text \<open>
  The part of protocol.go that looks at the file system, and the name check of lifecycle.go.  What
  the system answers is an argument, the record \<open>files\<close>: \<open>lstat\<close> and \<open>stat\<close>, the target of symbolic
  links, directory listings, and the decoded JSON of a file.  A file that is checked and then opened
  is taken to be the same file.  \<open>sha\<close> is the hexadecimal SHA-256 digest of a string.  Decoding of
  JSON into a struct matches the keys exactly.
\<close>

unbundle bit_operations_syntax

datatype fkind = RegularFile | DirectoryFile | SocketFile | SymlinkFile | OtherFile

record fstat =
  fkind :: fkind
  fuid :: nat
  fperm :: nat
  fsticky :: bool
  fino :: nat
  fsize :: nat

record files =
  lstat :: "string \<Rightarrow> fstat res"
  stat :: "string \<Rightarrow> fstat res"
  real_path :: "string \<Rightarrow> string res"
  readdir :: "string \<Rightarrow> string list res"
  json_file :: "string \<Rightarrow> gval res"
  getuid :: nat

subsection \<open>Ownership\<close>

text \<open>The permission masks \<open>0022\<close> and \<open>0077\<close>.\<close>

definition perm_mask :: "bool \<Rightarrow> nat" where
  "perm_mask private = (if private then 63 else 18)"

definition owned :: "files \<Rightarrow> string \<Rightarrow> fkind \<Rightarrow> bool \<Rightarrow> fstat res" where
  "owned F path kind private =
     (case lstat F path of
        Inl e \<Rightarrow> Inl e
      | Inr st \<Rightarrow>
          if fkind st \<noteq> kind \<or> fuid st \<noteq> getuid F \<or> fperm st AND perm_mask private \<noteq> 0
          then Inl (Failure (''unsafe type, owner or permissions: '' @ path))
          else Inr st)"

definition trusted_dir :: "files \<Rightarrow> fstat \<Rightarrow> bool" where
  "trusted_dir F st =
     (fkind st = DirectoryFile \<and> (fuid st = 0 \<or> fuid st = getuid F)
      \<and> (fperm st AND 18 = 0 \<or> fsticky st))"

text \<open>One component of \<open>vetParents\<close>: no symbolic link but macOS's \<open>/tmp\<close>.\<close>

definition vet_component :: "files \<Rightarrow> string \<Rightarrow> unit res" where
  "vet_component F cur =
     (case lstat F cur of
        Inl e \<Rightarrow> Inl e
      | Inr st \<Rightarrow>
        (case (if fkind st = SymlinkFile
               then (case real_path F cur of
                       Inl e \<Rightarrow> Inl (Failure (''symlink component: '' @ cur))
                     | Inr resolved \<Rightarrow>
                         if cur \<noteq> ''/tmp'' \<or> resolved \<noteq> ''/private/tmp'' \<or> fuid st \<noteq> 0
                         then Inl (Failure (''symlink component: '' @ cur))
                         else stat F cur)
               else Inr st) of
           Inl e \<Rightarrow> Inl e
         | Inr st1 \<Rightarrow>
             if trusted_dir F st1 then Inr ()
             else Inl (Failure (''untrusted directory: '' @ cur))))"

fun vet_parts :: "files \<Rightarrow> string \<Rightarrow> string list \<Rightarrow> unit res" where
  "vet_parts F cur [] = Inr ()"
| "vet_parts F cur (p # ps) =
     (if p = [] then vet_parts F cur ps
      else let next = JoinPath [cur, p] in
        case vet_component F next of Inl e \<Rightarrow> Inl e | Inr _ \<Rightarrow> vet_parts F next ps)"

definition vetParents :: "files \<Rightarrow> string \<Rightarrow> unit res" where
  "vetParents F path =
     (if \<not> IsAbs path \<or> Contains path ''/../'' \<or> HasSuffix path ''/..''
      then Inl (Failure ''path must be absolute without ..'')
      else vet_parts F ''/'' (Split (TrimPrefix path ''/'') CHR ''/''))"

definition readJSON :: "files \<Rightarrow> string \<Rightarrow> bool \<Rightarrow> gval res" where
  "readJSON F path private =
     (case owned F path RegularFile private of
        Inl e \<Rightarrow> Inl e
      | Inr st \<Rightarrow> if MaxBuffer < fsize st then Inl (Failure ''invalid JSON artifact'')
                 else json_file F path)"

subsection \<open>Decoding structs\<close>

text \<open>\<open>json.Unmarshal\<close> into a struct or a map; \<open>null\<close> leaves it as it is.\<close>

definition object_of_json :: "gval \<Rightarrow> obj res" where
  "object_of_json v =
     (case v of GNil \<Rightarrow> Inr [] | GObj m \<Rightarrow> Inr m | _ \<Rightarrow> Inl (Failure ''json: cannot unmarshal into object''))"

lemma object_of_json_simps [simp]:
  "object_of_json GNil = Inr []" "object_of_json (GObj m) = Inr m"
  by (simp_all add: object_of_json_def)

definition dec_str :: "obj \<Rightarrow> string \<Rightarrow> string res" where
  "dec_str m key =
     (case fld m key of GNil \<Rightarrow> Inr [] | GStr s \<Rightarrow> Inr s
      | _ \<Rightarrow> Inl (Failure ''json: cannot unmarshal into string''))"

definition dec_int :: "obj \<Rightarrow> string \<Rightarrow> int res" where
  "dec_int m key =
     (case fld m key of
        GNil \<Rightarrow> Inr 0
      | GInt n \<Rightarrow> Inr n
      | GFloat x \<Rightarrow> if x = of_int \<lfloor>x\<rfloor> then Inr \<lfloor>x\<rfloor> else Inl (Failure ''json: cannot unmarshal into int'')
      | _ \<Rightarrow> Inl (Failure ''json: cannot unmarshal into int''))"

definition dec_obj :: "obj \<Rightarrow> string \<Rightarrow> obj option res" where
  "dec_obj m key =
     (case fld m key of GNil \<Rightarrow> Inr None | GObj v \<Rightarrow> Inr (Some v)
      | _ \<Rightarrow> Inl (Failure ''json: cannot unmarshal into map''))"

fun dec_elems :: "gval list \<Rightarrow> string list res" where
  "dec_elems [] = Inr []"
| "dec_elems (v # vs) =
     (case v of
        GStr s \<Rightarrow> rbind (dec_elems vs) (\<lambda>ss. Inr (s # ss))
      | GNil \<Rightarrow> rbind (dec_elems vs) (\<lambda>ss. Inr ([] # ss))
      | _ \<Rightarrow> Inl (Failure ''json: cannot unmarshal into string''))"

definition dec_strs :: "obj \<Rightarrow> string \<Rightarrow> string list res" where
  "dec_strs m key =
     (case fld m key of GNil \<Rightarrow> Inr [] | GArr vs \<Rightarrow> dec_elems vs
      | _ \<Rightarrow> Inl (Failure ''json: cannot unmarshal into slice''))"

definition peer_of_json :: "gval \<Rightarrow> Peer res" where
  "peer_of_json v =
     rbind (object_of_json v) (\<lambda>m.
          rbind (dec_int m ''pid'') (\<lambda>pid. rbind (dec_str m ''procStart'') (\<lambda>start.
          rbind (dec_str m ''pidDomain'') (\<lambda>domain. rbind (dec_str m ''messagingSocketPath'') (\<lambda>socket.
          rbind (dec_str m ''name'') (\<lambda>name. rbind (dec_str m ''sessionId'') (\<lambda>thread.
          rbind (dec_int m ''hostPid'') (\<lambda>hostpid. rbind (dec_str m ''hostStart'') (\<lambda>hoststart.
          rbind (dec_strs m ''peerFeatures'') (\<lambda>features. rbind (dec_str m ''ref'') (\<lambda>ref.
          rbind (dec_str m ''cwd'') (\<lambda>cwd. rbind (dec_str m ''status'') (\<lambda>stat.
          rbind (dec_obj m ''activity'') (\<lambda>activity. rbind (dec_str m ''version'') (\<lambda>version.
          rbind (dec_int m ''peerProtocol'') (\<lambda>protocol.
            Inr \<lparr>PID = pid, PStart = start, PDomain = domain, PSocket = socket, PName = name,
              PThread = thread, PHostPID = hostpid, PHostStart = hoststart, PFeatures = features,
              PRef = ref, PCWD = cwd, PStatus = stat, PActivity = activity, PVersion = version,
              PProtocol = protocol\<rparr>))))))))))))))))"

definition readPeer :: "files \<Rightarrow> string \<Rightarrow> Peer res" where
  "readPeer F path = rbind (readJSON F path False) peer_of_json"

text \<open>\<open>type peerKey\<close>.\<close>

record peerKey =
  KToken :: string
  KStart :: string
  KDomain :: string

definition key_of_json :: "gval \<Rightarrow> peerKey res" where
  "key_of_json v =
     rbind (object_of_json v) (\<lambda>m.
     rbind (dec_str m ''peerToken'') (\<lambda>token. rbind (dec_str m ''procStart'') (\<lambda>start.
     rbind (dec_str m ''pidDomain'') (\<lambda>domain.
       Inr \<lparr>KToken = token, KStart = start, KDomain = domain\<rparr>))))"

definition keyPath :: "(string \<Rightarrow> string) \<Rightarrow> string \<Rightarrow> int \<Rightarrow> string \<Rightarrow> string" where
  "keyPath sha registry pid path = JoinPath [registry, Itoa pid @ ''.'' @ sha path @ ''.key'']"

subsection \<open>Discovery\<close>

definition owner_live :: "host \<Rightarrow> Peer \<Rightarrow> bool" where
  "owner_live h p =
     (PHostPID p \<le> 0 \<or>
      (case processStart h (PHostPID p) of Inl _ \<Rightarrow> False | Inr s \<Rightarrow> s = PHostStart p))"

text \<open>One directory entry; \<open>None\<close> when \<open>Discover\<close> skips it.\<close>

definition discover_entry ::
  "host \<Rightarrow> files \<Rightarrow> (string \<Rightarrow> string) \<Rightarrow> string \<Rightarrow> int \<Rightarrow> string \<Rightarrow> Peer option" where
  "discover_entry h F sha registry exclude e =
     (if \<not> HasSuffix e ''.json'' then None
      else case readPeer F (JoinPath [registry, e]) of
        Inl _ \<Rightarrow> None
      | Inr p \<Rightarrow>
          if Itoa (PID p) @ ''.json'' \<noteq> e \<or> PID p = exclude \<or> PProtocol p \<noteq> 1 \<or> PName p = [] then None
          else if \<not> is_ok (verifyPeerIdentity h (PID p) (PStart p) (PDomain p)) then None
          else if \<not> owner_live h p then None
          else if \<not> is_ok (socketPath (''uds:'' @ PSocket p)) then None
          else Some (p\<lparr>PRef := take 10 (sha (Itoa (PID p) @ '':'' @ PStart p))\<rparr>))"

definition Discover :: "host \<Rightarrow> files \<Rightarrow> (string \<Rightarrow> string) \<Rightarrow> string \<Rightarrow> int \<Rightarrow> Peer list res" where
  "Discover h F sha registry exclude =
     (if stat F registry = Inl NotExist then Inr []
      else rbind (vetParents F registry) (\<lambda>_.
           rbind (owned F registry DirectoryFile True) (\<lambda>_.
           rbind (readdir F registry) (\<lambda>entries.
             Inr (List.map_filter (discover_entry h F sha registry exclude) entries)))))"

definition target_matches :: "string \<Rightarrow> Peer \<Rightarrow> bool" where
  "target_matches target p = (target = PName p \<or> target = PRef p \<or> target = ''uds:'' @ PSocket p)"

definition resolve :: "host \<Rightarrow> files \<Rightarrow> (string \<Rightarrow> string) \<Rightarrow> string \<Rightarrow> string \<Rightarrow> int \<Rightarrow> Peer res" where
  "resolve h F sha target registry exclude =
     rbind (Discover h F sha registry exclude) (\<lambda>peers.
       case filter (target_matches target) peers of
         [p] \<Rightarrow> Inr p
       | _ \<Rightarrow> Inl (Failure ''target is missing or ambiguous; list sessions and use its current ref''))"

definition checkPeerName :: "host \<Rightarrow> files \<Rightarrow> (string \<Rightarrow> string) \<Rightarrow> string \<Rightarrow> string \<Rightarrow> int \<Rightarrow> unit res" where
  "checkPeerName h F sha registry name exclude =
     rbind (Discover h F sha registry exclude) (\<lambda>peers.
       if list_ex (\<lambda>p. normalizeName (PName p) = name) peers
       then Inl (Failure ''peer name is already registered; choose a different --name or close/disable that peer first'')
       else Inr ())"

subsection \<open>Sending\<close>

definition blank_peer :: Peer where
  "blank_peer = \<lparr>PID = 0, PStart = [], PDomain = [], PSocket = [], PName = [], PThread = [],
     PHostPID = 0, PHostStart = [], PFeatures = [], PRef = [], PCWD = [], PStatus = [],
     PActivity = None, PVersion = [], PProtocol = 0\<rparr>"

text \<open>\<open>strconv.Atoi\<close> of a socket name that matched \<open>socketNameRE\<close>; its error is ignored, and the value
  is then the largest \<open>int\<close>.\<close>

definition socket_pid :: "string \<Rightarrow> int" where
  "socket_pid path =
     (case ParseInt (TrimSuffix (Base path) ''.sock'') 10 64 of Some n \<Rightarrow> n | None \<Rightarrow> 2 ^ 63 - 1)"

definition replyTarget :: "files \<Rightarrow> (string \<Rightarrow> string) \<Rightarrow> string \<Rightarrow> string \<Rightarrow> Peer res" where
  "replyTarget F sha address registry =
     rbind (socketPath address) (\<lambda>path.
       let pid = socket_pid path in
       rbind (rbind (readJSON F (keyPath sha registry pid path) True) key_of_json) (\<lambda>key.
         let peer = blank_peer\<lparr>PID := pid, PStart := KStart key, PDomain := KDomain key, PSocket := path\<rparr> in
         case readPeer F (JoinPath [registry, Itoa pid @ ''.json'']) of
           Inl _ \<Rightarrow> Inr peer
         | Inr adv \<Rightarrow>
             Inr (if PID adv = pid \<and> PStart adv = KStart key \<and> PDomain adv = KDomain key \<and> PSocket adv = path
                  then peer\<lparr>PFeatures := PFeatures adv\<rparr> else peer)))"

text \<open>\<open>connectVerifiedPeer\<close>: \<open>dial\<close> answers with the credentials of the process that accepted the
  connection, \<open>F'\<close> and \<open>h'\<close> are the system as it is after connecting.\<close>

definition connectVerifiedPeer ::
  "host \<Rightarrow> files \<Rightarrow> host \<Rightarrow> files \<Rightarrow> (string \<Rightarrow> (int \<times> nat) res) \<Rightarrow> string \<Rightarrow> int \<Rightarrow> string \<Rightarrow> string \<Rightarrow> unit res"
where
  "connectVerifiedPeer h F h' F' dial path pid start domain =
     rbind (vetParents F (Dir path)) (\<lambda>_.
     rbind (owned F (Dir path) DirectoryFile True) (\<lambda>_.
     rbind (owned F path SocketFile True) (\<lambda>before.
     rbind (verifyPeerIdentity h pid start domain) (\<lambda>_.
     rbind (dial path) (\<lambda>(p, u).
     rbind (owned F' path SocketFile True) (\<lambda>after.
     rbind (verifyPeerIdentity h' p start domain) (\<lambda>_.
       if u \<noteq> getuid F \<or> p \<noteq> pid \<or> fino before \<noteq> fino after
       then Inl (Failure ''connected endpoint identity mismatch'') else Inr ())))))))"

definition auth_frame :: "string \<Rightarrow> obj" where
  "auth_frame token = [(''type'', GStr ''auth''), (''token'', GStr token)]"

definition frame_payload :: "lib \<Rightarrow> string \<Rightarrow> obj \<Rightarrow> string" where
  "frame_payload L token frame =
     compact (fmt_float L) (GObj (auth_frame token)) @ [newline] @ compact (fmt_float L) (GObj frame) @ [newline]"

text \<open>\<open>sendFrame\<close> returns what it wrote; \<open>connect\<close> is the outcome of \<open>connectVerifiedPeer\<close> and \<open>written\<close>
  that of the write.\<close>

definition sendFrame ::
  "files \<Rightarrow> (string \<Rightarrow> string) \<Rightarrow> lib \<Rightarrow> (string \<Rightarrow> Peer \<Rightarrow> unit res) \<Rightarrow> unit res \<Rightarrow> Peer \<Rightarrow> obj \<Rightarrow> string \<Rightarrow> string res"
where
  "sendFrame F sha L connect written target frame registry =
     rbind (socketPath (''uds:'' @ PSocket target)) (\<lambda>path.
     rbind (rbind (readJSON F (keyPath sha registry (PID target) path) True) key_of_json) (\<lambda>key.
       if KStart key \<noteq> PStart target \<or> KDomain key \<noteq> PDomain target \<or> \<not> tokenRE (KToken key)
       then Inl (Failure ''target key identity mismatch'')
       else let payload = frame_payload L (KToken key) frame in
         if MaxBuffer < length payload then Inl (Failure ''serialized payload exceeds the buffer cap'')
         else rbind (connect path target) (\<lambda>_. rbind written (\<lambda>_. Inr payload))))"

end
