(* ===== verification/Config.thy ===== *)
theory Config
  imports Peers
begin

section \<open>Configuration and ownership\<close>

text \<open>
  \<open>Config\<close> with its validation and the options of manager.go, the owner check of lifecycle.go, and
  the recovery of a dead worker's files.
\<close>

record Config =
  CThread :: string
  CCWD :: string
  CName :: string
  CInbound :: string
  CPermission :: string
  CDelivery :: string
  CAppSocket :: string
  CExecutable :: string
  CLease :: int
  CHostPID :: int
  CHostStart :: string

subsection \<open>Validation\<close>

definition Validate :: "lib \<Rightarrow> Config \<Rightarrow> Config res" where
  "Validate L c =
     (case canonicalThread L (CThread c) of
        Inl e \<Rightarrow> Inl e
      | Inr tid \<Rightarrow>
        if CInbound c \<notin> {''parity'', ''accept'', ''hold'', ''refuse''}
        then Inl (Failure ''inbound must be parity, accept, hold or refuse'')
        else if CPermission c \<noteq> ''prompting'' \<and> CPermission c \<noteq> ''bypass''
        then Inl (Failure ''invalid permission class'')
        else if CDelivery c \<noteq> ''app-server'' \<and> CDelivery c \<noteq> ''manual''
        then Inl (Failure (''go delivery must be app-server or manual;''
               @ '' use launch to replace a legacy tmux session''))
        else if normalizeName (CName c) = [] then Inl (Failure ''a nonempty peer name is required'')
        else if CDelivery c = ''app-server'' \<and> \<not> IsAbs (CAppSocket c)
        then Inl (Failure ''app-server socket must be an absolute local path'')
        else if \<not> IsAbs (CCWD c) then Inl (Failure ''cwd must be absolute'')
        else Inr (c\<lparr>CThread := tid, CName := normalizeName (CName c),
                    CLease := (if CLease c \<le> 0 then 86400 else CLease c)\<rparr>))"

definition Abs :: "string \<Rightarrow> string \<Rightarrow> string" where
  "Abs cwd s = (if IsAbs s then Clean s else JoinPath [cwd, s])"

text \<open>One entry of the option map; \<open>args\<close> is the whole map.\<close>

definition apply_option :: "string \<Rightarrow> obj \<Rightarrow> string \<times> gval \<Rightarrow> Config \<Rightarrow> Config res" where
  "apply_option cwd args kv c =
     (let k = fst kv in
      if k \<in> {''name'', ''inbound'', ''permission_class'', ''delivery'', ''app_server_socket'', ''cwd''}
      then (case snd kv of
              GStr s \<Rightarrow> Inr (if k = ''name'' then c\<lparr>CName := s\<rparr>
                  else if k = ''inbound'' then c\<lparr>CInbound := s\<rparr>
                  else if k = ''permission_class'' then c\<lparr>CPermission := s\<rparr>
                  else if k = ''delivery'' then c\<lparr>CDelivery := s\<rparr>
                  else if k = ''app_server_socket'' then c\<lparr>CAppSocket := s\<rparr>
                  else c\<lparr>CCWD := Abs cwd s\<rparr>)
            | _ \<Rightarrow> Inl (Failure (k @ '' must be a string'')))
      else if k = ''host_pid'' then Inr (c\<lparr>CHostPID := trunc (number args k 0)\<rparr>)
      else if k = ''host_start'' then Inr (c\<lparr>CHostStart := str args k\<rparr>)
      else Inl (Failure (''unknown configuration option '' @ k)))"

fun apply_options :: "string \<Rightarrow> obj \<Rightarrow> obj \<Rightarrow> Config \<Rightarrow> Config res" where
  "apply_options cwd args [] c = Inr c"
| "apply_options cwd args (kv # kvs) c =
     rbind (apply_option cwd args kv c) (apply_options cwd args kvs)"

definition applyConfig :: "lib \<Rightarrow> string \<Rightarrow> Config \<Rightarrow> obj \<Rightarrow> Config res" where
  "applyConfig L cwd c args = rbind (apply_options cwd args args c) (Validate L)"

subsection \<open>The client owner\<close>

definition checkHost :: "host \<Rightarrow> Config \<Rightarrow> unit res" where
  "checkHost h c =
     (if CHostPID c = 0 \<and> CDelivery c = ''manual'' then Inr ()
      else if CHostPID c \<le> 0 \<or> CHostStart c = []
      then Inl (Failure (''automatic delivery requires a Codex client owner; exit the UI and use''
             @ '' cross-session-codex launch --resume '' @ CThread c))
      else case processStart h (CHostPID c) of
        Inl e \<Rightarrow>
          if kill_esrch h (CHostPID c)
          then Inl (OwnerGone ('' (PID '' @ Itoa (CHostPID c) @ ''); use launch --resume '' @ CThread c))
          else Inl (HostUnverified ('': '' @ err_text e @ ''; retry the check''))
      | Inr start \<Rightarrow>
          if start \<noteq> CHostStart c then Inl (OwnerGone ('' (PID '' @ Itoa (CHostPID c) @ '' was reused); use launch --resume '' @ CThread c))
          else Inr ())"

subsection \<open>Starting a worker: the configuration it gets\<close>

text \<open>Decoding of a stored configuration over the defaults: keys that are present replace them.\<close>

definition over_str :: "obj \<Rightarrow> string \<Rightarrow> string \<Rightarrow> string res" where
  "over_str m key old = (if fld m key = GNil then Inr old else dec_str m key)"

definition over_int :: "obj \<Rightarrow> string \<Rightarrow> int \<Rightarrow> int res" where
  "over_int m key old = (if fld m key = GNil then Inr old else dec_int m key)"

definition config_over :: "gval \<Rightarrow> Config \<Rightarrow> Config res" where
  "config_over v c =
     rbind (object_of_json v) (\<lambda>m.
          rbind (over_str m ''thread_id'' (CThread c)) (\<lambda>thread. rbind (over_str m ''cwd'' (CCWD c)) (\<lambda>cwd.
          rbind (over_str m ''name'' (CName c)) (\<lambda>name. rbind (over_str m ''inbound'' (CInbound c)) (\<lambda>inb.
          rbind (over_str m ''permission_class'' (CPermission c)) (\<lambda>perm.
          rbind (over_str m ''delivery'' (CDelivery c)) (\<lambda>delivery.
          rbind (over_str m ''app_server_socket'' (CAppSocket c)) (\<lambda>sock.
          rbind (over_str m ''executable'' (CExecutable c)) (\<lambda>exe.
          rbind (over_int m ''lease_seconds'' (CLease c)) (\<lambda>lease.
          rbind (over_int m ''host_pid'' (CHostPID c)) (\<lambda>hpid.
          rbind (over_str m ''host_start'' (CHostStart c)) (\<lambda>hstart.
            Inr \<lparr>CThread = thread, CCWD = cwd, CName = name, CInbound = inb, CPermission = perm,
              CDelivery = delivery, CAppSocket = sock, CExecutable = exe, CLease = lease,
              CHostPID = hpid, CHostStart = hstart\<rparr>))))))))))))"

text \<open>The configuration \<open>Enable\<close> writes for a new worker, up to the connection test: defaults, stored
  values, migration of old delivery modes, the caller's options, and the checks; \<open>executable\<close> is the resolved
  path of this program.\<close>

definition enable_config ::
  "host \<Rightarrow> lib \<Rightarrow> string \<Rightarrow> string \<Rightarrow> string \<Rightarrow> string res \<Rightarrow> gval res \<Rightarrow> obj \<Rightarrow> Config res" where
  "enable_config h L dir cwd app_socket executable stored options =
     (let base = Base dir;
          c0 = \<lparr>CThread = base, CCWD = cwd, CName = ''codex-'' @ Base cwd @ ''-'' @ take 8 base,
                CInbound = ''accept'', CPermission = ''bypass'', CDelivery = ''app-server'',
                CAppSocket = app_socket, CExecutable = [], CLease = 86400, CHostPID = 0, CHostStart = []\<rparr>
      in rbind (case stored of Inl NotExist \<Rightarrow> Inr c0 | Inl e \<Rightarrow> Inl e | Inr v \<Rightarrow> config_over v c0) (\<lambda>c1.
         let c2 = (if CDelivery c1 = ''tmux'' \<or> CDelivery c1 = ''queue''
                   then c1\<lparr>CDelivery := ''app-server''\<rparr> else c1);
             c3 = (if CAppSocket c2 = [] then c2\<lparr>CAppSocket := app_socket\<rparr> else c2)
         in rbind (applyConfig L cwd c3 options) (\<lambda>c4.
            rbind executable (\<lambda>exe.
            rbind (Validate L (c4\<lparr>CThread := base, CExecutable := exe\<rparr>)) (\<lambda>c5.
            rbind (checkHost h c5) (\<lambda>_. Inr c5))))))"

subsection \<open>Files of a worker that has died\<close>

record workerMeta =
  MPID :: int
  MStart :: string
  MControl :: string
  MSocket :: string
  MRegistry :: string
  MThread :: string
  MKey :: string
  MRuntime :: string

definition meta_of_json :: "gval \<Rightarrow> workerMeta res" where
  "meta_of_json v =
     rbind (object_of_json v) (\<lambda>m.
     rbind (dec_int m ''pid'') (\<lambda>pid. rbind (dec_str m ''procStart'') (\<lambda>start.
     rbind (dec_str m ''control'') (\<lambda>control. rbind (dec_str m ''socket'') (\<lambda>socket.
     rbind (dec_str m ''registry'') (\<lambda>registry. rbind (dec_str m ''thread_id'') (\<lambda>thread.
     rbind (dec_str m ''key'') (\<lambda>key. rbind (dec_str m ''runtime'') (\<lambda>runtime.
       Inr \<lparr>MPID = pid, MStart = start, MControl = control, MSocket = socket, MRegistry = registry,
         MThread = thread, MKey = key, MRuntime = runtime\<rparr>)))))))))"

text \<open>What to do with one candidate: an error, keep it, or remove it.\<close>

definition stale_file :: "files \<Rightarrow> string \<Rightarrow> string \<Rightarrow> bool res" where
  "stale_file F start candidate =
     (let check = (\<lambda>kind. case owned F candidate kind False of
             Inl NotExist \<Rightarrow> Inr False | Inl e \<Rightarrow> Inl e | Inr _ \<Rightarrow> Inr True)
      in if Ext candidate = ''.sock'' then check SocketFile
         else case rbind (readJSON F candidate False) object_of_json of
                Inl NotExist \<Rightarrow> Inr False
              | Inl e \<Rightarrow> Inl e
              | Inr data \<Rightarrow> if str data ''procStart'' \<noteq> start then Inr False else check RegularFile)"

fun recover_loop :: "files \<Rightarrow> (string \<Rightarrow> unit res) \<Rightarrow> string \<Rightarrow> string list \<Rightarrow> string list \<Rightarrow> unit res \<times> string list"
where
  "recover_loop F rm start removed [] = (Inr (), removed)"
| "recover_loop F rm start removed (p # ps) =
     (case stale_file F start p of
        Inl e \<Rightarrow> (Inl e, removed)
      | Inr False \<Rightarrow> recover_loop F rm start removed ps
      | Inr True \<Rightarrow>
          (case rm p of
             Inl e \<Rightarrow> (Inl e, removed)
           | Inr _ \<Rightarrow> recover_loop F rm start (removed @ [p]) ps))"

text \<open>\<open>recoverWorker\<close>: the result and the files it removed; \<open>rm\<close> is the answer of \<open>os.Remove\<close>.\<close>

definition recoverWorker ::
  "host \<Rightarrow> files \<Rightarrow> (string \<Rightarrow> string) \<Rightarrow> (string \<Rightarrow> unit res) \<Rightarrow> string \<Rightarrow> unit res \<times> string list" where
  "recoverWorker h F sha rm dir =
     (let path = JoinPath [dir, ''worker.json''];
          finish = (\<lambda>removed. case rm path of Inl e \<Rightarrow> (Inl e, removed) | Inr _ \<Rightarrow> (Inr (), removed @ [path]))
      in case rbind (readJSON F path True) meta_of_json of
           Inl NotExist \<Rightarrow> (Inr (), [])
         | Inl e \<Rightarrow> (Inl e, [])
         | Inr m \<Rightarrow>
             if processStart h (MPID m) = Inr (MStart m)
             then (Inl (Failure ''worker is alive but not responding; inspect worker.log''), [])
             else if \<not> is_ok (processStart h (MPID m)) \<and> \<not> kill_esrch h (MPID m)
             then (Inl (Failure ''worker cannot be verified; refusing to replace it''), [])
             else if \<not> kill_esrch h (MPID m) then finish []
             else case socketPath (''uds:'' @ MSocket m) of
               Inl e \<Rightarrow> (Inl e, [])
             | Inr peer \<Rightarrow>
                 if Base peer \<noteq> Itoa (MPID m) @ ''.sock'' then (Inl (Failure ''invalid stale worker socket''), [])
                 else (case recover_loop F rm (MStart m) []
                         [peer, JoinPath [Dir peer, Itoa (MPID m) @ ''.control.sock''],
                          keyPath sha (MRegistry m) (MPID m) peer,
                          JoinPath [MRegistry m, Itoa (MPID m) @ ''.json'']] of
                         (Inl e, removed) \<Rightarrow> (Inl e, removed)
                       | (Inr _, removed) \<Rightarrow> finish removed))"

end
