(* ===== verification/Worker.thy ===== *)
theory Worker
  imports Store Config
begin

section \<open>The worker\<close>

text \<open>
  worker.go: what a worker does with a frame from a peer, a request on its control socket, and at
  each maintenance pass.  The record \<open>worker\<close> is the state the goroutines share; every definition
  below is one critical section or one call, from the old state to the new one.  The answers of the
  system are arguments: \<open>env\<close> holds the clock, a fresh UUID and the files, \<open>app\<close> the app-server's
  replies.  The status queue is a channel of capacity 128, the wake-up channel one of capacity one.
\<close>

record statusRequest =
  smessage :: obj
  sstatus :: string
  sreason :: string
  sids :: "string list"

record worker =
  wdir :: string
  wregistry :: string
  wpath :: string
  waddress :: string
  wstart :: string
  wpid :: int
  wborn :: int
  wstore :: store
  wconfig :: Config
  wactivity :: obj
  lastTouch :: rat
  wclient :: bool
  attached :: bool
  lastReconcile :: rat
  ownerUnverified :: bool
  statusQueue :: "statusRequest list"
  drops :: "(string \<times> obj list) list"
  changed :: bool
  cancelled :: bool

record env =
  ehost :: host
  efiles :: files
  esha :: "string \<Rightarrow> string"
  elib :: lib
  enow :: rat
  emillis :: int
  euuid :: string
  eversion :: string
  ewd :: string
  eartifact :: "string \<Rightarrow> obj \<Rightarrow> unit res"
  esave :: "Config \<Rightarrow> unit res"
  econnect :: "string \<Rightarrow> Peer \<Rightarrow> unit res"
  ewritten :: "unit res"

subsection \<open>Activity and registration\<close>

definition setActivity :: "env \<Rightarrow> worker \<Rightarrow> string \<Rightarrow> string \<Rightarrow> worker" where
  "setActivity E w state d =
     (let now = emillis E;
          updated = (if str (wactivity w) ''state'' = state \<and> str (wactivity w) ''detail'' = d
                     then trunc (number (wactivity w) ''updated_at'' (of_int now)) else now);
          source = (if CDelivery (wconfig w) = ''manual'' then ''unavailable'' else ''app-server'')
      in w\<lparr>wactivity := [(''state'', GStr state), (''source'', GStr source), (''detail'', GStr d),
             (''observed_at'', GInt now), (''updated_at'', GInt updated)]\<rparr>)"

definition peer_status :: "obj \<Rightarrow> string" where
  "peer_status activity = (if str activity ''state'' = ''idle'' then ''idle'' else ''busy'')"

definition registration :: "env \<Rightarrow> worker \<Rightarrow> obj" where
  "registration E w =
     (let c = wconfig w; a = clone (wactivity w) in
      [(''pid'', GInt (wpid w)), (''sessionId'', GStr (CThread c)), (''hostPid'', GInt (CHostPID c)),
       (''hostStart'', GStr (CHostStart c)), (''cwd'', GStr (CCWD c)), (''startedAt'', GInt (wborn w)),
       (''procStart'', GStr (wstart w)), (''version'', GStr (eversion E)), (''peerProtocol'', GInt 1),
       (''peerFeatures'', GArr [GStr ''inbox-receipts'']), (''kind'', GStr ''interactive''),
       (''entrypoint'', GStr ''cli''), (''pidDomain'', GStr (goos (ehost E))),
       (''messagingSocketPath'', GStr (wpath w)), (''name'', GStr (CName c)),
       (''nameSource'', GStr ''user''), (''nameSince'', GInt (wborn w)),
       (''status'', GStr (peer_status a)), (''activity'', GObj a),
       (''updatedAt'', GInt (emillis E)), (''statusUpdatedAt'', fld a ''updated_at'')])"

definition publish :: "env \<Rightarrow> worker \<Rightarrow> unit res" where
  "publish E w =
     eartifact E (JoinPath [wregistry w, Itoa (wpid w) @ ''.json'']) (registration E w)"

definition registerName :: "env \<Rightarrow> worker \<Rightarrow> unit res" where
  "registerName E w =
     rbind (checkPeerName (ehost E) (efiles E) (esha E) (wregistry w) (CName (wconfig w)) (wpid w))
       (\<lambda>_. publish E w)"

definition info :: "env \<Rightarrow> worker \<Rightarrow> obj res" where
  "info E w =
     rbind (Store.count (wstore w) ''unread'' []) (\<lambda>unread.
     rbind (Store.count (wstore w) ''held'' []) (\<lambda>held.
       let c = wconfig w; a = clone (wactivity w) in
       Inr [(''thread_id'', GStr (CThread c)), (''name'', GStr (CName c)), (''pid'', GInt (wpid w)),
            (''address'', GStr (waddress w)), (''inbound'', GStr (CInbound c)),
            (''delivery'', GStr (CDelivery c)), (''status'', GStr (peer_status a)),
            (''activity'', GObj a), (''permission_class'', GStr (CPermission c)),
            (''unread'', GInt (int unread)), (''held'', GInt (int held)), (''runtime'', GStr ''go''),
            (''version'', GStr (eversion E)), (''app_server_socket'', GStr (CAppSocket c)),
            (''host_pid'', GInt (CHostPID c)), (''host_start'', GStr (CHostStart c)),
            (''notification'', meta (wstore w) ''wake''),
            (''delivery_error'', meta (wstore w) ''delivery_error''),
            (''delivery_waiting'', meta (wstore w) ''delivery_waiting'')]))"

subsection \<open>Receipts to senders\<close>

text \<open>A full queue drops the receipt.\<close>

definition enqueueStatus :: "worker \<Rightarrow> obj \<Rightarrow> string \<Rightarrow> string \<Rightarrow> string list \<Rightarrow> worker" where
  "enqueueStatus w m status reason ids =
     (if length (statusQueue w) < 128
      then w\<lparr>statusQueue := statusQueue w @ [\<lparr>smessage = m, sstatus = status, sreason = reason, sids = ids\<rparr>]\<rparr>
      else w)"

definition drop_key :: "obj \<Rightarrow> string \<Rightarrow> string" where
  "drop_key m reason = str m ''from'' @ [CHR 0x00] @ reason"

definition drop_message :: "worker \<Rightarrow> obj \<Rightarrow> string \<Rightarrow> worker" where
  "drop_message w m reason =
     (let key = drop_key m reason in
      case map_of (drops w) key of
        None \<Rightarrow> if 128 \<le> length (drops w) then w else w\<lparr>drops := AList.update key [m] (drops w)\<rparr>
      | Some batch \<Rightarrow>
          if length batch < 100 then w\<lparr>drops := AList.update key (batch @ [m]) (drops w)\<rparr> else w)"

text \<open>One batch: the last message carries the receipt, the others are listed in it.  The reason is what
  follows the first NUL of the key (\<open>SplitN(key, NUL, 2)\<close>).\<close>

definition flush_batch :: "worker \<Rightarrow> string \<times> obj list \<Rightarrow> worker" where
  "flush_batch w kb =
     (case snd kb of
        [] \<Rightarrow> w
      | _ \<Rightarrow> enqueueStatus w (last (snd kb)) ''dropped'' (fst (snd (Cut (fst kb) (CHR 0x00))))
               (map (\<lambda>m. str m ''wire_id'') (butlast (snd kb))))"

text \<open>\<open>flushDrops\<close> visits the map in an order that Go does not fix: \<open>order\<close> lists the batches.\<close>

definition flushDrops :: "(string \<times> obj list) list \<Rightarrow> worker \<Rightarrow> worker" where
  "flushDrops order w = foldl flush_batch (w\<lparr>drops := []\<rparr>) order"

text \<open>What \<open>statusSender\<close> does with one request: the target and the frame it sends, if any.\<close>

definition status_frame :: "worker \<Rightarrow> string \<Rightarrow> statusRequest \<Rightarrow> obj" where
  "status_frame w newid r =
     (let f = [(''type'', GStr ''control''), (''action'', GStr ''peer_message_status''),
               (''status'', GStr (sstatus r)), (''from'', GStr (waddress w)),
               (''orig_msg_id'', fld (smessage r) ''wire_id''), (''msgV'', GInt 1),
               (''msg_id'', GStr newid), (''reason'', GStr (''Recipient inbox: '' @ sstatus r))]
      in if sreason r = [] then f
         else f @ [(''drop_reason'', GStr (sreason r)), (''dropped_msg_ids'', GArr (map GStr (sids r)))])"

definition send_status :: "env \<Rightarrow> worker \<Rightarrow> statusRequest \<Rightarrow> (Peer \<times> obj) option res" where
  "send_status E w r =
     (let address = str (smessage r) ''from'' in
      if address = [] \<or> address = waddress w then Inr None
      else rbind (replyTarget (efiles E) (esha E) address (wregistry w)) (\<lambda>target.
        if (sstatus r = ''accepted'' \<or> sstatus r = ''read'') \<and> ''inbox-receipts'' \<notin> set (PFeatures target)
        then Inr None
        else let f = status_frame w (euuid E) r in
          rbind (sendFrame (efiles E) (esha E) (elib E) (econnect E) (ewritten E) target f (wregistry w))
            (\<lambda>_. Inr (Some (target, f)))))"

text \<open>One turn of \<open>statusSender\<close>: take a request, send or log, go on.\<close>

definition statusSender :: "env \<Rightarrow> worker \<Rightarrow> (Peer \<times> obj) option \<times> worker" where
  "statusSender E w =
     (case statusQueue w of
        [] \<Rightarrow> (None, w)
      | r # rs \<Rightarrow>
          (case send_status E w r of Inl e \<Rightarrow> None | Inr out \<Rightarrow> out, w\<lparr>statusQueue := rs\<rparr>))"

definition signal :: "worker \<Rightarrow> worker" where
  "signal w = w\<lparr>changed := True\<rparr>"

subsection \<open>Frames from peers\<close>

definition admission :: "Config \<Rightarrow> obj \<Rightarrow> string" where
  "admission c m =
     (if CInbound c = ''accept'' then ''unread''
      else if CInbound c = ''hold'' then ''held''
      else if CInbound c = ''refuse'' then ''refused''
      else if str m ''from_mode'' = CPermission c
           \<or> CPermission c = ''prompting'' \<and> fld m ''from_mode'' = GNil then ''unread''
      else ''held'')"

definition sender_identity :: "int \<Rightarrow> string \<Rightarrow> string" where
  "sender_identity pid start = Itoa pid @ '':'' @ start"

definition receive :: "env \<Rightarrow> worker \<Rightarrow> obj \<Rightarrow> int \<Rightarrow> string \<Rightarrow> unit res \<times> worker" where
  "receive E w frame pid start =
     (if str frame ''type'' = ''control''
      then (Inr (), if str frame ''action'' = ''peer_message_status''
                    then w\<lparr>wstore := Correlate (ehost E) (wstore w) frame pid start\<rparr> else w)
      else case decodeUser (elib E) frame of
        Inl e \<Rightarrow> (Inl e, w)
      | Inr m0 \<Rightarrow>
        (let m = set_fld (set_fld m0 ''verified_peer_pid'' (GInt pid)) ''verified_peer_start'' (GStr start) in
         if pid = wpid w \<or> Contains (str m ''hop_chain'') (waddress w)
         then (Inr (), drop_message w m ''relay_loop'')
         else let state = admission (wconfig w) m in
           if state = ''refused'' then (Inr (), enqueueStatus w m ''refused'' [] [])
           else case Accept (euuid E) (enow E) (wstore w) m (sender_identity pid start) state of
             Inl e \<Rightarrow> (Inl e, w)
           | Inr ((accepted, reason, evicted), st) \<Rightarrow>
               if reason \<noteq> [] then (Inr (), drop_message (w\<lparr>wstore := st\<rparr>) m reason)
               else let w1 = w\<lparr>wstore := st\<rparr>;
                        w2 = (case evicted of None \<Rightarrow> w1
                              | Some old \<Rightarrow> enqueueStatus w1 old ''dropped'' ''full_queue'' []);
                        msg = (case accepted of None \<Rightarrow> [] | Some a \<Rightarrow> a)
                    in if state = ''held'' then (Inr (), enqueueStatus w2 msg ''held'' [] [])
                       else (Inr (), signal (enqueueStatus w2 msg ''accepted'' [] []))))"

text \<open>\<open>peerConnection\<close> ignores frames of any other type.\<close>

definition peer_frame :: "env \<Rightarrow> worker \<Rightarrow> obj \<Rightarrow> int \<Rightarrow> string \<Rightarrow> unit res \<times> worker" where
  "peer_frame E w frame pid start =
     (if str frame ''type'' \<noteq> ''user'' \<and> str frame ''type'' \<noteq> ''control'' then (Inr (), w)
      else receive E w frame pid start)"

end
