(* ===== verification/Discovery.thy ===== *)
theory Discovery
  imports Peers
begin

section \<open>What discovery and sending guarantee\<close>

text \<open>
  Encoded values contain no newline, so a payload is read back as its two lines; discovery returns
  verified peers only, each process at most once.
\<close>

subsection \<open>One value, one line\<close>

lemma take_few: "take 2 (a # b # xs) = [a, b]" "take 3 (a # b # c # xs) = [a, b, c]"
  by (simp_all add: numeral_2_eq_2 numeral_3_eq_3)

lemma decode_tails:
  "list_all (\<lambda>x. 0x80 \<le> byte x) (take (snd (decode2 b cs) - 1) cs)"
  "list_all (\<lambda>x. 0x80 \<le> byte x) (take (snd (decode3 b cs) - 1) cs)"
  "list_all (\<lambda>x. 0x80 \<le> byte x) (take (snd (decode4 b cs) - 1) cs)"
  by (auto simp: decode2_def decode3_def decode4_def cont_def in_range_def take_few
      split: list.split if_splits)

lemma decode_rune_tail:
  assumes "decode_rune c cs = (r, w)" "x \<in> set (take (w - 1) cs)"
  shows "0x80 \<le> byte x"
proof -
  have "list_all (\<lambda>x. 0x80 \<le> byte x) (take (snd (decode_rune c cs) - 1) cs)"
    unfolding decode_rune_def Let_def using decode_tails by simp
  then show ?thesis using assms by (simp add: list_all_iff)
qed

lemma newline_byte: "byte newline = 10"
  by (simp add: newline_def)

lemma hex_digit_line: "hex_digit n = newline \<Longrightarrow> n < 16 \<Longrightarrow> False"
  by (drule arg_cong [where f = byte]) (auto simp: hex_digit_def newline_byte split: if_splits)

lemma escape_ascii_line: "newline \<notin> set (escape_ascii c)"
proof -
  have "hex_digit (byte c div 16) \<noteq> newline" "hex_digit (byte c mod 16) \<noteq> newline"
    using hex_digit_line [of "byte c div 16"] hex_digit_line [of "byte c mod 16"] byte_less [of c]
    by (auto simp: less_mult_imp_div_less)
  moreover have "backslash \<noteq> newline" "quote \<noteq> newline" by (simp_all add: backslash_def newline_def quote_def)
  moreover have "0x20 \<le> byte c \<Longrightarrow> c \<noteq> newline" by (auto simp: newline_byte)
  ultimately show ?thesis
    unfolding escape_ascii_def by (auto simp: newline_def)
qed

lemma json_chars_line: "newline \<notin> set (json_chars s)"
proof (induction s rule: json_chars.induct)
  case (2 c cs)
  obtain r w where rw: "decode_rune c cs = (r, w)" by fastforce
  show ?case
  proof (cases "byte c < 0x80")
    case True
    then show ?thesis using 2(1) escape_ascii_line by (simp add: json_chars.simps(2))
  next
    case False
    have "c \<noteq> newline" using False by (auto simp: newline_byte)
    moreover have "newline \<notin> set (take (w - 1) cs)"
      using decode_rune_tail [OF rw, of newline] by (auto simp: newline_byte)
    moreover have "hex_digit (r mod 16) \<noteq> newline" using hex_digit_line [of "r mod 16"] by auto
    ultimately show ?thesis
      using 2(2) [OF False rw [symmetric] refl] 2(3) [OF False rw [symmetric] refl] 2(4) [OF False rw [symmetric] refl] False
      by (auto simp: json_chars.simps(2) rw backslash_def newline_def)
  qed
qed simp

lemma json_str_line: "newline \<notin> set (json_str s)"
  using json_chars_line by (simp add: json_str_def quote_def newline_def)

lemma nat_digits_line: "newline \<notin> set (nat_digits n)"
proof (induction n rule: nat_digits.induct)
  case (1 n)
  have "char_of (48 + m) \<noteq> newline" if "m < 10" for m :: nat
  proof
    assume "char_of (48 + m) = newline"
    then have "byte (char_of (48 + m)) = 10" by (simp only: newline_byte)
    then show False using that by simp
  qed
  then show ?case using 1 by (subst nat_digits.simps) (auto simp: dest: sym)
qed

lemma Itoa_line: "newline \<notin> set (Itoa n)"
  using nat_digits_line by (simp add: Itoa_def newline_def)

lemma Join_line: "newline \<notin> set sep \<Longrightarrow> (\<And>x. x \<in> set xs \<Longrightarrow> newline \<notin> set x) \<Longrightarrow> newline \<notin> set (Join xs sep)"
  by (auto simp: Join_def split: list.splits)

lemma newline_punctuation:
  "newline \<notin> set '',''" "newline \<noteq> CHR ''[''" "newline \<noteq> CHR '']''" "newline \<noteq> CHR ''{''" "newline \<noteq> CHR ''}''"
  "newline \<noteq> CHR '':''" "newline \<notin> set ''null''" "newline \<notin> set ''true''" "newline \<notin> set ''false''"
  by (simp_all add: newline_def)

lemma compact_line:
  assumes "\<And>x. newline \<notin> set (ff x)"
  shows "newline \<notin> set (compact ff v)"
  using assms
proof (induction ff v rule: compact.induct)
  case (6 ff vs)
  then have "newline \<notin> set (Join (map (compact ff) vs) '','')"
    by (intro Join_line newline_punctuation(1)) auto
  then show ?case by (simp add: newline_punctuation)
next
  case (7 ff m)
  have "newline \<notin> set (Join (map (\<lambda>(k, t). json_str k @ '':'' @ t)
       (sort_key fst (map (\<lambda>kv. (fst kv, compact ff (snd kv))) m))) '','')"
  proof (rule Join_line [OF newline_punctuation(1)])
    fix x assume "x \<in> set (map (\<lambda>(k, t). json_str k @ '':'' @ t)
       (sort_key fst (map (\<lambda>kv. (fst kv, compact ff (snd kv))) m)))"
    then obtain kv where kv: "kv \<in> set m" "x = json_str (fst kv) @ '':'' @ compact ff (snd kv)" by auto
    then have "newline \<notin> set (compact ff (snd kv))" using 7 by simp
    then show "newline \<notin> set x" using kv(2) json_str_line newline_punctuation(6) by simp
  qed
  then show ?case by (simp add: newline_punctuation)
qed (simp_all add: Itoa_line json_str_line newline_punctuation del: set_simps)

subsection \<open>Reading back a payload\<close>

lemma readLine_line:
  assumes "newline \<notin> set a" "length a < cap"
  shows "readLine cap (a @ newline # rest) = Inr (a @ [newline], rest)"
proof -
  have "line_of (a @ newline # rest) = a @ [newline]"
    using assms(1) takeWhile_until [of newline a rest] by (simp add: line_of_def)
  then show ?thesis using assms(2) by (simp add: readLine_def read_line_spec)
qed

text \<open>What \<open>sendFrame\<close> writes fits the receiver's buffer, and the receiver's \<open>readLine\<close> reads exactly two
  lines from it: the authentication frame with the target's token, then the frame, and nothing is
  left over.\<close>

theorem send_frame_lines:
  assumes "sendFrame F sha L connect written target frame registry = Inr payload"
    and "\<And>x. newline \<notin> set (fmt_float L x)"
  shows "\<exists>token rest. tokenRE token \<and> length payload \<le> MaxBuffer
    \<and> readLine MaxBuffer payload = Inr (compact (fmt_float L) (GObj (auth_frame token)) @ [newline], rest)
    \<and> readLine MaxBuffer rest = Inr (compact (fmt_float L) (GObj frame) @ [newline], [])"
proof -
  obtain key :: peerKey where key: "tokenRE (KToken key)" "payload = frame_payload L (KToken key) frame"
    "\<not> MaxBuffer < length payload"
    using assms(1) by (auto simp: sendFrame_def Let_def rbind_Inr split: if_splits)
  let ?auth = "compact (fmt_float L) (GObj (auth_frame (KToken key)))"
  let ?frame = "compact (fmt_float L) (GObj frame)"
  have nl: "newline \<notin> set ?auth" "newline \<notin> set ?frame" by (rule compact_line, rule assms(2))+
  have p: "payload = ?auth @ newline # (?frame @ newline # [])"
    using key(2) by (simp add: frame_payload_def)
  have "length ?auth < MaxBuffer" "length ?frame < MaxBuffer" using key(3) p by (simp_all add: not_less)
  then have "readLine MaxBuffer payload = Inr (?auth @ [newline], ?frame @ newline # [])"
    "readLine MaxBuffer (?frame @ newline # []) = Inr (?frame @ [newline], [])"
    using readLine_line nl unfolding p by blast+
  then show ?thesis using key by (metis not_less)
qed

subsection \<open>Discovery\<close>

lemma owner_live_ref: "owner_live h (p\<lparr>PRef := x\<rparr>) = owner_live h p"
  by (simp add: owner_live_def split: sum.splits)

lemma discover_entry_Some:
  assumes "discover_entry h F sha registry exclude e = Some p"
  shows "e = Itoa (PID p) @ ''.json''" "PID p \<noteq> exclude" "PProtocol p = 1" "PName p \<noteq> []"
    "is_ok (verifyPeerIdentity h (PID p) (PStart p) (PDomain p))" "owner_live h p"
    "is_ok (socketPath (''uds:'' @ PSocket p))" "PRef p = take 10 (sha (Itoa (PID p) @ '':'' @ PStart p))"
proof -
  obtain q where q: "Itoa (PID q) @ ''.json'' = e" "PID q \<noteq> exclude" "PProtocol q = 1" "PName q \<noteq> []"
    "is_ok (verifyPeerIdentity h (PID q) (PStart q) (PDomain q))" "owner_live h q"
    "is_ok (socketPath (''uds:'' @ PSocket q))" "p = q\<lparr>PRef := take 10 (sha (Itoa (PID q) @ '':'' @ PStart q))\<rparr>"
    using assms by (auto simp: discover_entry_def split: if_splits sum.splits)
  then show "e = Itoa (PID p) @ ''.json''" "PID p \<noteq> exclude" "PProtocol p = 1" "PName p \<noteq> []"
    "is_ok (verifyPeerIdentity h (PID p) (PStart p) (PDomain p))" "owner_live h p"
    "is_ok (socketPath (''uds:'' @ PSocket p))" "PRef p = take 10 (sha (Itoa (PID p) @ '':'' @ PStart p))"
    by (auto simp: owner_live_ref)
qed

lemma map_filter_keys:
  assumes "distinct xs" "\<And>x y. x \<in> set xs \<Longrightarrow> f x = Some y \<Longrightarrow> x = g (k y)"
  shows "distinct (map k (List.map_filter f xs))"
  using assms
proof (induction xs)
  case (Cons x xs)
  have "k y \<notin> k ` set (List.map_filter f xs)" if "f x = Some y" for y
  proof
    assume "k y \<in> k ` set (List.map_filter f xs)"
    then obtain z w where "z \<in> set xs" "f z = Some w" "k w = k y"
      by (auto simp: List.map_filter_def)
    then have "z = x" using Cons.prems(2) that by (metis list.set_intros(1,2))
    then show False using \<open>z \<in> set xs\<close> Cons.prems(1) by simp
  qed
  moreover have "distinct (map k (List.map_filter f xs))" using Cons by auto
  ultimately show ?case by (simp add: map_filter_simps split: option.splits)
qed (simp add: List.map_filter_def)

lemma Discover_Inr:
  assumes "Discover h F sha registry exclude = Inr peers"
  shows "peers = [] \<or> (\<exists>entries. readdir F registry = Inr entries
    \<and> peers = List.map_filter (discover_entry h F sha registry exclude) entries)"
  using assms by (auto simp: Discover_def rbind_Inr split: if_splits)


text \<open>\<open>resolve\<close> never guesses: it returns a peer only when it is the one listed peer that the target names,
  by name, reference or address, and it is verified; otherwise it fails.\<close>

theorem resolve_unique:
  assumes "resolve h F sha target registry exclude = Inr p"
  shows "\<exists>peers. Discover h F sha registry exclude = Inr peers \<and> p \<in> set peers
    \<and> target_matches target p \<and> count_if (target_matches target) peers = 1
    \<and> is_ok (verifyPeerIdentity h (PID p) (PStart p) (PDomain p)) \<and> PID p \<noteq> exclude"
proof -
  obtain peers where d: "Discover h F sha registry exclude = Inr peers"
    and c: "(case filter (target_matches target) peers of [q] \<Rightarrow> Inr q
      | _ \<Rightarrow> Inl (Failure ''target is missing or ambiguous; list sessions and use its current ref'')) = Inr p"
    using assms unfolding resolve_def rbind_Inr by blast
  have f: "filter (target_matches target) peers = [p]" using c by (simp split: list.splits)
  have "p \<in> set (filter (target_matches target) peers)" by (simp add: f)
  then have p: "p \<in> set peers" "target_matches target p" by simp_all
  then obtain e where "discover_entry h F sha registry exclude e = Some p"
    using Discover_Inr [OF d] by (auto simp: List.map_filter_def)
  from discover_entry_Some [OF this] p d f show ?thesis by (auto simp: count_if_def)
qed

subsection \<open>A concrete system\<close>

definition live_host :: host where
  "live_host = \<lparr>goos = ''linux'', ps_output = \<lambda>_. Inr ''5'', kill_esrch = \<lambda>_. False,
     read_file = \<lambda>_. Inl NotExist, read_link = \<lambda>_. Inl NotExist\<rparr>"

definition sample_stat :: "fkind \<Rightarrow> fstat" where
  "sample_stat kind = \<lparr>fkind = kind, fuid = 1, fperm = 448, fsticky = False, fino = 3, fsize = 100\<rparr>"

definition sample_token :: string where
  "sample_token = ''0123456789abcdef0123456789abcdef''"

definition sample_files :: files where
  "sample_files = \<lparr>lstat = \<lambda>p. Inr (sample_stat (if p = ''/r'' then DirectoryFile else RegularFile)),
     stat = \<lambda>p. Inr (sample_stat DirectoryFile), real_path = \<lambda>_. Inl NotExist,
     readdir = \<lambda>_. Inr [''7.json'', ''notes''],
     json_file = \<lambda>p. if p = ''/r/7.json''
       then Inr (GObj [(''pid'', GInt 7), (''procStart'', GStr ''5''), (''pidDomain'', GStr ''linux''),
         (''messagingSocketPath'', GStr ''/tmp/cc-socks/7.sock''), (''name'', GStr ''bob''),
         (''peerProtocol'', GInt 1)])
       else Inr (GObj [(''peerToken'', GStr sample_token), (''procStart'', GStr ''5''), (''pidDomain'', GStr ''linux'')]),
     getuid = 1\<rparr>"

lemma sample_socketPath: "socketPath ''uds:/tmp/cc-socks/7.sock'' = Inr ''/tmp/cc-socks/7.sock''"
  by (simp add: socketPath_def Let_def TrimPrefix_def HasPrefix_def IsAbs_def Clean_def Join_def Dir_def dir_part_def
      Base_def file_part_def socketDirRE_def numbered_dir_def socketNameRE_def HasSuffix_def positive_decimal_def
      is_digit_def suffix_def)

lemma sample_start: "processStart live_host 7 = Inr ''5''"
  by (simp add: processStart_def live_host_def TrimSpace_plain plain_def)

lemma sample_peer_entry:
  "discover_entry live_host sample_files (\<lambda>s. s) ''/r'' 9 ''7.json'' =
     Some (blank_peer\<lparr>PID := 7, PStart := ''5'', PDomain := ''linux'', PSocket := ''/tmp/cc-socks/7.sock'',
       PName := ''bob'', PProtocol := 1, PRef := ''7:5''\<rparr>)"
proof -
  have path: "JoinPath [''/r'', ''7.json''] = ''/r/7.json''"
    by (simp add: JoinPath_def Join_def Clean_def IsAbs_def HasPrefix_def)
  have seven: "Itoa 7 = ''7''"
    using char_of_char [of "CHR ''7''", where 'a = nat] by (simp add: Itoa_def nat_digits.simps)
  have read: "readPeer sample_files ''/r/7.json'' = Inr (blank_peer\<lparr>PID := 7, PStart := ''5'',
      PDomain := ''linux'', PSocket := ''/tmp/cc-socks/7.sock'', PName := ''bob'', PProtocol := 1\<rparr>)"
    by (simp add: readPeer_def readJSON_def owned_def sample_files_def sample_stat_def perm_mask_def MaxBuffer_def
        peer_of_json_def dec_int_def dec_str_def dec_strs_def dec_obj_def fld_def blank_peer_def)
  have ok: "verifyPeerIdentity live_host 7 ''5'' ''linux'' = Inr ()"
    using sample_start by (simp add: verifyPeerIdentity_def live_host_def)
  show ?thesis
    unfolding discover_entry_def path read
    using ok sample_socketPath by (simp add: seven HasSuffix_def suffix_def blank_peer_def owner_live_def)
qed

lemma sample_discover:
  obtains p where "Discover live_host sample_files (\<lambda>s. s) ''/r'' 9 = Inr [p]" "PName p = ''bob''"
    "PSocket p = ''/tmp/cc-socks/7.sock''"
proof -
  have "discover_entry live_host sample_files (\<lambda>s. s) ''/r'' 9 ''notes'' = None"
    by (simp add: discover_entry_def HasSuffix_def suffix_def)
  moreover have "vetParents sample_files ''/r'' = Inr ()"
    by (simp add: vetParents_def IsAbs_def HasPrefix_def Contains_def HasSuffix_def suffix_def sublist_Cons_right
        TrimPrefix_def JoinPath_def Join_def Clean_def vet_component_def sample_files_def sample_stat_def trusted_dir_def)
  moreover have "is_ok (owned sample_files ''/r'' DirectoryFile True)"
    by (simp add: owned_def sample_files_def sample_stat_def perm_mask_def)
  ultimately have "Discover live_host sample_files (\<lambda>s. s) ''/r'' 9 =
      Inr [blank_peer\<lparr>PID := 7, PStart := ''5'', PDomain := ''linux'', PSocket := ''/tmp/cc-socks/7.sock'',
       PName := ''bob'', PProtocol := 1, PRef := ''7:5''\<rparr>]"
    using sample_peer_entry
    by (auto simp: Discover_def rbind_def sample_files_def map_filter_simps is_ok_iff)
  then show thesis by (rule that) simp_all
qed


theorem resolve_unique_witness:
  "\<exists>p. resolve live_host sample_files (\<lambda>s. s) ''bob'' ''/r'' 9 = Inr p \<and> target_matches ''bob'' p"
proof -
  obtain p where p: "Discover live_host sample_files (\<lambda>s. s) ''/r'' 9 = Inr [p]" "PName p = ''bob''"
    by (rule sample_discover)
  then have "resolve live_host sample_files (\<lambda>s. s) ''bob'' ''/r'' 9 = Inr p"
    by (simp add: resolve_def rbind_def target_matches_def)
  from resolve_unique [OF this] this show ?thesis by blast
qed

definition sample_target :: Peer where
  "sample_target = blank_peer\<lparr>PID := 7, PStart := ''5'', PDomain := ''linux'', PSocket := ''/tmp/cc-socks/7.sock''\<rparr>"

lemma sample_payload:
  obtains payload where
    "sendFrame sample_files (\<lambda>s. ''ab'') sample_lib (\<lambda>_ _. Inr ()) (Inr ()) sample_target [] ''/r'' = Inr payload"
proof -
  let ?key = "keyPath (\<lambda>s. ''ab'') ''/r'' 7 ''/tmp/cc-socks/7.sock''"
  let ?payload = "frame_payload sample_lib sample_token []"
  have seven: "Itoa 7 = ''7''"
    using char_of_char [of "CHR ''7''", where 'a = nat] by (simp add: Itoa_def nat_digits.simps)
  have k: "?key = ''/r/7.ab.key''"
    by (simp add: keyPath_def seven JoinPath_def Join_def Clean_def IsAbs_def HasPrefix_def)
  have read: "rbind (readJSON sample_files ?key True) key_of_json =
      Inr \<lparr>KToken = sample_token, KStart = ''5'', KDomain = ''linux''\<rparr>"
    unfolding k by (simp add: readJSON_def owned_def sample_files_def sample_stat_def perm_mask_def MaxBuffer_def
        key_of_json_def dec_str_def fld_def)
  have js: "length (json_str s) \<le> 6 * length s + 2" for s
    using json_chars_length [of s] by (simp add: json_str_def)
  have len: "length ?payload \<le> 1000"
    using js [of "''type''"] js [of "''auth''"] js [of "''token''"] js [of sample_token]
    by (simp add: frame_payload_def auth_frame_def length_Join sample_token_def)
  have "tokenRE sample_token" by (simp add: tokenRE_def sample_token_def is_hex_lower_def is_digit_def)
  then show thesis
    using sample_socketPath read len
    by (intro that [of ?payload])
      (simp add: sendFrame_def sample_target_def blank_peer_def rbind_def Let_def MaxBuffer_def)
qed

theorem send_frame_lines_witness:
  "\<exists>payload rest token. length payload \<le> MaxBuffer
     \<and> sendFrame sample_files (\<lambda>s. ''ab'') sample_lib (\<lambda>_ _. Inr ()) (Inr ()) sample_target [] ''/r'' = Inr payload
     \<and> readLine MaxBuffer payload =
         Inr (compact (fmt_float sample_lib) (GObj (auth_frame token)) @ [newline], rest)"
proof -
  obtain payload where p:
    "sendFrame sample_files (\<lambda>s. ''ab'') sample_lib (\<lambda>_ _. Inr ()) (Inr ()) sample_target [] ''/r'' = Inr payload"
    by (rule sample_payload)
  have "newline \<notin> set (fmt_float sample_lib x)" for x by (simp add: sample_lib_def Itoa_line)
  from send_frame_lines [OF p this] p show ?thesis by blast
qed

end
