(* ===== verification/Worker_Inv.thy ===== *)
theory Worker_Inv
  imports Paging Control Discovery
begin

section \<open>The worker keeps its bounds and uses the store as intended\<close>

text \<open>
  Every handler of the worker changes the database only through operations of the store
  (\<open>store_run\<close>), so the theorems about reachable databases hold for a running worker; and its own
  queues stay within their bounds.
\<close>

definition store_move :: "store \<Rightarrow> store \<Rightarrow> bool" where
  "store_move st st' \<longleftrightarrow> (\<exists>h op. store_step h op st st')"

abbreviation store_run :: "store \<Rightarrow> store \<Rightarrow> bool" where
  "store_run \<equiv> store_move\<^sup>*\<^sup>*"

lemma store_run_step: "store_step h op st st' \<Longrightarrow> store_run st st'"
  by (rule r_into_rtranclp) (auto simp: store_move_def)

lemma store_run_reachable: "store_run st st' \<Longrightarrow> reachable st \<Longrightarrow> reachable st'"
  by (induction rule: rtranclp_induct) (auto simp: store_move_def intro: reachable.step)

lemma run_trans: "store_run a b \<Longrightarrow> store_run b c \<Longrightarrow> store_run a c"
  by (rule rtranclp_trans)

text \<open>Single operations as runs.\<close>

lemma run_ops:
  "Transition st ids ''unread'' ''read'' = (out, st') \<Longrightarrow> store_run st st'"
  "Transition st ids ''held'' ''unread'' = (out, st') \<Longrightarrow> store_run st st'"
  "Transition st ids ''held'' ''declined'' = (out, st') \<Longrightarrow> store_run st st'"
  "Expire now st = (out'', st') \<Longrightarrow> store_run st st'"
  "Outgoing now st frame peer = Inr st' \<Longrightarrow> store_run st st'"
  "BeginWake t st mid = (o1, st') \<Longrightarrow> store_run st st'"
  "FinishWake st mid state d = (o2, st') \<Longrightarrow> store_run st st'"
  "ResetDelivery st = (o2, st') \<Longrightarrow> store_run st st'"
  by (auto intro: store_run_step store_step.intros)

lemma run_updates:
  "store_run st (Correlate h st frame pid start)"
  "state = ''sent_unconfirmed'' \<or> state = ''failed'' \<Longrightarrow> store_run st (Sent st mid state d)"
  "key \<in> set delivery_keys \<Longrightarrow> store_run st (setMeta st key v)"
  by (auto intro: store_run_step store_step.intros)

lemma run_metas:
  "store_run st (setMeta st ''delivery_error'' v)" "store_run st (setMeta st ''retry_at'' v)"
  by (simp_all add: run_updates(3) delivery_keys_def)

subsection \<open>Queues\<close>

definition queues_ok :: "worker \<Rightarrow> bool" where
  "queues_ok w \<longleftrightarrow> length (statusQueue w) \<le> 128 \<and> length (drops w) \<le> 128 \<and> distinct (map fst (drops w))
     \<and> (\<forall>kb \<in> set (drops w). snd kb \<noteq> [] \<and> length (snd kb) \<le> 100)"

lemma enqueueStatus_frame [simp]:
  "wstore (enqueueStatus w m s r ids) = wstore w" "wconfig (enqueueStatus w m s r ids) = wconfig w"
  "drops (enqueueStatus w m s r ids) = drops w"
  by (simp_all add: enqueueStatus_def)

lemma queues_ok_cong:
  "statusQueue w' = statusQueue w \<Longrightarrow> drops w' = drops w \<Longrightarrow> queues_ok w' = queues_ok w"
  by (simp add: queues_ok_def)

lemma queues_ok_update [simp]:
  "queues_ok (w\<lparr>wstore := st\<rparr>) = queues_ok w" "queues_ok (w\<lparr>wconfig := c\<rparr>) = queues_ok w"
  "queues_ok (w\<lparr>wactivity := a\<rparr>) = queues_ok w" "queues_ok (w\<lparr>lastTouch := t\<rparr>) = queues_ok w"
  "queues_ok (w\<lparr>cancelled := b\<rparr>) = queues_ok w" "queues_ok (w\<lparr>changed := b\<rparr>) = queues_ok w"
  "queues_ok (w\<lparr>wclient := b\<rparr>) = queues_ok w" "queues_ok (w\<lparr>attached := b\<rparr>) = queues_ok w"
  "queues_ok (w\<lparr>ownerUnverified := b\<rparr>) = queues_ok w" "queues_ok (w\<lparr>lastReconcile := t\<rparr>) = queues_ok w"
  by (simp_all add: queues_ok_def)

lemma enqueueStatus_queues: "queues_ok w \<Longrightarrow> queues_ok (enqueueStatus w m s r ids)"
  by (simp add: queues_ok_def enqueueStatus_def)

lemma drop_message_frame [simp]:
  "wstore (drop_message w m r) = wstore w" "wconfig (drop_message w m r) = wconfig w"
  "statusQueue (drop_message w m r) = statusQueue w"
  by (simp_all add: drop_message_def Let_def split: option.splits)

lemma update_bounds:
  assumes "distinct (map fst xs)" "\<forall>kb \<in> set xs. P (snd kb)" "P v"
  shows "\<forall>kb \<in> set (AList.update k v xs). P (snd kb)"
  using assms by (induction xs) auto

lemma update_length: "length (AList.update k v xs) = (if k \<in> fst ` set xs then length xs else Suc (length xs))"
  by (induction xs) auto

lemma drop_message_queues: "queues_ok w \<Longrightarrow> queues_ok (drop_message w m r)"
proof -
  assume q: "queues_ok w"
  let ?P = "\<lambda>b :: obj list. b \<noteq> [] \<and> length b \<le> 100"
  have all: "distinct (map fst (drops w))" "\<forall>kb \<in> set (drops w). ?P (snd kb)" using q by (auto simp: queues_ok_def)
  show ?thesis
  proof (cases "map_of (drops w) (drop_key m r)")
    case None
    then have "drop_key m r \<notin> fst ` set (drops w)" by (simp add: map_of_eq_None_iff)
    then show ?thesis
      using q None update_bounds [OF all, of "[m]"]
      by (simp add: drop_message_def queues_ok_def update_length distinct_keys_update)
  next
    case (Some b)
    then have "(drop_key m r, b) \<in> set (drops w)" by (rule map_of_SomeD)
    then have "drop_key m r \<in> fst ` set (drops w)" by force
    then show ?thesis
      using q Some update_bounds [OF all, of "b @ [m]"]
      by (simp add: drop_message_def queues_ok_def update_length distinct_keys_update)
  qed
qed

lemma foldl_queues:
  "queues_ok w \<Longrightarrow> (\<And>w x. queues_ok w \<Longrightarrow> queues_ok (f w x)) \<Longrightarrow> queues_ok (foldl f w xs)"
  by (rule foldl_keeps)

lemma foldl_store: "(\<And>w x. wstore (f w x) = wstore w) \<Longrightarrow> wstore (foldl f w xs) = wstore w"
  by (rule foldl_keeps [where P = "\<lambda>v. wstore v = wstore w"]) simp_all

lemma flush_batch_keeps: "wstore (flush_batch w kb) = wstore w" "wconfig (flush_batch w kb) = wconfig w"
  "queues_ok w \<Longrightarrow> queues_ok (flush_batch w kb)"
  by (simp_all add: flush_batch_def enqueueStatus_queues split: list.splits)

subsection \<open>Configurations\<close>

definition config_wf :: "Config \<Rightarrow> bool" where
  "config_wf c \<longleftrightarrow> CInbound c \<in> {''parity'', ''accept'', ''hold'', ''refuse''}
     \<and> CPermission c \<in> {''prompting'', ''bypass''} \<and> CDelivery c \<in> {''app-server'', ''manual''}
     \<and> CName c \<noteq> [] \<and> normalizeName (CName c) = CName c \<and> IsAbs (CCWD c) \<and> 0 < CLease c
     \<and> (CDelivery c = ''app-server'' \<longrightarrow> IsAbs (CAppSocket c))"

lemma Validate_wf: "Validate L c = Inr c' \<Longrightarrow> config_wf c'"
  by (auto simp: Validate_def config_wf_def normalizeName_idem split: sum.splits if_splits)

lemma applyConfig_wf: "applyConfig L cwd c args = Inr c' \<Longrightarrow> config_wf c'"
  by (auto simp: applyConfig_def rbind_Inr Validate_wf)

subsection \<open>What a handler may do\<close>

definition keeps :: "worker \<Rightarrow> worker \<Rightarrow> bool" where
  "keeps w w' \<longleftrightarrow> store_run (wstore w) (wstore w') \<and> (queues_ok w \<longrightarrow> queues_ok w')
     \<and> (config_wf (wconfig w) \<longrightarrow> config_wf (wconfig w'))"

lemma keeps_refl: "keeps w w"
  by (simp add: keeps_def)

lemma keeps_trans: "keeps a b \<Longrightarrow> keeps b c \<Longrightarrow> keeps a c"
  by (auto simp: keeps_def intro: rtranclp_trans)

lemma keeps_store: "store_run (wstore w) st \<Longrightarrow> keeps w (w\<lparr>wstore := st\<rparr>)"
  by (simp add: keeps_def)

lemma keeps_enqueue: "keeps w (enqueueStatus w m s r ids)"
  by (simp add: keeps_def enqueueStatus_queues)

lemma keeps_drop: "keeps w (drop_message w m r)"
  by (simp add: keeps_def drop_message_queues)

lemma keeps_fields:
  "keeps w (w\<lparr>wactivity := a\<rparr>)" "keeps w (w\<lparr>lastTouch := t\<rparr>)" "keeps w (w\<lparr>cancelled := b\<rparr>)"
  "keeps w (w\<lparr>changed := b\<rparr>)" "keeps w (w\<lparr>wclient := b\<rparr>)" "keeps w (w\<lparr>attached := b\<rparr>)"
  "keeps w (w\<lparr>ownerUnverified := b\<rparr>)" "keeps w (w\<lparr>lastReconcile := t\<rparr>)"
  "keeps w (w\<lparr>wclient := b, attached := b'\<rparr>)"
  by (simp_all add: keeps_def queues_ok_def)

lemma keeps_signal: "keeps w (signal w)"
  by (simp add: signal_def keeps_fields)

lemma keeps_setActivity: "keeps w (setActivity E w s d)"
  by (simp add: setActivity_def Let_def keeps_fields)

lemma keeps_set_meta: "key \<in> set delivery_keys \<Longrightarrow> keeps w (set_store_meta w key v)"
  by (simp add: set_store_meta_def keeps_store run_updates)

lemma keeps_foldl: "(\<And>w x. keeps w (f w x)) \<Longrightarrow> keeps w (foldl f w xs)"
  by (rule foldl_keeps [where P = "keeps w"]) (auto intro: keeps_refl keeps_trans)

subsection \<open>Frames\<close>

lemma decodeUser_keys: "decodeUser L frame = Inr m \<Longrightarrow> distinct (map fst m)"
  by (auto simp: decodeUser_def Let_def split: if_splits gval.splits prod.splits option.splits)

lemma admission_states: "admission c m \<noteq> ''refused'' \<Longrightarrow> admission c m = ''unread'' \<or> admission c m = ''held''"
  by (simp add: admission_def split: if_splits)

lemma receive_keeps:
  assumes "receive E w frame pid start = (out, w')" "euuid E \<noteq> []"
  shows "keeps w w'"
proof (cases "str frame ''type'' = ''control''")
  case True
  then show ?thesis using assms(1)
    by (auto simp: receive_def keeps_refl intro!: keeps_store run_updates(1))
next
  case user: False
  show ?thesis
  proof (cases "decodeUser (elib E) frame")
    case (Inl e)
    then show ?thesis using assms(1) user by (simp add: receive_def keeps_refl)
  next
    case (Inr m0)
    let ?m = "set_fld (set_fld m0 ''verified_peer_pid'' (GInt pid)) ''verified_peer_start'' (GStr start)"
    let ?state = "admission (wconfig w) ?m"
    have d: "distinct (map fst ?m)" using decodeUser_keys [OF Inr] by (simp add: distinct_keys_update)
    show ?thesis
    proof (cases "pid = wpid w \<or> Contains (str ?m ''hop_chain'') (waddress w) \<or> ?state = ''refused''")
      case True
      then show ?thesis using assms(1) user Inr
        by (auto simp: receive_def Let_def intro: keeps_drop keeps_enqueue split: if_splits)
    next
      case False
      show ?thesis
      proof (cases "Accept (euuid E) (enow E) (wstore w) ?m (sender_identity pid start) ?state")
        case err: (Inl e)
        then show ?thesis using assms(1) user Inr False by (simp add: receive_def Let_def keeps_refl)
      next
        case acc: (Inr res)
        obtain a r e st where res: "res = ((a, r, e), st)" by (metis prod.exhaust)
        have "store_step (ehost E) (DoAccept (euuid E) (enow E) ?m (sender_identity pid start) ?state) (wstore w) st"
          using acc res assms(2) d admission_states False by (intro store_step.accept) auto
        then have k: "keeps w (w\<lparr>wstore := st\<rparr>)" by (intro keeps_store store_run_step)
        let ?w2 = "case e of None \<Rightarrow> w\<lparr>wstore := st\<rparr>
          | Some old \<Rightarrow> enqueueStatus (w\<lparr>wstore := st\<rparr>) old ''dropped'' ''full_queue'' []"
        have k2: "keeps w ?w2" using k keeps_trans [OF k keeps_enqueue] by (simp split: option.splits)
        have "w' = drop_message (w\<lparr>wstore := st\<rparr>) ?m r
            \<or> (\<exists>msg. w' = enqueueStatus ?w2 msg ''held'' [] [] \<or> w' = signal (enqueueStatus ?w2 msg ''accepted'' [] []))"
          using assms(1) user Inr False acc res
          by (auto simp: receive_def Let_def split: if_splits)
        then show ?thesis
          using keeps_trans [OF k keeps_drop] keeps_trans [OF k2 keeps_enqueue]
            keeps_trans [OF keeps_trans [OF k2 keeps_enqueue] keeps_signal] by metis
      qed
    qed
  qed
qed

subsection \<open>Control requests\<close>

lemma notify_senders_keeps: "keeps w (notify_senders s ids w)"
  unfolding notify_senders_def by (rule keeps_foldl) (rule keeps_enqueue)

lemma decision_run:
  assumes "decision op = (b, a, key, s)" "Transition st ids b a = (out, st')"
  shows "store_run st st'"
  using assms run_ops(1,2,3) by (auto simp: decision_def split: if_splits)

lemma op_decide_keeps:
  assumes "op_decide w op args = (out, w')"
  shows "keeps w w'"
proof (cases "inboxIDs args")
  case (Inl e)
  then show ?thesis using assms by (simp add: op_decide_def keeps_refl)
next
  case (Inr ids)
  obtain b a key s where d: "decision op = (b, a, key, s)" by (metis prod.exhaust)
  obtain r st where t: "Transition (wstore w) ids b a = (r, st)" by fastforce
  have k: "keeps w (w\<lparr>wstore := st\<rparr>)" by (rule keeps_store [OF decision_run [OF d t]])
  have "w' = w\<lparr>wstore := st\<rparr> \<or> (\<exists>ch. w' = signal (notify_senders s ch (w\<lparr>wstore := st\<rparr>)))"
    using assms Inr d t by (auto simp: op_decide_def split: sum.splits)
  then show ?thesis
    using k keeps_trans [OF keeps_trans [OF k notify_senders_keeps] keeps_signal] by metis
qed

lemma op_send_keeps:
  assumes "op_send E w op args = (out, w')"
  shows "keeps w w'"
proof -
  have "w' = w \<or> (\<exists>st mid frame peer d s. Outgoing (enow E) (wstore w) frame peer = Inr st
      \<and> (s = ''failed'' \<or> s = ''sent_unconfirmed'') \<and> w' = w\<lparr>wstore := Sent st mid s d\<rparr>)"
    using assms unfolding op_send_def Let_def by (auto split: sum.splits if_splits)
  then show ?thesis
  proof (elim disjE exE conjE)
    assume "w' = w"
    then show ?thesis by (simp add: keeps_refl)
  next
    fix st mid frame peer d s
    assume o: "Outgoing (enow E) (wstore w) frame peer = Inr st" and w': "w' = w\<lparr>wstore := Sent st mid s d\<rparr>"
      and s: "s = ''failed''"
    show ?thesis unfolding w' using s
      by (intro keeps_store rtranclp_trans [OF run_ops(5) [OF o] run_updates(2)]) simp
  next
    fix st mid frame peer d s
    assume o: "Outgoing (enow E) (wstore w) frame peer = Inr st" and w': "w' = w\<lparr>wstore := Sent st mid s d\<rparr>"
      and s: "s = ''sent_unconfirmed''"
    show ?thesis unfolding w' using s
      by (intro keeps_store rtranclp_trans [OF run_ops(5) [OF o] run_updates(2)]) simp
  qed
qed

lemma admit_held_keeps: "admit_held ms w = (out, w') \<Longrightarrow> keeps w w'"
proof (induction ms arbitrary: w)
  case Nil
  then show ?case by (simp add: keeps_refl)
next
  case (Cons m ms)
  have step: "keeps w w'"
    if t: "Transition (wstore w) [str m ''id''] ''held'' a = (r, st)" and a: "a = ''unread'' \<or> a = ''declined''"
      and rest: "(case r of Inl e \<Rightarrow> (Inl e, w\<lparr>wstore := st\<rparr>)
          | Inr _ \<Rightarrow> admit_held ms (enqueueStatus (w\<lparr>wstore := st\<rparr>) m s [] [])) = (out, w')" for a r st s
  proof -
    have "store_run (wstore w) st" using t a run_ops(2,3) by blast
    then have k: "keeps w (w\<lparr>wstore := st\<rparr>)" by (rule keeps_store)
    show ?thesis
    proof (cases r)
      case (Inl e)
      then show ?thesis using rest k by simp
    next
      case (Inr x)
      then have "admit_held ms (enqueueStatus (w\<lparr>wstore := st\<rparr>) m s [] []) = (out, w')" using rest by simp
      from Cons.IH [OF this] show ?thesis by (rule keeps_trans [OF keeps_trans [OF k keeps_enqueue]])
    qed
  qed
  show ?case
  proof (cases "admission (wconfig w) m = ''unread'' \<or> admission (wconfig w) m = ''refused''")
    case True
    let ?a = "if admission (wconfig w) m = ''unread'' then ''unread'' else ''declined''"
    obtain r st where t: "Transition (wstore w) [str m ''id''] ''held'' ?a = (r, st)" by fastforce
    show ?thesis
    proof (cases "admission (wconfig w) m = ''unread'' \<and> 50 \<le> num_state (wstore w) ''unread''")
      case True
      then show ?thesis using Cons.prems by (simp add: keeps_refl)
    next
      case False
      show ?thesis
        by (rule step [OF t, where s = "if admission (wconfig w) m = ''unread'' then ''released'' else ''refused''"])
          (use Cons.prems True False t in \<open>auto split: if_splits sum.splits\<close>)
    qed
  next
    case False
    then show ?thesis using Cons by simp
  qed
qed

lemma configure_checks_keeps:
  assumes "configure_checks E A w c = (out, w')"
  shows "keeps w w'"
proof -
  obtain r st where t: "ResetDelivery (wstore w) = (r, st)" by fastforce
  have "w' = w \<or> w' = w\<lparr>wstore := st\<rparr>"
    using assms t by (auto simp: configure_checks_def Let_def split: sum.splits if_splits)
  then show ?thesis using keeps_store [OF run_ops(8) [OF t]] keeps_refl by blast
qed

lemma keeps_config: "config_wf c \<Longrightarrow> keeps w (w\<lparr>wconfig := c\<rparr>)"
  by (simp add: keeps_def)

lemma configure_finish_keeps:
  assumes "configure_finish E w = (out, w')"
  shows "keeps w w'"
proof (cases "readRows (wstore w) ''held'' [] 100")
  case (Inl e)
  then show ?thesis using assms by (simp add: configure_finish_def keeps_refl)
next
  case (Inr held)
  obtain r w1 where a: "admit_held held w = (r, w1)" by fastforce
  note k = admit_held_keeps [OF a]
  have "w' = w1 \<or> w' = signal w1"
    using assms Inr a by (auto simp: configure_finish_def split: sum.splits)
  then show ?thesis using k keeps_trans [OF k keeps_signal] by blast
qed

lemma configure_commit_keeps:
  assumes "configure_commit E w c ch = (out, w')" "config_wf c"
  shows "keeps w w'"
proof -
  let ?w1 = "w\<lparr>wconfig := c\<rparr>"
  let ?w2 = "if ch \<and> wclient ?w1 then ?w1\<lparr>wclient := False, attached := False\<rparr> else ?w1"
  have k1: "keeps w ?w1" by (rule keeps_config [OF assms(2)])
  then have k2: "keeps w ?w2" using keeps_trans [OF k1 keeps_fields(9)] by simp
  have "w' = w \<or> configure_finish E ?w2 = (out, w')"
    using assms(1) by (auto simp: configure_commit_def Let_def split: sum.splits)
  then show ?thesis using keeps_refl keeps_trans [OF k2 configure_finish_keeps] by blast
qed

lemma configure_keeps:
  assumes "configure E A w args = (out, w')"
  shows "keeps w w'"
proof (cases "applyConfig (elib E) (ewd E) (wconfig w) (AList.delete ''status'' (AList.delete ''op'' (clone args)))")
  case (Inl e)
  then show ?thesis using assms by (simp add: configure_def keeps_refl)
next
  case (Inr c)
  obtain r w1 where chk: "configure_checks E A w c = (r, w1)" by fastforce
  note k = configure_checks_keeps [OF chk]
  show ?thesis
  proof (cases r)
    case (Inl e)
    then show ?thesis using assms Inr chk k by (simp add: configure_def)
  next
    case ok: (Inr ch)
    then have "configure_commit E w1 c ch = (out, w')" using assms Inr chk by (simp add: configure_def)
    from configure_commit_keeps [OF this applyConfig_wf [OF Inr]] show ?thesis by (rule keeps_trans [OF k])
  qed
qed

lemma op_read_keeps: "op_read E w [] op args = (out, w') \<Longrightarrow> keeps w w'"
  by (auto simp: op_read_def Let_def Store.count_def cursor_row_def keeps_refl split: if_splits sum.splits)

lemma operation_keeps:
  assumes "operation E A [] w args = (out, w')"
  shows "keeps w w'"
proof -
  let ?w = "w\<lparr>lastTouch := enow E\<rparr>"
  have t: "keeps w ?w" by (rule keeps_fields)
  have "keeps ?w w'"
    using assms unfolding operation_def Let_def
    by (simp split: if_splits) (auto intro: keeps_refl keeps_fields configure_keeps op_read_keeps op_decide_keeps op_send_keeps)
  with t show ?thesis by (rule keeps_trans)
qed

subsection \<open>Maintenance\<close>

lemma delivery_error_key: "''delivery_error'' \<in> set delivery_keys"
  by (simp add: delivery_keys_def)

lemmas keeps_error = keeps_set_meta [OF delivery_error_key]

lemma reconcile_keeps:
  assumes "reconcile E A c wake w = (out, w')"
  shows "keeps w w'"
proof -
  let ?w1 = "w\<lparr>lastReconcile := enow E\<rparr>"
  have k1: "keeps w ?w1" by (rule keeps_fields)
  obtain r st where f: "FinishWake (wstore ?w1) (str wake ''id'') ''recorded''
      ''Codex recorded the function output; inbox acknowledgement is still required'' = (r, st)" by fastforce
  have k2: "keeps w (?w1\<lparr>wstore := st\<rparr>)" by (rule keeps_trans [OF k1 keeps_store [OF run_ops(7) [OF f]]])
  have "w' = w \<or> w' = ?w1 \<or> (\<exists>v. w' = set_store_meta ?w1 ''delivery_error'' v) \<or> w' = ?w1\<lparr>wstore := st\<rparr>
      \<or> w' = set_store_meta (?w1\<lparr>wstore := st\<rparr>) ''delivery_error'' GNil"
    using assms f unfolding reconcile_def Let_def
    by (auto split: if_splits sum.splits prod.splits bool.splits)
  then show ?thesis
    using keeps_refl k1 k2 keeps_trans [OF k1 keeps_error] keeps_trans [OF k2 keeps_error] by blast
qed

text \<open>Recording the outcome of a request, with the metadata written after it.\<close>

lemma run_finish:
  assumes "store_run st0 st" "FinishWake st mid state d = (r, st1)"
  shows "store_run st0 st1" "store_run st0 (setMeta st1 ''delivery_error'' v)"
    "store_run st0 (setMeta (setMeta st1 ''retry_at'' u) ''delivery_error'' v)"
proof -
  show a: "store_run st0 st1" by (rule rtranclp_trans [OF assms(1) run_ops(7) [OF assms(2)]])
  show "store_run st0 (setMeta st1 ''delivery_error'' v)" by (rule rtranclp_trans [OF a run_metas(1)])
  show "store_run st0 (setMeta (setMeta st1 ''retry_at'' u) ''delivery_error'' v)"
    by (rule rtranclp_trans [OF rtranclp_trans [OF a run_metas(2)] run_metas(1)])
qed

lemma keeps_store_time: "store_run (wstore w) st \<Longrightarrow> keeps w (w\<lparr>wstore := st, lastReconcile := t\<rparr>)"
  by (simp add: keeps_def)

lemma deliver_keeps:
  assumes "deliver E A c w = (out, w', n)"
  shows "keeps w w'"
proof -
  obtain r st where b: "BeginWake \<lfloor>enow E\<rfloor> (wstore w) (euuid E) = (r, st)" by fastforce
  note run = run_ops(6) [OF b]
  show ?thesis
  proof (cases "\<exists>wake. r = Inr (Some wake)")
    case False
    then have "w' = w\<lparr>wstore := st\<rparr>"
      using assms b by (auto simp: deliver_def split: sum.splits option.splits)
    then show ?thesis using keeps_store [OF run] by simp
  next
    case True
    then obtain wake where wake: "r = Inr (Some wake)" by blast
    have "\<exists>state d r1 st1 u v. FinishWake st (str wake ''id'') state d = (r1, st1)
        \<and> (w' = w\<lparr>wstore := st1\<rparr> \<or> w' = w\<lparr>wstore := setMeta (setMeta st1 ''retry_at'' u) ''delivery_error'' v\<rparr>
           \<or> w' = w\<lparr>wstore := setMeta st1 ''delivery_error'' v, lastReconcile := 0\<rparr>)"
      using assms b wake unfolding deliver_def Let_def
      by (simp split: sum.splits prod.splits; blast)
    then obtain state d r1 st1 u v where f: "FinishWake st (str wake ''id'') state d = (r1, st1)"
      and w': "w' = w\<lparr>wstore := st1\<rparr> \<or> w' = w\<lparr>wstore := setMeta (setMeta st1 ''retry_at'' u) ''delivery_error'' v\<rparr>
           \<or> w' = w\<lparr>wstore := setMeta st1 ''delivery_error'' v, lastReconcile := 0\<rparr>" by blast
    from w' keeps_store [OF run_finish(1) [OF run f]] keeps_store [OF run_finish(3) [OF run f]]
      keeps_store_time [OF run_finish(2) [OF run f]] show ?thesis by auto
  qed
qed

lemma notify_keeps:
  assumes "notify E A c w = (out, w', n)"
  shows "keeps w w'"
proof -
  have "w' = w \<or> w' = set_store_meta w ''delivery_error'' GNil \<or> (\<exists>wake r. reconcile E A c wake w = (r, w'))
      \<or> deliver E A c w = (out, w', n)"
    using assms unfolding notify_def by (auto split: if_splits sum.splits option.splits prod.splits)
  then show ?thesis using keeps_refl keeps_error reconcile_keeps deliver_keeps by blast
qed

lemma expire_held_keeps:
  assumes "expire_held E w = (out, w')"
  shows "keeps w w'"
proof -
  obtain r st where x: "Expire (enow E) (wstore w) = (r, st)" by fastforce
  have k: "keeps w (w\<lparr>wstore := st\<rparr>)" by (rule keeps_store [OF run_ops(4) [OF x]])
  have "w' = w\<lparr>wstore := st\<rparr> \<or> (\<exists>old. w' = foldl (\<lambda>w m. enqueueStatus w m ''expired'' [] []) (w\<lparr>wstore := st\<rparr>) old)"
    using assms x by (auto simp: expire_held_def split: sum.splits)
  then show ?thesis
    using k keeps_trans [OF k keeps_foldl [of "\<lambda>w m. enqueueStatus w m ''expired'' [] []"]] keeps_enqueue by metis
qed

lemma observe_keeps:
  assumes "observe E A c w = (out, w')"
  shows "keeps w w'"
proof -
  define w1 where "w1 = (if wclient w then w else w\<lparr>wclient := is_ok (app_dial A (CAppSocket c)), attached := False\<rparr>)"
  have k1: "keeps w w1" by (simp add: w1_def keeps_refl keeps_fields(9))
  have "w' = w1 \<or> (\<exists>s. w' = setActivity E (w1\<lparr>attached := True\<rparr>) s [])"
    using assms unfolding observe_def w1_def by (cases "app_dial A (CAppSocket c)") (auto split: if_splits sum.splits)
  then show ?thesis
    using k1 keeps_trans [OF keeps_trans [OF k1 keeps_fields(6)] keeps_setActivity] by blast
qed

lemma maintenance_keeps:
  assumes "maintenance E A w = (out, w', n)"
  shows "keeps w w'"
proof -
  define w1 where "w1 = (if ownerUnverified w
    then set_store_meta (w\<lparr>ownerUnverified := False\<rparr>) ''delivery_error'' GNil else w)"
  have k1: "keeps w w1" using keeps_refl keeps_trans [OF keeps_fields(7) keeps_error] by (simp add: w1_def)
  obtain r2 w2 where x: "expire_held E w1 = (r2, w2)" by fastforce
  have k2: "keeps w w2" by (rule keeps_trans [OF k1 expire_held_keeps [OF x]])
  obtain r3 w3 where ob: "observe E A (wconfig w) w2 = (r3, w3)" by fastforce
  have k3: "keeps w w3" by (rule keeps_trans [OF k2 observe_keeps [OF ob]])
  consider "w' = w\<lparr>cancelled := True\<rparr>"
    | e where "w' = set_store_meta (setActivity E (w\<lparr>ownerUnverified := True\<rparr>) ''unknown'' (err_text e))
        ''delivery_error'' (GStr (err_text e))"
    | "w' = w2" | d where "w' = setActivity E w2 ''unknown'' d"
    | e where "w' = set_store_meta (setActivity E (w3\<lparr>attached := False\<rparr>) ''unknown'' (err_text e))
        ''delivery_error'' (GStr (err_text e))"
    | "w' = w3" | "notify E A (wconfig w) w3 = (out, w', n)"
    using assms x ob unfolding maintenance_def Let_def w1_def [symmetric]
    by (simp split: if_splits sum.splits gerr.splits) blast+
  then show ?thesis
  proof cases
    case 1
    then show ?thesis by (simp add: keeps_fields(3))
  next
    case 2
    then show ?thesis using keeps_trans [OF keeps_trans [OF keeps_fields(7) keeps_setActivity] keeps_error] by simp
  next
    case 3
    then show ?thesis using k2 by simp
  next
    case 4
    then show ?thesis using keeps_trans [OF k2 keeps_setActivity] by simp
  next
    case 5
    then show ?thesis
      using keeps_trans [OF k3 keeps_trans [OF keeps_trans [OF keeps_fields(6) keeps_setActivity] keeps_error]] by simp
  next
    case 6
    then show ?thesis using k3 by simp
  next
    case 7
    from notify_keeps [OF this] show ?thesis by (rule keeps_trans [OF k3])
  qed
qed

lemma flushDrops_keeps:
  assumes "flushDrops order w = w'"
  shows "keeps w w'"
proof -
  have "keeps w (w\<lparr>drops := []\<rparr>)" by (simp add: keeps_def queues_ok_def)
  moreover have "keeps v (flush_batch v kb)" for v kb
    by (simp add: keeps_def flush_batch_keeps)
  ultimately show ?thesis
    using assms unfolding flushDrops_def by (metis keeps_trans keeps_foldl)
qed

lemma statusSender_keeps: "statusSender E w = (out, w') \<Longrightarrow> keeps w w'"
  by (auto simp: statusSender_def keeps_def queues_ok_def split: list.splits)

subsection \<open>The worker refines the store\<close>

text \<open>The interface between a component and the part it is built on: every step of the component is a run
  of the part, as long as the component's invariant holds.\<close>

locale simulation =
  fixes astep :: "'a \<Rightarrow> 'a \<Rightarrow> bool" and cstep :: "'c \<Rightarrow> 'c \<Rightarrow> bool" and abs :: "'c \<Rightarrow> 'a" and inv :: "'c \<Rightarrow> bool"
  assumes step_sim: "cstep c c' \<Longrightarrow> inv c \<Longrightarrow> astep\<^sup>*\<^sup>* (abs c) (abs c')"
    and step_keeps: "cstep c c' \<Longrightarrow> inv c \<Longrightarrow> inv c'"
begin

lemma run_sim: "cstep\<^sup>*\<^sup>* c c' \<Longrightarrow> inv c \<Longrightarrow> astep\<^sup>*\<^sup>* (abs c) (abs c') \<and> inv c'"
proof (induction rule: rtranclp_induct)
  case (step c1 c2)
  then show ?case using step_sim step_keeps by (meson rtranclp_trans)
qed simp

lemma run_preserves:
  assumes "\<And>a a'. astep a a' \<Longrightarrow> P a \<Longrightarrow> P a'" "cstep\<^sup>*\<^sup>* c c'" "inv c" "P (abs c)"
  shows "P (abs c')"
proof -
  have "astep\<^sup>*\<^sup>* a a' \<Longrightarrow> P a \<Longrightarrow> P a'" for a a'
    by (induction rule: rtranclp_induct) (auto intro: assms(1))
  then show ?thesis using run_sim [OF assms(2,3)] assms(4) by blast
qed

end

text \<open>One event of the worker: a frame of a peer, a control request, a maintenance pass, the flushing of
  dropped messages in some order, or a turn of the status sender.\<close>

inductive worker_step :: "worker \<Rightarrow> worker \<Rightarrow> bool" where
  frame: "peer_frame E w f pid start = (out, w') \<Longrightarrow> euuid E \<noteq> [] \<Longrightarrow> worker_step w w'"
| control: "operation E A [] w args = (out, w') \<Longrightarrow> worker_step w w'"
| maintain: "maintenance E A w = (out, w', n) \<Longrightarrow> worker_step w w'"
| flush: "set order = set (drops w) \<Longrightarrow> flushDrops order w = w' \<Longrightarrow> worker_step w w'"
| status: "statusSender E w = (out, w') \<Longrightarrow> worker_step w w'"

definition worker_ok :: "worker \<Rightarrow> bool" where
  "worker_ok w \<longleftrightarrow> queues_ok w \<and> config_wf (wconfig w)"

lemma worker_step_keeps: "worker_step w w' \<Longrightarrow> keeps w w'"
proof (induction rule: worker_step.induct)
  case (frame E w f pid start out w')
  then show ?case by (auto simp: peer_frame_def keeps_refl receive_keeps split: if_splits)
qed (auto intro: operation_keeps maintenance_keeps flushDrops_keeps statusSender_keeps)

interpretation worker: simulation store_move worker_step wstore worker_ok
  by unfold_locales (auto dest!: worker_step_keeps simp: keeps_def worker_ok_def)

text \<open>C1. Whatever peers send, clients ask and the app-server answers, the worker changes its database only by
  runs of the store's operations, and it keeps its queues bounded and its configuration valid.\<close>

theorem worker_refines_store:
  assumes "worker_step\<^sup>*\<^sup>* w w'" and "worker_ok w"
  shows "store_run (wstore w) (wstore w') \<and> worker_ok w'"
  using worker.run_sim [OF assms] .

text \<open>A running worker that was started on an empty inbox never has more than 50 unread and 100 held
  messages, 128 queued receipts and 128 batches of at most 100 dropped messages.\<close>

theorem running_worker_bounds:
  assumes "worker_step\<^sup>*\<^sup>* w w'" and "worker_ok w" and "wstore w = empty_store"
  shows "num_state (wstore w') ''unread'' \<le> 50 \<and> num_state (wstore w') ''held'' \<le> 100
    \<and> length (statusQueue w') \<le> 128 \<and> length (drops w') \<le> 128
    \<and> (\<forall>kb \<in> set (drops w'). length (snd kb) \<le> 100)"
proof -
  have "reachable (wstore w')"
    by (rule worker.run_preserves [where P = reachable, OF _ assms(1,2)])
      (auto simp: store_move_def assms(3) intro: reachable.start reachable.step)
  then have "queue_bounds (wstore w')" using store_invD(2) [OF reachable_inv] by blast
  moreover have "queues_ok w'" using worker.run_sim [OF assms(1,2)] by (simp add: worker_ok_def)
  ultimately show ?thesis by (simp add: queue_bounds_def queues_ok_def)
qed

end
