(* ===== verification/Worker_Props.thy ===== *)
theory Worker_Props
  imports Worker_Inv
begin

section \<open>What the worker does\<close>

text \<open>
  Theorems about single handlers: messages from peers, notices, ownership, recovery.
\<close>

subsection \<open>A concrete worker\<close>

definition sample_config :: Config where
  "sample_config = \<lparr>CThread = sample_uuid, CCWD = ''/w'', CName = ''amy'', CInbound = ''accept'',
     CPermission = ''prompting'', CDelivery = ''app-server'', CAppSocket = ''/s'', CExecutable = ''/x'',
     CLease = 100, CHostPID = 7, CHostStart = ''5''\<rparr>"

definition sample_env :: env where
  "sample_env = \<lparr>ehost = live_host, efiles = sample_files, esha = (\<lambda>_. ''ab''), elib = sample_lib, enow = 50,
     emillis = 50000, euuid = ''u1'', eversion = ''1'', ewd = ''/w'', eartifact = (\<lambda>_ _. Inr ()),
     esave = (\<lambda>_. Inr ()), econnect = (\<lambda>_ _. Inr ()), ewritten = Inr ()\<rparr>"

definition sample_app :: app where
  "sample_app = \<lparr>app_dial = (\<lambda>_. Inr ()), app_attach = (\<lambda>_. Inr ''idle''), app_read = (\<lambda>_. Inr ''idle''),
     app_recorded = False, app_has_notice = (\<lambda>_ _. Inr False), app_notice = (\<lambda>_ _ _. Inr ())\<rparr>"

definition sample_worker :: "store \<Rightarrow> worker" where
  "sample_worker st = \<lparr>wdir = ''/d'', wregistry = ''/r'', wpath = ''/tmp/cc-socks/9.sock'',
     waddress = ''uds:/tmp/cc-socks/9.sock'', wstart = ''3'', wpid = 9, wborn = 1, wstore = st,
     wconfig = sample_config, wactivity = [], lastTouch = 40, wclient = True, attached = True, lastReconcile = 0,
     ownerUnverified = False, statusQueue = [], drops = [], changed = False, cancelled = False\<rparr>"

lemma normalize_ascii:
  assumes "visible (map byte s)" "length s \<le> 64" "\<forall>c \<in> set s. byte c < 0x80"
  shows "normalizeName s = s"
proof -
  have "runes s = map byte s" "encode_runes (map byte s) = s"
    using assms(3) by (simp_all add: runes_ascii encode_runes_ascii)
  then show ?thesis using assms(1,2) by (simp add: normalizeName_def Let_def filter_visible trim_runes_visible)
qed

lemma sample_name: "normalizeName ''amy'' = ''amy''"
  by (rule normalize_ascii)
    (simp_all add: visible_def removed_rune_def control_ranges_def is_space_rune_def)

lemma sample_worker_ok: "worker_ok (sample_worker st)"
  by (simp add: worker_ok_def sample_worker_def queues_ok_def config_wf_def sample_config_def sample_name
      IsAbs_def HasPrefix_def)

lemma sample_stop:
  "worker_step (sample_worker st) ((sample_worker st)\<lparr>lastTouch := 50, cancelled := True\<rparr>)"
  by (rule worker_step.control [where E = sample_env and A = sample_app and args = "[(''op'', GStr ''stop'')]"])
    (simp add: operation_def str_def fld_def sample_env_def)

theorem worker_refines_store_witness:
  "\<exists>w'. worker_step\<^sup>*\<^sup>* (sample_worker sample_store) w' \<and> cancelled w' \<and> worker_ok w'"
proof -
  let ?w' = "(sample_worker sample_store)\<lparr>lastTouch := 50, cancelled := True\<rparr>"
  have "worker_step\<^sup>*\<^sup>* (sample_worker sample_store) ?w'" by (rule r_into_rtranclp, rule sample_stop)
  from worker_refines_store [OF this sample_worker_ok] this show ?thesis by (intro exI [of _ ?w']) simp
qed

theorem running_worker_bounds_witness:
  "\<exists>w'. worker_step\<^sup>*\<^sup>* (sample_worker empty_store) w' \<and> length (statusQueue w') \<le> 128"
proof -
  let ?w' = "(sample_worker empty_store)\<lparr>lastTouch := 50, cancelled := True\<rparr>"
  have r: "worker_step\<^sup>*\<^sup>* (sample_worker empty_store) ?w'" by (rule r_into_rtranclp, rule sample_stop)
  have "wstore (sample_worker empty_store) = empty_store" by (simp add: sample_worker_def)
  from running_worker_bounds [OF r sample_worker_ok this] r show ?thesis by blast
qed

subsection \<open>Messages from peers\<close>

abbreviation peer_message :: "obj \<Rightarrow> int \<Rightarrow> string \<Rightarrow> obj" where
  "peer_message m pid start \<equiv>
     set_fld (set_fld m ''verified_peer_pid'' (GInt pid)) ''verified_peer_start'' (GStr start)"

text \<open>C8. A user frame that is neither a relay loop nor refused nor dropped by the store's checks is stored in
  the state the admission policy gives it, under the identity of the process that sent it; its sender
  gets a receipt that says whether it was accepted or held, and waiting readers are woken when it was
  accepted.\<close>

theorem receive_stores:
  fixes E w pid start m0
  defines "m \<equiv> peer_message m0 pid start" and "st \<equiv> wstore w"
  defines "state \<equiv> admission (wconfig w) m"
  assumes "str frame ''type'' = ''user''" and "decodeUser (elib E) frame = Inr m0"
    and "pid \<noteq> wpid w" and "\<not> Contains (str m ''hop_chain'') (waddress w)" and "state \<noteq> ''refused''"
    and "store_inv st" and "drop_reason (enow E) st m (sender_identity pid start) state = None"
    and "euuid E \<notin> rid ` set (inbox st)" and "length (statusQueue w) < 127"
  shows "\<exists>w'. receive E w frame pid start = (Inr (), w')
    \<and> Get (wstore w') (euuid E) =
        Some (set_fld (accepted_message (euuid E) (enow E) m) ''state'' (GStr state))
    \<and> statusQueue w' \<noteq> []
    \<and> last (statusQueue w') = \<lparr>smessage = accepted_message (euuid E) (enow E) m,
         sstatus = (if state = ''held'' then ''held'' else ''accepted''), sreason = [], sids = []\<rparr>
    \<and> (changed w' \<longleftrightarrow> changed w \<or> state = ''unread'')"
proof -
  have st: "state = ''unread'' \<or> state = ''held''" using admission_states assms(8) by (simp add: state_def)
  have d: "distinct (map fst m)" using decodeUser_keys [OF assms(5)] by (simp add: m_def distinct_keys_update)
  obtain evicted st' where
    acc: "Accept (euuid E) (enow E) st m (sender_identity pid start) state =
      Inr ((Some (accepted_message (euuid E) (enow E) m), [], evicted), st')"
    and get: "Get st' (euuid E) = Some (set_fld (accepted_message (euuid E) (enow E) m) ''state'' (GStr state))"
    using Accept_result [OF assms(9,10,11) d] by blast
  let ?w1 = "w\<lparr>wstore := st'\<rparr>"
  define w2 where "w2 = (case evicted of None \<Rightarrow> ?w1 | Some old \<Rightarrow> enqueueStatus ?w1 old ''dropped'' ''full_queue'' [])"
  have w2: "length (statusQueue w2) < 128" "wstore w2 = st'" "changed w2 = changed w"
    using assms(12) by (auto simp: w2_def enqueueStatus_def split: option.splits)
  have "receive E w frame pid start = (Inr (),
      if state = ''held'' then enqueueStatus w2 (accepted_message (euuid E) (enow E) m) ''held'' [] []
      else signal (enqueueStatus w2 (accepted_message (euuid E) (enow E) m) ''accepted'' [] []))"
    using assms(4-8) acc unfolding receive_def w2_def m_def state_def st_def by (simp add: Let_def)
  then show ?thesis
    using w2 get st by (auto simp: enqueueStatus_def signal_def)
qed

definition sample_frame_in :: obj where
  "sample_frame_in = [(''msgV'', GInt 1), (''msg_id'', GStr sample_uuid), (''type'', GStr ''user''),
     (''message'', GObj [(''role'', GStr ''user''), (''content'', GStr ''hi'')]), (''from'', GStr ''uds:/s'')]"

definition sample_decoded :: obj where
  "sample_decoded = [(''wire_id'', GStr sample_uuid), (''body'', GStr ''hi''), (''from'', GStr ''uds:/s''),
     (''from_name'', GStr []), (''from_mode'', GNil), (''raw_envelope'', GStr ''hi''), (''hop_chain'', GStr [])]"

lemma sample_decode: "decodeUser sample_lib sample_frame_in = Inr sample_decoded"
proof -
  have "envelopeRE ''hi'' = None" by code_simp
  moreover have "normalizeName [] = []"
    by (rule normalize_ascii) (simp_all add: visible_def)
  ultimately show ?thesis
    by (simp add: decodeUser_def sample_frame_in_def sample_decoded_def number_def str_def fld_def sample_lib_def sample_uuid_def)
qed

theorem receive_stores_witness:
  "\<exists>w'. receive sample_env (sample_worker empty_store) sample_frame_in 4 ''8'' = (Inr (), w')
     \<and> Get (wstore w') ''u1'' \<noteq> None \<and> changed w'"
proof -
  let ?m = "peer_message sample_decoded 4 ''8''"
  have ad: "admission (wconfig (sample_worker empty_store)) ?m = ''unread''"
    by (simp add: admission_def sample_worker_def sample_config_def)
  have dr: "drop_reason (enow sample_env) (wstore (sample_worker empty_store)) ?m (sender_identity 4 ''8'') ''unread'' = None"
    by (simp add: drop_reason_def sample_worker_def empty_store_def)
  have hop: "\<not> Contains (str ?m ''hop_chain'') (waddress (sample_worker empty_store))"
    by (simp add: Contains_def sample_decoded_def str_def fld_def sample_worker_def)
  have "elib sample_env = sample_lib" "euuid sample_env = ''u1''" by (simp_all add: sample_env_def)
  then show ?thesis
    using receive_stores [of sample_frame_in sample_env sample_decoded 4 "sample_worker empty_store" "''8''"]
      ad dr hop sample_decode empty_store_inv
    by (auto simp: sample_frame_in_def str_def fld_def sample_worker_def empty_store_def)
qed

end
