(* ===== verification/AppServer.thy ===== *)
theory AppServer
  imports Config
begin

section \<open>The app-server connection\<close>

text \<open>
  appserver.go: which socket is trusted (\<open>inspectAppSocket\<close>, \<open>dialApp\<close>), the multiplexing of calls and
  replies on one connection (\<open>appClient\<close>), the state a thread must be in, and the bounded walks over
  the server's pages (\<open>Attach\<close>, \<open>HasNotice\<close>, and \<open>activeAppThreads\<close> of appserver_stop.go).  A
  function \<open>call k method params\<close> is the decoded answer to the \<open>k\<close>-th request of a walk, so the
  server may answer the same request differently every time.
\<close>

subsection \<open>Trusted sockets\<close>

record appSocket =
  spath :: string
  starget :: string
  slink :: fstat
  ssock :: fstat

definition inspectAppSocket :: "host \<Rightarrow> files \<Rightarrow> string \<Rightarrow> appSocket res" where
  "inspectAppSocket h F path =
     (let finish = (\<lambda>link tgt. rbind (owned F tgt SocketFile True) (\<lambda>sock.
            Inr \<lparr>spath = path, starget = tgt, slink = link, ssock = sock\<rparr>))
      in rbind (lstat F path) (\<lambda>link.
        if fkind link = SymlinkFile
        then if fuid link \<noteq> getuid F
             then Inl (Failure (''app-server socket link is not owned by this user: '' @ path))
             else rbind (read_link h path) (\<lambda>tgt.
               if \<not> IsAbs tgt \<or> Clean tgt \<noteq> tgt
               then Inl (Failure (''app-server socket link has an unsafe target: '' @ path))
               else rbind (vetParents F (Dir tgt)) (\<lambda>_.
                    rbind (owned F (Dir tgt) DirectoryFile True) (\<lambda>_. finish link tgt)))
        else finish link path))"

definition sameAppSocket :: "appSocket \<Rightarrow> appSocket \<Rightarrow> bool" where
  "sameAppSocket a b \<longleftrightarrow> spath a = spath b \<and> starget a = starget b
     \<and> fino (slink a) = fino (slink b) \<and> fino (ssock a) = fino (ssock b)"

text \<open>\<open>dialApp\<close> returns the process at the other end and the socket it inspected.  \<open>dial\<close> answers with the
  credentials of the connection, \<open>h'\<close> and \<open>F'\<close> are the system after connecting, \<open>init\<close> is the outcome
  of the WebSocket upgrade and of the initialize exchange.\<close>

definition dialApp ::
  "host \<Rightarrow> files \<Rightarrow> host \<Rightarrow> files \<Rightarrow> (string \<Rightarrow> (int \<times> nat) res) \<Rightarrow> unit res \<Rightarrow> string
     \<Rightarrow> (int \<times> appSocket) res" where
  "dialApp h F h' F' dial init path =
     rbind (vetParents F (Dir path)) (\<lambda>_.
     rbind (owned F (Dir path) DirectoryFile True) (\<lambda>_.
       case inspectAppSocket h F path of
         Inl e \<Rightarrow> Inl (wrapped (''codex app-server unavailable at '' @ path) e)
       | Inr before \<Rightarrow>
           rbind (dial (starget before)) (\<lambda>(pid, uid).
             case inspectAppSocket h' F' path of
               Inl e \<Rightarrow> Inl (Failure ''app-server socket identity changed or is not owned by this user'')
             | Inr after \<Rightarrow>
                 if uid \<noteq> getuid F \<or> \<not> sameAppSocket before after
                 then Inl (Failure ''app-server socket identity changed or is not owned by this user'')
                 else rbind init (\<lambda>_. Inr (pid, before)))))"

subsection \<open>Calls and replies on one connection\<close>

text \<open>
  The state of \<open>appClient\<close>.  Every call has an identifier of its own and a channel of capacity one;
  \<open>chans\<close> holds what was sent on the channel of a call, \<open>sending\<close> the reply that the reader has taken
  out of \<open>pending\<close> and not yet sent (it does so without the lock).
\<close>

record rpcReply =
  rresult :: gval
  rerr :: "gerr option"

record appClient =
  nextID :: nat
  pending :: "nat list"
  chans :: "nat \<Rightarrow> rpcReply list"
  sending :: "(nat \<times> rpcReply) option"
  aclosed :: bool
  watchThread :: string
  watchName :: string
  recorded :: bool

definition new_client :: appClient where
  "new_client = \<lparr>nextID = 0, pending = [], chans = (\<lambda>_. []), sending = None, aclosed = False,
     watchThread = [], watchName = [], recorded = False\<rparr>"

definition send_reply :: "nat \<Rightarrow> rpcReply \<Rightarrow> appClient \<Rightarrow> appClient" where
  "send_reply i r c = c\<lparr>chans := (chans c)(i := chans c i @ [r])\<rparr>"

text \<open>The start of \<open>call\<close>: a fresh identifier, or an error when the connection is closed.\<close>

definition call_begin :: "appClient \<Rightarrow> nat res \<times> appClient" where
  "call_begin c =
     (if aclosed c then (Inl (Failure ''app-server connection is closed''), c)
      else (Inr (nextID c + 1), c\<lparr>nextID := nextID c + 1, pending := (nextID c + 1) # pending c\<rparr>))"

text \<open>The deferred removal at the end of \<open>call\<close>.\<close>

definition call_end :: "nat \<Rightarrow> appClient \<Rightarrow> appClient" where
  "call_end i c = c\<lparr>pending := removeAll i (pending c)\<rparr>"

definition fail :: "gerr \<Rightarrow> appClient \<Rightarrow> appClient" where
  "fail e c =
     (if aclosed c then c
      else foldl (\<lambda>c i. send_reply i
             \<lparr>rresult = GNil, rerr = Some (Failure (''app-server connection lost: '' @ err_text e))\<rparr> c)
             (c\<lparr>aclosed := True, pending := []\<rparr>) (pending c))"

text \<open>A message of the server as \<open>readLoop\<close> decodes it.  \<open>mid\<close> is \<open>None\<close> when the identifier is absent
  and \<open>Some None\<close> when it is not an integer; \<open>mevent\<close> is the event of an \<open>item/completed\<close>
  notification (thread, type and name of the item).\<close>

record appMessage =
  mid :: "nat option option"
  mmethod :: string
  mevent :: "(string \<times> string \<times> string) option"
  mresult :: gval
  merror :: "(int \<times> string) option"

text \<open>One message: notifications may record the watched item; requests of the server are refused (the
  flag says that the refusal is written); a reply leaves \<open>pending\<close> under the lock.\<close>

definition note_event :: "appMessage \<Rightarrow> appClient \<Rightarrow> appClient" where
  "note_event m c =
     (case mevent m of
        Some (thread, type, name) \<Rightarrow>
          if mmethod m = ''item/completed'' \<and> thread = watchThread c \<and> name = watchName c
             \<and> type = ''functionCallOutput''
          then c\<lparr>recorded := True\<rparr> else c
      | None \<Rightarrow> c)"

definition read_message :: "appMessage \<Rightarrow> appClient \<Rightarrow> bool \<times> appClient" where
  "read_message m c =
     (if mmethod m \<noteq> [] then (mid m \<noteq> None, note_event m c)
      else case mid m of
        Some (Some i) \<Rightarrow>
          (False, if i \<in> set (pending c)
                  then c\<lparr>pending := removeAll i (pending c),
                    sending := Some (i, \<lparr>rresult = mresult m,
                      rerr = map_option (\<lambda>(code, text). RpcRejected code text) (merror m)\<rparr>)\<rparr>
                  else c)
      | _ \<Rightarrow> (False, c))"

text \<open>The reader then sends what it took, outside the lock.\<close>

definition flush_reply :: "appClient \<Rightarrow> appClient" where
  "flush_reply c = (case sending c of None \<Rightarrow> c | Some (i, r) \<Rightarrow> send_reply i r (c\<lparr>sending := None\<rparr>))"

definition Watch :: "string \<Rightarrow> string \<Rightarrow> appClient \<Rightarrow> appClient" where
  "Watch thread name c =
     (if watchThread c \<noteq> thread \<or> watchName c \<noteq> name
      then c\<lparr>watchThread := thread, watchName := name, recorded := False\<rparr> else c)"

text \<open>What \<open>call\<close> returns for the reply it received.\<close>

definition call_result :: "rpcReply \<Rightarrow> gval res" where
  "call_result r = (case rerr r of Some e \<Rightarrow> Inl e | None \<Rightarrow> Inr (rresult r))"

subsection \<open>Threads\<close>

record appThread =
  TID :: string
  TCWD :: string
  TEphemeral :: bool
  TCanAccept :: "bool option"
  TStatus :: string

definition dec_bool :: "obj \<Rightarrow> string \<Rightarrow> bool option res" where
  "dec_bool m key =
     (case fld m key of GNil \<Rightarrow> Inr None | GBool b \<Rightarrow> Inr (Some b)
      | _ \<Rightarrow> Inl (Failure ''json: cannot unmarshal into bool''))"

definition dec_struct :: "obj \<Rightarrow> string \<Rightarrow> obj res" where
  "dec_struct m key = object_of_json (fld m key)"

definition thread_of_json :: "gval \<Rightarrow> appThread res" where
  "thread_of_json v =
     rbind (object_of_json v) (\<lambda>r. rbind (dec_struct r ''thread'') (\<lambda>m.
     rbind (dec_str m ''id'') (\<lambda>i. rbind (dec_str m ''cwd'') (\<lambda>cwd.
     rbind (dec_bool m ''ephemeral'') (\<lambda>eph. rbind (dec_bool m ''canAcceptDirectInput'') (\<lambda>acc.
     rbind (dec_struct m ''status'') (\<lambda>s. rbind (dec_str s ''type'') (\<lambda>type.
       Inr \<lparr>TID = i, TCWD = cwd, TEphemeral = (eph = Some True), TCanAccept = acc, TStatus = type\<rparr>))))))))"

definition checkThread :: "appThread \<Rightarrow> string \<Rightarrow> unit res" where
  "checkThread t i =
     (if TID t \<noteq> i then Inl (Failure ''app-server returned a different thread'')
      else if TEphemeral t then Inl (Failure ''ephemeral threads are not supported'')
      else if TCanAccept t = Some False then Inl (Failure ''this thread cannot accept direct input'')
      else if TStatus t \<noteq> ''idle'' \<and> TStatus t \<noteq> ''active''
      then Inl (Failure ''thread cannot receive messages in its present status'')
      else Inr ())"

type_synonym app_call = "nat \<Rightarrow> string \<Rightarrow> obj \<Rightarrow> gval res"

definition ReadThread :: "app_call \<Rightarrow> string \<Rightarrow> appThread res" where
  "ReadThread call i =
     rbind (rbind (call 0 ''thread/read'' [(''threadId'', GStr i), (''includeTurns'', GBool False)])
       thread_of_json) (\<lambda>t. rbind (checkThread t i) (\<lambda>_. Inr t))"

subsection \<open>Walks over pages\<close>

definition with_cursor :: "string \<Rightarrow> obj \<Rightarrow> obj" where
  "with_cursor cursor params = (if cursor = [] then params else set_fld params ''cursor'' (GStr cursor))"

text \<open>A page of \<open>thread/loaded/list\<close>; \<open>None\<close> when the list is missing.\<close>

definition page_of_json :: "gval \<Rightarrow> (string list option \<times> string) res" where
  "page_of_json v =
     rbind (object_of_json v) (\<lambda>m.
     rbind (if fld m ''data'' = GNil then Inr None else rbind (dec_strs m ''data'') (\<lambda>d. Inr (Some d))) (\<lambda>data.
     rbind (dec_str m ''nextCursor'') (\<lambda>next. Inr (data, next))))"

definition loaded_page :: "app_call \<Rightarrow> nat \<Rightarrow> string \<Rightarrow> (string list option \<times> string) res" where
  "loaded_page call k cursor =
     rbind (call k ''thread/loaded/list'' (with_cursor cursor [(''limit'', GInt 100)])) page_of_json"

text \<open>The page loop of \<open>Attach\<close>; the first argument counts the pages that are left.\<close>

fun find_loaded :: "nat \<Rightarrow> app_call \<Rightarrow> string \<Rightarrow> nat \<Rightarrow> string \<Rightarrow> bool res" where
  "find_loaded 0 call i k cursor = Inr False"
| "find_loaded (Suc n) call i k cursor =
     rbind (loaded_page call k cursor) (\<lambda>(data, next).
       if i \<in> set (case data of None \<Rightarrow> [] | Some ids \<Rightarrow> ids) then Inr True
       else if next = [] then Inr False
       else if next = cursor then Inl (Failure ''invalid app-server pagination'')
       else find_loaded n call i (k + 1) next)"

definition Attach :: "app_call \<Rightarrow> string \<Rightarrow> appThread res" where
  "Attach call i =
     rbind (find_loaded 100 call i 0 []) (\<lambda>found.
       if \<not> found
       then Inl (Failure (''the exact thread is not loaded in this app-server; exit its current Codex UI,''
              @ '' then run cross-session-codex launch --resume '' @ i))
       else rbind (rbind (call 100 ''thread/resume'' [(''threadId'', GStr i), (''excludeTurns'', GBool True)])
              thread_of_json) (\<lambda>t. rbind (checkThread t i) (\<lambda>_. Inr t)))"

text \<open>A page of \<open>thread/items/list\<close>: the types and names of its items.\<close>

fun dec_items :: "gval list \<Rightarrow> (string \<times> string) list res" where
  "dec_items [] = Inr []"
| "dec_items (v # vs) =
     rbind (object_of_json v) (\<lambda>m. rbind (dec_struct m ''item'') (\<lambda>item.
     rbind (dec_str item ''type'') (\<lambda>type. rbind (dec_str item ''name'') (\<lambda>name.
     rbind (dec_items vs) (\<lambda>rest. Inr ((type, name) # rest))))))"

definition items_page :: "app_call \<Rightarrow> string \<Rightarrow> nat \<Rightarrow> string \<Rightarrow> ((string \<times> string) list \<times> string) res" where
  "items_page call thread k cursor =
     rbind (call k ''thread/items/list'' (with_cursor cursor
       [(''threadId'', GStr thread), (''limit'', GInt 100), (''sortDirection'', GStr ''desc'')])) (\<lambda>v.
     rbind (object_of_json v) (\<lambda>m.
     rbind (case fld m ''data'' of GNil \<Rightarrow> Inr [] | GArr vs \<Rightarrow> dec_items vs
            | _ \<Rightarrow> Inl (Failure ''json: cannot unmarshal into slice'')) (\<lambda>items.
     rbind (dec_str m ''nextCursor'') (\<lambda>next. Inr (items, next)))))"

fun find_notice :: "nat \<Rightarrow> app_call \<Rightarrow> string \<Rightarrow> string \<Rightarrow> nat \<Rightarrow> string \<Rightarrow> bool res" where
  "find_notice 0 call thread name k cursor =
     Inl (Failure (''notification was not found in the bounded history scan; read and acknowledge the''
       @ '' inbox to clear it''))"
| "find_notice (Suc n) call thread name k cursor =
     rbind (items_page call thread k cursor) (\<lambda>(items, next).
       if (''functionCallOutput'', name) \<in> set items then Inr True
       else if next = [] then Inr False
       else if next = cursor then Inl (Failure ''invalid app-server history cursor'')
       else find_notice n call thread name (k + 1) next)"

definition HasNotice :: "app_call \<Rightarrow> bool \<Rightarrow> string \<Rightarrow> string \<Rightarrow> bool res" where
  "HasNotice call rec thread name = (if rec then Inr True else find_notice 20 call thread name 0 [])"

definition notice_params :: "string \<Rightarrow> string \<Rightarrow> string \<Rightarrow> obj" where
  "notice_params thread name text =
     [(''threadId'', GStr thread), (''input'', GArr []),
      (''toolOutput'', GObj [(''name'', GStr name), (''output'', GStr text)])]"

text \<open>\<open>activeAppThreads\<close>: read every loaded thread; \<open>read\<close> is the answer to \<open>thread/read\<close>.\<close>

fun active_of :: "(string \<Rightarrow> gval res) \<Rightarrow> string list \<Rightarrow> string list \<Rightarrow> string list res" where
  "active_of read acc [] = Inr acc"
| "active_of read acc (i # ids) =
     rbind (rbind (read i) thread_of_json) (\<lambda>t.
       if TID t \<noteq> i then Inl (Failure ''app-server returned a different thread during shutdown check'')
       else if TStatus t \<in> {''idle'', ''notLoaded'', ''systemError''} then active_of read acc ids
       else if TStatus t = ''active'' then active_of read (acc @ [i]) ids
       else Inl (Failure (''cannot verify thread '' @ i @ '' is idle'')))"

fun active_pages :: "nat \<Rightarrow> app_call \<Rightarrow> (string \<Rightarrow> gval res) \<Rightarrow> string list \<Rightarrow> nat \<Rightarrow> string \<Rightarrow> string list res" where
  "active_pages 0 call read acc k cursor =
     Inl (Failure ''app-server thread listing exceeded the shutdown check limit'')"
| "active_pages (Suc n) call read acc k cursor =
     rbind (loaded_page call k cursor) (\<lambda>(data, next).
       case data of
         None \<Rightarrow> Inl (Failure ''app-server omitted its loaded thread list; cannot verify shutdown'')
       | Some ids \<Rightarrow>
           rbind (active_of read acc ids) (\<lambda>acc'.
             if next = [] then Inr acc'
             else if next = cursor then Inl (Failure ''invalid app-server pagination'')
             else active_pages n call read acc' (k + 1) next))"

definition activeAppThreads :: "app_call \<Rightarrow> (string \<Rightarrow> gval res) \<Rightarrow> string list res" where
  "activeAppThreads call read = active_pages 100 call read [] 0 []"

end
