(* ===== verification/App_Calls.thy ===== *)
theory App_Calls
  imports AppServer
begin

section \<open>Calls and replies\<close>

text \<open>
  The multiplexing of \<open>appClient\<close> as a transition system: callers, the reader and a failing connection
  interleave freely, the reader's removal of a call from \<open>pending\<close> and its send on the call's channel
  being two separate steps.
\<close>

inductive client_step :: "appClient \<Rightarrow> appClient \<Rightarrow> bool" where
  began: "call_begin c = (Inr i, c') \<Longrightarrow> client_step c c'"
| ended: "client_step c (call_end i c)"
| message: "sending c = None \<Longrightarrow> read_message m c = (refusal, c') \<Longrightarrow> client_step c c'"
| sent: "client_step c (flush_reply c)"
| failed: "client_step c (fail e c)"
| watched: "client_step c (Watch thread name c)"

text \<open>Replies that a call has received or is about to receive.\<close>

definition in_flight :: "appClient \<Rightarrow> nat \<Rightarrow> nat" where
  "in_flight c i = length (chans c i) + (if i \<in> set (pending c) then 1 else 0)
     + (case sending c of Some (j, r) \<Rightarrow> if j = i then 1 else 0 | None \<Rightarrow> 0)"

definition client_ok :: "appClient \<Rightarrow> bool" where
  "client_ok c \<longleftrightarrow> distinct (pending c) \<and> (\<forall>i. in_flight c i \<le> 1)
     \<and> (\<forall>i. in_flight c i \<noteq> 0 \<longrightarrow> i \<le> nextID c) \<and> (aclosed c \<longrightarrow> pending c = [])"

lemma fold_send_reply:
  "distinct is \<Longrightarrow> foldl (\<lambda>c i. send_reply i r c) c is =
     c\<lparr>chans := \<lambda>i. chans c i @ (if i \<in> set is then [r] else [])\<rparr>"
proof (induction "is" arbitrary: c)
  case Nil
  then show ?case by simp
next
  case (Cons i "is")
  then show ?case by (auto simp: send_reply_def fun_eq_iff)
qed

lemma in_flight_fail: "distinct (pending c) \<Longrightarrow> in_flight (fail e c) i = in_flight c i"
  by (simp add: fail_def fold_send_reply in_flight_def)

lemma in_flight_flush: "in_flight (flush_reply c) i = in_flight c i"
  by (auto simp: flush_reply_def in_flight_def send_reply_def split: option.splits)

lemma client_step_ok:
  assumes "client_step c c'" "client_ok c"
  shows "client_ok c'"
  using assms(1)
proof -
  note ok = assms(2) [unfolded client_ok_def]
  have less: "client_ok c'" if "\<And>j. in_flight c' j \<le> in_flight c j" "nextID c' = nextID c"
      "distinct (pending c')" "aclosed c' \<longrightarrow> pending c' = []"
    using that ok unfolding client_ok_def by (metis le_trans le_zero_eq)
  show ?thesis using assms(1)
  proof cases
    case (began i)
    then have c': "c' = c\<lparr>nextID := nextID c + 1, pending := (nextID c + 1) # pending c\<rparr>" "\<not> aclosed c"
      by (auto simp: call_begin_def split: if_splits)
    have "in_flight c (Suc (nextID c)) = 0" using ok by (metis Suc_n_not_le_n)
    moreover from this have "in_flight c' j = in_flight c j + (if j = Suc (nextID c) then 1 else 0)" for j
      by (auto simp: in_flight_def c' split: option.splits)
    moreover have "Suc (nextID c) \<notin> set (pending c)" using calculation(1) by (auto simp: in_flight_def split: if_splits)
    ultimately show ?thesis using ok c' unfolding client_ok_def by (simp add: le_Suc_eq)
  next
    case (ended i)
    show ?thesis
      by (rule less) (use ended ok in \<open>auto simp: in_flight_def call_end_def distinct_removeAll split: option.splits\<close>)
  next
    case (message m refusal)
    show ?thesis
      by (rule less) (use message ok in \<open>auto simp: read_message_def note_event_def in_flight_def distinct_removeAll
        split: if_splits option.splits prod.splits\<close>)
  next
    case sent
    show ?thesis
      by (rule less) (use sent ok in \<open>auto simp: in_flight_flush\<close>, auto simp: flush_reply_def send_reply_def split: option.splits)
  next
    case (failed e)
    show ?thesis
      by (rule less) (use failed ok in \<open>auto simp: in_flight_fail\<close>, auto simp: fail_def fold_send_reply)
  next
    case (watched thread name)
    show ?thesis by (rule less) (use watched ok in \<open>auto simp: Watch_def in_flight_def\<close>)
  qed
qed

lemma client_reachable_ok: "client_step\<^sup>*\<^sup>* new_client c \<Longrightarrow> client_ok c"
proof (induction rule: rtranclp_induct)
  case base
  show ?case by (simp add: client_ok_def new_client_def in_flight_def)
next
  case (step c c')
  from client_step_ok [OF step.hyps(2) step.IH] show ?case .
qed

text \<open>C29. Every call gets at most one reply, whatever replies, duplicates and failures arrive in whatever
  order: a channel never holds more than its capacity of one, so the reader never blocks on a send, and
  a connection that has failed leaves no call waiting in the table.\<close>

theorem calls_answered_once:
  assumes "client_step\<^sup>*\<^sup>* new_client c"
  shows "length (chans c i) \<le> 1 \<and> (\<forall>r. sending c = Some (i, r) \<longrightarrow> chans c i = [])
    \<and> (aclosed c \<longrightarrow> pending c = [])"
proof -
  have "client_ok c" using client_reachable_ok [OF assms] .
  then have "in_flight c i \<le> 1" "aclosed c \<longrightarrow> pending c = []" by (simp_all add: client_ok_def)
  then show ?thesis by (auto simp: in_flight_def split: option.splits if_splits)
qed

text \<open>When the connection fails, every call that is still waiting receives exactly one reply, the
  connection error, and no later call starts.\<close>

theorem fail_answers_all:
  assumes "client_step\<^sup>*\<^sup>* new_client c" and "\<not> aclosed c" and "i \<in> set (pending c)"
  shows "\<exists>r. chans (fail e c) i = [r] \<and> call_result r = Inl (Failure (''app-server connection lost: '' @ err_text e))
    \<and> fst (call_begin (fail e c)) = Inl (Failure ''app-server connection is closed'')"
proof -
  have ok: "client_ok c" using client_reachable_ok [OF assms(1)] .
  then have "in_flight c i \<le> 1" "distinct (pending c)" by (simp_all add: client_ok_def)
  then have "chans c i = []" using assms(3) by (simp add: in_flight_def)
  then show ?thesis using assms(2,3) \<open>distinct (pending c)\<close>
    by (simp add: fail_def fold_send_reply call_result_def call_begin_def)
qed

lemma sample_client_run: "client_step\<^sup>*\<^sup>* new_client (snd (call_begin new_client))"
  by (rule r_into_rtranclp, rule client_step.began [of _ 1]) (simp add: call_begin_def new_client_def)

theorem calls_answered_once_witness:
  "\<exists>c. client_step\<^sup>*\<^sup>* new_client c \<and> pending c = [1] \<and> length (chans c 1) \<le> 1"
  using calls_answered_once [OF sample_client_run, of 1] sample_client_run
  by (intro exI [of _ "snd (call_begin new_client)"]) (simp add: call_begin_def new_client_def)

theorem fail_answers_all_witness:
  "\<exists>c r. client_step\<^sup>*\<^sup>* new_client c \<and> chans (fail NotExist c) 1 = [r]"
  using fail_answers_all [OF sample_client_run, of 1 NotExist] sample_client_run
  by (intro exI [of _ "snd (call_begin new_client)"]) (auto simp: call_begin_def new_client_def)

end
