(* ===== verification/Connections.thy ===== *)
theory Connections
  imports AppServer
begin

section \<open>Counting the connections of the app-server\<close>

text \<open>
  appserver_connections_linux.go: the descriptors of the server process and the kernel's socket tables
  under \<open>/proc\<close>, from which the number of clients clients is derived.  A record \<open>procfs\<close> is what the
  kernel answers during one scan: \<open>pread\<close> is the bounded read of a file, \<open>plink\<close> and \<open>pdir\<close> read
  links and directories; a cancelled context is an error of these.
\<close>

definition connectionProcLimit :: nat where "connectionProcLimit = 8388608"
definition connectionFDLimit :: nat where "connectionFDLimit = 65536"

record procfs =
  pread :: "string \<Rightarrow> string res"
  plink :: "string \<Rightarrow> string res"
  pdir :: "string \<Rightarrow> string list res"

record connectionProcess =
  cstart :: string
  cnamespace :: string
  cfds :: "(string \<times> string) list"

record connectionSocket =
  cprotocol :: string
  cpath :: string
  cflags :: nat
  ckind :: nat
  cstate :: nat

text \<open>The read loop of \<open>readConnectionProc\<close> over what successive reads return, up to the end of the file.\<close>

fun readConnectionProc :: "string \<Rightarrow> string res list \<Rightarrow> string res" where
  "readConnectionProc acc [] = Inr acc"
| "readConnectionProc acc (r # rs) =
     rbind r (\<lambda>chunk.
       if connectionProcLimit < length acc + length chunk
       then Inl (Failure ''connection proc file exceeds inspection limit'')
       else readConnectionProc (acc @ chunk) rs)"

subsection \<open>The process\<close>

definition connectionLinkInode :: "string \<Rightarrow> string \<Rightarrow> nat res" where
  "connectionLinkInode link kind =
     (let pre = kind @ '':['' in
      if \<not> HasPrefix link pre \<or> \<not> HasSuffix link '']'' then Inl (Failure ''malformed kernel inode link'')
      else case ParseUint (drop (length pre) (butlast link)) 10 64 of
        None \<Rightarrow> Inl (Failure ''invalid kernel inode link'')
      | Some n \<Rightarrow> if n = 0 then Inl (Failure ''invalid kernel inode link'') else Inr n)"

definition LastIndex :: "string \<Rightarrow> string \<Rightarrow> int" where
  "LastIndex s sub =
     (case rev (filter (\<lambda>i. prefix sub (drop i s)) [0..<Suc (length s)]) of [] \<Rightarrow> -1 | i # _ \<Rightarrow> int i)"

text \<open>The start time in \<open>stat\<close>: the twentieth field after the name of the process.\<close>

definition stat_start :: "string \<Rightarrow> int \<Rightarrow> string res" where
  "stat_start text pid =
     (let e = LastIndex text '') '' in
      if \<not> HasPrefix text (Itoa pid @ '' ('') \<or> e < 0 then Inl (Failure ''malformed process identity'')
      else let fields = Fields (drop (nat e + 2) text) in
        if length fields < 20 then Inl (Failure ''truncated process identity'')
        else if ParseUint (fields ! 19) 10 64 = None then Inl (Failure ''invalid process start identity'')
        else Inr (fields ! 19))"

fun read_fds :: "procfs \<Rightarrow> string \<Rightarrow> (string \<times> string) list \<Rightarrow> string list \<Rightarrow> (string \<times> string) list res" where
  "read_fds P base acc [] = Inr acc"
| "read_fds P base acc (name # names) =
     (if ParseUint name 10 32 = None then Inl (Failure ''invalid process descriptor entry'')
      else case plink P (JoinPath [base, ''fd'', name]) of
        Inl e \<Rightarrow> Inl (wrapped ''cannot read process descriptor'' e)
      | Inr tgt \<Rightarrow> read_fds P base (AList.update name tgt acc) names)"

definition snapshotConnectionProcess :: "procfs \<Rightarrow> string \<Rightarrow> int \<Rightarrow> connectionProcess res" where
  "snapshotConnectionProcess P base pid =
     rbind (pread P (JoinPath [base, ''stat''])) (\<lambda>stat.
     rbind (stat_start stat pid) (\<lambda>start.
     rbind (plink P (JoinPath [base, ''ns'', ''net''])) (\<lambda>ns.
     rbind (connectionLinkInode ns ''net'') (\<lambda>_.
     rbind (pdir P (JoinPath [base, ''fd''])) (\<lambda>entries.
       if connectionFDLimit < length entries
       then Inl (Failure ''process descriptor count exceeds inspection limit'')
       else rbind (read_fds P base [] entries) (\<lambda>fds.
         Inr \<lparr>cstart = start, cnamespace = ns, cfds = fds\<rparr>))))))"

subsection \<open>The tables\<close>

definition connectionTableLines :: "string \<Rightarrow> string list res" where
  "connectionTableLines data =
     (if data = [] \<or> connectionProcLimit < length data \<or> last data \<noteq> newline \<or> CHR 0x00 \<in> set data
      then Inl (Failure ''empty, oversized, or truncated connection table'')
      else Inr (Split (butlast data) newline))"

definition blank_or_tab :: "char list" where
  "blank_or_tab = [CHR '' '', CHR 0x09]"

text \<open>The first \<open>n\<close> fields of a row and the rest of it; \<open>None\<close> when a field is missing.\<close>

fun row_fields :: "nat \<Rightarrow> string \<Rightarrow> (string list \<times> string) option" where
  "row_fields 0 line = Some ([], line)"
| "row_fields (Suc n) line =
     (let line = TrimLeft line blank_or_tab; field = takeWhile (\<lambda>c. c \<notin> set blank_or_tab) line in
      if field = [] then None
      else map_option (\<lambda>(fs, rest). (field # fs, rest)) (row_fields n (drop (length field) line)))"

definition parse_values :: "string list \<Rightarrow> nat list option" where
  "parse_values fs =
     those (map (\<lambda>(i, f). ParseUint f (if i = 6 then 10 else 16) 64) (enumerate 0 fs))"

text \<open>One row: \<open>Inr None\<close> for a kernel socket without a descriptor.\<close>

definition unix_row :: "string \<Rightarrow> (nat \<times> connectionSocket) option res" where
  "unix_row line =
     (case row_fields 7 line of
        None \<Rightarrow> Inl (Failure ''truncated Unix socket row'')
      | Some (fs, rest) \<Rightarrow>
          if \<not> HasSuffix (fs ! 0) '':'' then Inl (Failure ''malformed Unix socket address'')
          else case parse_values (TrimSuffix (fs ! 0) '':'' # tl fs) of
            None \<Rightarrow> Inl (Failure ''invalid Unix socket field'')
          | Some vs \<Rightarrow>
              if vs ! 2 \<noteq> 0 then Inl (Failure ''unrecognized Unix socket protocol'')
              else if vs ! 6 = 0 then Inr None
              else Inr (Some (vs ! 6, \<lparr>cprotocol = ''unix'', cpath = TrimLeft rest blank_or_tab,
                cflags = vs ! 3, ckind = vs ! 4, cstate = vs ! 5\<rparr>)))"

fun unix_rows :: "(nat \<times> connectionSocket) list \<Rightarrow> string list \<Rightarrow> (nat \<times> connectionSocket) list res" where
  "unix_rows acc [] = Inr acc"
| "unix_rows acc (line # ls) =
     rbind (unix_row line) (\<lambda>r.
       case r of
         None \<Rightarrow> unix_rows acc ls
       | Some (inode, s) \<Rightarrow>
           if inode \<in> fst ` set acc then Inl (Failure ''duplicate Unix socket inode'')
           else unix_rows (acc @ [(inode, s)]) ls)"

definition header_of :: "string \<Rightarrow> string" where
  "header_of line = Join (Fields line) '' ''"

definition parseConnectionUnix :: "string \<Rightarrow> (nat \<times> connectionSocket) list res" where
  "parseConnectionUnix data =
     rbind (connectionTableLines data) (\<lambda>ls.
       if header_of (hd ls) \<noteq> ''Num RefCount Protocol Flags Type St Inode Path''
       then Inl (Failure ''unrecognized Unix socket table header'')
       else unix_rows [] (tl ls))"

definition valid_uint :: "string \<Rightarrow> nat \<Rightarrow> bool" where
  "valid_uint v base = (v \<noteq> [] \<and> ParseUint v base 64 \<noteq> None)"

definition valid_pair :: "string \<Rightarrow> nat \<Rightarrow> nat \<Rightarrow> bool" where
  "valid_pair v left right =
     (case Cut v CHR '':'' of
        (a, b, ok) \<Rightarrow>
          if \<not> ok \<or> length a \<noteq> left \<or> length b \<noteq> right \<or> \<not> valid_uint b 16 then False
          else if left = 32 then valid_uint (take 16 a) 16 \<and> valid_uint (drop 16 a) 16
          else valid_uint a 16)"

definition validateConnectionOtherFields :: "string list \<Rightarrow> string \<Rightarrow> unit res" where
  "validateConnectionOtherFields fs tbl =
     (if tbl = ''netlink''
      then if list_all (\<lambda>(i, f). valid_uint f (if i = 0 \<or> i = 3 \<or> i = 6 then 16 else 10)) (enumerate 0 fs)
           then Inr () else Inl (Failure ''invalid netlink socket field'')
      else let address = (if HasSuffix tbl ''6'' then 32 else 8) in
        if \<not> HasSuffix (fs ! 0) '':'' \<or> \<not> valid_uint (TrimSuffix (fs ! 0) '':'') 10
           \<or> \<not> valid_pair (fs ! 1) address 4 \<or> \<not> valid_pair (fs ! 2) address 4 \<or> \<not> valid_uint (fs ! 3) 16
           \<or> \<not> valid_pair (fs ! 4) 8 8 \<or> \<not> valid_pair (fs ! 5) 2 8 \<or> \<not> valid_uint (fs ! 6) 16
           \<or> \<not> valid_uint (fs ! 7) 10 \<or> \<not> valid_uint (fs ! 8) 10 \<or> \<not> valid_uint (fs ! 10) 10
           \<or> \<not> valid_uint (fs ! 11) 16
        then Inl (Failure (''invalid '' @ tbl @ '' socket field''))
        else if list_all (\<lambda>f. ParseInt f 10 64 \<noteq> None) (drop 12 fs) then Inr ()
        else Inl (Failure (''invalid '' @ tbl @ '' socket trailing field'')))"

definition other_header :: "string \<Rightarrow> string" where
  "other_header tbl =
     (if tbl = ''netlink'' then ''sk Eth Pid Groups Rmem Wmem Dump Locks Drops Inode''
      else ''sl local_address '' @ (if HasSuffix tbl ''6'' then ''remote_address'' else ''rem_address'')
           @ '' st tx_queue rx_queue tr tm->when retrnsmt uid timeout inode''
           @ (if HasPrefix tbl ''udp'' then '' ref pointer drops'' else ''''))"

definition other_minimum :: "string \<Rightarrow> nat" where
  "other_minimum tbl = (if tbl = ''netlink'' then 10 else if HasPrefix tbl ''udp'' then 13 else 12)"

fun other_rows :: "string \<Rightarrow> nat list \<Rightarrow> string list \<Rightarrow> nat list res" where
  "other_rows tbl acc [] = Inr acc"
| "other_rows tbl acc (line # ls) =
     (let fs = Fields line in
      if length fs < other_minimum tbl then Inl (Failure (''truncated '' @ tbl @ '' socket row''))
      else rbind (validateConnectionOtherFields fs tbl) (\<lambda>_.
        case ParseUint (fs ! 9) 10 64 of
          None \<Rightarrow> Inl (Failure (''invalid '' @ tbl @ '' socket inode''))
        | Some inode \<Rightarrow>
            if inode = 0 then other_rows tbl acc ls
            else if inode \<in> set acc then Inl (Failure (''duplicate '' @ tbl @ '' socket inode''))
            else other_rows tbl (acc @ [inode]) ls))"

definition parseConnectionOther :: "string \<Rightarrow> string \<Rightarrow> nat list res" where
  "parseConnectionOther data tbl =
     rbind (connectionTableLines data) (\<lambda>ls.
       if header_of (hd ls) \<noteq> other_header tbl
       then Inl (Failure (''unrecognized '' @ tbl @ '' socket table header''))
       else other_rows tbl [] (tl ls))"

subsection \<open>Classifying the sockets of the process\<close>

fun wanted_inodes :: "nat list \<Rightarrow> (string \<times> string) list \<Rightarrow> nat list res" where
  "wanted_inodes acc [] = Inr acc"
| "wanted_inodes acc ((fd, tgt) # fds) =
     (if HasPrefix tgt ''socket:''
      then rbind (connectionLinkInode tgt ''socket'') (\<lambda>inode. wanted_inodes (List.insert inode acc) fds)
      else wanted_inodes acc fds)"

fun add_inodes :: "string \<Rightarrow> nat list \<Rightarrow> nat list \<Rightarrow> (nat \<times> connectionSocket) list \<Rightarrow> (nat \<times> connectionSocket) list res" where
  "add_inodes tbl wanted [] result = Inr result"
| "add_inodes tbl wanted (i # is) result =
     (if i \<notin> set wanted then add_inodes tbl wanted is result
      else if i \<in> fst ` set result then Inl (Failure ''socket inode appears in multiple protocol tables'')
      else add_inodes tbl wanted is (result @ [(i, \<lparr>cprotocol = tbl, cpath = [], cflags = 0, ckind = 0, cstate = 0\<rparr>)]))"

fun other_tables :: "procfs \<Rightarrow> string \<Rightarrow> nat list \<Rightarrow> string list \<Rightarrow> (nat \<times> connectionSocket) list
    \<Rightarrow> (nat \<times> connectionSocket) list res" where
  "other_tables P base wanted [] result = Inr result"
| "other_tables P base wanted (tbl # tbls) result =
     (if length result = length wanted then Inr result
      else case pread P (JoinPath [base, ''net'', tbl]) of
        Inl NotExist \<Rightarrow> other_tables P base wanted tbls result
      | Inl e \<Rightarrow> Inl e
      | Inr data \<Rightarrow>
          rbind (parseConnectionOther data tbl) (\<lambda>inodes.
          rbind (add_inodes tbl wanted inodes result) (\<lambda>result'. other_tables P base wanted tbls result')))"

definition readConnectionSockets :: "procfs \<Rightarrow> string \<Rightarrow> (string \<times> string) list \<Rightarrow> (nat \<times> connectionSocket) list res" where
  "readConnectionSockets P base fds =
     rbind (wanted_inodes [] fds) (\<lambda>wanted.
     rbind (pread P (JoinPath [base, ''net'', ''unix''])) (\<lambda>data.
     rbind (parseConnectionUnix data) (\<lambda>unix.
     rbind (other_tables P base wanted [''tcp'', ''tcp6'', ''udp'', ''udp6'', ''netlink'']
         (List.map_filter (\<lambda>i. map_option (Pair i) (map_of unix i)) wanted)) (\<lambda>result.
       if length result \<noteq> length wanted then Inl (Failure ''cannot classify every server socket inode'')
       else Inr result))))"

subsection \<open>The count\<close>

text \<open>\<open>maps.Equal\<close>.\<close>

definition maps_equal :: "('k \<times> 'v) list \<Rightarrow> ('k \<times> 'v) list \<Rightarrow> bool" where
  "maps_equal a b \<longleftrightarrow> length a = length b \<and> list_all (\<lambda>(k, v). map_of b k = Some v) a"

fun tally :: "string \<Rightarrow> nat \<Rightarrow> nat \<Rightarrow> connectionSocket list \<Rightarrow> (nat \<times> nat) res" where
  "tally socket listeners clients [] = Inr (listeners, clients)"
| "tally socket listeners clients (s # ss) =
     (if cprotocol s \<noteq> ''unix'' \<or> cpath s \<noteq> socket then tally socket listeners clients ss
      else if ckind s = 1 \<and> cflags s = 0x10000 \<and> cstate s = 1 then tally socket (listeners + 1) clients ss
      else if ckind s = 1 \<and> cflags s = 0 \<and> cstate s = 3 then tally socket listeners (clients + 1) ss
      else Inl (Failure ''target socket has an unverified type or state''))"

text \<open>The four scans see the system at four moments; \<open>ctx\<close> is the context's error after them.\<close>

definition linuxAppServerConnections ::
  "string \<Rightarrow> int \<Rightarrow> string \<Rightarrow> procfs \<Rightarrow> procfs \<Rightarrow> procfs \<Rightarrow> procfs \<Rightarrow> unit res \<Rightarrow> nat res" where
  "linuxAppServerConnections procroot pid socket P1 P2 P3 P4 ctx =
     (if pid \<le> 0 \<or> \<not> IsAbs socket \<or> Clean socket \<noteq> socket
      then Inl (Failure ''invalid connection inspection scope'')
      else let base = JoinPath [procroot, Itoa pid] in
        rbind (snapshotConnectionProcess P1 base pid) (\<lambda>before.
        rbind (readConnectionSockets P2 base (cfds before)) (\<lambda>first.
        rbind (readConnectionSockets P3 base (cfds before)) (\<lambda>second.
        rbind (snapshotConnectionProcess P4 base pid) (\<lambda>after.
          if cstart before \<noteq> cstart after \<or> cnamespace before \<noteq> cnamespace after
             \<or> \<not> maps_equal (cfds before) (cfds after) \<or> \<not> maps_equal first second
          then Inl (Failure ''process, namespace, or socket inventory changed during inspection; retry'')
          else rbind ctx (\<lambda>_.
            rbind (tally socket 0 0 (map snd first)) (\<lambda>(listeners, clients).
              if listeners \<noteq> 1 \<or> clients < 1
              then Inl (Failure ''could not verify the listener and inspection connection'')
              else Inr (clients - 1))))))))"

definition appServerConnections ::
  "int \<Rightarrow> string \<Rightarrow> procfs \<Rightarrow> procfs \<Rightarrow> procfs \<Rightarrow> procfs \<Rightarrow> unit res \<Rightarrow> nat res" where
  "appServerConnections pid socket P1 P2 P3 P4 ctx =
     (case linuxAppServerConnections ''/proc'' pid socket P1 P2 P3 P4 ctx of
        Inl e \<Rightarrow> Inl (wrapped ''cannot inspect app-server connections'' e)
      | Inr n \<Rightarrow> Inr n)"

end
