(* ===== verification/Connection_Count.thy ===== *)
theory Connection_Count
  imports Connections
begin

section \<open>What the connection count means\<close>

text \<open>
  The number that \<open>linuxAppServerConnections\<close> returns is the number of distinct connected sockets the
  server holds on the socket's path, less the inspecting one; every socket descriptor was classified.
\<close>

subsection \<open>Counting\<close>

definition on_path :: "string \<Rightarrow> connectionSocket \<Rightarrow> bool" where
  "on_path socket s \<longleftrightarrow> cprotocol s = ''unix'' \<and> cpath s = socket"

definition listening :: "connectionSocket \<Rightarrow> bool" where
  "listening s \<longleftrightarrow> ckind s = 1 \<and> cflags s = 0x10000 \<and> cstate s = 1"

definition established :: "connectionSocket \<Rightarrow> bool" where
  "established s \<longleftrightarrow> ckind s = 1 \<and> cflags s = 0 \<and> cstate s = 3"

lemma listening_not_established: "listening s \<Longrightarrow> \<not> established s"
  by (simp add: listening_def established_def)

lemma tally_spec:
  "tally socket l c ss = Inr (l', c') \<longleftrightarrow>
     (\<forall>s \<in> set ss. on_path socket s \<longrightarrow> listening s \<or> established s)
     \<and> l' = l + count_if (\<lambda>s. on_path socket s \<and> listening s) ss
     \<and> c' = c + count_if (\<lambda>s. on_path socket s \<and> established s) ss"
proof (induction ss arbitrary: l c)
  case Nil
  then show ?case by auto
next
  case (Cons s ss)
  consider "\<not> on_path socket s" | "on_path socket s" "listening s" | "on_path socket s" "\<not> listening s" "established s"
    | "on_path socket s" "\<not> listening s" "\<not> established s" by blast
  then show ?case
  proof cases
    case 1
    then have "tally socket l c (s # ss) = tally socket l c ss" by (simp add: on_path_def)
    with 1 show ?thesis by (simp add: Cons.IH)
  next
    case 2
    then have "tally socket l c (s # ss) = tally socket (l + 1) c ss" by (simp add: on_path_def listening_def)
    with 2 show ?thesis by (auto simp: Cons.IH listening_not_established)
  next
    case 3
    then have "tally socket l c (s # ss) = tally socket l (c + 1) ss" by (simp add: on_path_def listening_def established_def)
    with 3 show ?thesis by (auto simp: Cons.IH)
  next
    case 4
    then have "\<exists>e. tally socket l c (s # ss) = Inl e" by (auto simp: on_path_def listening_def established_def)
    with 4 show ?thesis by auto
  qed
qed

subsection \<open>Classification\<close>

definition socket_inode :: "string \<Rightarrow> nat res" where
  "socket_inode tgt = connectionLinkInode tgt ''socket''"

lemma wanted_inodes_spec:
  "wanted_inodes acc fds = Inr wanted \<Longrightarrow>
     (distinct acc \<longrightarrow> distinct wanted) \<and> set acc \<subseteq> set wanted
     \<and> (\<forall>(fd, tgt) \<in> set fds. HasPrefix tgt ''socket:'' \<longrightarrow> (\<exists>i \<in> set wanted. socket_inode tgt = Inr i))"
proof (induction acc fds rule: wanted_inodes.induct)
  case (1 acc)
  then show ?case by simp
next
  case (2 acc fd tgt fds)
  show ?case
  proof (cases "HasPrefix tgt ''socket:''")
    case True
    then obtain i where i: "connectionLinkInode tgt ''socket'' = Inr i" "wanted_inodes (List.insert i acc) fds = Inr wanted"
      using 2(3) by (auto simp: rbind_Inr)
    from 2(1) [OF True i(2)] i(1) show ?thesis by (auto simp: socket_inode_def)
  next
    case False
    with 2 show ?thesis by auto
  qed
qed

text \<open>Entries of one socket each, all of them wanted, the Unix ones as the kernel's table has them.\<close>

definition classified :: "nat list \<Rightarrow> (nat \<times> connectionSocket) list \<Rightarrow> (nat \<times> connectionSocket) list \<Rightarrow> bool" where
  "classified wanted unix result \<longleftrightarrow> distinct (map fst result) \<and> fst ` set result \<subseteq> set wanted
     \<and> (\<forall>(i, s) \<in> set result. cprotocol s = ''unix'' \<longrightarrow> map_of unix i = Some s)"

lemma add_inodes_keeps:
  "add_inodes tbl wanted is result = Inr result' \<Longrightarrow> tbl \<noteq> ''unix'' \<Longrightarrow> classified wanted unix result \<Longrightarrow>
     classified wanted unix result'"
proof (induction tbl wanted "is" result rule: add_inodes.induct)
  case (1 tbl wanted result)
  then show ?case by simp
next
  case (2 tbl wanted i "is" result)
  show ?case
  proof (cases "i \<in> set wanted")
    case False
    with 2 show ?thesis by simp
  next
    case True
    let ?r = "result @ [(i, \<lparr>cprotocol = tbl, cpath = [], cflags = 0, ckind = 0, cstate = 0\<rparr>)]"
    have i: "i \<notin> fst ` set result" "add_inodes tbl wanted is ?r = Inr result'"
      using 2(3) True by (auto split: if_splits)
    have "classified wanted unix ?r" using 2(4,5) i(1) True by (auto simp: classified_def)
    from 2(2) [OF _ i(1) i(2) 2(4) this] True show ?thesis by simp
  qed
qed

lemma other_tables_keeps:
  "other_tables P base wanted tbls result = Inr result' \<Longrightarrow> ''unix'' \<notin> set tbls \<Longrightarrow>
     classified wanted unix result \<Longrightarrow> classified wanted unix result'"
proof (induction P base wanted tbls result rule: other_tables.induct)
  case (1 P base wanted result)
  then show ?case by simp
next
  case (2 P base wanted tbl tbls result)
  show ?case
  proof (cases "length result = length wanted")
    case True
    with 2 show ?thesis by simp
  next
    case False
    show ?thesis
    proof (cases "pread P (JoinPath [base, ''net'', tbl])")
      case (Inl e)
      with False 2 show ?thesis by (cases e) auto
    next
      case (Inr data)
      then obtain inodes r1 where r1: "parseConnectionOther data tbl = Inr inodes"
          "add_inodes tbl wanted inodes result = Inr r1" "other_tables P base wanted tbls r1 = Inr result'"
        using False 2(3) by (auto simp: rbind_Inr)
      have "classified wanted unix r1" using add_inodes_keeps [OF r1(2)] 2(4,5) by auto
      then show ?thesis using 2(2) [OF False Inr r1(3)] 2(4) by simp
    qed
  qed
qed

lemma first_classified:
  "distinct wanted \<Longrightarrow> classified wanted unix (List.map_filter (\<lambda>i. map_option (Pair i) (map_of unix i)) wanted)"
proof (induction wanted)
  case Nil
  then show ?case by (simp add: classified_def map_filter_simps)
next
  case (Cons i wanted)
  then have "classified wanted unix (List.map_filter (\<lambda>i. map_option (Pair i) (map_of unix i)) wanted)" by simp
  with Cons.prems show ?case by (auto simp: classified_def map_filter_simps split: option.splits)
qed

lemma readConnectionSockets_spec:
  assumes "readConnectionSockets P base fds = Inr socks"
  shows "\<exists>wanted unix. wanted_inodes [] fds = Inr wanted
    \<and> rbind (pread P (JoinPath [base, ''net'', ''unix''])) parseConnectionUnix = Inr unix
    \<and> classified wanted unix socks \<and> fst ` set socks = set wanted"
proof -
  let ?first = "\<lambda>unix wanted. List.map_filter (\<lambda>i. map_option (Pair i) (map_of unix i)) wanted"
  obtain wanted data unix where w: "wanted_inodes [] fds = Inr wanted"
    and d: "pread P (JoinPath [base, ''net'', ''unix'']) = Inr data" "parseConnectionUnix data = Inr unix"
    and t: "other_tables P base wanted [''tcp'', ''tcp6'', ''udp'', ''udp6'', ''netlink''] (?first unix wanted) = Inr socks"
      "length socks = length wanted"
    using assms by (auto simp: readConnectionSockets_def rbind_Inr split: if_splits)
  have dist: "distinct wanted" using wanted_inodes_spec [OF w] by simp
  have "classified wanted unix (?first unix wanted)" using first_classified [OF dist] .
  from other_tables_keeps [OF t(1) _ this] have c: "classified wanted unix socks" by simp
  have "card (fst ` set socks) = length socks" using c unfolding classified_def by (metis distinct_card length_map list.set_map)
  then have "fst ` set socks = set wanted"
    using c t(2) dist by (intro card_subset_eq) (auto simp: classified_def distinct_card)
  with w d c show ?thesis by auto
qed

subsection \<open>The count\<close>

text \<open>C32. The number of connected clients is exact and never guessed: when the inspection succeeds, every socket
  descriptor of the server was found in a kernel table, exactly one of them listens on the path, every
  other Unix socket on the path is an established connection, and the result is the number of distinct
  established sockets less one, the inspecting connection.\<close>

theorem connections_exact:
  assumes "linuxAppServerConnections procroot pid socket P1 P2 P3 P4 ctx = Inr n"
  shows "\<exists>proc socks. snapshotConnectionProcess P1 (JoinPath [procroot, Itoa pid]) pid = Inr proc
    \<and> readConnectionSockets P2 (JoinPath [procroot, Itoa pid]) (cfds proc) = Inr socks
    \<and> distinct (map fst socks)
    \<and> (\<forall>(fd, tgt) \<in> set (cfds proc). HasPrefix tgt ''socket:'' \<longrightarrow> (\<exists>i \<in> fst ` set socks. socket_inode tgt = Inr i))
    \<and> (\<forall>s \<in> snd ` set socks. on_path socket s \<longrightarrow> listening s \<or> established s)
    \<and> count_if (\<lambda>s. on_path socket s \<and> listening s) (map snd socks) = 1
    \<and> count_if (\<lambda>s. on_path socket s \<and> established s) (map snd socks) = n + 1"
proof -
  let ?base = "JoinPath [procroot, Itoa pid]"
  obtain proc socks l c where p: "snapshotConnectionProcess P1 ?base pid = Inr proc"
    and r: "readConnectionSockets P2 ?base (cfds proc) = Inr socks"
    and t: "tally socket 0 0 (map snd socks) = Inr (l, c)" "l = 1" "1 \<le> c" "n = c - 1"
    using assms by (auto simp: linuxAppServerConnections_def Let_def rbind_Inr split: if_splits)
  obtain wanted unix where w: "wanted_inodes [] (cfds proc) = Inr wanted" "classified wanted unix socks"
      "fst ` set socks = set wanted" using readConnectionSockets_spec [OF r] by blast
  from wanted_inodes_spec [OF w(1)] tally_spec [THEN iffD1, OF t(1)] p r t(2-) w(2,3) show ?thesis
    by (intro exI [of _ proc] exI [of _ socks]) (auto simp: classified_def)
qed

lemma wanted_inodes_append:
  "wanted_inodes acc (fds @ fds') = rbind (wanted_inodes acc fds) (\<lambda>w. wanted_inodes w fds')"
  by (induction acc fds rule: wanted_inodes.induct) (auto simp: rbind_def split: sum.splits)

text \<open>A descriptor that duplicates another one is not another client: the inventory of sockets is the same
  with and without it.\<close>

theorem duplicated_descriptor:
  assumes "tgt \<in> snd ` set fds"
  shows "readConnectionSockets P base (fds @ [(fd, tgt)]) = readConnectionSockets P base fds"
proof -
  have "wanted_inodes [] (fds @ [(fd, tgt)]) = wanted_inodes [] fds"
  proof (cases "wanted_inodes [] fds")
    case (Inr wanted)
    then show ?thesis using wanted_inodes_spec [OF Inr] assms
      by (fastforce simp: wanted_inodes_append socket_inode_def)
  qed (simp add: wanted_inodes_append)
  then show ?thesis by (simp add: readConnectionSockets_def)
qed

subsection \<open>A concrete server\<close>

text \<open>Process 7 listens on \<open>/s\<close> and has one connection, the inspecting one.\<close>

definition sample_stat_text :: string where
  "sample_stat_text = ''7 (a) S 1 2 3 4 5 6 7 8 9 10 11 12 13 14 15 16 17 18 42 0''"

definition sample_unix_table :: string where
  "sample_unix_table = ''Num RefCount Protocol Flags Type St Inode Path'' @ [newline]
     @ ''a: 2 0 10000 1 1 5 /s'' @ [newline] @ ''b: 3 0 0 1 3 6 /s'' @ [newline]"

definition sample_procfs :: procfs where
  "sample_procfs = \<lparr>
     pread = (\<lambda>p. if p = ''/proc/7/stat'' then Inr sample_stat_text
       else if p = ''/proc/7/net/unix'' then Inr sample_unix_table else Inl NotExist),
     plink = (\<lambda>p. if p = ''/proc/7/ns/net'' then Inr ''net:[1]''
       else if p = ''/proc/7/fd/3'' then Inr ''socket:[5]''
       else if p = ''/proc/7/fd/4'' then Inr ''socket:[6]'' else Inl NotExist),
     pdir = (\<lambda>p. Inr [''3'', ''4''])\<rparr>"

lemma sample_paths:
  "JoinPath [''/proc'', ''7''] = ''/proc/7''" "JoinPath [''/proc/7'', ''stat''] = ''/proc/7/stat''"
  "JoinPath [''/proc/7'', ''ns'', ''net''] = ''/proc/7/ns/net''" "JoinPath [''/proc/7'', ''fd''] = ''/proc/7/fd''"
  "JoinPath [''/proc/7'', ''fd'', ''3''] = ''/proc/7/fd/3''" "JoinPath [''/proc/7'', ''fd'', ''4''] = ''/proc/7/fd/4''"
  "JoinPath [''/proc/7'', ''net'', ''unix''] = ''/proc/7/net/unix''" "Clean ''/s'' = ''/s''" "IsAbs ''/s''" "Itoa 7 = ''7''"
  by code_simp+

lemma sample_stat_start: "stat_start sample_stat_text 7 = Inr ''42''"
proof -
  have "LastIndex sample_stat_text '') '' = 4" by code_simp
  then show ?thesis
    by (simp add: stat_start_def sample_stat_text_def HasPrefix_def sample_paths(10) Fields_def
      fields_from_simps plain_def ParseUint_def digit_val_def)
qed


lemma sample_links:
  "connectionLinkInode ''net:[1]'' ''net'' = Inr 1" "connectionLinkInode ''socket:[5]'' ''socket'' = Inr 5"
  "connectionLinkInode ''socket:[6]'' ''socket'' = Inr 6"
  by (simp_all add: connectionLinkInode_def HasPrefix_def HasSuffix_def suffix_def ParseUint_def digit_val_def)

lemma sample_snapshot:
  "snapshotConnectionProcess sample_procfs ''/proc/7'' 7 =
     Inr \<lparr>cstart = ''42'', cnamespace = ''net:[1]'', cfds = [(''3'', ''socket:[5]''), (''4'', ''socket:[6]'')]\<rparr>"
  by (simp add: snapshotConnectionProcess_def sample_procfs_def sample_paths sample_stat_start sample_links
      connectionFDLimit_def ParseUint_def digit_val_def)

definition listener5 :: connectionSocket where
  "listener5 = \<lparr>cprotocol = ''unix'', cpath = ''/s'', cflags = 0x10000, ckind = 1, cstate = 1\<rparr>"

definition client6 :: connectionSocket where
  "client6 = \<lparr>cprotocol = ''unix'', cpath = ''/s'', cflags = 0, ckind = 1, cstate = 3\<rparr>"

lemma sample_rows:
  "unix_row ''a: 2 0 10000 1 1 5 /s'' = Inr (Some (5, listener5))"
  "unix_row ''b: 3 0 0 1 3 6 /s'' = Inr (Some (6, client6))"
proof -
  have "row_fields 7 ''a: 2 0 10000 1 1 5 /s'' = Some ([''a:'', ''2'', ''0'', ''10000'', ''1'', ''1'', ''5''], '' /s'')"
    "row_fields 7 ''b: 3 0 0 1 3 6 /s'' = Some ([''b:'', ''3'', ''0'', ''0'', ''1'', ''3'', ''6''], '' /s'')"
    by code_simp+
  then show "unix_row ''a: 2 0 10000 1 1 5 /s'' = Inr (Some (5, listener5))"
    "unix_row ''b: 3 0 0 1 3 6 /s'' = Inr (Some (6, client6))"
    by (simp_all add: unix_row_def HasSuffix_def suffix_def TrimSuffix_def parse_values_def ParseUint_def digit_val_def
        TrimLeft_def blank_or_tab_def listener5_def client6_def)
qed

lemma sample_unix: "parseConnectionUnix sample_unix_table = Inr [(5, listener5), (6, client6)]"
proof -
  have "Split (butlast sample_unix_table) newline =
      [''Num RefCount Protocol Flags Type St Inode Path'', ''a: 2 0 10000 1 1 5 /s'', ''b: 3 0 0 1 3 6 /s'']"
    "last sample_unix_table = newline" "CHR 0x00 \<notin> set sample_unix_table" "sample_unix_table \<noteq> []"
    by code_simp+
  then show ?thesis
    by (simp add: parseConnectionUnix_def connectionTableLines_def header_of_def Fields_def fields_from_simps plain_def
        Join_def sample_rows connectionProcLimit_def) (simp add: sample_unix_table_def)
qed

lemma sample_inventory:
  "readConnectionSockets sample_procfs ''/proc/7'' [(''3'', ''socket:[5]''), (''4'', ''socket:[6]'')] =
     Inr [(6, client6), (5, listener5)]"
proof -
  have "wanted_inodes [] [(''3'', ''socket:[5]''), (''4'', ''socket:[6]'')] = Inr [6, 5]"
    by (simp add: HasPrefix_def sample_links)
  then show ?thesis
    by (simp add: readConnectionSockets_def sample_procfs_def sample_paths sample_unix map_filter_simps)
qed

lemma sample_count:
  "linuxAppServerConnections ''/proc'' 7 ''/s'' sample_procfs sample_procfs sample_procfs sample_procfs (Inr ()) = Inr 0"
  by (simp add: linuxAppServerConnections_def sample_paths sample_snapshot sample_inventory maps_equal_def
      listener5_def client6_def)

theorem connections_exact_witness:
  "\<exists>socks :: (nat \<times> connectionSocket) list. count_if (\<lambda>s. on_path ''/s'' s \<and> established s) (map snd socks) = 1"
  using connections_exact [OF sample_count] by (auto simp: sample_paths)

theorem duplicated_descriptor_witness:
  "readConnectionSockets sample_procfs ''/proc/7'' [(''3'', ''socket:[5]''), (''4'', ''socket:[6]''), (''9'', ''socket:[5]'')] =
     Inr [(6, client6), (5, listener5)]"
  using duplicated_descriptor [of "''socket:[5]''" "[(''3'', ''socket:[5]''), (''4'', ''socket:[6]'')]" sample_procfs "''/proc/7''" "''9''"]
    sample_inventory by simp

end
