(* ===== verification/Shutdown.thy ===== *)
theory Shutdown
  imports Connections
begin

section \<open>Stopping the shared app-server\<close>

text \<open>
  appserver_stop.go.  \<open>Shutdown\<close> returns its result and the processes it sent \<open>SIGTERM\<close> to.  What it
  observes on the way is a record \<open>site\<close>: the host and the files when the identity and the owners are
  examined (\<open>z_host\<close>, \<open>z_files\<close>) and once more just before the signal (\<open>z_host'\<close>, \<open>z_files'\<close>), the
  answers of the app-server, the two connection counts, and the host at every tick after the signal; the
  end of the ticks is the deadline.
\<close>

record appServerRecord =
  RPID :: int
  RStart :: string
  RSocket :: string

definition record_of_json :: "gval \<Rightarrow> appServerRecord res" where
  "record_of_json v =
     rbind (object_of_json v) (\<lambda>m. rbind (dec_int m ''pid'') (\<lambda>pid. rbind (dec_str m ''proc_start'') (\<lambda>start.
     rbind (dec_str m ''socket'') (\<lambda>socket. Inr \<lparr>RPID = pid, RStart = start, RSocket = socket\<rparr>))))"

definition appServerRecordPath :: "string \<Rightarrow> string" where
  "appServerRecordPath socket = JoinPath [Dir socket, ''cross-session-codex-server.json'']"

text \<open>A process is gone when it has another start time now, or does not exist.\<close>

definition confirmed_gone :: "host \<Rightarrow> int \<Rightarrow> string \<Rightarrow> bool" where
  "confirmed_gone h pid start =
     ((case processStart h pid of Inl _ \<Rightarrow> False | Inr s \<Rightarrow> s \<noteq> start) \<or> kill_esrch h pid)"

definition checkStoppedAppServerRecord :: "host \<Rightarrow> files \<Rightarrow> string \<Rightarrow> unit res" where
  "checkStoppedAppServerRecord h F socket =
     (case rbind (readJSON F (appServerRecordPath socket) True) record_of_json of
        Inl NotExist \<Rightarrow> Inr ()
      | Inl e \<Rightarrow> Inl e
      | Inr r \<Rightarrow>
          if RPID r \<le> 1 \<or> RStart r = [] \<or> RSocket r \<noteq> socket
          then Inl (Failure ''invalid app-server launch record; cannot confirm shutdown'')
          else if confirmed_gone h (RPID r) (RStart r) then Inr ()
          else Inl (Failure (''recorded app-server may still be alive but its socket is unavailable;''
                 @ '' cannot verify shutdown'')))"

definition shutdownIdentity :: "host \<Rightarrow> files \<Rightarrow> int \<Rightarrow> string res \<Rightarrow> string \<Rightarrow> int \<Rightarrow> appServerRecord res" where
  "shutdownIdentity h F own command socket pid =
     (if pid \<le> 1 \<or> pid = own then Inl (Failure ''refusing to signal an invalid or current process'')
      else rbind (processStart h pid) (\<lambda>start.
        let identity = \<lparr>RPID = pid, RStart = start, RSocket = socket\<rparr> in
        case rbind (readJSON F (appServerRecordPath socket) True) record_of_json of
          Inr launched \<Rightarrow>
            if launched \<noteq> identity
            then Inl (Failure ''app-server identity does not match the launch record; nothing was stopped'')
            else Inr identity
        | Inl NotExist \<Rightarrow>
            (case command of
               Inl _ \<Rightarrow> Inl (Failure (''server has no matching bridge launch record or direct-launch command;''
                       @ '' nothing was stopped''))
             | Inr b \<Rightarrow>
                 if HasSuffix (TrimSpace b) ('' app-server --listen unix://'' @ socket) then Inr identity
                 else Inl (Failure (''server has no matching bridge launch record or direct-launch command;''
                        @ '' nothing was stopped'')))
        | Inl e \<Rightarrow> Inl e))"

subsection \<open>Owners\<close>

definition zero_config :: Config where
  "zero_config = \<lparr>CThread = [], CCWD = [], CName = [], CInbound = [], CPermission = [], CDelivery = [],
     CAppSocket = [], CExecutable = [], CLease = 0, CHostPID = 0, CHostStart = []\<rparr>"

definition readConfig :: "files \<Rightarrow> string \<Rightarrow> Config res" where
  "readConfig F dir = rbind (readJSON F (JoinPath [dir, ''config.json'']) True) (\<lambda>v. config_over v zero_config)"

text \<open>One entry of the state directory: its owner, if it has a live one on this socket.\<close>

definition owner_entry :: "host \<Rightarrow> files \<Rightarrow> lib \<Rightarrow> string \<Rightarrow> string \<Rightarrow> string \<Rightarrow> obj option res" where
  "owner_entry h F L state_root socket name =
     (if \<not> is_ok (canonicalThread L name) then Inr None
      else let dir = JoinPath [state_root, name] in
        rbind (owned F dir DirectoryFile True) (\<lambda>_.
          case readConfig F dir of
            Inl NotExist \<Rightarrow> Inr None
          | Inl e \<Rightarrow> Inl e
          | Inr c \<Rightarrow>
              if CAppSocket c \<noteq> socket \<or> CHostPID c = 0 then Inr None
              else (case processStart h (CHostPID c) of
                Inl e \<Rightarrow>
                  if kill_esrch h (CHostPID c) then Inr None
                  else Inl (wrapped (''cannot verify owner for thread '' @ name) e)
              | Inr start \<Rightarrow>
                  if start = CHostStart c
                  then Inr (Some [(''thread_id'', GStr name), (''name'', GStr (CName c)), (''pid'', GInt (CHostPID c))])
                  else Inr None)))"

fun owner_entries :: "host \<Rightarrow> files \<Rightarrow> lib \<Rightarrow> string \<Rightarrow> string \<Rightarrow> obj list \<Rightarrow> string list \<Rightarrow> obj list res" where
  "owner_entries h F L state_root socket acc [] = Inr acc"
| "owner_entries h F L state_root socket acc (n # ns) =
     rbind (owner_entry h F L state_root socket n) (\<lambda>own.
       owner_entries h F L state_root socket (acc @ (case own of None \<Rightarrow> [] | Some x \<Rightarrow> [x])) ns)"

definition appServerOwners :: "host \<Rightarrow> files \<Rightarrow> lib \<Rightarrow> string \<Rightarrow> string \<Rightarrow> obj list res" where
  "appServerOwners h F L state_root socket =
     (if lstat F state_root = Inl NotExist then Inr []
      else rbind (vetParents F state_root) (\<lambda>_.
           rbind (owned F state_root DirectoryFile True) (\<lambda>_.
           rbind (readdir F state_root) (\<lambda>entries. owner_entries h F L state_root socket [] entries))))"

subsection \<open>The inspecting connection\<close>

text \<open>\<open>answer\<close> is the reply to the last request, \<open>lost\<close> whether the connection has failed since.\<close>

definition verifyInspectionConnection :: "gval res \<Rightarrow> bool \<Rightarrow> unit res" where
  "verifyInspectionConnection answer lost =
     (case answer of
        Inl e \<Rightarrow> Inl (wrapped ''cannot verify inspection connection remains live'' e)
      | Inr v \<Rightarrow>
        (case rbind (object_of_json v) (\<lambda>m. if fld m ''data'' = GNil then Inr None
                 else rbind (dec_strs m ''data'') (\<lambda>d. Inr (Some d))) of
           Inl e \<Rightarrow> Inl (wrapped ''cannot verify inspection connection remains live'' e)
         | Inr data \<Rightarrow>
             if data = None \<or> lost
             then Inl (Failure ''inspection connection returned incomplete evidence or closed; nothing was stopped'')
             else Inr ()))"

subsection \<open>Shutdown\<close>

record site =
  z_lock :: "unit res"
  z_probe :: "(int \<times> appSocket) res"
  z_own :: int
  z_lib :: lib
  z_root :: string
  z_host :: host
  z_files :: files
  z_command :: "string res"
  z_call :: app_call
  z_read :: "string \<Rightarrow> gval res"
  z_count :: "int \<Rightarrow> string \<Rightarrow> nat res"
  z_alive :: "gval res \<times> bool"
  z_count' :: "int \<Rightarrow> string \<Rightarrow> nat res"
  z_alive' :: "gval res \<times> bool"
  z_host' :: host
  z_files' :: files
  z_ctx :: "unit res"
  z_closed :: bool
  z_kill :: "unit res"
  z_ticks :: "host list"

definition stop_status :: "string \<Rightarrow> string \<Rightarrow> obj" where
  "stop_status status socket = [(''status'', GStr status), (''app_server_socket'', GStr socket)]"

text \<open>After the signal: wait for the process to be gone.\<close>

fun await_exit :: "host list \<Rightarrow> int \<Rightarrow> string \<Rightarrow> obj \<Rightarrow> obj res" where
  "await_exit [] pid start result = Inl (Failure ''app-server did not exit after SIGTERM; no force kill was sent'')"
| "await_exit (h # hs) pid start result =
     (if confirmed_gone h pid start then Inr (set_fld result ''status'' (GStr ''stopped''))
      else await_exit hs pid start result)"

text \<open>The second look and the signal.\<close>

definition stop_server :: "site \<Rightarrow> string \<Rightarrow> appServerRecord \<Rightarrow> appSocket \<Rightarrow> appSocket \<Rightarrow> obj \<Rightarrow> obj res \<times> int list" where
  "stop_server Z socket identity client before result =
     (case rbind (z_count' Z (RPID identity) (starget client)) (\<lambda>n.
           rbind (verifyInspectionConnection (fst (z_alive' Z)) (snd (z_alive' Z))) (\<lambda>_.
           if n \<noteq> 0 then Inl (Failure ''a client connected during shutdown; close all sessions and retry'')
           else if processStart (z_host' Z) (RPID identity) \<noteq> Inr (RStart identity)
           then Inl (Failure ''app-server process identity changed; nothing was stopped'')
           else if (case inspectAppSocket (z_host' Z) (z_files' Z) socket of
                      Inl _ \<Rightarrow> True | Inr after \<Rightarrow> \<not> sameAppSocket before after)
           then Inl (Failure ''app-server socket identity changed; nothing was stopped'')
           else rbind (z_ctx Z) (\<lambda>_.
             if z_closed Z then Inl (Failure ''inspection connection closed before shutdown; nothing was stopped'')
             else Inr ()))) of
        Inl e \<Rightarrow> (Inl e, [])
      | Inr _ \<Rightarrow>
          (case z_kill Z of
             Inl e \<Rightarrow> (Inl (wrapped ''signal app-server'' e), [])
           | Inr _ \<Rightarrow> (await_exit (z_ticks Z) (RPID identity) (RStart identity) result, [RPID identity])))"

text \<open>What the first look finds: the identity, the socket, and everything that keeps the server busy.\<close>

definition inspect_server ::
  "site \<Rightarrow> string \<Rightarrow> int \<Rightarrow> appSocket \<Rightarrow> (appServerRecord \<times> appSocket \<times> obj list \<times> string list \<times> nat) res" where
  "inspect_server Z socket pid client =
     rbind (shutdownIdentity (z_host Z) (z_files Z) (z_own Z) (z_command Z) socket pid) (\<lambda>identity.
     rbind (inspectAppSocket (z_host Z) (z_files Z) socket) (\<lambda>before.
       if \<not> sameAppSocket client before
       then Inl (Failure ''app-server socket changed after connecting; nothing was stopped'')
       else rbind (appServerOwners (z_host Z) (z_files Z) (z_lib Z) (z_root Z) socket) (\<lambda>owners.
         rbind (activeAppThreads (z_call Z) (z_read Z)) (\<lambda>active.
         rbind (z_count Z (RPID identity) (starget client)) (\<lambda>n.
         rbind (verifyInspectionConnection (fst (z_alive Z)) (snd (z_alive Z))) (\<lambda>_.
           Inr (identity, before, owners, active, n)))))))"

definition Shutdown :: "site \<Rightarrow> string \<Rightarrow> bool \<Rightarrow> obj res \<times> int list" where
  "Shutdown Z socket check =
     (if \<not> IsAbs socket \<or> Clean socket \<noteq> socket
      then (Inl (Failure ''app-server socket must be an absolute clean path''), [])
      else case z_lock Z of
        Inl e \<Rightarrow> (Inl e, [])
      | Inr _ \<Rightarrow>
        (case z_probe Z of
           Inl e \<Rightarrow>
             if e = NotExist \<or> e = ConnRefused
             then (rbind (checkStoppedAppServerRecord (z_host Z) (z_files Z) socket)
                     (\<lambda>_. Inr (stop_status ''not_running'' socket)), [])
             else (Inl (wrapped ''cannot verify app-server for shutdown'' e), [])
         | Inr (pid, client) \<Rightarrow>
           (case inspect_server Z socket pid client of
              Inl e \<Rightarrow> (Inl e, [])
            | Inr (identity, before, owners, active, n) \<Rightarrow>
              (let busy = (owners \<noteq> [] \<or> active \<noteq> [] \<or> n \<noteq> 0);
                   result = stop_status (if busy then ''busy'' else ''ready'') socket
                     @ [(''pid'', GInt (RPID identity)), (''sessions'', GArr (map GObj owners)),
                        (''active_threads'', GArr (map GStr active)), (''connections'', GInt (int n))]
               in if check then (Inr result, [])
                  else if busy
                  then (Inl (Failure (''refusing shutdown: '' @ Itoa (int (length owners)) @ '' live session owner(s), ''
                     @ Itoa (int (length active)) @ '' active thread(s), '' @ Itoa (int n)
                     @ '' connected client(s); close all sessions, then retry (shutdown --check shows details)'')), [])
                  else stop_server Z socket identity client before result))))"

subsection \<open>Counting with lsof\<close>

text \<open>\<open>countAppConnections\<close>: the fields of \<open>lsof -F0pftn\<close>, separated by NUL.\<close>

fun lsof_fields :: "string \<Rightarrow> string \<Rightarrow> string \<Rightarrow> string \<Rightarrow> string \<Rightarrow> string list \<Rightarrow> string list \<Rightarrow> string list" where
  "lsof_fields pid socket process kind fd seen [] = seen"
| "lsof_fields pid socket process kind fd seen (raw # raws) =
     (let field = TrimLeft raw [newline]; v = tl field in
      if length field < 2 then lsof_fields pid socket process kind fd seen raws
      else if hd field = CHR ''p'' then lsof_fields pid socket v [] [] seen raws
      else if hd field = CHR ''f'' then lsof_fields pid socket process [] v seen raws
      else if hd field = CHR ''t'' then lsof_fields pid socket process v fd seen raws
      else if hd field = CHR ''n''
      then lsof_fields pid socket process kind fd
             (if process = pid \<and> kind = ''unix'' \<and> fd \<noteq> [] \<and> (v = socket \<or> HasPrefix v (socket @ '' type=STREAM''))
              then List.insert fd seen else seen) raws
      else lsof_fields pid socket process kind fd seen raws)"

definition countAppConnections :: "string \<Rightarrow> int \<Rightarrow> string \<Rightarrow> nat res" where
  "countAppConnections data pid socket =
     (let seen = lsof_fields (Itoa pid) socket [] [] [] [] (Split data CHR 0x00) in
      if length seen < 2
      then Inl (Failure ''could not verify the listener and inspection connection; nothing was stopped'')
      else Inr (length seen - 2))"

end
