(* ===== verification/Handshake.thy ===== *)
theory Handshake
  imports Protocol
begin

section \<open>The launch handoff\<close>

text \<open>
  launch_handshake.go: two inherited pipes on which the launcher announces that a peer is registered and
  waits for the permission to continue.  The system calls of a loop are a list of events, one for each
  turn; the list ends when the deadline of the exchange passes.  \<open>scan\<close> is Go's JSON decoder on the
  continuation: the tokens and values it yields.
\<close>

definition launchHandshakeMaxFrame :: nat where "launchHandshakeMaxFrame = 8192"

record LaunchReady =
  LV :: int
  LEvent :: string
  LNonce :: string
  LThreadID :: string
  LCodexHome :: string
  LAppServerSocket :: string
  LOwnerPID :: int
  LOwnerStart :: string
  LName :: string
  LVersion :: string

record launchHandshake =
  readyFD :: int
  continueFD :: int
  hclosed :: bool

subsection \<open>Descriptors\<close>

text \<open>\<open>fd_fifo\<close> and \<open>fd_access\<close> are the answers of \<open>fstat\<close> and \<open>F_GETFL\<close> (0 is read-only, 1 write-only),
  \<open>fd_prepare\<close> the outcome of making the descriptor close-on-exec and non-blocking.\<close>

record fdinfo =
  fd_fifo :: "bool res"
  fd_access :: "nat res"
  fd_prepare :: "unit res"

definition check_endpoint :: "(int \<Rightarrow> fdinfo) \<Rightarrow> int \<Rightarrow> nat \<Rightarrow> string \<Rightarrow> unit res" where
  "check_endpoint D fd acc name =
     (case fd_fifo (D fd) of
        Inl e \<Rightarrow> Inl (wrapped (''launch handoff '' @ name @ '' descriptor'') e)
      | Inr False \<Rightarrow> Inl (Failure (''launch handoff '' @ name @ '' descriptor must be a pipe''))
      | Inr True \<Rightarrow>
          (case fd_access (D fd) of
             Inl e \<Rightarrow> Inl (wrapped (''launch handoff '' @ name @ '' descriptor flags'') e)
           | Inr a \<Rightarrow> if a \<noteq> acc then Inl (Failure (''launch handoff '' @ name @ '' pipe has the wrong access mode''))
                      else Inr ()))"

text \<open>\<open>Close\<close>: the descriptors it closes, and the handshake afterwards.\<close>

definition Close :: "launchHandshake \<Rightarrow> int list \<times> launchHandshake" where
  "Close h = (if hclosed h then ([], h) else ([readyFD h, continueFD h], h\<lparr>hclosed := True\<rparr>))"

definition newLaunchHandshake :: "(int \<Rightarrow> fdinfo) \<Rightarrow> int \<Rightarrow> int \<Rightarrow> launchHandshake option res \<times> int list" where
  "newLaunchHandshake D rfd cfd =
     (if rfd = -1 \<and> cfd = -1 then (Inr None, [])
      else if rfd < 3 \<or> cfd < 3 \<or> rfd = cfd
      then (Inl (Failure (''launch handoff requires distinct --ready-fd and --continue-fd pipe descriptors,''
             @ '' both at least 3'')), [])
      else case rbind (check_endpoint D rfd 1 ''ready'') (\<lambda>_. check_endpoint D cfd 0 ''continue'') of
        Inl e \<Rightarrow> (Inl e, [])
      | Inr _ \<Rightarrow>
          (let h = \<lparr>readyFD = rfd, continueFD = cfd, hclosed = False\<rparr> in
           case rbind (fd_prepare (D rfd)) (\<lambda>_. fd_prepare (D cfd)) of
             Inl e \<Rightarrow> (Inl (wrapped ''prepare launch handoff pipe'' e), fst (Close h))
           | Inr _ \<Rightarrow> (Inr (Some h), [])))"

subsection \<open>Pipes\<close>

datatype poll =
    PollCancelled gerr
  | PollExpired
  | PollInterrupted
  | PollError gerr
  | PollInvalid
  | PollReady
  | PollQuiet

definition deadline_exceeded :: gerr where
  "deadline_exceeded = Failure ''context deadline exceeded''"

fun waitHandshakePipe :: "poll list \<Rightarrow> unit res" where
  "waitHandshakePipe [] = Inl deadline_exceeded"
| "waitHandshakePipe (p # ps) =
     (case p of
        PollCancelled e \<Rightarrow> Inl e
      | PollExpired \<Rightarrow> Inl deadline_exceeded
      | PollInterrupted \<Rightarrow> waitHandshakePipe ps
      | PollError e \<Rightarrow> Inl e
      | PollInvalid \<Rightarrow> Inl (Failure ''bad file descriptor'')
      | PollReady \<Rightarrow> Inr ()
      | PollQuiet \<Rightarrow> waitHandshakePipe ps)"

text \<open>The time a poll waits, in milliseconds, for the remaining nanoseconds.\<close>

definition poll_timeout :: "int \<Rightarrow> int" where
  "poll_timeout remaining = (let rounded = (remaining + 999999) div 1000000 in if rounded < 25 then rounded else 25)"

text \<open>One turn of a loop: the context is done, or the system call moved some bytes, was interrupted, would
  block (with the polls that follow) or failed.\<close>

datatype io_event =
    IoCancelled gerr
  | IoBytes string
  | IoInterrupted
  | IoBlocked "poll list"
  | IoError gerr

text \<open>What was written so far is the second component; \<open>IoBytes s\<close> stands for a write of \<open>length s\<close> bytes.\<close>

fun writeHandshakeFrame :: "io_event list \<Rightarrow> string \<Rightarrow> string \<Rightarrow> unit res \<times> string" where
  "writeHandshakeFrame evs out [] = (Inr (), out)"
| "writeHandshakeFrame [] out (c # cs) = (Inl deadline_exceeded, out)"
| "writeHandshakeFrame (ev # evs) out (c # cs) =
     (case ev of
        IoCancelled e \<Rightarrow> (Inl e, out)
      | IoInterrupted \<Rightarrow> writeHandshakeFrame evs out (c # cs)
      | IoBlocked ps \<Rightarrow> (case waitHandshakePipe ps of Inl e \<Rightarrow> (Inl e, out) | Inr _ \<Rightarrow> writeHandshakeFrame evs out (c # cs))
      | IoError e \<Rightarrow> (Inl e, out)
      | IoBytes s \<Rightarrow>
          if s = [] then (Inl (Failure ''short write''), out)
          else writeHandshakeFrame evs (out @ take (length s) (c # cs)) (drop (length s) (c # cs)))"

fun readHandshakeFrame :: "io_event list \<Rightarrow> string \<Rightarrow> string res" where
  "readHandshakeFrame [] frame = Inl deadline_exceeded"
| "readHandshakeFrame (ev # evs) frame =
     (case ev of
        IoCancelled e \<Rightarrow> Inl e
      | IoInterrupted \<Rightarrow> readHandshakeFrame evs frame
      | IoBlocked ps \<Rightarrow> rbind (waitHandshakePipe ps) (\<lambda>_. readHandshakeFrame evs frame)
      | IoError e \<Rightarrow> Inl e
      | IoBytes s \<Rightarrow>
          if s = [] then Inr frame
          else if launchHandshakeMaxFrame < length frame + length s
          then Inl (Failure ''launch continuation frame exceeds 8192 bytes'')
          else readHandshakeFrame evs (frame @ s))"

subsection \<open>Frames\<close>

text \<open>\<open>json.Marshal\<close> also escapes what HTML treats specially.\<close>

definition html_escape :: "string \<Rightarrow> string" where
  "html_escape s =
     concat (map (\<lambda>c. if c = CHR ''<'' then [backslash] @ ''u003c'' else if c = CHR ''>'' then [backslash] @ ''u003e''
       else if c = CHR ''&'' then [backslash] @ ''u0026'' else [c]) s)"

definition marshal_str :: "string \<Rightarrow> string" where
  "marshal_str s = html_escape (json_str s)"

definition ready_frame :: "LaunchReady \<Rightarrow> string" where
  "ready_frame r =
     ''{'' @ Join (map (\<lambda>(k, v). json_str k @ '':'' @ v)
       [(''v'', Itoa (LV r)), (''event'', marshal_str (LEvent r)), (''nonce'', marshal_str (LNonce r)),
        (''thread_id'', marshal_str (LThreadID r)), (''codex_home'', marshal_str (LCodexHome r)),
        (''app_server_socket'', marshal_str (LAppServerSocket r)), (''owner_pid'', Itoa (LOwnerPID r)),
        (''owner_start'', marshal_str (LOwnerStart r)), (''name'', marshal_str (LName r)),
        (''version'', marshal_str (LVersion r))]) '','' @ ''}'' @ [newline]"

text \<open>What the decoder yields: whether the first token opens an object, the members in order (a token that is
  no key, or a key with its value or the error of reading it), the error of the closing token, and
  whether nothing follows.\<close>

datatype member = BadToken gerr | NotKey | Member string "gval res"

record jscan =
  j_open :: bool
  j_members :: "member list"
  j_close :: "unit res"
  j_eof :: bool

record continuation =
  c_v :: int
  c_nonce :: string
  c_action :: string

definition invalid_continuation :: "gerr \<Rightarrow> gerr" where
  "invalid_continuation e = wrapped ''invalid launch continuation'' e"

definition decode_string :: "gval \<Rightarrow> string \<Rightarrow> string res" where
  "decode_string v old =
     (case v of GNil \<Rightarrow> Inr old | GStr s \<Rightarrow> Inr s | _ \<Rightarrow> Inl (Failure ''json: cannot unmarshal into string''))"

definition decode_int :: "gval \<Rightarrow> int \<Rightarrow> int res" where
  "decode_int v old =
     (case v of GNil \<Rightarrow> Inr old | GInt n \<Rightarrow> Inr n
      | GFloat x \<Rightarrow> if x = of_int \<lfloor>x\<rfloor> then Inr \<lfloor>x\<rfloor> else Inl (Failure ''json: cannot unmarshal into int'')
      | _ \<Rightarrow> Inl (Failure ''json: cannot unmarshal into int''))"

definition decode_member :: "string \<Rightarrow> gval \<Rightarrow> continuation \<Rightarrow> continuation res" where
  "decode_member key v c =
     (if key = ''v'' then rbind (decode_int v (c_v c)) (\<lambda>n. Inr (c\<lparr>c_v := n\<rparr>))
      else if key = ''nonce'' then rbind (decode_string v (c_nonce c)) (\<lambda>s. Inr (c\<lparr>c_nonce := s\<rparr>))
      else rbind (decode_string v (c_action c)) (\<lambda>s. Inr (c\<lparr>c_action := s\<rparr>)))"

fun read_members :: "string list \<Rightarrow> continuation \<Rightarrow> member list \<Rightarrow> continuation res" where
  "read_members seen c [] = Inr c"
| "read_members seen c (m # ms) =
     (case m of
        BadToken e \<Rightarrow> Inl (invalid_continuation e)
      | NotKey \<Rightarrow> Inl (Failure ''launch continuation contains an invalid or duplicate field'')
      | Member key r \<Rightarrow>
          if key \<in> set seen then Inl (Failure ''launch continuation contains an invalid or duplicate field'')
          else if key \<notin> {''v'', ''nonce'', ''action''} then Inl (Failure ''launch continuation contains an unknown field'')
          else case rbind r (\<lambda>v. decode_member key v c) of
            Inl e \<Rightarrow> Inl (invalid_continuation e)
          | Inr c' \<Rightarrow> read_members (key # seen) c' ms)"

text \<open>The checks of the continuation frame.\<close>

definition check_continuation :: "(string \<Rightarrow> jscan) \<Rightarrow> string \<Rightarrow> string \<Rightarrow> unit res" where
  "check_continuation scan nonce frame =
     (if frame = [] then Inl HandoffCanceled
      else if IndexByte frame newline \<noteq> int (length frame) - 1
      then Inl (Failure ''launch continuation must be one newline-terminated JSON frame followed by EOF'')
      else let j = scan (butlast frame) in
        if \<not> j_open j then Inl (Failure ''launch continuation must be a JSON object'')
        else rbind (read_members [] \<lparr>c_v = 0, c_nonce = [], c_action = []\<rparr> (j_members j)) (\<lambda>c.
          case j_close j of
            Inl e \<Rightarrow> Inl (invalid_continuation e)
          | Inr _ \<Rightarrow>
              if \<not> j_eof j then Inl (Failure ''launch continuation must contain exactly one JSON object'')
              else if c_v c \<noteq> 1 \<or> c_nonce c \<noteq> nonce
              then Inl (Failure ''launch continuation version or nonce does not match readiness'')
              else if c_action c = ''continue'' then Inr ()
              else if c_action c = ''cancel'' then Inl HandoffCanceled
              else Inl (Failure ''launch continuation action must be continue or cancel'')))"

subsection \<open>The exchange\<close>

text \<open>\<open>nonce\<close> is the fresh nonce or the error of generating it, \<open>ctx\<close> the context's error at the start,
  \<open>wevs\<close> and \<open>revs\<close> the events of the two loops.  The results: the outcome, what was written on the ready
  pipe, the descriptors that were closed, and the handshake afterwards.\<close>

definition Exchange_open ::
  "lib \<Rightarrow> (string \<Rightarrow> jscan) \<Rightarrow> unit res \<Rightarrow> string res \<Rightarrow> io_event list \<Rightarrow> io_event list \<Rightarrow> LaunchReady \<Rightarrow> unit res \<times> string" where
  "Exchange_open L scan ctx nonce wevs revs ready0 =
     (case ctx of
        Inl e \<Rightarrow> (Inl (wrapped ''launch handoff'' e), [])
      | Inr _ \<Rightarrow>
        if canonicalThread L (LThreadID ready0) \<noteq> Inr (LThreadID ready0)
        then (Inl (Failure ''launch handoff readiness requires an exact canonical thread UUID''), [])
        else if \<not> IsAbs (LCodexHome ready0) \<or> \<not> IsAbs (LAppServerSocket ready0) \<or> LOwnerPID ready0 \<le> 0
          \<or> LOwnerStart ready0 = [] \<or> LName ready0 = [] \<or> LVersion ready0 = []
        then (Inl (Failure (''launch handoff readiness requires absolute paths and complete owner, name,''
               @ '' and version fields'')), [])
        else case nonce of
          Inl e \<Rightarrow> (Inl (wrapped ''launch handoff nonce'' e), [])
        | Inr n \<Rightarrow>
          (let frame = ready_frame (ready0\<lparr>LV := 1, LEvent := ''ready'', LNonce := n\<rparr>) in
           if launchHandshakeMaxFrame < length frame
           then (Inl (Failure ''launch readiness frame exceeds 8192 bytes''), [])
           else case writeHandshakeFrame wevs [] frame of
             (Inl e, out) \<Rightarrow> (Inl (wrapped ''write launch readiness'' e), out)
           | (Inr _, out) \<Rightarrow>
               (case readHandshakeFrame revs [] of
                  Inl e \<Rightarrow> (Inl (wrapped ''read launch continuation'' e), out)
                | Inr answer \<Rightarrow> (check_continuation scan n answer, out))))"

definition Exchange ::
  "lib \<Rightarrow> (string \<Rightarrow> jscan) \<Rightarrow> unit res \<Rightarrow> string res \<Rightarrow> io_event list \<Rightarrow> io_event list
     \<Rightarrow> launchHandshake option \<Rightarrow> LaunchReady \<Rightarrow> unit res \<times> string \<times> int list \<times> launchHandshake option" where
  "Exchange L scan ctx nonce wevs revs h ready0 =
     (case h of
        None \<Rightarrow> (Inr (), [], [], None)
      | Some hs \<Rightarrow>
          if hclosed hs then (Inl (Failure ''launch handoff is already closed''), [], [], Some hs)
          else (case Exchange_open L scan ctx nonce wevs revs ready0 of
                  (r, out) \<Rightarrow> (r, out, fst (Close hs), Some (snd (Close hs)))))"

end
