(* ===== verification/App_Walks.thy ===== *)
theory App_Walks
  imports AppServer
begin

section \<open>Walks over pages\<close>

text \<open>
  The three page loops (\<open>Attach\<close>, \<open>HasNotice\<close>, \<open>activeAppThreads\<close>) share a contract, the locale
  \<open>page_walk\<close>: they follow the cursors of the server for a bounded number of pages, and stop at the
  first page that decides the answer, at an error, or at a page that names no other.
\<close>

text \<open>Pages \<open>bs\<close> that were read from cursor \<open>c\<close> on, each naming another page, the last one \<open>c'\<close>.\<close>

fun linked :: "(nat \<Rightarrow> string \<Rightarrow> ('b \<times> string) res) \<Rightarrow> nat \<Rightarrow> string \<Rightarrow> 'b list \<Rightarrow> string \<Rightarrow> bool" where
  "linked page k c [] c' \<longleftrightarrow> c' = c"
| "linked page k c (b # bs) c' \<longleftrightarrow>
     (case page k c of
        Inl e \<Rightarrow> False
      | Inr (b', nx) \<Rightarrow> b' = b \<and> nx \<noteq> [] \<and> nx \<noteq> c \<and> linked page (k + 1) nx bs c')"

fun visit_all :: "('acc \<Rightarrow> 'b \<Rightarrow> 'r + 'acc) \<Rightarrow> 'acc \<Rightarrow> 'b list \<Rightarrow> 'r + 'acc" where
  "visit_all visit acc [] = Inr acc"
| "visit_all visit acc (b # bs) = (case visit acc b of Inl r \<Rightarrow> Inl r | Inr acc' \<Rightarrow> visit_all visit acc' bs)"

locale page_walk =
  fixes page :: "nat \<Rightarrow> string \<Rightarrow> ('b \<times> string) res"
    and visit :: "'acc \<Rightarrow> 'b \<Rightarrow> 'r res + 'acc"
    and fin :: "'acc \<Rightarrow> 'r res" and out :: "'r res" and bad :: "'r res"
    and walk :: "nat \<Rightarrow> 'acc \<Rightarrow> nat \<Rightarrow> string \<Rightarrow> 'r res"
  assumes walk_0: "walk 0 acc k c = out"
    and walk_Suc: "walk (Suc n) acc k c = rbind (page k c) (\<lambda>(b, nx).
      case visit acc b of Inl r \<Rightarrow> r
      | Inr acc' \<Rightarrow> if nx = [] then fin acc' else if nx = c then bad else walk n acc' (k + 1) nx)"
begin

lemma walk_linked:
  assumes "linked page k c bs c'" "length bs < n" "page (k + length bs) c' = Inr (b, nx)"
  shows "walk n acc k c = (case visit_all visit acc (bs @ [b]) of Inl r \<Rightarrow> r
    | Inr acc' \<Rightarrow> if nx = [] then fin acc' else if nx = c' then bad
        else walk (n - Suc (length bs)) acc' (k + Suc (length bs)) nx)"
  using assms
proof (induction bs arbitrary: acc k c n)
  case Nil
  then show ?case by (cases n) (auto simp: walk_Suc split: sum.splits)
next
  case (Cons b0 bs)
  obtain n' where n: "n = Suc n'" using Cons.prems(2) by (cases n) auto
  obtain nx0 where p: "page k c = Inr (b0, nx0)" "nx0 \<noteq> []" "nx0 \<noteq> c" "linked page (k + 1) nx0 bs c'"
    using Cons.prems(1) by (auto split: sum.splits prod.splits)
  show ?case
  proof (cases "visit acc b0")
    case (Inl r)
    then show ?thesis using p by (simp add: n walk_Suc)
  next
    case (Inr acc1)
    then have "walk n acc k c = walk n' acc1 (k + 1) nx0" using p by (simp add: n walk_Suc)
    then show ?thesis using Cons.IH [OF p(4), of n' acc1] Cons.prems(2,3) n Inr by (simp split: sum.split)
  qed
qed

text \<open>A page at which the walk ends, and with what.\<close>

definition final :: "('b \<times> string) res \<Rightarrow> 'acc \<Rightarrow> string \<Rightarrow> bool" where
  "final p acc c = (case p of Inl e \<Rightarrow> True | Inr (b, nx) \<Rightarrow> isl (visit acc b) \<or> nx = [] \<or> nx = c)"

definition outcome :: "('b \<times> string) res \<Rightarrow> 'acc \<Rightarrow> 'r res" where
  "outcome p acc = rbind p (\<lambda>(b, nx).
     case visit acc b of Inl r \<Rightarrow> r | Inr acc' \<Rightarrow> if nx = [] then fin acc' else bad)"

lemma walk_ends:
  "\<exists>bs c' acc'. linked page k c bs c' \<and> visit_all visit acc bs = Inr acc'
     \<and> (length bs = n \<and> walk n acc k c = out
        \<or> length bs < n \<and> final (page (k + length bs) c') acc' c'
          \<and> walk n acc k c = outcome (page (k + length bs) c') acc')"
proof (induction n arbitrary: acc k c)
  case 0
  show ?case by (intro exI [of _ "[]"] exI [of _ c] exI [of _ acc]) (simp add: walk_0)
next
  case (Suc n)
  show ?case
  proof (cases "final (page k c) acc c")
    case True
    then have "walk (Suc n) acc k c = outcome (page k c) acc"
      by (auto simp: walk_Suc final_def outcome_def split: sum.splits prod.splits)
    with True show ?thesis by (intro exI [of _ "[]"] exI [of _ c] exI [of _ acc]) simp
  next
    case False
    then obtain b nx acc1 where p: "page k c = Inr (b, nx)" "visit acc b = Inr acc1" "nx \<noteq> []" "nx \<noteq> c"
      by (auto simp: final_def split: sum.splits) (metis isl_def obj_sumE)
    obtain bs c' acc' where r: "linked page (k + 1) nx bs c'" "visit_all visit acc1 bs = Inr acc'"
      "length bs = n \<and> walk n acc1 (k + 1) nx = out
        \<or> length bs < n \<and> final (page (k + 1 + length bs) c') acc' c'
          \<and> walk n acc1 (k + 1) nx = outcome (page (k + 1 + length bs) c') acc'"
      using Suc.IH [of "k + 1" nx acc1] by blast
    have "walk (Suc n) acc k c = walk n acc1 (k + 1) nx" using p by (simp add: walk_Suc)
    with p r show ?thesis by (intro exI [of _ "b # bs"] exI [of _ c'] exI [of _ acc']) auto
  qed
qed

end


subsection \<open>The loops of the program\<close>

text \<open>Looking for a page with a property.\<close>

definition seek :: "('b \<Rightarrow> bool) \<Rightarrow> unit \<Rightarrow> 'b \<Rightarrow> bool res + unit" where
  "seek P acc b = (if P b then Inl (Inr True) else Inr ())"

lemma seek_all: "visit_all (seek P) acc bs = Inr acc' \<longleftrightarrow> (\<forall>b \<in> set bs. \<not> P b)"
  by (induction bs arbitrary: acc) (auto simp: seek_def)

lemma seek_found: "visit_all (seek P) acc bs = Inl r \<longleftrightarrow> (\<exists>b \<in> set bs. P b) \<and> r = Inr True"
  by (induction bs arbitrary: acc) (auto simp: seek_def)

definition lists_thread :: "string \<Rightarrow> string list option \<Rightarrow> bool" where
  "lists_thread i data = (i \<in> set (case data of None \<Rightarrow> [] | Some ids \<Rightarrow> ids))"

interpretation loaded: page_walk "loaded_page call" "seek (lists_thread i)" "\<lambda>_. Inr False" "Inr False"
    "Inl (Failure ''invalid app-server pagination'')" "\<lambda>n acc. find_loaded n call i" for call i
  by unfold_locales
    (auto simp: seek_def lists_thread_def rbind_def split: sum.splits option.splits)

interpretation history: page_walk "items_page call thread" "seek (\<lambda>items. (''functionCallOutput'', name) \<in> set items)"
    "\<lambda>_. Inr False" "find_notice 0 call thread name 0 []"
    "Inl (Failure ''invalid app-server history cursor'')" "\<lambda>n acc. find_notice n call thread name" for call thread name
  by unfold_locales
    (auto simp: seek_def rbind_def split: sum.splits option.splits)

definition visit_active :: "(string \<Rightarrow> gval res) \<Rightarrow> string list \<Rightarrow> string list option \<Rightarrow> string list res + string list" where
  "visit_active read acc data =
     (case data of
        None \<Rightarrow> Inl (Inl (Failure ''app-server omitted its loaded thread list; cannot verify shutdown''))
      | Some ids \<Rightarrow> (case active_of read acc ids of Inl e \<Rightarrow> Inl (Inl e) | Inr acc' \<Rightarrow> Inr acc'))"

interpretation active: page_walk "loaded_page call" "visit_active read" Inr "active_pages 0 call read [] 0 []"
    "Inl (Failure ''invalid app-server pagination'')" "\<lambda>n acc. active_pages n call read acc" for call read
  by unfold_locales
    (auto simp: visit_active_def rbind_def split: sum.splits option.splits)


subsection \<open>What the walks answer\<close>

text \<open>\<open>Attach\<close> never adopts a thread that the app-server does not list as loaded: when it succeeds, one of
  the first hundred pages of loaded threads names the thread, and the thread it resumed has exactly
  this identifier, is not ephemeral, accepts input and is idle or active.\<close>

theorem attach_sound:
  assumes "Attach call i = Inr t"
  shows "(\<exists>k c ids nx. k < 100 \<and> loaded_page call k c = Inr (Some ids, nx) \<and> i \<in> set ids)
    \<and> TID t = i \<and> \<not> TEphemeral t \<and> TCanAccept t \<noteq> Some False \<and> (TStatus t = ''idle'' \<or> TStatus t = ''active'')"
proof -
  have found: "find_loaded 100 call i 0 [] = Inr True" and t: "checkThread t i = Inr ()"
    using assms by (auto simp: Attach_def rbind_Inr split: if_splits)
  obtain c' and bs :: "string list option list" where "length bs < 100"
      "Inr True = loaded.outcome i (loaded_page call (length bs) c') ()"
    using loaded.walk_ends [of call 0 "[]" i "()" 100] found by auto
  then have "\<exists>k c ids nx. k < 100 \<and> loaded_page call k c = Inr (Some ids, nx) \<and> i \<in> set ids"
    by (cases "loaded_page call (length bs) c'")
      (auto simp: loaded.outcome_def seek_def lists_thread_def split: if_splits option.splits, blast)
  moreover have "TID t = i \<and> \<not> TEphemeral t \<and> TCanAccept t \<noteq> Some False \<and> (TStatus t = ''idle'' \<or> TStatus t = ''active'')"
    using t by (auto simp: checkThread_def split: if_splits)
  ultimately show ?thesis by blast
qed

text \<open>And it finds every thread that is there: when the thread is named on one of the first hundred pages
  that the cursors lead to, and resuming it answers with a usable thread, \<open>Attach\<close> returns that thread.\<close>

theorem attach_finds:
  assumes "linked (loaded_page call) 0 [] bs c" and "length bs < 100"
    and "loaded_page call (length bs) c = Inr (Some ids, nx)" and "i \<in> set ids"
    and "rbind (call 100 ''thread/resume'' [(''threadId'', GStr i), (''excludeTurns'', GBool True)]) thread_of_json = Inr t"
    and "checkThread t i = Inr ()"
  shows "Attach call i = Inr t"
proof -
  have "visit_all (seek (lists_thread i)) () (bs @ [Some ids]) = Inl (Inr True)"
    using assms(4) by (simp add: seek_found lists_thread_def)
  then have "find_loaded 100 call i 0 [] = Inr True"
    using loaded.walk_linked [OF assms(1,2), of "Some ids" nx i "()"] assms(3) by simp
  with assms(5,6) show ?thesis by (simp add: Attach_def)
qed

text \<open>Absence of a notice is only reported after the whole history was read: \<open>HasNotice\<close> answers no only
  when it reached a last page within twenty pages and no page it read has the notice, and yes only
  when the notice was observed or a page has it.  A longer history is an error, never a no.\<close>

theorem has_notice_answer:
  assumes "HasNotice call seen thread name = Inr found"
  shows "if found then seen \<or> (\<exists>k c items nx. k < 20 \<and> items_page call thread k c = Inr (items, nx)
           \<and> (''functionCallOutput'', name) \<in> set items)
    else \<not> seen \<and> (\<exists>bs c items. length bs < 20 \<and> linked (items_page call thread) 0 [] bs c
           \<and> items_page call thread (length bs) c = Inr (items, [])
           \<and> (\<forall>b \<in> set (bs @ [items]). (''functionCallOutput'', name) \<notin> set b))"
proof (cases seen)
  case True
  then show ?thesis using assms by (simp add: HasNotice_def)
next
  case False
  then have walk: "find_notice 20 call thread name 0 [] = Inr found" using assms by (simp add: HasNotice_def)
  obtain bs c' where r: "linked (items_page call thread) 0 [] bs c'" "\<forall>b \<in> set bs. (''functionCallOutput'', name) \<notin> set b"
    "length bs < 20" "Inr found = history.outcome name (items_page call thread (length bs) c') ()"
    using history.walk_ends [of call thread 0 "[]" name "()" 20] walk by (auto simp: seek_all)
  then show ?thesis using False
    by (cases "items_page call thread (length bs) c'") (auto simp: history.outcome_def seek_def split: if_splits, blast+)
qed

text \<open>A thread as the shutdown check reads it.\<close>

definition read_status :: "(string \<Rightarrow> gval res) \<Rightarrow> string \<Rightarrow> string option" where
  "read_status read i =
     (case rbind (read i) thread_of_json of
        Inl e \<Rightarrow> None | Inr t \<Rightarrow> if TID t = i then Some (TStatus t) else None)"

lemma active_of_spec:
  "active_of read acc ids = Inr acc' \<longleftrightarrow>
     (\<forall>i \<in> set ids. read_status read i \<in> Some ` {''idle'', ''notLoaded'', ''systemError'', ''active''})
     \<and> acc' = acc @ filter (\<lambda>i. read_status read i = Some ''active'') ids"
  by (induction ids arbitrary: acc)
    (auto simp: read_status_def rbind_def split: sum.splits if_splits)

lemma active_of_append:
  "active_of read acc (xs @ ys) = rbind (active_of read acc xs) (\<lambda>a. active_of read a ys)"
  by (induction xs arbitrary: acc) (auto simp: rbind_def split: sum.splits)

lemma visit_active_all:
  "visit_all (visit_active read) acc bs = Inr acc' \<Longrightarrow>
     \<exists>idss. bs = map Some idss \<and> active_of read acc (concat idss) = Inr acc'"
proof (induction bs arbitrary: acc)
  case Nil
  then show ?case by simp
next
  case (Cons b bs)
  then obtain acc1 where v: "visit_active read acc b = Inr acc1" and rest: "visit_all (visit_active read) acc1 bs = Inr acc'"
    by (auto split: sum.splits)
  from v obtain ids where b: "b = Some ids" "active_of read acc ids = Inr acc1"
    by (auto simp: visit_active_def split: sum.splits option.splits)
  from Cons.IH [OF rest] obtain idss where "bs = map Some idss" "active_of read acc1 (concat idss) = Inr acc'" by blast
  with b show ?case by (intro exI [of _ "ids # idss"]) (simp add: active_of_append)
qed

text \<open>The shutdown check misses no thread: when \<open>activeAppThreads\<close> returns, it has read every page up to
  the last one, each with a list, every listed thread answered under its own identifier with a known
  status, and the result is exactly the listed threads whose status is active.\<close>

theorem active_threads_exact:
  assumes "activeAppThreads call read = Inr active"
  shows "\<exists>bs c ids. length bs < 100 \<and> linked (loaded_page call) 0 [] (map Some bs) c
    \<and> loaded_page call (length bs) c = Inr (Some ids, [])
    \<and> active = filter (\<lambda>i. read_status read i = Some ''active'') (concat bs @ ids)
    \<and> list_all (\<lambda>i. read_status read i \<in> Some ` {''idle'', ''notLoaded'', ''systemError'', ''active''}) (concat bs @ ids)"
proof -
  obtain ps c acc where ps: "linked (loaded_page call) 0 [] ps c" "visit_all (visit_active read) [] ps = Inr acc"
      "length ps < 100" "Inr active = active.outcome read (loaded_page call (length ps) c) acc"
    using active.walk_ends [of call 0 "[]" read "[]" 100] assms by (auto simp: activeAppThreads_def)
  obtain bs where bs: "ps = map Some bs" "active_of read [] (concat bs) = Inr acc" using visit_active_all [OF ps(2)] by blast
  obtain ids where ids: "loaded_page call (length ps) c = Inr (Some ids, [])" "active_of read acc ids = Inr active"
    using ps(4) by (cases "loaded_page call (length ps) c")
      (auto simp: active.outcome_def visit_active_def split: if_splits option.splits sum.splits)
  have "active_of read [] (concat bs @ ids) = Inr active" using bs ids by (simp add: active_of_append)
  from active_of_spec [THEN iffD1, OF this] show ?thesis using ps(1,3) bs(1) ids(1)
    by (intro exI [of _ bs] exI [of _ c] exI [of _ ids]) (simp add: list_all_iff)
qed

subsection \<open>A concrete server\<close>

text \<open>It has two pages of loaded threads and answers every request for a thread with an idle one.\<close>

definition sample_thread :: "string \<Rightarrow> gval" where
  "sample_thread i = GObj [(''thread'', GObj [(''id'', GStr i), (''status'', GObj [(''type'', GStr ''idle'')])])]"

definition sample_call :: app_call where
  "sample_call k meth params =
     (if meth = ''thread/resume'' then Inr (sample_thread ''t2'')
      else if meth = ''thread/items/list'' then Inr (GObj [(''data'', GArr [])])
      else if k = 0 then Inr (GObj [(''data'', GArr [GStr ''t1'']), (''nextCursor'', GStr ''p2'')])
      else Inr (GObj [(''data'', GArr [GStr ''t2''])]))"

lemma sample_resumed: "thread_of_json (sample_thread i) =
    Inr \<lparr>TID = i, TCWD = [], TEphemeral = False, TCanAccept = None, TStatus = ''idle''\<rparr>"
  by (simp add: thread_of_json_def sample_thread_def dec_struct_def dec_str_def dec_bool_def fld_def)

lemma sample_thread_page: "loaded_page sample_call 0 [] = Inr (Some [''t1''], ''p2'')"
    "loaded_page sample_call (Suc 0) ''p2'' = Inr (Some [''t2''], [])"
  by (simp_all add: loaded_page_def with_cursor_def sample_call_def page_of_json_def dec_strs_def dec_str_def fld_def)

theorem attach_finds_witness: "\<exists>t. Attach sample_call ''t2'' = Inr t \<and> TStatus t = ''idle''"
proof -
  let ?t = "\<lparr>TID = ''t2'', TCWD = [], TEphemeral = False, TCanAccept = None, TStatus = ''idle''\<rparr>"
  have "rbind (sample_call 100 ''thread/resume'' [(''threadId'', GStr ''t2''), (''excludeTurns'', GBool True)])
      thread_of_json = Inr ?t"
    by (simp add: sample_call_def sample_resumed)
  from attach_finds [of sample_call "[Some [''t1'']]" "''p2''", OF _ _ _ _ this]
  show ?thesis by (simp add: sample_thread_page checkThread_def)
qed

lemma sample_attach: "\<exists>t. Attach sample_call ''t2'' = Inr t"
proof -
  have "find_loaded 100 sample_call ''t2'' 0 [] = Inr True"
    using loaded.walk_linked [of sample_call 0 "[]" "[Some [''t1'']]" "''p2''" 100 "Some [''t2'']" "[]" "''t2''" "()"]
    by (simp add: sample_thread_page seek_found seek_def lists_thread_def)
  then show ?thesis by (simp add: Attach_def sample_call_def sample_resumed checkThread_def)
qed

theorem attach_sound_witness: "\<exists>t. Attach sample_call ''t2'' = Inr t \<and> TID t = ''t2''"
  using sample_attach attach_sound by blast

lemma sample_history: "HasNotice sample_call False ''t1'' ''n'' = Inr False"
proof -
  have "items_page sample_call ''t1'' 0 [] = Inr ([], [])"
    by (simp add: items_page_def with_cursor_def sample_call_def dec_str_def fld_def)
  then show ?thesis by (simp add: HasNotice_def numeral_eq_Suc)
qed

theorem has_notice_answer_witness:
  "\<exists>bs c items. linked (items_page sample_call ''t1'') 0 [] bs c
     \<and> items_page sample_call ''t1'' (length bs) c = Inr (items, [])"
  using has_notice_answer [OF sample_history] by auto

lemma sample_idle: "activeAppThreads sample_call (\<lambda>i. Inr (sample_thread i)) = Inr []"
  by (simp add: activeAppThreads_def numeral_eq_Suc sample_thread_page sample_resumed)

theorem active_threads_exact_witness:
  "\<exists>bs c ids. linked (loaded_page sample_call) 0 [] (map Some bs) c
     \<and> loaded_page sample_call (length bs) c = Inr (Some ids, [])"
  using active_threads_exact [OF sample_idle] by blast

end
