(* ===== verification/Stop_Safety.thy ===== *)
theory Stop_Safety
  imports Shutdown App_Walks Discovery
begin

section \<open>Safety of the shutdown\<close>

text \<open>
  A signal is only sent to the process that was verified twice, when nothing uses the server, and the
  status that \<open>Shutdown\<close> reports is what it observed.
\<close>

lemma shutdownIdentity_cases:
  assumes "shutdownIdentity h F own command socket pid = Inr identity"
  shows "1 < pid \<and> pid \<noteq> own \<and> RPID identity = pid \<and> RSocket identity = socket
    \<and> processStart h pid = Inr (RStart identity)
    \<and> (rbind (readJSON F (appServerRecordPath socket) True) record_of_json = Inr identity
      \<or> rbind (readJSON F (appServerRecordPath socket) True) record_of_json = Inl NotExist
        \<and> (\<exists>b. command = Inr b \<and> HasSuffix (TrimSpace b) ('' app-server --listen unix://'' @ socket)))"
proof -
  from assms obtain start where start: "1 < pid" "pid \<noteq> own" "processStart h pid = Inr start"
    by (auto simp: shutdownIdentity_def rbind_Inr split: if_splits)
  show ?thesis
  proof (cases "rbind (readJSON F (appServerRecordPath socket) True) record_of_json")
    case (Inl e)
    then show ?thesis using assms start
      by (cases e) (auto simp: shutdownIdentity_def Let_def split: if_splits sum.splits)
  next
    case (Inr r)
    then show ?thesis using assms start by (auto simp: shutdownIdentity_def Let_def split: if_splits)
  qed
qed

lemma inspect_server_cases:
  assumes "inspect_server Z socket pid client = Inr (identity, before, owners, active, n)"
  shows "shutdownIdentity (z_host Z) (z_files Z) (z_own Z) (z_command Z) socket pid = Inr identity
    \<and> inspectAppSocket (z_host Z) (z_files Z) socket = Inr before \<and> sameAppSocket client before
    \<and> appServerOwners (z_host Z) (z_files Z) (z_lib Z) (z_root Z) socket = Inr owners
    \<and> activeAppThreads (z_call Z) (z_read Z) = Inr active \<and> z_count Z (RPID identity) (starget client) = Inr n"
  using assms by (auto simp: inspect_server_def rbind_Inr split: if_splits)

lemma stop_server_cases:
  assumes "stop_server Z socket identity client before result = (r, sent)"
  shows "sent = [] \<and> \<not> is_ok r
    \<or> sent = [RPID identity] \<and> z_count' Z (RPID identity) (starget client) = Inr 0
      \<and> processStart (z_host' Z) (RPID identity) = Inr (RStart identity)
      \<and> (\<exists>after. inspectAppSocket (z_host' Z) (z_files' Z) socket = Inr after \<and> sameAppSocket before after)
      \<and> \<not> z_closed Z \<and> r = await_exit (z_ticks Z) (RPID identity) (RStart identity) result"
  using assms unfolding stop_server_def
  by (auto simp: rbind_Inr split: sum.splits if_splits)

text \<open>The only way to a signal.\<close>

lemma Shutdown_sent:
  assumes "Shutdown Z socket check = (r, sent)" "sent \<noteq> []"
  obtains pid client identity before result where "\<not> check" "z_probe Z = Inr (pid, client)"
    "inspect_server Z socket pid client = Inr (identity, before, [], [], 0)"
    "stop_server Z socket identity client before result = (r, sent)"
  using assms unfolding Shutdown_def Let_def
  by (auto split: if_splits sum.splits prod.splits)

text \<open>C5. \<open>SIGTERM\<close> goes to at most one process, and only to the one at the other end of the socket, when
  it was identified by its start time and by its launch record or its exact command line, not being this
  process; when no session owner is alive, no thread is active and nobody else is connected, checked
  twice; when socket and process are still the same just before the signal; and never for
  \<open>--check\<close>.\<close>

theorem shutdown_signals_safely:
  assumes "Shutdown Z socket check = (r, sent)" and "p \<in> set sent"
  shows "\<not> check \<and> sent = [p] \<and> 1 < p \<and> p \<noteq> z_own Z
    \<and> (\<exists>start client s1 s2. z_probe Z = Inr (p, client)
       \<and> processStart (z_host Z) p = Inr start \<and> processStart (z_host' Z) p = Inr start
       \<and> (rbind (readJSON (z_files Z) (appServerRecordPath socket) True) record_of_json
            = Inr \<lparr>RPID = p, RStart = start, RSocket = socket\<rparr>
          \<or> rbind (readJSON (z_files Z) (appServerRecordPath socket) True) record_of_json = Inl NotExist
            \<and> (\<exists>b. z_command Z = Inr b \<and> HasSuffix (TrimSpace b) ('' app-server --listen unix://'' @ socket)))
       \<and> z_count Z p (starget client) = Inr 0 \<and> z_count' Z p (starget client) = Inr 0
       \<and> inspectAppSocket (z_host Z) (z_files Z) socket = Inr s1
       \<and> inspectAppSocket (z_host' Z) (z_files' Z) socket = Inr s2
       \<and> sameAppSocket client s1 \<and> sameAppSocket s1 s2)
    \<and> appServerOwners (z_host Z) (z_files Z) (z_lib Z) (z_root Z) socket = Inr []
    \<and> activeAppThreads (z_call Z) (z_read Z) = Inr [] \<and> \<not> z_closed Z"
proof -
  obtain pid client identity before result where a: "\<not> check" "z_probe Z = Inr (pid, client)"
    and i: "inspect_server Z socket pid client = Inr (identity, before, [], [], 0)"
    and s: "stop_server Z socket identity client before result = (r, sent)"
    using Shutdown_sent [OF assms(1)] assms(2) by (metis empty_iff list.set(1))
  note i = inspect_server_cases [OF i] and s = stop_server_cases [OF s]
  from i have ident: "shutdownIdentity (z_host Z) (z_files Z) (z_own Z) (z_command Z) socket pid = Inr identity" by blast
  note ident = shutdownIdentity_cases [OF this]
  have p: "p = RPID identity" "p = pid" using s assms(2) ident by auto
  have e: "identity = \<lparr>RPID = p, RStart = RStart identity, RSocket = socket\<rparr>" using ident p by (cases identity) simp
  then have "rbind (readJSON (z_files Z) (appServerRecordPath socket) True) record_of_json = Inr identity \<longleftrightarrow>
      rbind (readJSON (z_files Z) (appServerRecordPath socket) True) record_of_json
        = Inr \<lparr>RPID = p, RStart = RStart identity, RSocket = socket\<rparr>" by (rule arg_cong)
  with a i s ident p assms(2) show ?thesis by auto
qed

lemma await_exit_stopped:
  "await_exit hs pid start result = Inr out \<Longrightarrow>
     out = set_fld result ''status'' (GStr ''stopped'') \<and> (\<exists>h \<in> set hs. confirmed_gone h pid start)"
  by (induction hs) (auto split: if_splits)

text \<open>What \<open>Shutdown\<close> reports is what it saw: not running only when nothing answers on the socket and no
  recorded server may still be alive, busy and ready only for \<open>--check\<close>, and stopped only when the process
  that was signalled was seen to be gone.\<close>

theorem shutdown_reports:
  assumes "Shutdown Z socket check = (Inr result, sent)"
  shows "str result ''status'' = ''not_running'' \<and> sent = []
      \<and> (z_probe Z = Inl NotExist \<or> z_probe Z = Inl ConnRefused)
      \<and> checkStoppedAppServerRecord (z_host Z) (z_files Z) socket = Inr ()
    \<or> (str result ''status'' = ''busy'' \<or> str result ''status'' = ''ready'') \<and> check \<and> sent = []
    \<or> str result ''status'' = ''stopped'' \<and> \<not> check
      \<and> (\<exists>p start. sent = [p] \<and> processStart (z_host' Z) p = Inr start \<and> (\<exists>h \<in> set (z_ticks Z). confirmed_gone h p start))"
proof (cases "sent = []")
  case True
  then show ?thesis using assms unfolding Shutdown_def Let_def
    by (auto simp: stop_status_def str_def fld_def rbind_Inr dest: stop_server_cases split: if_splits sum.splits prod.splits)
next
  case False
  obtain pid client identity before res where a: "\<not> check"
    and s: "stop_server Z socket identity client before res = (Inr result, sent)"
    using Shutdown_sent [OF assms False] by metis
  note s = stop_server_cases [OF s]
  with False have x: "await_exit (z_ticks Z) (RPID identity) (RStart identity) res = Inr result" by auto
  from await_exit_stopped [OF x] s a False show ?thesis by (auto simp: str_def)
qed

lemma owner_entries_mem:
  "owner_entries h F L state_root socket acc ns = Inr owners \<Longrightarrow>
     set acc \<subseteq> set owners
     \<and> (\<forall>n \<in> set ns. \<exists>own. owner_entry h F L state_root socket n = Inr own \<and> set_option own \<subseteq> set owners)"
proof (induction ns arbitrary: acc)
  case Nil
  then show ?case by simp
next
  case (Cons n ns)
  then obtain own where own: "owner_entry h F L state_root socket n = Inr own"
      "owner_entries h F L state_root socket (acc @ (case own of None \<Rightarrow> [] | Some x \<Rightarrow> [x])) ns = Inr owners"
    by (auto simp: rbind_Inr)
  from Cons.IH [OF own(2)] own(1) show ?case by (auto split: option.splits)
qed

text \<open>No live owner is missed: when the list of owners is returned, every thread directory whose
  configuration names this socket and a live process with the recorded start time is in it, and none of
  them names a process whose liveness could not be decided.\<close>

theorem owners_complete:
  assumes "appServerOwners h F L state_root socket = Inr owners" and "lstat F state_root \<noteq> Inl NotExist"
    and "readdir F state_root = Inr entries" and "name \<in> set entries" and "is_ok (canonicalThread L name)"
    and "readConfig F (JoinPath [state_root, name]) = Inr c" and "CAppSocket c = socket" and "CHostPID c \<noteq> 0"
  shows "(is_ok (processStart h (CHostPID c)) \<or> kill_esrch h (CHostPID c))
    \<and> (processStart h (CHostPID c) = Inr (CHostStart c) \<longrightarrow>
        [(''thread_id'', GStr name), (''name'', GStr (CName c)), (''pid'', GInt (CHostPID c))] \<in> set owners)"
proof -
  have "owner_entries h F L state_root socket [] entries = Inr owners"
    using assms(1-3) by (auto simp: appServerOwners_def rbind_Inr)
  from owner_entries_mem [OF this] assms(4) obtain own where
    own: "owner_entry h F L state_root socket name = Inr own" "set_option own \<subseteq> set owners" by blast
  then show ?thesis using assms(5-8)
    by (cases "processStart h (CHostPID c)") (auto simp: owner_entry_def Let_def rbind_Inr split: if_splits)
qed

subsection \<open>A concrete server\<close>

text \<open>Process 7 serves \<open>/s\<close>, was launched by the bridge, and exits at the second tick.\<close>

definition stop_files :: files where
  "stop_files = sample_files\<lparr>
     lstat := (\<lambda>p. if p = ''/s'' then Inr (sample_stat SocketFile)
       else if p = ''/cross-session-codex-server.json'' then Inr (sample_stat RegularFile) else Inl NotExist),
     json_file := (\<lambda>p. Inr (GObj [(''pid'', GInt 7), (''proc_start'', GStr ''5''), (''socket'', GStr ''/s'')]))\<rparr>"

definition stop_socket :: appSocket where
  "stop_socket = \<lparr>spath = ''/s'', starget = ''/s'', slink = sample_stat SocketFile, ssock = sample_stat SocketFile\<rparr>"

definition empty_list :: "gval res \<times> bool" where
  "empty_list = (Inr (GObj [(''data'', GArr [])]), False)"

definition sample_site :: site where
  "sample_site = \<lparr>z_lock = Inr (), z_probe = Inr (7, stop_socket), z_own = 9, z_lib = sample_lib, z_root = ''/none'',
     z_host = live_host, z_files = stop_files, z_command = Inl NotExist, z_call = sample_call,
     z_read = (\<lambda>i. Inr (sample_thread i)), z_count = (\<lambda>_ _. Inr 0), z_alive = empty_list,
     z_count' = (\<lambda>_ _. Inr 0), z_alive' = empty_list, z_host' = live_host, z_files' = stop_files,
     z_ctx = Inr (), z_closed = False, z_kill = Inr (), z_ticks = [live_host, live_host\<lparr>kill_esrch := \<lambda>_. True\<rparr>]\<rparr>"

lemma stop_path: "appServerRecordPath ''/s'' = ''/cross-session-codex-server.json''" by code_simp

lemma stop_clean: "IsAbs ''/s''" "Clean ''/s'' = ''/s''" by code_simp+

lemma stop_record: "rbind (readJSON stop_files ''/cross-session-codex-server.json'' True) record_of_json =
    Inr \<lparr>RPID = 7, RStart = ''5'', RSocket = ''/s''\<rparr>"
  by (simp add: readJSON_def owned_def stop_files_def sample_files_def sample_stat_def perm_mask_def MaxBuffer_def
      record_of_json_def dec_int_def dec_str_def fld_def)

lemma stop_inspected: "inspectAppSocket live_host stop_files ''/s'' = Inr stop_socket"
  by (simp add: inspectAppSocket_def Let_def owned_def stop_files_def sample_files_def sample_stat_def perm_mask_def
      stop_socket_def)

lemma stop_alive: "verifyInspectionConnection (fst empty_list) (snd empty_list) = Inr ()"
  by (simp add: verifyInspectionConnection_def empty_list_def fld_def dec_strs_def)

lemma stop_look:
  "inspect_server sample_site ''/s'' 7 stop_socket =
     Inr (\<lparr>RPID = 7, RStart = ''5'', RSocket = ''/s''\<rparr>, stop_socket, [], [], 0)"
proof -
  have "appServerOwners live_host stop_files sample_lib ''/none'' ''/s'' = Inr []"
    by (simp add: appServerOwners_def stop_files_def)
  then show ?thesis
    by (simp add: inspect_server_def sample_site_def shutdownIdentity_def sample_start stop_path stop_record
        stop_inspected sameAppSocket_def sample_idle stop_alive)
qed

lemma sample_shutdown: "\<exists>result. Shutdown sample_site ''/s'' False = (Inr result, [7])"
proof -
  have "z_lock sample_site = Inr ()" "z_probe sample_site = Inr (7, stop_socket)" by (simp_all add: sample_site_def)
  moreover have "\<exists>out. stop_server sample_site ''/s'' \<lparr>RPID = 7, RStart = ''5'', RSocket = ''/s''\<rparr> stop_socket stop_socket res
      = (Inr out, [7])" for res
    by (simp add: stop_server_def sample_site_def stop_alive sample_start stop_inspected sameAppSocket_def confirmed_gone_def)
  ultimately show ?thesis by (simp add: Shutdown_def stop_clean stop_look Let_def)
qed

theorem shutdown_signals_safely_witness:
  "\<exists>r. Shutdown sample_site ''/s'' False = (r, [7]) \<and> processStart (z_host' sample_site) 7 = processStart (z_host sample_site) 7"
proof -
  obtain result where s: "Shutdown sample_site ''/s'' False = (Inr result, [7])" using sample_shutdown by blast
  from shutdown_signals_safely [OF s, of 7] s show ?thesis by auto
qed

theorem shutdown_reports_witness: "\<exists>result. Shutdown sample_site ''/s'' False = (Inr result, [7]) \<and> str result ''status'' = ''stopped''"
proof -
  obtain result where s: "Shutdown sample_site ''/s'' False = (Inr result, [7])" using sample_shutdown by blast
  from shutdown_reports [OF s] s show ?thesis by auto
qed

definition owner_files :: files where
  "owner_files = sample_files\<lparr>
     lstat := (\<lambda>p. Inr (sample_stat (if HasSuffix p ''.json'' then RegularFile else DirectoryFile))),
     readdir := (\<lambda>p. Inr [sample_uuid]),
     json_file := (\<lambda>p. Inr (GObj [(''app_server_socket'', GStr ''/s''), (''host_pid'', GInt 7), (''host_start'', GStr ''5'')]))\<rparr>"

definition owner_config :: Config where
  "owner_config = zero_config\<lparr>CAppSocket := ''/s'', CHostPID := 7, CHostStart := ''5''\<rparr>"

lemma owner_read: "readConfig owner_files (JoinPath [''/r'', sample_uuid]) = Inr owner_config"
proof -
  have "HasSuffix (JoinPath [JoinPath [''/r'', sample_uuid], ''config.json'']) ''.json''" by code_simp
  then show ?thesis
    by (simp add: readConfig_def readJSON_def owned_def owner_files_def sample_files_def sample_stat_def perm_mask_def
        MaxBuffer_def config_over_def over_str_def over_int_def dec_str_def dec_int_def fld_def owner_config_def zero_config_def)
qed

lemma owner_listed: "\<exists>owners. appServerOwners live_host owner_files sample_lib ''/r'' ''/s'' = Inr owners"
proof -
  have "owner_entry live_host owner_files sample_lib ''/r'' ''/s'' sample_uuid =
      Inr (Some [(''thread_id'', GStr sample_uuid), (''name'', GStr []), (''pid'', GInt 7)])"
      proof -
    have "\<not> HasSuffix (JoinPath [''/r'', sample_uuid]) ''.json''" by code_simp
    then have "is_ok (owned owner_files (JoinPath [''/r'', sample_uuid]) DirectoryFile True)"
      by (simp add: owned_def owner_files_def sample_files_def sample_stat_def perm_mask_def)
    moreover have "is_ok (canonicalThread sample_lib sample_uuid)"
      by (simp add: canonicalThread_def sample_lib_def sample_uuid_def nil_uuid_def)
    ultimately show ?thesis
      by (auto simp: owner_entry_def Let_def is_ok_iff owner_read owner_config_def zero_config_def sample_start)
  qed
  moreover have "vetParents owner_files ''/r'' = Inr ()"
  proof -
    have "Split (TrimPrefix ''/r'' ''/'') CHR ''/'' = [''r'']" "JoinPath [''/'', ''r''] = ''/r''"
      "IsAbs ''/r'' \<and> \<not> Contains ''/r'' ''/../'' \<and> \<not> HasSuffix ''/r'' ''/..''" "\<not> HasSuffix ''/r'' ''.json''" by code_simp+
    then show ?thesis
      by (simp add: vetParents_def vet_component_def trusted_dir_def owner_files_def sample_files_def sample_stat_def)
  qed
  moreover have "is_ok (owned owner_files ''/r'' DirectoryFile True)"
    by (simp add: owned_def owner_files_def sample_files_def sample_stat_def perm_mask_def HasSuffix_def suffix_def)
  moreover have "lstat owner_files ''/r'' \<noteq> Inl NotExist" "readdir owner_files ''/r'' = Inr [sample_uuid]"
    by (simp_all add: owner_files_def)
  ultimately show ?thesis by (auto simp: appServerOwners_def is_ok_iff)
qed

theorem owners_complete_witness:
  "\<exists>owners. appServerOwners live_host owner_files sample_lib ''/r'' ''/s'' = Inr owners \<and> owners \<noteq> []"
proof -
  obtain owners where ow: "appServerOwners live_host owner_files sample_lib ''/r'' ''/s'' = Inr owners" using owner_listed by blast
  have "lstat owner_files ''/r'' \<noteq> Inl NotExist" "readdir owner_files ''/r'' = Inr [sample_uuid]"
    "is_ok (canonicalThread sample_lib sample_uuid)"
    by (simp_all add: owner_files_def canonicalThread_def sample_lib_def sample_uuid_def nil_uuid_def)
  from owners_complete [OF ow this(1,2) _ this(3) owner_read] ow show ?thesis
    by (auto simp: owner_config_def zero_config_def sample_start)
qed

end
