(* ===== verification/Handoff.thy ===== *)
theory Handoff
  imports Handshake Frames
begin

section \<open>What the launch handoff guarantees\<close>

text \<open>
  The loops on the pipes, the meaning of an accepted continuation, and the ownership of the descriptors.
\<close>

subsection \<open>The pipe loops\<close>

lemma write_loop_outcome:
  "writeHandshakeFrame evs out frame = (r, out') \<Longrightarrow>
     \<exists>w. out' = out @ w \<and> prefix w frame \<and> (is_ok r \<longleftrightarrow> w = frame)"
proof (induction evs out frame arbitrary: r out' rule: writeHandshakeFrame.induct)
  case (1 evs out)
  then show ?case by auto
next
  case (2 out c cs)
  then show ?case by auto
next
  case (3 ev evs out c cs)
  show ?case
  proof (cases ev)
    case (IoBytes s)
    show ?thesis
    proof (cases "s = []")
      case True
      then show ?thesis using 3(4) IoBytes by auto
    next
      case False
      with IoBytes 3(4) have w: "writeHandshakeFrame evs (out @ take (length s) (c # cs)) (drop (length s) (c # cs)) = (r, out')"
        by (cases s) auto
      from 3(1) [OF IoBytes False this] obtain w where
        "out' = (out @ take (length s) (c # cs)) @ w" "prefix w (drop (length s) (c # cs))"
        "is_ok r \<longleftrightarrow> w = drop (length s) (c # cs)" by blast
      then show ?thesis
        by (intro exI [of _ "take (length s) (c # cs) @ w"])
          (metis append.assoc append_take_drop_id same_append_eq same_prefix_prefix)
    qed
  next
    case (IoBlocked ps)
    show ?thesis
    proof (cases "waitHandshakePipe ps")
      case (Inl e)
      then have "r = Inl e \<and> out' = out" using 3(4) IoBlocked by simp
      then show ?thesis by simp
    qed (use 3 IoBlocked in auto)
  qed (use 3 in auto)
qed

definition moves :: "io_event \<Rightarrow> bool" where
  "moves ev = (case ev of IoBytes s \<Rightarrow> s \<noteq> [] | IoInterrupted \<Rightarrow> True | IoBlocked ps \<Rightarrow> is_ok (waitHandshakePipe ps) | _ \<Rightarrow> False)"

definition is_bytes :: "io_event \<Rightarrow> bool" where
  "is_bytes ev = (case ev of IoBytes s \<Rightarrow> True | _ \<Rightarrow> False)"

lemma write_loop_completes:
  "list_all moves evs \<Longrightarrow> length frame \<le> count_if is_bytes evs \<Longrightarrow>
     writeHandshakeFrame evs out frame = (Inr (), out @ frame)"
proof (induction evs out frame rule: writeHandshakeFrame.induct)
  case (3 ev evs out c cs)
  show ?case
  proof (cases ev)
    case (IoBytes s)
    then have "s \<noteq> []" using 3(4) by (simp add: moves_def)
    moreover from this have "length (drop (length s) (c # cs)) \<le> count_if is_bytes evs"
      using 3(5) IoBytes by (cases s) (auto simp: is_bytes_def)
    ultimately show ?thesis using 3(1) [OF IoBytes] 3(4) IoBytes by (cases s) auto
  qed (use 3 in \<open>auto simp: moves_def is_bytes_def is_ok_iff\<close>)
qed auto

lemma read_loop_bound:
  "readHandshakeFrame evs frame = Inr answer \<Longrightarrow> length frame \<le> launchHandshakeMaxFrame \<Longrightarrow>
     length answer \<le> launchHandshakeMaxFrame"
proof (induction evs frame rule: readHandshakeFrame.induct)
  case (2 ev evs frame)
  then show ?case by (cases ev) (auto simp: rbind_Inr split: if_splits)
qed simp

text \<open>C40. Writing the readiness frame: whatever the system calls do, what reached the pipe is a prefix of the
  frame, the whole of it exactly when the loop reports success; and with a peer that reads (every write
  makes progress, every poll ends ready) the loop does succeed after at most as many writes as the frame
  has bytes.\<close>

theorem handshake_write:
  fixes evs frame
  defines "outcome \<equiv> writeHandshakeFrame evs [] frame"
  shows "prefix (snd outcome) frame \<and> (is_ok (fst outcome) \<longleftrightarrow> snd outcome = frame)
    \<and> (list_all moves evs \<and> length frame \<le> count_if is_bytes evs \<longrightarrow> is_ok (fst outcome))"
  using write_loop_outcome [of evs "[]" frame "fst outcome" "snd outcome"] write_loop_completes [of evs frame "[]"]
  by (auto simp: outcome_def)

subsection \<open>The continuation\<close>

definition member_key :: "member \<Rightarrow> string" where
  "member_key m = (case m of Member k r \<Rightarrow> k | _ \<Rightarrow> [])"

definition good_member :: "member \<Rightarrow> bool" where
  "good_member m = (case m of Member k r \<Rightarrow> k \<in> {''v'', ''nonce'', ''action''} \<and> is_ok r | _ \<Rightarrow> False)"

lemma read_members_spec:
  "read_members seen c ms = Inr c' \<Longrightarrow>
     list_all good_member ms \<and> distinct (map member_key ms)
     \<and> (\<forall>k \<in> set seen. k \<notin> member_key ` set ms)
     \<and> (c_v c' = c_v c \<or> (\<exists>x. Member ''v'' (Inr x) \<in> set ms \<and> x \<noteq> GNil \<and> decode_int x 0 = Inr (c_v c')))
     \<and> (c_nonce c' = c_nonce c \<or> Member ''nonce'' (Inr (GStr (c_nonce c'))) \<in> set ms)
     \<and> (c_action c' = c_action c \<or> Member ''action'' (Inr (GStr (c_action c'))) \<in> set ms)"
proof (induction ms arbitrary: seen c)
  case Nil
  then show ?case by simp
next
  case (Cons m ms)
  obtain key r where m: "m = Member key r" using Cons.prems by (cases m) auto
  obtain v where r: "r = Inr v" using Cons.prems m by (cases r) (auto split: if_splits)
  have k: "key \<notin> set seen" "key \<in> {''v'', ''nonce'', ''action''}" using Cons.prems m by (auto split: if_splits)
  have "(case decode_member key v c of Inl e \<Rightarrow> Inl (invalid_continuation e) | Inr c' \<Rightarrow> read_members (key # seen) c' ms) = Inr c'"
    using Cons.prems m r k by (auto split: if_splits)
  then obtain d where d: "decode_member key v c = Inr d" "read_members (key # seen) d ms = Inr c'" by (auto split: sum.splits)
  note rest = Cons.IH [OF d(2)]
  have gm: "good_member m" "member_key m = key" using k m r by (simp_all add: good_member_def member_key_def)
  have f: "key = ''v'' \<longrightarrow> c_v d = c_v c \<or> v \<noteq> GNil \<and> decode_int v 0 = Inr (c_v d)"
    "key \<noteq> ''v'' \<longrightarrow> c_v d = c_v c"
    "key = ''nonce'' \<longrightarrow> c_nonce d = c_nonce c \<or> v = GStr (c_nonce d)" "key \<noteq> ''nonce'' \<longrightarrow> c_nonce d = c_nonce c"
    "key = ''action'' \<longrightarrow> c_action d = c_action c \<or> v = GStr (c_action d)" "key \<noteq> ''action'' \<longrightarrow> c_action d = c_action c"
    using d(1) k by (cases v; auto simp: decode_member_def decode_int_def decode_string_def rbind_Inr split: if_splits)+
  have "list_all good_member (m # ms) \<and> distinct (map member_key (m # ms)) \<and> (\<forall>k \<in> set seen. k \<notin> member_key ` set (m # ms))"
    using rest k(1) gm by auto
  moreover have "c_v c' = c_v c \<or> (\<exists>x. Member ''v'' (Inr x) \<in> set (m # ms) \<and> x \<noteq> GNil \<and> decode_int x 0 = Inr (c_v c'))"
    using rest f(1,2) m r by (metis list.set_intros(1,2))
  moreover have "c_nonce c' = c_nonce c \<or> Member ''nonce'' (Inr (GStr (c_nonce c'))) \<in> set (m # ms)"
    using rest f(3,4) m r by (metis list.set_intros(1,2))
  moreover have "c_action c' = c_action c \<or> Member ''action'' (Inr (GStr (c_action c'))) \<in> set (m # ms)"
    using rest f(5,6) m r by (metis list.set_intros(1,2))
  ultimately show ?case by blast
qed

lemma IndexByte_last:
  "IndexByte s c = int (length s) - 1 \<Longrightarrow> s \<noteq> [] \<Longrightarrow> last s = c \<and> c \<notin> set (butlast s)"
proof (induction s)
  case (Cons x s)
  show ?case
  proof (cases "s = []")
    case True
    with Cons.prems show ?thesis by (auto split: if_splits)
  next
    case False
    with Cons.prems have "x \<noteq> c" "IndexByte s c = int (length s) - 1" by (auto simp: Let_def split: if_splits)
    with Cons.IH False show ?thesis by simp
  qed
qed simp

lemma check_continuation_ok:
  assumes "check_continuation scan nonce frame = Inr ()" and "nonce \<noteq> []"
  shows "frame \<noteq> [] \<and> last frame = newline \<and> newline \<notin> set (butlast frame)
    \<and> (let j = scan (butlast frame) in j_open j \<and> j_close j = Inr () \<and> j_eof j \<and> distinct (map member_key (j_members j))
      \<and> list_all good_member (j_members j)
      \<and> (\<exists>x. Member ''v'' (Inr x) \<in> set (j_members j) \<and> decode_int x 0 = Inr 1)
      \<and> Member ''nonce'' (Inr (GStr nonce)) \<in> set (j_members j)
      \<and> Member ''action'' (Inr (GStr ''continue'')) \<in> set (j_members j))"
proof -
  let ?j = "scan (butlast frame)"
  from assms(1) have f: "frame \<noteq> []" "IndexByte frame newline = int (length frame) - 1" "j_open ?j"
    by (auto simp: check_continuation_def Let_def split: if_splits)
  obtain c where c: "read_members [] \<lparr>c_v = 0, c_nonce = [], c_action = []\<rparr> (j_members ?j) = Inr c"
    "j_close ?j = Inr ()" "j_eof ?j" "c_v c = 1" "c_nonce c = nonce" "c_action c = ''continue''"
    using assms(1) f by (auto simp: check_continuation_def Let_def rbind_Inr split: if_splits sum.splits)
  from IndexByte_last [OF f(2,1)] read_members_spec [OF c(1)] c(2-) f assms(2) show ?thesis by auto
qed

subsection \<open>The exchange\<close>


text \<open>The exchange closes both descriptors exactly once on every outcome: a handshake that was open is closed
  by it, and neither a later exchange nor the deferred \<open>Close\<close> closes anything again.\<close>

theorem exchange_closes_once:
  assumes "\<not> hclosed h" and "Exchange L scan ctx nonce wevs revs (Some h) ready0 = (r, out, shut, h')"
  shows "shut = [readyFD h, continueFD h]
    \<and> (\<exists>h1. h' = Some h1 \<and> fst (Close h1) = []
       \<and> fst (snd (snd (Exchange L scan ctx nonce wevs revs h' ready0))) = [])"
  using assms by (auto simp: Exchange_def Close_def split: prod.splits)

text \<open>Descriptors are taken over only when both are usable: a handshake is created exactly for two distinct
  descriptors above standard error that are a write end and a read end of pipes, and a refused pair is
  left alone unless preparing it failed, in which case both are closed.\<close>

theorem handshake_descriptors:
  assumes "newLaunchHandshake D rfd cfd = (r, shut)"
  shows "(case r of
      Inr None \<Rightarrow> rfd = -1 \<and> cfd = -1 \<and> shut = []
    | Inr (Some h) \<Rightarrow> h = \<lparr>readyFD = rfd, continueFD = cfd, hclosed = False\<rparr> \<and> shut = []
        \<and> 3 \<le> rfd \<and> 3 \<le> cfd \<and> rfd \<noteq> cfd \<and> fd_fifo (D rfd) = Inr True \<and> fd_fifo (D cfd) = Inr True
        \<and> fd_access (D rfd) = Inr 1 \<and> fd_access (D cfd) = Inr 0
    | Inl e \<Rightarrow> shut = [] \<or> shut = [rfd, cfd] \<and> (\<not> is_ok (fd_prepare (D rfd)) \<or> \<not> is_ok (fd_prepare (D cfd))))"
proof -
  have ep: "check_endpoint D fd a n = Inr () \<longleftrightarrow> fd_fifo (D fd) = Inr True \<and> fd_access (D fd) = Inr a" for fd a n
    by (auto simp: check_endpoint_def split: sum.splits bool.splits if_splits)
  show ?thesis using assms unfolding newLaunchHandshake_def Let_def
    by (auto simp: Close_def rbind_Inr rbind_Inl ep split: if_splits sum.splits)
qed

text \<open>A poll never waits forever and never spins: with time left it waits between 1 and 25 milliseconds.\<close>

lemma poll_timeout_bounds: "0 < remaining \<Longrightarrow> 1 \<le> poll_timeout remaining \<and> poll_timeout remaining \<le> 25"
  by (auto simp: poll_timeout_def Let_def int_one_le_iff_zero_less pos_imp_zdiv_pos_iff)

subsection \<open>A concrete handoff\<close>

definition sample_ready :: LaunchReady where
  "sample_ready = \<lparr>LV = 0, LEvent = [], LNonce = [], LThreadID = sample_uuid, LCodexHome = ''/c'', LAppServerSocket = ''/s'',
     LOwnerPID = 7, LOwnerStart = ''5'', LName = ''amy'', LVersion = ''1''\<rparr>"

definition sample_scan :: "string \<Rightarrow> jscan" where
  "sample_scan s = \<lparr>j_open = True, j_members = [Member ''v'' (Inr (GFloat 1)), Member ''nonce'' (Inr (GStr ''ab'')),
     Member ''action'' (Inr (GStr ''continue''))], j_close = Inr (), j_eof = True\<rparr>"

definition sample_reads :: "io_event list" where
  "sample_reads = [IoBlocked [PollQuiet, PollReady], IoBytes ''{}'', IoInterrupted, IoBytes [newline], IoBytes []]"

definition sample_writes :: "io_event list" where
  "sample_writes = replicate 300 (IoBytes ''x'')"

lemma sample_writes_move: "list_all moves sample_writes" "count_if is_bytes sample_writes = 300"
  by (simp_all add: sample_writes_def moves_def is_bytes_def list_all_iff count_if_def filter_replicate)

lemma sample_exchange: "\<exists>out. Exchange sample_lib sample_scan (Inr ()) (Inr ''ab'') sample_writes sample_reads
    (Some \<lparr>readyFD = 3, continueFD = 4, hclosed = False\<rparr>) sample_ready = (Inr (), out, [3, 4], Some \<lparr>readyFD = 3, continueFD = 4, hclosed = True\<rparr>)"
proof -
  let ?frame = "ready_frame (sample_ready\<lparr>LV := 1, LEvent := ''ready'', LNonce := ''ab''\<rparr>)"
  have len: "length ?frame \<le> 300" by code_simp
  have w: "writeHandshakeFrame sample_writes [] ?frame = (Inr (), ?frame)"
    using write_loop_completes [OF sample_writes_move(1), of ?frame "[]"] len sample_writes_move(2) by simp
  have c: "canonicalThread sample_lib sample_uuid = Inr sample_uuid"
    by (simp add: canonicalThread_def sample_lib_def sample_uuid_def nil_uuid_def)
  have r: "readHandshakeFrame sample_reads [] = Inr (''{}'' @ [newline])"
    by (simp add: sample_reads_def launchHandshakeMaxFrame_def)
  have k: "check_continuation sample_scan ''ab'' (''{}'' @ [newline]) = Inr ()"
    by (simp add: check_continuation_def newline_def sample_scan_def decode_member_def decode_int_def decode_string_def)
  show ?thesis using len w c r k
    by (simp add: Exchange_def Exchange_open_def Close_def Let_def sample_ready_def IsAbs_def HasPrefix_def launchHandshakeMaxFrame_def)
qed


theorem exchange_closes_once_witness:
  "\<exists>r out h'. Exchange sample_lib sample_scan (Inr ()) (Inr ''ab'') sample_writes sample_reads
    (Some \<lparr>readyFD = 3, continueFD = 4, hclosed = False\<rparr>) sample_ready = (r, out, [3, 4], h')"
proof -
  obtain r out shut h' where "Exchange sample_lib sample_scan (Inr ()) (Inr ''ab'') sample_writes sample_reads
    (Some \<lparr>readyFD = 3, continueFD = 4, hclosed = False\<rparr>) sample_ready = (r, out, shut, h')" by (metis prod.exhaust)
  from exchange_closes_once [OF _ this] this show ?thesis by auto
qed

theorem handshake_write_witness: "is_ok (fst (writeHandshakeFrame sample_writes [] ''hello''))"
proof -
  have "list_all moves sample_writes \<and> length ''hello'' \<le> count_if is_bytes sample_writes" using sample_writes_move by simp
  with handshake_write [of sample_writes "''hello''"] show ?thesis by blast
qed

theorem handshake_descriptors_witness:
  "\<exists>h. newLaunchHandshake (\<lambda>fd. \<lparr>fd_fifo = Inr True, fd_access = Inr (if fd = 5 then 1 else 0), fd_prepare = Inr ()\<rparr>) 5 6
      = (Inr (Some h), []) \<and> readyFD h = 5"
proof -
  let ?D = "\<lambda>fd :: int. \<lparr>fd_fifo = Inr True, fd_access = Inr (if fd = 5 then 1 else 0), fd_prepare = Inr ()\<rparr>"
  have "newLaunchHandshake ?D 5 6 = (Inr (Some \<lparr>readyFD = 5, continueFD = 6, hclosed = False\<rparr>), [])"
    by (simp add: newLaunchHandshake_def check_endpoint_def)
  from handshake_descriptors [OF this] this show ?thesis by auto
qed

end
