(* ===== verification/Launching.thy ===== *)
theory Launching
  imports Launch Stop_Safety Handoff
begin

section \<open>What a launch may do\<close>

text \<open>
  No second client on a thread, nothing executed without registration and permission, and no provisional
  worker left behind.
\<close>

subsection \<open>Ownership\<close>

text \<open>The owner of a configuration is live, or nothing is known about it: only another start time or a missing
  process lets anyone else take the thread.\<close>

definition may_own :: "host \<Rightarrow> Config \<Rightarrow> bool" where
  "may_own h c \<longleftrightarrow> 0 < CHostPID c \<and> \<not> (CHostStart c \<noteq> [] \<and>
     (case processStart h (CHostPID c) of Inl _ \<Rightarrow> kill_esrch h (CHostPID c) | Inr s \<Rightarrow> s \<noteq> CHostStart c))"

lemma checkHost_OwnerGone:
  assumes "0 < CHostPID c"
  shows "(\<exists>s. checkHost h c = Inl (OwnerGone s)) \<longleftrightarrow> \<not> may_own h c"
  using assms by (auto simp: checkHost_def may_own_def split: sum.splits)

lemma refuseLiveOwner_spec:
  assumes "threadDir L state_root thread = Inr dir" "readConfig F dir = Inr c"
  shows "refuseLiveOwner h F L state_root thread = Inr () \<longleftrightarrow> \<not> may_own h c"
proof (cases "0 < CHostPID c")
  case True
  then show ?thesis using assms checkHost_OwnerGone [OF True, of h]
    by (auto simp: refuseLiveOwner_def split: sum.splits gerr.splits)
next
  case False
  then show ?thesis using assms by (simp add: refuseLiveOwner_def may_own_def)
qed

subsection \<open>The stages\<close>

lemma prepare_launch_ok:
  assumes "prepare_launch E opts = Inr p"
  shows "\<not> l_inside E \<and> \<not> list_ex forbidden_arg (oClientArgs opts)
    \<and> fst (newLaunchHandshake (l_fds E) (oReadyFD opts) (oContinueFD opts)) = Inr (p_handoff p)
    \<and> resume_target E opts = Inr (p_resume p)"
proof -
  from assms have "check_options opts = Inr ()" by (auto simp: prepare_launch_def rbind_Inr split: if_splits)
  then have "\<not> list_ex forbidden_arg (oClientArgs opts)" by (simp add: check_options_def split: if_splits)
  with assms show ?thesis by (auto simp: prepare_launch_def rbind_Inr split: if_splits)
qed

lemma resume_target_ok:
  assumes "resume_target E opts = Inr resume"
  shows "if oResume opts = [] then resume = []
    else canonicalThread (l_lib E) (oResume opts) = Inr resume
      \<and> refuseLiveOwner (l_host E) (l_files E) (l_lib E) (l_root E) resume = Inr ()"
  using assms by (auto simp: resume_target_def rbind_Inr split: if_splits)

lemma accept_thread_ok: "accept_thread E p t = Inr () \<Longrightarrow> checkThread t (TID t) = Inr () \<and> (p_resume p \<noteq> [] \<longrightarrow> TID t = p_resume p)"
  by (auto simp: accept_thread_def checkThread_def rbind_Inr split: if_splits)

lemma open_thread_cases:
  assumes "open_thread E p = (r, effs)"
  shows "(effs = [] \<and> \<not> is_ok r \<or> may_open E p = Inr ())
    \<and> (\<forall>ef \<in> set effs. case ef of StartThread _ \<Rightarrow> p_resume p = [] | ResumeThread i \<Rightarrow> i = p_resume p | Bootstrap _ \<Rightarrow> True | _ \<Rightarrow> False)
    \<and> (\<forall>t. r = Inr t \<longrightarrow> accept_thread E p t = Inr ())"
proof (cases "may_open E p")
  case (Inl e)
  then show ?thesis using assms by (auto simp: open_thread_def)
next
  case (Inr u)
  show ?thesis
  proof (cases "ask_thread E p")
    case (Inl e)
    then show ?thesis using assms Inr by (auto simp: open_thread_def Let_def)
  next
    case ask: (Inr t)
    then show ?thesis using assms Inr
      by (cases "accept_thread E p t"; cases "l_call E ''thread/inject_items'' (bootstrap_params (TID t))")
        (auto simp: open_thread_def Let_def split: if_splits)
  qed
qed

lemma register_owner_cases:
  assumes "register_owner E opts p t = (r, effs)"
  shows "set effs \<subseteq> {StopWorker (TID t)} \<union> range (EnableWorker (TID t))
    \<and> (\<forall>state start. r = Inr (state, start) \<longrightarrow> l_start E = Inr start
        \<and> l_enable E (TID t) (launch_config opts p t (l_pid E) start) = Inr state
        \<and> last effs = EnableWorker (TID t) (launch_config opts p t (l_pid E) start) \<and> effs \<noteq> [])
    \<and> (\<not> is_ok r \<longrightarrow> (\<forall>c. EnableWorker (TID t) c \<in> set effs \<longrightarrow> \<not> is_ok (l_enable E (TID t) c)))"
  using assms unfolding register_owner_def Let_def
  by (auto simp: rbind_Inr split: sum.splits if_splits)

lemma finish_launch_cases:
  assumes "finish_launch E opts p thread state start = (r, effs)"
  shows "(\<forall>ef \<in> set effs. case ef of Announce _ \<Rightarrow> True
       | Exec codex args \<Rightarrow> is_ok r \<and> codex = p_codex p
           \<and> args = [p_codex p, ''--remote'', ''unix://'' @ p_socket p, ''resume'', thread] @ oClientArgs opts
       | _ \<Rightarrow> False)
    \<and> (is_ok r \<longrightarrow> effs \<noteq> [] \<and> (\<exists>codex args. last effs = Exec codex args)
       \<and> (\<forall>h. p_handoff p = Some h \<longrightarrow> (\<exists>ready. Announce ready \<in> set effs \<and> LThreadID ready = thread
            \<and> LOwnerPID ready = l_pid E \<and> LOwnerStart ready = start \<and> is_ok (l_exchange E h ready))))"
  using assms unfolding finish_launch_def Let_def
  by (auto simp: is_ok_iff split: sum.splits if_splits option.splits prod.splits)

text \<open>The four ways a launch ends.\<close>

lemma Launch_cases:
  assumes "Launch E opts = (r, effs)"
  obtains "effs = []" "\<not> is_ok r" "\<not> is_ok (prepare_launch E opts)"
  | p e where "prepare_launch E opts = Inr p" "open_thread E p = (Inl e, effs)" "r = Inl e"
  | p t d1 d2 e where "prepare_launch E opts = Inr p" "open_thread E p = (Inr t, d1)"
      "register_owner E opts p t = (Inl e, d2)" "r = Inl e" "effs = d1 @ d2"
  | p t d1 d2 d3 state start r3 where "prepare_launch E opts = Inr p" "open_thread E p = (Inr t, d1)"
      "register_owner E opts p t = (Inr (state, start), d2)" "finish_launch E opts p (TID t) state start = (r3, d3)"
      "is_ok r = is_ok r3" "effs = d1 @ d2 @ d3 @ (if is_ok r3 then [] else [StopWorker (TID t)])"
proof (cases "prepare_launch E opts")
  case (Inl e)
  then show ?thesis using assms that(1) by (auto simp: Launch_def)
next
  case p: (Inr p)
  obtain r1 d1 where o1: "open_thread E p = (r1, d1)" by fastforce
  show ?thesis
  proof (cases r1)
    case (Inl e)
    then show ?thesis using assms p o1 that(2) by (simp add: Launch_def)
  next
    case t: (Inr t)
    obtain r2 d2 where o2: "register_owner E opts p t = (r2, d2)" by fastforce
    show ?thesis
    proof (cases r2)
      case (Inl e)
      then show ?thesis using assms p o1 t o2 that(3) by (simp add: Launch_def)
    next
      case (Inr ss)
      obtain state start where ss: "ss = (state, start)" by fastforce
      obtain r3 d3 where o3: "finish_launch E opts p (TID t) state start = (r3, d3)" by fastforce
      show ?thesis
        by (rule that(4) [of p t d1 state start d2 r3 d3])
          (use assms p o1 t o2 Inr ss o3 in \<open>auto simp: Launch_def split: sum.splits\<close>)
    qed
  qed
qed

subsection \<open>Guarantees\<close>

text \<open>C4. No second client on a thread: when the saved configuration of the thread that is to be resumed names
  an owner that is alive, or whose exit cannot be confirmed, at the first check or at the one under the
  lock, the launch fails and touches nothing: it neither resumes the thread nor stops or starts a worker
  nor executes Codex.\<close>

theorem no_second_client:
  assumes "Launch E opts = (r, effs)" and "canonicalThread (l_lib E) (oResume opts) = Inr i" and "oResume opts \<noteq> []"
    and "i \<noteq> []" and "threadDir (l_lib E) (l_root E) i = Inr dir"
    and "readConfig (l_files E) dir = Inr c \<and> may_own (l_host E) c
       \<or> readConfig (l_files' E) dir = Inr c \<and> may_own (l_host' E) c"
  shows "\<not> is_ok r \<and> effs = []"
proof -
  have stop: False if p: "prepare_launch E opts = Inr p" and ok: "may_open E p = Inr ()" for p
  proof -
    from prepare_launch_ok [OF p] have t: "resume_target E opts = Inr (p_resume p)" by blast
    from resume_target_ok [OF this] assms(2,3) have i: "p_resume p = i"
      and first: "refuseLiveOwner (l_host E) (l_files E) (l_lib E) (l_root E) i = Inr ()" by auto
    have "refuseLiveOwner (l_host' E) (l_files' E) (l_lib E) (l_root E) i = Inr ()"
      using ok i assms(4) by (auto simp: may_open_def rbind_Inr)
    with first assms(6) refuseLiveOwner_spec [OF assms(5)] show False by blast
  qed
  show ?thesis using assms(1)
  proof (cases rule: Launch_cases)
    case (2 p e)
    then show ?thesis using stop [OF 2(1)] open_thread_cases [OF 2(2)] by auto
  next
    case 3
    then show ?thesis using stop [OF 3(1)] open_thread_cases [OF 3(2)] by auto
  next
    case 4
    then show ?thesis using stop [OF 4(1)] open_thread_cases [OF 4(2)] by auto
  qed simp
qed


text \<open>No provisional worker is left behind: when a launch returns after the worker was registered, its last
  effect is to stop that worker, and Codex was not executed.\<close>

theorem launch_cleans_up:
  assumes "Launch E opts = (Inl e, effs)" and "EnableWorker thread c \<in> set effs" and "l_enable E thread c = Inr state"
  shows "effs \<noteq> [] \<and> last effs = StopWorker thread \<and> (\<forall>codex args. Exec codex args \<notin> set effs)"
  using assms(1)
proof (cases rule: Launch_cases)
  case 1
  then show ?thesis using assms(2) by simp
next
  case (2 p e)
  then show ?thesis using assms(2) open_thread_cases [OF 2(2)] by fastforce
next
  case (3 p t d1 d2 e)
  then show ?thesis using assms(2,3) open_thread_cases [OF 3(2)] register_owner_cases [OF 3(3)] by fastforce
next
  case (4 p t d1 d2 d3 state' start r3)
  note op = open_thread_cases [OF 4(2)] and g = register_owner_cases [OF 4(3)] and f = finish_launch_cases [OF 4(4)]
  have n: "\<not> is_ok r3" using 4(5) by simp
  have "thread = TID t" using assms(2) 4(6) op g f n by fastforce
  then show ?thesis using 4(6) n op g f by fastforce
qed

subsection \<open>Concrete launches\<close>

definition sample_options :: LaunchOptions where
  "sample_options = \<lparr>oResume = [], oName = [], oInbound = [], oPermission = [], oSocket = ''/s'', oCWD = [], oCodex = [],
     oClientArgs = [], oReadyFD = -1, oContinueFD = -1\<rparr>"

definition launch_site :: "unit res \<Rightarrow> launch_env" where
  "launch_site result = \<lparr>l_inside = False, l_fds = (\<lambda>_. \<lparr>fd_fifo = Inr False, fd_access = Inr 0, fd_prepare = Inr ()\<rparr>),
     l_lookpath = (\<lambda>_. Inr ''/codex''), l_getwd = ''/w'', l_lib = sample_lib, l_sha = (\<lambda>s. s), l_root = ''/r'', l_sessions = ''/x'',
     l_default = ''/s'', l_host = live_host, l_files = owner_files, l_lock = Inr (), l_host' = live_host, l_files' = owner_files,
     l_server = (\<lambda>_. Inr ()), l_call = (\<lambda>_ _. Inr (sample_thread sample_uuid)), l_answers = False, l_stopped = Inr (), l_pid = 9,
     l_start = Inr ''6'', l_enable = (\<lambda>_ _. Inr []), l_home = ''/h'', l_version = ''1'', l_exchange = (\<lambda>_ _. Inr ()), l_ctx = Inr (),
     l_chdir = (\<lambda>_. Inr ()), l_exec = result\<rparr>"

lemma uuid_canonical: "canonicalThread sample_lib sample_uuid = Inr sample_uuid"
  by (simp add: canonicalThread_def sample_lib_def sample_uuid_def nil_uuid_def)

definition sample_plan :: plan where
  "sample_plan = \<lparr>p_handoff = None, p_codex = ''/codex'', p_socket = ''/s'', p_cwd = ''/w'', p_resume = []\<rparr>"

lemma sample_prepared: "prepare_launch (launch_site result) sample_options = Inr sample_plan"
proof -
  have "Abs ''/w'' ''/codex'' = ''/codex''" "Abs ''/w'' ''/w'' = ''/w''" by code_simp+
  then show ?thesis
    by (simp add: prepare_launch_def launch_site_def sample_options_def newLaunchHandshake_def check_options_def
        resume_target_def sample_plan_def)
qed

lemma sample_launch:
  "Launch (launch_site result) sample_options =
     (result, [StartThread ''/w'', Bootstrap sample_uuid,
        EnableWorker sample_uuid (launch_config sample_options sample_plan
          \<lparr>TID = sample_uuid, TCWD = [], TEphemeral = False, TCanAccept = None, TStatus = ''idle''\<rparr> 9 ''6'')]
      @ (if is_ok result then [Exec ''/codex'' [''/codex'', ''--remote'', ''unix:///s'', ''resume'', sample_uuid]]
         else [StopWorker sample_uuid]))"
proof -
  have op: "open_thread (launch_site result) sample_plan =
      (Inr \<lparr>TID = sample_uuid, TCWD = [], TEphemeral = False, TCanAccept = None, TStatus = ''idle''\<rparr>,
       [StartThread ''/w'', Bootstrap sample_uuid])"
    by (simp add: open_thread_def may_open_def ask_thread_def accept_thread_def launch_site_def sample_plan_def sample_resumed
        uuid_canonical checkThread_def)
  have g: "register_owner (launch_site result) sample_options sample_plan t =
      (Inr ([], ''6''), [EnableWorker (TID t) (launch_config sample_options sample_plan t 9 ''6'')])" for t
    by (simp add: register_owner_def launch_site_def)
  have f: "finish_launch (launch_site result) sample_options sample_plan sample_uuid [] ''6'' =
      (result, if is_ok result then [Exec ''/codex'' [''/codex'', ''--remote'', ''unix:///s'', ''resume'', sample_uuid]] else [])"
    by (simp add: finish_launch_def launch_site_def sample_plan_def sample_options_def)
  show ?thesis by (simp add: Launch_def sample_prepared op g f split: sum.splits)
qed


theorem launch_cleans_up_witness:
  "\<exists>effs. Launch (launch_site (Inl NotExist)) sample_options = (Inl NotExist, effs) \<and> last effs = StopWorker sample_uuid"
proof -
  obtain effs c where d: "Launch (launch_site (Inl NotExist)) sample_options = (Inl NotExist, effs)"
    "EnableWorker sample_uuid c \<in> set effs" by (simp add: sample_launch)
  moreover have "l_enable (launch_site (Inl NotExist)) sample_uuid c = Inr []" by (simp add: launch_site_def)
  ultimately show ?thesis using launch_cleans_up by blast
qed

theorem no_second_client_witness:
  "\<exists>r. Launch (launch_site (Inr ())) (sample_options\<lparr>oResume := sample_uuid\<rparr>) = (r, []) \<and> \<not> is_ok r"
proof -
  let ?E = "launch_site (Inr ())" and ?o = "sample_options\<lparr>oResume := sample_uuid\<rparr>"
  obtain r effs where l: "Launch ?E ?o = (r, effs)" by fastforce
  have "canonicalThread (l_lib ?E) (oResume ?o) = Inr sample_uuid" "oResume ?o \<noteq> []"
    "threadDir (l_lib ?E) (l_root ?E) sample_uuid = Inr (JoinPath [''/r'', sample_uuid])"
    by (simp_all add: launch_site_def threadDir_def uuid_canonical) (simp add: sample_uuid_def)
  moreover have "readConfig (l_files ?E) (JoinPath [''/r'', sample_uuid]) = Inr owner_config" "may_own (l_host ?E) owner_config"
    by (simp_all add: launch_site_def owner_read may_own_def owner_config_def zero_config_def sample_start)
  moreover have "sample_uuid \<noteq> []" by (simp add: sample_uuid_def)
  ultimately show ?thesis using no_second_client [OF l] l by blast
qed

end
