(* ===== verification/Mcp_Runs.thy ===== *)
theory Mcp_Runs
  imports Mcp Frames "HOL-Library.Multiset"
begin

section \<open>Runs of the MCP server\<close>

text \<open>
  The loop of \<open>serveMCP\<close> and the goroutines of its calls interleave freely.  A run records the lines the
  loop has read and the identifiers of the calls whose reply was suppressed; the services may answer
  differently each time.
\<close>

definition read_by :: "mcp \<Rightarrow> string list" where
  "read_by s = (if pc s = Reading then (case readLine MaxBuffer (input s) of Inl _ \<Rightarrow> [] | Inr (b, _) \<Rightarrow> [b]) else [])"

definition suppressed_by :: "mcp_call \<Rightarrow> mcp \<Rightarrow> gval list" where
  "suppressed_by c s = (if call_key c \<in> set (cancelled s) then [call_id c] else [])"

inductive mcp_run :: "lib \<Rightarrow> (string \<Rightarrow> gval res) \<Rightarrow> string \<Rightarrow> string \<Rightarrow> string list \<Rightarrow> gval list \<Rightarrow> mcp \<Rightarrow> bool"
  for L json build stdin where
  started: "mcp_run L json build stdin [] [] (mcp_start stdin)"
| looped: "mcp_run L json build stdin lines muted s
    \<Longrightarrow> mcp_run L json build stdin (lines @ read_by s) muted (loop_step L json build s)"
| answered: "mcp_run L json build stdin lines muted s \<Longrightarrow> c \<in> set (running s)
    \<Longrightarrow> mcp_run L json build stdin lines (muted @ suppressed_by c s) (finish_call L S c s)"
| slot_freed: "mcp_run L json build stdin lines muted s \<Longrightarrow> 0 < leaving s
    \<Longrightarrow> mcp_run L json build stdin lines muted (s\<lparr>leaving := leaving s - 1\<rparr>)"

text \<open>The identifier a line asks to be answered under, and the identifiers the server still owes.\<close>

definition reply_to :: "(string \<Rightarrow> gval res) \<Rightarrow> string \<Rightarrow> gval list" where
  "reply_to json b =
     (case parse_request json b of
        Inl _ \<Rightarrow> [GNil]
      | Inr (None, _) \<Rightarrow> []
      | Inr (Some i, _) \<Rightarrow> [i])"

definition reply_ids :: "mcp \<Rightarrow> gval list" where
  "reply_ids s = map (\<lambda>r. fld r ''id'') (written s)"

definition owed :: "mcp \<Rightarrow> gval list" where
  "owed s = (case pc s of Acquiring c \<Rightarrow> [call_id c] | Undoing c \<Rightarrow> [call_id c] | Emitting r \<Rightarrow> [fld r ''id''] | _ \<Rightarrow> [])
     @ map call_id (running s)"

definition cancels :: "lib \<Rightarrow> (string \<Rightarrow> gval res) \<Rightarrow> string \<Rightarrow> string \<Rightarrow> bool" where
  "cancels L json b key \<longleftrightarrow> (\<exists>params. parse_request json b = Inr (None, ''notifications/cancelled'', params)
     \<and> compact (fmt_float L) (fld params ''requestId'') = key)"

subsection \<open>The invariant\<close>

definition claimed :: "mcp \<Rightarrow> mcp_call list" where
  "claimed s = (case pc s of Acquiring c \<Rightarrow> [c] | Undoing c \<Rightarrow> [c] | _ \<Rightarrow> []) @ running s"

definition keyed :: "lib \<Rightarrow> mcp_call \<Rightarrow> bool" where
  "keyed L c \<longleftrightarrow> call_key c = compact (fmt_float L) (call_id c)"

definition mcp_ok :: "lib \<Rightarrow> mcp \<Rightarrow> bool" where
  "mcp_ok L s \<longleftrightarrow> distinct (map call_key (claimed s)) \<and> set (inflight s) = call_key ` set (claimed s)
     \<and> set (cancelled s) \<subseteq> call_key ` set (running s)
     \<and> (\<forall>c \<in> set (claimed s). keyed L c)
     \<and> length (running s) + leaving s \<le> 16 \<and> (claimed s \<noteq> [] \<longrightarrow> initialized s)"

lemma reply_id [simp]: "fld (err_reply i code t) ''id'' = i" "fld (result_reply i r) ''id'' = i" "fld (tool_reply L i v) ''id'' = i"
  by (simp_all add: fld_def err_reply_def result_reply_def tool_reply_def Let_def)

lemma listing_id [simp]: "fld (listing_reply i method) ''id'' = i"
  by (simp add: listing_reply_def)

lemma dispatch_emits:
  assumes "\<not> (method = ''initialize'' \<and> \<not> initialized s)" and "\<not> (method = ''tools/call'' \<and> initialized s)"
  shows "\<exists>r. dispatch L build i method params s = s\<lparr>pc := Emitting r\<rparr> \<and> fld r ''id'' = i"
  using assms
  by (intro exI [of _ "if method = ''initialize'' then err_reply i (-32600) ''Already initialized''
       else if method = ''ping'' then result_reply i (GObj [])
       else if \<not> initialized s then err_reply i (-32002) ''Initialize first'' else listing_reply i method"])
    (auto simp: dispatch_def)

lemma begin_call_cases:
  "(\<exists>r. begin_call L i params s = s\<lparr>pc := Emitting r\<rparr> \<and> fld r ''id'' = i)
   \<or> (\<exists>c. begin_call L i params s = s\<lparr>inflight := call_key c # inflight s, pc := Acquiring c\<rparr>
      \<and> call_id c = i \<and> call_key c = compact (fmt_float L) i \<and> call_key c \<notin> set (inflight s))"
proof (cases "compact (fmt_float L) i \<in> set (inflight s)")
  case True
  then show ?thesis
    by (intro disjI1 exI [of _ "err_reply i (-32600) ''Duplicate in-flight request ID''"]) (simp add: begin_call_def)
next
  case False
  then show ?thesis
    by (intro disjI2 exI [of _ "\<lparr>call_id = i, call_key = compact (fmt_float L) i, call_params = params\<rparr>"])
      (simp add: begin_call_def Let_def)
qed

lemma dispatch_cases:
  "(\<exists>r b. dispatch L build i method params s = s\<lparr>pc := Emitting r, initialized := b\<rparr> \<and> fld r ''id'' = i
      \<and> (initialized s \<longrightarrow> b))
   \<or> (\<exists>c. dispatch L build i method params s = s\<lparr>inflight := call_key c # inflight s, pc := Acquiring c\<rparr>
      \<and> call_id c = i \<and> call_key c = compact (fmt_float L) i \<and> call_key c \<notin> set (inflight s) \<and> initialized s)"
  (is "?E \<or> ?C")
proof -
  have emit: ?E if "\<exists>r. dispatch L build i method params s = s\<lparr>pc := Emitting r\<rparr> \<and> fld r ''id'' = i"
  proof -
    from that obtain r where "dispatch L build i method params s = s\<lparr>pc := Emitting r\<rparr>" "fld r ''id'' = i" by blast
    then show ?thesis by (intro exI [of _ r] exI [of _ "initialized s"]) simp
  qed
  show ?thesis
  proof (cases "method = ''initialize'' \<and> \<not> initialized s")
    case True
    then show ?thesis
      by (intro disjI1 exI [of _ "result_reply i (initialize_result build params)"] exI [of _ True])
        (simp add: dispatch_def)
  next
    case init: False
    show ?thesis
    proof (cases "method = ''tools/call'' \<and> initialized s")
      case True
      then have "dispatch L build i method params s = begin_call L i params s" by (simp add: dispatch_def)
      then show ?thesis using begin_call_cases [of L i params s] emit True by auto
    next
      case False
      from emit [OF dispatch_emits [OF init False]] show ?thesis ..
    qed
  qed
qed

lemma line_cases:
  obtains (reply) r b' where "handle_line L json build b s = s\<lparr>pc := Emitting r, initialized := b'\<rparr>"
      "reply_to json b = [fld r ''id'']" "initialized s \<longrightarrow> b'"
  | (quiet) "handle_line L json build b s = s" "reply_to json b = []"
  | (cancel) k where "handle_line L json build b s = s\<lparr>cancelled := List.insert k (cancelled s)\<rparr>" "reply_to json b = []"
      "k \<in> set (inflight s)" "cancels L json b k"
  | (call) c where "handle_line L json build b s = s\<lparr>inflight := call_key c # inflight s, pc := Acquiring c\<rparr>"
      "reply_to json b = [call_id c]" "keyed L c"
      "call_key c \<notin> set (inflight s)" "initialized s"
proof (cases "parse_request json b")
  case (Inl r)
  then have "\<exists>c t. r = err_reply GNil c t"
    by (auto simp: parse_request_def split: sum.splits option.splits if_splits)
  then have "handle_line L json build b s = s\<lparr>pc := Emitting r, initialized := initialized s\<rparr>" "reply_to json b = [fld r ''id'']"
    using Inl by (auto simp: handle_line_def reply_to_def)
  then show ?thesis by (rule reply) simp
next
  case (Inr q)
  obtain i name params where q: "q = (i, name, params)" by (cases q)
  show ?thesis
  proof (cases i)
    case None
    then show ?thesis using Inr q quiet cancel
      by (force simp: handle_line_def reply_to_def cancel_def Let_def cancels_def)
  next
    case (Some j)
    then have "handle_line L json build b s = dispatch L build j name params s" "reply_to json b = [j]"
      using Inr q by (simp_all add: handle_line_def reply_to_def)
    then show ?thesis using dispatch_cases [of L build j name params s] reply call unfolding keyed_def by metis
  qed
qed

lemma owed_eq: "pc s = Emitting r \<Longrightarrow> owed s = fld r ''id'' # map call_id (claimed s)"
  "\<forall>r. pc s \<noteq> Emitting r \<Longrightarrow> owed s = map call_id (claimed s)"
  by (auto simp: owed_def claimed_def split: mcp_pc.splits)

lemma line_ok:
  assumes "mcp_ok L s" "pc s = Reading"
  shows "mcp_ok L (handle_line L json build b s)"
    and "mset (owed (handle_line L json build b s)) = mset (owed s) + mset (reply_to json b)"
    and "written (handle_line L json build b s) = written s"
    and "input (handle_line L json build b s) = input s"
    and "\<forall>k \<in> set (cancelled (handle_line L json build b s)). k \<in> set (cancelled s) \<or> cancels L json b k"
  by (rule line_cases [of L json build b s]; use assms in \<open>auto simp: mcp_ok_def claimed_def owed_def\<close>)+

lemma line_of_append: "newline \<in> set t \<Longrightarrow> line_of t @ drop (length (line_of t)) t = t"
  by (induction t) (auto simp: line_of_def)

lemma readLine_splits: "readLine cap t = Inr (b, rest) \<Longrightarrow> b @ rest = t \<and> b \<noteq> []"
  using line_of_append [of t] by (auto simp: readLine_def read_line_spec line_of_def split: if_splits)

lemma loop_ok:
  assumes ok: "mcp_ok L s"
  shows "mcp_ok L (loop_step L json build s)
    \<and> mset (reply_ids (loop_step L json build s)) + mset (owed (loop_step L json build s))
       = mset (reply_ids s) + mset (owed s) + mset (concat (map (reply_to json) (read_by s)))
    \<and> concat (read_by s) @ input (loop_step L json build s) = input s
    \<and> (\<forall>k \<in> set (cancelled (loop_step L json build s)).
       k \<in> set (cancelled s) \<or> (\<exists>b \<in> set (read_by s). cancels L json b k))"
proof (cases "pc s")
  case Reading
  show ?thesis
  proof (cases "readLine MaxBuffer (input s)")
    case (Inl e)
    then show ?thesis using ok Reading
      by (auto simp: loop_step_def read_by_def mcp_ok_def claimed_def reply_ids_def owed_def)
  next
    case (Inr p)
    obtain b rest where p: "p = (b, rest)" by (cases p)
    let ?s = "s\<lparr>input := rest\<rparr>"
    have s: "mcp_ok L ?s" "pc ?s = Reading" using ok Reading by (auto simp: mcp_ok_def claimed_def)
    have step: "loop_step L json build s = handle_line L json build b ?s" "read_by s = [b]"
      using Reading Inr p by (simp_all add: loop_step_def read_by_def)
    have "owed ?s = owed s" by (simp add: owed_def)
    then show ?thesis
      using line_ok [OF s, of json build b] readLine_splits [of MaxBuffer "input s" b rest] Inr p
      by (simp add: step reply_ids_def)
  qed
next
  case (Undoing c)
  then have "call_key c \<notin> call_key ` set (running s)" "set (inflight s) = insert (call_key c) (call_key ` set (running s))"
    using ok by (auto simp: mcp_ok_def claimed_def)
  then have "set (removeAll (call_key c) (inflight s)) = call_key ` set (running s)" by simp
  then show ?thesis using ok Undoing
    by (auto simp: loop_step_def read_by_def mcp_ok_def claimed_def reply_ids_def owed_def)
qed (use ok in \<open>auto simp: loop_step_def read_by_def mcp_ok_def claimed_def reply_ids_def owed_def\<close>)

lemma finish_ok:
  assumes ok: "mcp_ok L s" and c: "c \<in> set (running s)"
  shows "mcp_ok L (finish_call L S c s)"
    and "mset (reply_ids (finish_call L S c s)) + mset (suppressed_by c s) + mset (owed (finish_call L S c s))
       = mset (reply_ids s) + mset (owed s)"
    and "input (finish_call L S c s) = input s"
    and "set (cancelled (finish_call L S c s)) \<subseteq> set (cancelled s)"
proof -
  define h where "h = (case pc s of Acquiring c \<Rightarrow> [c] | Undoing c \<Rightarrow> [c] | _ \<Rightarrow> [])"
  have cl: "claimed s = h @ running s" "claimed (finish_call L S c s) = h @ remove1 c (running s)"
    by (simp_all add: claimed_def finish_call_def h_def)
  have d: "distinct (map call_key (h @ running s))" using ok by (simp add: mcp_ok_def cl)
  then have dr: "distinct (running s)" "inj_on call_key (set (running s))" by (simp_all add: distinct_map)
  have keys: "call_key ` set (remove1 c (running s)) = call_key ` set (running s) - {call_key c}"
    using c dr by (auto simp: inj_on_def)
  have head: "call_key c \<notin> call_key ` set h" using d c by auto
  have sub: "set (remove1 c (running s)) \<subseteq> set (running s)" by (rule set_remove1_subset)
  have "distinct (map call_key (h @ remove1 c (running s)))"
    using d dr sub inj_on_subset [OF dr(2) sub] keys by (auto simp: distinct_map)
  moreover have "set (removeAll (call_key c) (inflight s)) = call_key ` set (h @ remove1 c (running s))"
  proof -
    have "set (inflight s) = call_key ` set h \<union> call_key ` set (running s)"
      using ok by (simp add: mcp_ok_def cl image_Un)
    then show ?thesis using head by (simp add: image_Un keys) blast
  qed
  moreover have "set (removeAll (call_key c) (cancelled s)) \<subseteq> call_key ` set (remove1 c (running s))"
    using ok keys by (auto simp: mcp_ok_def)
  moreover have "length (remove1 c (running s)) + (leaving s + 1) = length (running s) + leaving s"
    using c length_pos_if_in_set [OF c] by (simp add: length_remove1)
  ultimately show "mcp_ok L (finish_call L S c s)"
    using ok sub unfolding mcp_ok_def cl by (auto simp: finish_call_def)
  show "mset (reply_ids (finish_call L S c s)) + mset (suppressed_by c s) + mset (owed (finish_call L S c s))
       = mset (reply_ids s) + mset (owed s)"
  proof -
    have "mset (running s) = add_mset c (mset (remove1 c (running s)))" using c by simp
    then have "mset (map call_id (running s)) = add_mset (call_id c) (mset (map call_id (remove1 c (running s))))"
      by (metis image_mset_add_mset mset_map)
    then show ?thesis by (simp add: reply_ids_def suppressed_by_def finish_call_def owed_def)
  qed
  show "input (finish_call L S c s) = input s" by (simp add: finish_call_def)
  show "set (cancelled (finish_call L S c s)) \<subseteq> set (cancelled s)" by (auto simp: finish_call_def)
qed

subsection \<open>What every run keeps\<close>

lemma run_keeps:
  "mcp_run L json build stdin lines muted s \<Longrightarrow>
     mcp_ok L s \<and> concat lines @ input s = stdin
     \<and> mset (reply_ids s) + mset muted + mset (owed s) = mset (concat (map (reply_to json) lines))
     \<and> (\<forall>k \<in> set (cancelled s). \<exists>b \<in> set lines. cancels L json b k)
     \<and> (\<forall>i \<in> set muted. \<exists>b \<in> set lines. cancels L json b (compact (fmt_float L) i))"
proof (induction rule: mcp_run.induct)
  case started
  show ?case by (simp add: mcp_start_def mcp_ok_def claimed_def reply_ids_def owed_def)
next
  case (looped lines muted s)
  note step = loop_ok [of L s json build]
  have "mset (reply_ids (loop_step L json build s)) + mset muted + mset (owed (loop_step L json build s))
      = mset (reply_ids s) + mset muted + mset (owed s) + mset (concat (map (reply_to json) (read_by s)))"
    using step looped.IH by (simp add: algebra_simps)
  moreover have "\<forall>k \<in> set (cancelled (loop_step L json build s)). \<exists>b \<in> set (lines @ read_by s). cancels L json b k"
    using step looped.IH by (simp only: set_append) blast
  ultimately show ?case using step looped.IH by auto
next
  case (answered lines muted s c S)
  note step = finish_ok [of L s c S]
  have "mset (reply_ids (finish_call L S c s)) + mset (muted @ suppressed_by c s) + mset (owed (finish_call L S c s))
      = mset (reply_ids s) + mset muted + mset (owed s)"
    using step(2) answered by (simp add: algebra_simps)
  moreover have "\<forall>i \<in> set (suppressed_by c s). \<exists>b \<in> set lines. cancels L json b (compact (fmt_float L) i)"
    using answered by (auto simp: suppressed_by_def mcp_ok_def claimed_def keyed_def)
  ultimately show ?case using step(1,3,4) answered by auto
next
  case (slot_freed lines muted s)
  then show ?case by (auto simp: mcp_ok_def claimed_def reply_ids_def owed_def)
qed

text \<open>C9. Every request is answered exactly once: at any moment the identifiers of the replies written, of the
  replies suppressed and of the requests still being worked on are together exactly those of the
  requests read, counted with repetition (a line that cannot be parsed counts as one request with a
  null identifier).  A reply is suppressed only for a request that an earlier line cancels, and a server
  that has returned owes nothing.\<close>

theorem requests_answered_once:
  assumes "mcp_run L json build stdin lines muted s"
  shows "concat lines @ input s = stdin
    \<and> mset (reply_ids s) + mset muted + mset (owed s) = mset (concat (map (reply_to json) lines))
    \<and> (\<forall>i \<in> set muted. \<exists>b \<in> set lines. cancels L json b (compact (fmt_float L) i))
    \<and> (pc s = Stopped e \<and> running s = [] \<longrightarrow> owed s = [])"
  using run_keeps [OF assms] by (auto simp: owed_def)

text \<open>At most sixteen tool calls run at once, no two of them under the same identifier, and none before
  the client has initialized the server.\<close>

theorem calls_bounded:
  assumes "mcp_run L json build stdin lines muted s"
  shows "length (running s) + leaving s \<le> 16 \<and> distinct (map (\<lambda>c. compact (fmt_float L) (call_id c)) (running s))
    \<and> (running s \<noteq> [] \<longrightarrow> initialized s)"
proof -
  have ok: "mcp_ok L s" using run_keeps [OF assms] by simp
  then have "map (\<lambda>c. compact (fmt_float L) (call_id c)) (running s) = map call_key (running s)"
    and "distinct (map call_key (running s))"
    by (simp_all add: mcp_ok_def claimed_def keyed_def)
  then have "distinct (map (\<lambda>c. compact (fmt_float L) (call_id c)) (running s))" by (simp only:)
  then show ?thesis using ok by (simp add: mcp_ok_def claimed_def)
qed

subsection \<open>Termination\<close>

definition work_left :: "mcp \<Rightarrow> nat" where
  "work_left s = 4 * length (input s)
     + (case pc s of Stopped _ \<Rightarrow> 0 | Reading \<Rightarrow> 1 | Emitting _ \<Rightarrow> 2 | Undoing _ \<Rightarrow> 3 | Acquiring _ \<Rightarrow> 4)"

lemma line_work: "pc s = Reading \<Longrightarrow> work_left (handle_line L json build b s) \<le> 4 * length (input s) + 4"
  by (rule line_cases [of L json build b s]) (auto simp: work_left_def)

lemma loop_work:
  assumes "\<forall>e. pc s \<noteq> Stopped e"
  shows "work_left (loop_step L json build s) < work_left s"
proof (cases "pc s")
  case Reading
  show ?thesis
  proof (cases "readLine MaxBuffer (input s)")
    case (Inl e)
    then show ?thesis using Reading by (simp add: loop_step_def work_left_def)
  next
    case (Inr p)
    obtain b rest where p: "p = (b, rest)" by (cases p)
    have "length rest < length (input s)"
      using readLine_splits [of MaxBuffer "input s" b rest] Inr p by (metis length_append length_greater_0_conv less_add_same_cancel2)
    moreover have "work_left (loop_step L json build s) \<le> 4 * length rest + 4"
      using line_work [of "s\<lparr>input := rest\<rparr>" L json build b] Reading Inr p by (simp add: loop_step_def)
    ultimately show ?thesis using Reading by (simp add: work_left_def)
  qed
qed (use assms in \<open>auto simp: loop_step_def work_left_def\<close>)

lemma stopped_stays: "pc s = Stopped e \<Longrightarrow> (loop_step L json build ^^ n) s = s"
  by (induction n) (simp_all add: loop_step_def)

lemma loop_stops: "work_left s \<le> n \<Longrightarrow> \<exists>e. pc ((loop_step L json build ^^ n) s) = Stopped e"
proof (induction n arbitrary: s)
  case 0
  then show ?case by (auto simp: work_left_def split: mcp_pc.splits)
next
  case (Suc n)
  show ?case
  proof (cases "\<exists>e. pc s = Stopped e")
    case True
    then show ?thesis using stopped_stays [where s = s and n = "Suc n"] by (metis (no_types))
  next
    case False
    then have "work_left (loop_step L json build s) \<le> n" using loop_work [of s L json build] Suc.prems by simp
    from Suc.IH [OF this] show ?thesis by (simp add: funpow_swap1)
  qed
qed

lemma run_loop:
  "mcp_run L json build stdin lines muted s
    \<Longrightarrow> \<exists>lines'. mcp_run L json build stdin lines' muted ((loop_step L json build ^^ n) s)"
  by (induction n) (auto intro: looped)

lemma run_drain:
  "mcp_run L json build stdin lines muted s \<Longrightarrow> pc s = Stopped e
    \<Longrightarrow> \<exists>muted' s'. mcp_run L json build stdin lines muted' s' \<and> pc s' = Stopped e \<and> running s' = []"
proof (induction "length (running s)" arbitrary: s muted)
  case 0
  then show ?case by auto
next
  case (Suc n)
  then obtain c cs where c: "running s = c # cs" by (cases "running s") auto
  have "mcp_run L json build stdin lines (muted @ suppressed_by c s) (finish_call L S c s)" for S
    using Suc.prems(1) by (rule answered) (simp add: c)
  moreover have "n = length (running (finish_call L S c s))" "pc (finish_call L S c s) = Stopped e" for S
    using Suc.hyps(2) Suc.prems(2) c by (simp_all add: finish_call_def)
  ultimately show ?case using Suc.hyps(1) by blast
qed

text \<open>The server always returns: from any point of a run the loop, left alone, reaches the end of its input
  within four steps per byte, and once the tools that are still running have answered, nothing is owed.\<close>

theorem server_returns:
  assumes "mcp_run L json build stdin lines muted s"
  shows "(\<exists>e. pc ((loop_step L json build ^^ (4 * length (input s) + 4)) s) = Stopped e)
    \<and> (\<exists>lines' muted' s' e. mcp_run L json build stdin lines' muted' s' \<and> pc s' = Stopped e \<and> owed s' = [])"
proof (rule conjI)
  let ?n = "4 * length (input s) + 4"
  have "work_left s \<le> ?n" by (simp add: work_left_def split: mcp_pc.splits)
  from loop_stops [OF this] show "\<exists>e. pc ((loop_step L json build ^^ ?n) s) = Stopped e" .
next
  let ?n = "4 * length (input s) + 4"
  have "work_left s \<le> ?n" by (simp add: work_left_def split: mcp_pc.splits)
  from loop_stops [OF this] obtain e where e: "pc ((loop_step L json build ^^ ?n) s) = Stopped e" by blast
  obtain lines' where "mcp_run L json build stdin lines' muted ((loop_step L json build ^^ ?n) s)"
    using run_loop [OF assms] by blast
  from run_drain [OF this e] obtain muted' s' where
    "mcp_run L json build stdin lines' muted' s'" "pc s' = Stopped e" "running s' = []" by blast
  then show "\<exists>lines' muted' s' e. mcp_run L json build stdin lines' muted' s' \<and> pc s' = Stopped e \<and> owed s' = []"
    by (intro exI [of _ lines'] exI [of _ muted'] exI [of _ s'] exI [of _ e]) (simp add: owed_def)
qed

subsection \<open>A concrete run\<close>

definition sample_input :: string where
  "sample_input = ''i'' @ [newline] @ ''c'' @ [newline]"

definition sample_json :: "string \<Rightarrow> gval res" where
  "sample_json b = Inr (GObj (if b = ''i'' @ [newline]
     then [(''jsonrpc'', GStr ''2.0''), (''id'', GStr ''1''), (''method'', GStr ''initialize'')]
     else [(''jsonrpc'', GStr ''2.0''), (''id'', GStr ''2''), (''method'', GStr ''tools/call'')]))"

lemma sample_lines: "readLine MaxBuffer sample_input = Inr (''i'' @ [newline], ''c'' @ [newline])"
  "readLine MaxBuffer [CHR ''c'', newline] = Inr ([CHR ''c'', newline], [])"
  by (simp_all add: readLine_def read_line_spec line_of_def sample_input_def newline_def MaxBuffer_def)

lemma sample_calls: "running ((loop_step L sample_json build ^^ 4) (mcp_start sample_input)) =
    [\<lparr>call_id = GStr ''2'', call_key = compact (fmt_float L) (GStr ''2''), call_params = []\<rparr>]"
  by (simp add: numeral_eq_Suc loop_step_def mcp_start_def sample_lines handle_line_def parse_request_def sample_json_def
    optional_object_def fld_def str_def valid_id_def dispatch_def begin_call_def Let_def)

lemma sample_run:
  "\<exists>lines. mcp_run L sample_json build sample_input lines []
     ((loop_step L sample_json build ^^ 4) (mcp_start sample_input))"
  by (rule run_loop) (rule started)

theorem requests_answered_once_witness:
  "\<forall>L build. \<exists>lines s. running s \<noteq> [] \<and> concat lines @ input s = sample_input
    \<and> mset (reply_ids s) + mset (owed s) = mset (concat (map (reply_to sample_json) lines))"
proof (intro allI)
  fix L build
  obtain lines where r: "mcp_run L sample_json build sample_input lines []
     ((loop_step L sample_json build ^^ 4) (mcp_start sample_input))" using sample_run by blast
  show "\<exists>lines s. running s \<noteq> [] \<and> concat lines @ input s = sample_input
    \<and> mset (reply_ids s) + mset (owed s) = mset (concat (map (reply_to sample_json) lines))"
    using requests_answered_once [OF r] sample_calls [of L build]
    by (intro exI [of _ lines] exI [of _ "(loop_step L sample_json build ^^ 4) (mcp_start sample_input)"]) simp
qed

theorem calls_bounded_witness:
  "\<forall>L build. \<exists>s::mcp. running s \<noteq> [] \<and> length (running s) + leaving s \<le> 16 \<and> initialized s"
proof (intro allI)
  fix L build
  obtain lines where r: "mcp_run L sample_json build sample_input lines []
     ((loop_step L sample_json build ^^ 4) (mcp_start sample_input))" using sample_run by blast
  show "\<exists>s::mcp. running s \<noteq> [] \<and> length (running s) + leaving s \<le> 16 \<and> initialized s"
    using calls_bounded [OF r] sample_calls [of L build]
    by (intro exI [of _ "(loop_step L sample_json build ^^ 4) (mcp_start sample_input)"]) simp
qed

theorem server_returns_witness:
  "\<forall>L build. \<exists>e. pc ((loop_step L sample_json build ^^ 20) (mcp_start sample_input)) = Stopped e"
proof (intro allI)
  fix L build
  show "\<exists>e. pc ((loop_step L sample_json build ^^ 20) (mcp_start sample_input)) = Stopped e"
    using server_returns [OF started [of L sample_json build sample_input]]
    by (simp add: mcp_start_def sample_input_def)
qed

end
