(* ===== verification/Mcp_Tools.thy ===== *)
theory Mcp_Tools
  imports Mcp Control
begin

section \<open>Tool calls and the worker's operations\<close>

text \<open>
  What the check of a tool call against its schema guarantees to the operation of the worker that the
  call is turned into.
\<close>

lemma missing_argument_None: "missing_argument args keys = None \<longleftrightarrow> (\<forall>k \<in> set keys. map_of args k \<noteq> None)"
  by (induction keys) auto

lemma check_arguments_ok:
  "check_arguments props args = Inr () \<longleftrightarrow> (\<forall>kv \<in> set args. \<exists>raw. map_of props (fst kv) = Some raw
     \<and> type_valid (as_obj raw) (snd kv) \<and> enum_valid (as_obj raw) (snd kv))"
proof (induction args)
  case (Cons kv args)
  show ?case by (cases kv; cases "map_of props (fst kv)") (auto simp: Cons.IH)
qed simp

text \<open>The required arguments and the specifications of the properties of a tool.\<close>

definition tool_schema :: "string \<Rightarrow> (string list \<times> obj) option" where
  "tool_schema name = map_option
     (\<lambda>d. (as_strings (fld (tool_inputSchema d) ''required''), as_obj (fld (tool_inputSchema d) ''properties'')))
     (find (\<lambda>d. tool_name d = name) toolDefinitions)"

lemma check_call_ok:
  "check_call name args = Inr () \<longleftrightarrow> (\<exists>required props. tool_schema name = Some (required, props)
     \<and> (\<forall>k \<in> set required. map_of args k \<noteq> None) \<and> check_arguments props args = Inr ())"
proof (cases "find (\<lambda>d. tool_name d = name) toolDefinitions")
  case (Some d)
  have m: "(case missing_argument args ks of Some key \<Rightarrow> Inl (Failure (''missing argument '' @ key)) | None \<Rightarrow> r) = Inr ()
      \<longleftrightarrow> (\<forall>k \<in> set ks. map_of args k \<noteq> None) \<and> r = Inr ()" for ks r
    using missing_argument_None [of args ks] by (cases "missing_argument args ks") auto
  show ?thesis using Some by (simp add: check_call_def tool_schema_def m del: not_None_eq)
qed (simp add: check_call_def tool_schema_def)

lemma checked_argument:
  assumes "check_call name args = Inr ()" "tool_schema name = Some (required, props)" "map_of args k = Some v"
  shows "\<exists>raw. map_of props k = Some raw \<and> type_valid (as_obj raw) v \<and> enum_valid (as_obj raw) v"
proof -
  have "(k, v) \<in> set args" using assms(3) by (rule map_of_SomeD)
  then show ?thesis using assms(1,2) by (auto simp: check_call_ok check_arguments_ok dest: bspec)
qed

lemma decide_schema:
  "tool_schema ''acknowledge_messages'' = Some ([''thread_id'', ''ids''], [(''thread_id'', thread_spec), (''ids'', ids_spec)])"
  "tool_schema ''release_messages'' = Some ([''thread_id'', ''ids''], [(''thread_id'', thread_spec), (''ids'', ids_spec)])"
  "tool_schema ''decline_messages'' = Some ([''thread_id'', ''ids''], [(''thread_id'', thread_spec), (''ids'', ids_spec)])"
  by code_simp+

lemma read_schema:
  "tool_schema ''read_messages'' = Some ([''thread_id''], [(''thread_id'', thread_spec),
     (''state'', enum_spec [''unread'', ''held'', ''read'', ''declined'', ''expired''] []),
     (''limit'', range_spec ''integer'' 1 50), (''after'', text_spec)])"
  by code_simp

lemma id_strings_map: "list_all is_string vs \<Longrightarrow> \<exists>ids. id_strings vs = Inr ids \<and> vs = map GStr ids"
proof (induction vs)
  case (Cons v vs)
  then obtain s ids where "v = GStr s" "id_strings vs = Inr ids" "vs = map GStr ids"
    by (cases v) (auto simp: is_string_def)
  then show ?case by (auto intro: exI [of _ "s # ids"])
qed simp

lemma params_fld:
  "distinct (map fst args) \<Longrightarrow> k \<noteq> ''thread_id'' \<Longrightarrow> fld (AList.delete ''thread_id'' (clone args)) k = fld args k"
  by (simp add: clone_eq fld_def delete_conv')

lemma decided_ids:
  assumes c: "check_call name args = Inr ()"
    and n: "tool_schema name = Some ([''thread_id'', ''ids''], [(''thread_id'', thread_spec), (''ids'', ids_spec)])"
  shows "\<exists>ids. length ids \<le> 100 \<and> fld args ''ids'' = GArr (map GStr ids)"
proof -
  from c n obtain v where v: "map_of args ''ids'' = Some v" by (auto simp: check_call_ok)
  from checked_argument [OF c n v] have "type_valid (as_obj ids_spec) v" by simp
  then obtain vs where "v = GArr vs" "length vs \<le> 100" "list_all is_string vs"
    by (auto simp: type_valid_def ids_spec_def as_obj_def str_def fld_def split: gval.splits)
  then show ?thesis using v id_strings_map [of vs] by (auto simp: fld_def)
qed

lemma read_arguments:
  assumes c: "check_call ''read_messages'' args = Inr ()"
  shows "str args ''state'' \<in> {[], ''unread'', ''held'', ''read'', ''declined'', ''expired''}"
    and "fld args ''limit'' = GNil \<or> (\<exists>n. 1 \<le> n \<and> n \<le> 50 \<and> fld args ''limit'' = GFloat (of_int n))"
proof -
  note arg = checked_argument [OF c read_schema]
  show "str args ''state'' \<in> {[], ''unread'', ''held'', ''read'', ''declined'', ''expired''}"
  proof (cases "map_of args ''state''")
    case (Some v)
    from arg [OF this] show ?thesis using Some
      by (auto simp: enum_valid_def enum_spec_def as_obj_def str_def fld_def split: gval.splits)
  qed (simp add: str_def fld_def)
  show "fld args ''limit'' = GNil \<or> (\<exists>n. 1 \<le> n \<and> n \<le> 50 \<and> fld args ''limit'' = GFloat (of_int n))"
  proof (cases "map_of args ''limit''")
    case (Some v)
    from arg [OF this] have "type_valid (as_obj (range_spec ''integer'' 1 50)) v" by simp
    then obtain x where x: "v = GFloat x" "1 \<le> x" "x \<le> 50" "x = of_int (trunc x)"
      by (cases v) (auto simp: type_valid_def range_spec_def as_obj_def str_def number_def fld_def)
    then have "1 \<le> trunc x" "trunc x \<le> 50" by linarith+
    then have "\<exists>n. 1 \<le> n \<and> n \<le> 50 \<and> x = of_int n" using x by (intro exI [of _ "trunc x"]) simp
    then show ?thesis using x Some by (auto simp: fld_def)
  qed (simp add: fld_def)
qed

text \<open>A tool call that passes the checks reaches the worker with arguments its operation accepts: the
  identifiers of a decision decode to exactly the strings given, at most a hundred; a read asks for a
  state the inbox has, and the limit the worker applies is the limit that was asked for.\<close>

theorem checked_arguments_fit:
  assumes "check_call name args = Inr ()" and "distinct (map fst args)"
  shows "(name \<in> {''acknowledge_messages'', ''release_messages'', ''decline_messages''} \<longrightarrow>
      (\<exists>ids. length ids \<le> 100 \<and> fld args ''ids'' = GArr (map GStr ids)
        \<and> inboxIDs (AList.delete ''thread_id'' (clone args)) = Inr ids))
    \<and> (name = ''read_messages'' \<longrightarrow>
      str (AList.delete ''thread_id'' (clone args)) ''state'' \<in> {[], ''unread'', ''held'', ''read'', ''declined'', ''expired''}
      \<and> (fld args ''limit'' = GNil \<and> read_limit (AList.delete ''thread_id'' (clone args)) = 20
         \<or> fld args ''limit'' = GFloat (of_nat (read_limit (AList.delete ''thread_id'' (clone args))))))"
proof (intro conjI impI)
  note fld = params_fld [OF assms(2)]
  assume n: "name \<in> {''acknowledge_messages'', ''release_messages'', ''decline_messages''}"
  have "tool_schema name = Some ([''thread_id'', ''ids''], [(''thread_id'', thread_spec), (''ids'', ids_spec)])"
    using n decide_schema by blast
  from decided_ids [OF assms(1) this] obtain ids where i: "length ids \<le> 100" "fld args ''ids'' = GArr (map GStr ids)" by blast
  moreover have "id_strings (map GStr ids) = Inr ids" by (induction ids) auto
  ultimately show "\<exists>ids. length ids \<le> 100 \<and> fld args ''ids'' = GArr (map GStr ids)
      \<and> inboxIDs (AList.delete ''thread_id'' (clone args)) = Inr ids"
    by (auto simp: inboxIDs_def fld)
next
  note fld = params_fld [OF assms(2)]
  assume "name = ''read_messages''"
  then have c: "check_call ''read_messages'' args = Inr ()" using assms(1) by simp
  show "str (AList.delete ''thread_id'' (clone args)) ''state'' \<in> {[], ''unread'', ''held'', ''read'', ''declined'', ''expired''}"
    using read_arguments(1) [OF c] by (simp add: str_def fld)
  show "fld args ''limit'' = GNil \<and> read_limit (AList.delete ''thread_id'' (clone args)) = 20
         \<or> fld args ''limit'' = GFloat (of_nat (read_limit (AList.delete ''thread_id'' (clone args))))"
    using read_arguments(2) [OF c] by (auto simp: read_limit_def number_def fld trunc_def)
qed

theorem checked_arguments_fit_witness:
  "inboxIDs (AList.delete ''thread_id'' (clone [(''thread_id'', GStr ''t''), (''ids'', GArr [GStr ''a''])])) = Inr [''a'']"
proof -
  have "check_call ''acknowledge_messages'' [(''thread_id'', GStr ''t''), (''ids'', GArr [GStr ''a''])] = Inr ()"
    unfolding check_call_ok decide_schema
    by (simp add: thread_spec_def ids_spec_def as_obj_def type_valid_def enum_valid_def str_def fld_def is_string_def)
  from checked_arguments_fit [OF this] show ?thesis by (auto simp: fld_def)
qed

end
