(* ===== verification/Paths.thy ===== *)
theory Paths
  imports Identity GoPath
begin

section \<open>Paths as lists of components\<close>

text \<open>
  \<open>filepath.Rel\<close>, and lemmas on clean absolute paths: their components, joining, the parent directory.
\<close>

subsection \<open>Splitting\<close>

lemma Split_nonempty: "Split s c \<noteq> []"
  by (induction s c rule: Split.induct) (auto split: list.splits)

lemma Split_no: "p \<in> set (Split s c) \<Longrightarrow> c \<notin> set p"
  by (induction s c arbitrary: p rule: Split.induct) (auto split: list.splits if_splits)

lemma Join_Split: "Join (Split s c) [c] = s"
proof (induction s c rule: Split.induct)
  case (2 x xs c)
  then show ?case using Split_nonempty [of xs c]
    by (cases "Split xs c"; cases "tl (Split xs c)") (auto simp: Join_def)
qed (simp add: Join_def)

lemma Split_plain: "c \<notin> set s \<Longrightarrow> Split s c = [s]"
  by (induction s c rule: Split.induct) auto

lemma Split_append: "c \<notin> set s \<Longrightarrow> Split (s @ c # t) c = s # Split t c"
  by (induction s) auto

lemma Split_Join: "ids \<noteq> [] \<Longrightarrow> \<forall>i \<in> set ids. c \<notin> set i \<Longrightarrow> Split (Join ids [c]) c = ids"
proof (induction ids)
  case (Cons i ids)
  then show ?case by (cases ids) (simp_all add: Join_def Split_plain Split_append)
qed simp

lemma Cut_cases:
  assumes "Cut s c = (a, b, h)"
  shows "c \<notin> set a" and "if h then s = a @ c # b else s = a \<and> b = []"
proof -
  have "c \<in> set s \<Longrightarrow> takeWhile (\<lambda>x. x \<noteq> c) s @ c # tl (dropWhile (\<lambda>x. x \<noteq> c) s) = s"
    by (induction s) auto
  then show "c \<notin> set a" and "if h then s = a @ c # b else s = a \<and> b = []"
    using assms by (auto simp: Cut_def dest: set_takeWhileD split: if_splits)
qed

lemma Cut_eqs: "c \<notin> set a \<Longrightarrow> Cut (a @ c # b) c = (a, b, True)" "c \<notin> set a \<Longrightarrow> Cut a c = (a, [], False)"
proof -
  show "c \<notin> set a \<Longrightarrow> Cut (a @ c # b) c = (a, b, True)" by (induction a) (auto simp: Cut_def)
qed (simp add: Cut_def)

subsection \<open>Relative paths\<close>

definition path_parts :: "string \<Rightarrow> string list" where
  "path_parts p = clean_parts (IsAbs p) [] (Split p CHR ''/'')"

fun strip_common :: "string list \<Rightarrow> string list \<Rightarrow> string list \<times> string list" where
  "strip_common (b # bs) (t # ts) = (if b = t then strip_common bs ts else (b # bs, t # ts))"
| "strip_common bs ts = (bs, ts)"

text \<open>\<open>filepath.Rel\<close>, on the components of absolute paths.\<close>

definition Rel :: "string \<Rightarrow> string \<Rightarrow> string res" where
  "Rel base target_path =
     (if Clean base = Clean target_path then Inr ''.''
      else if IsAbs base \<noteq> IsAbs target_path
      then Inl (Failure (''Rel: cannot make '' @ target_path @ '' relative to '' @ base))
      else case strip_common (path_parts base) (path_parts target_path) of (bs, ts) \<Rightarrow>
        if bs \<noteq> [] \<and> hd bs = ''..''
        then Inl (Failure (''Rel: cannot make '' @ target_path @ '' relative to '' @ base))
        else Inr (Join (replicate (length bs) ''..'' @ ts) ''/''))"

text \<open>The test on a relative path that all callers make: it leaves the directory.\<close>

definition leaves :: "string \<Rightarrow> bool" where
  "leaves rel \<longleftrightarrow> rel = ''..'' \<or> HasPrefix rel ''../''"

subsection \<open>Components\<close>

definition normal :: "string \<Rightarrow> bool" where
  "normal c \<longleftrightarrow> c \<noteq> [] \<and> c \<noteq> ''.'' \<and> c \<noteq> ''..'' \<and> CHR ''/'' \<notin> set c"

lemma normal_cases: "CHR ''/'' \<notin> set c \<Longrightarrow> c = [] \<or> c = ''.'' \<or> c = ''..'' \<or> normal c"
  unfolding normal_def by blast

lemma clean_step:
  "c = [] \<or> c = ''.'' \<Longrightarrow> clean_parts rooted acc (c # cs) = clean_parts rooted acc cs"
  "clean_parts True [] (''..'' # cs) = clean_parts True [] cs"
  "normal a \<Longrightarrow> clean_parts rooted (a # as) (''..'' # cs) = clean_parts rooted as cs"
  "normal c \<Longrightarrow> clean_parts rooted acc (c # cs) = clean_parts rooted (c # acc) cs"
  by (simp_all add: normal_def)

lemma clean_rooted_normal:
  "\<forall>a \<in> set acc. normal a \<Longrightarrow> \<forall>c \<in> set cs. CHR ''/'' \<notin> set c \<Longrightarrow> \<forall>c \<in> set (clean_parts True acc cs). normal c"
proof (induction cs arbitrary: acc)
  case (Cons c cs)
  have "c = [] \<or> c = ''.'' \<or> c = ''..'' \<or> normal c" using Cons.prems(2) by (intro normal_cases) simp
  then consider (skip) "c = [] \<or> c = ''.''" | (up) "c = ''..''" | (keep) "normal c" by blast
  then show ?case
  proof cases
    case skip
    then show ?thesis using Cons by (simp only: clean_step(1)) simp
  next
    case up
    show ?thesis
    proof (cases acc)
      case Nil
      show ?thesis unfolding up Nil clean_step(2) using Cons.prems by (intro Cons.IH) simp_all
    next
      case (Cons a as)
      then have n: "normal a" "\<forall>x \<in> set as. normal x" using Cons.prems(1) by simp_all
      show ?thesis unfolding up Cons clean_step(3) [OF n(1)] using Cons.prems(2) n(2) by (intro Cons.IH) simp_all
    qed
  next
    case keep
    show ?thesis unfolding clean_step(4) [OF keep] using Cons.prems keep by (intro Cons.IH) simp_all
  qed
qed simp

lemma abs_parts_normal: "IsAbs p \<Longrightarrow> c \<in> set (path_parts p) \<Longrightarrow> normal c"
  using clean_rooted_normal [of "[]" "Split p CHR ''/''"] Split_no by (auto simp: path_parts_def)

lemma clean_parts_normal:
  "\<forall>c \<in> set cs. normal c \<Longrightarrow> clean_parts rooted acc (cs @ ds) = clean_parts rooted (rev cs @ acc) ds"
  by (induction cs arbitrary: acc) (auto simp: normal_def)

lemma Split_joined: "\<forall>c \<in> set cs. normal c \<Longrightarrow> cs \<noteq> [] \<Longrightarrow> Split (Join cs ''/'') CHR ''/'' = cs"
  by (rule Split_Join) (auto simp: normal_def)

lemma Clean_abs: "IsAbs p \<Longrightarrow> Clean p = ''/'' @ Join (path_parts p) ''/''"
  by (auto simp: Clean_def path_parts_def IsAbs_def HasPrefix_def)

lemma parts_rooted: "\<forall>c \<in> set cs. normal c \<Longrightarrow> path_parts (''/'' @ Join cs ''/'') = cs"
proof (cases "cs = []")
  case True
  then show ?thesis by (simp add: path_parts_def Join_def IsAbs_def HasPrefix_def)
next
  case False
  assume n: "\<forall>c \<in> set cs. normal c"
  have "path_parts (''/'' @ Join cs ''/'') = clean_parts True [] cs"
    using Split_joined [OF n False] by (simp add: path_parts_def IsAbs_def HasPrefix_def)
  then show ?thesis using clean_parts_normal [OF n, of True "[]" "[]"] by simp
qed

lemma IsAbs_rooted [simp]: "IsAbs (CHR ''/'' # p)"
  by (simp add: IsAbs_def HasPrefix_def)

lemma parts_Clean: "IsAbs p \<Longrightarrow> path_parts (Clean p) = path_parts p" "IsAbs p \<Longrightarrow> IsAbs (Clean p)"
  using parts_rooted [of "path_parts p"] abs_parts_normal by (auto simp: Clean_abs)

lemma Clean_idem: "IsAbs p \<Longrightarrow> Clean (Clean p) = Clean p"
  by (metis Clean_abs parts_Clean)

subsection \<open>Relative paths\<close>

lemma strip_common_spec: "strip_common bs ts = (bs', ts') \<Longrightarrow> \<exists>cs. bs = cs @ bs' \<and> ts = cs @ ts'
    \<and> (bs' \<noteq> [] \<and> ts' \<noteq> [] \<longrightarrow> hd bs' \<noteq> hd ts')"
proof (induction bs ts rule: strip_common.induct)
  case (1 b bs t ts)
  show ?case
  proof (cases "b = t")
    case True
    with 1 obtain cs where "bs = cs @ bs' \<and> ts = cs @ ts' \<and> (bs' \<noteq> [] \<and> ts' \<noteq> [] \<longrightarrow> hd bs' \<noteq> hd ts')" by auto
    then show ?thesis using True by (intro exI [of _ "b # cs"]) simp
  qed (use 1 in auto)
qed auto

lemma leaves_parts:
  assumes "bs \<noteq> []" shows "leaves (Join (replicate (length bs) ''..'' @ ts) ''/'')"
proof -
  obtain n where "length bs = Suc n" using assms by (cases bs) auto
  then show ?thesis by (cases n; cases ts) (auto simp: leaves_def Join_def HasPrefix_def)
qed

lemma stays_parts:
  assumes "\<forall>c \<in> set ts. normal c" shows "\<not> leaves (Join ts ''/'')"
proof (cases ts)
  case (Cons t us)
  then have "CHR ''/'' \<notin> set t" "t \<noteq> ''..''" using assms by (auto simp: normal_def)
  then show ?thesis using Cons
    by (cases t; cases "tl t"; cases "tl (tl t)"; cases us) (auto simp: leaves_def Join_def HasPrefix_def)
qed (simp add: leaves_def Join_def HasPrefix_def)

lemma Rel_leaves:
  assumes "IsAbs d" "IsAbs p"
  shows "\<exists>rel. Rel d p = Inr rel \<and> (leaves rel \<longleftrightarrow> \<not> prefix (path_parts d) (path_parts p))"
proof (cases "Clean d = Clean p")
  case True
  then have "path_parts d = path_parts p" using parts_Clean(1) assms by metis
  then show ?thesis using True by (simp add: Rel_def leaves_def HasPrefix_def)
next
  case False
  obtain bs ts where s: "strip_common (path_parts d) (path_parts p) = (bs, ts)" by fastforce
  from strip_common_spec [OF s] obtain cs where cs: "path_parts d = cs @ bs" "path_parts p = cs @ ts"
    "bs \<noteq> [] \<and> ts \<noteq> [] \<longrightarrow> hd bs \<noteq> hd ts" by blast
  have n: "\<forall>c \<in> set bs. normal c" "\<forall>c \<in> set ts. normal c"
    using abs_parts_normal [OF assms(1)] abs_parts_normal [OF assms(2)] cs by auto
  have "Rel d p = Inr (Join (replicate (length bs) ''..'' @ ts) ''/'')"
  proof -
    have "\<not> (bs \<noteq> [] \<and> hd bs = ''..'')" using n(1) by (cases bs) (auto simp: normal_def)
    then show ?thesis unfolding Rel_def s prod.case using False assms by (simp only: if_False simp_thms)
  qed
  moreover have "leaves (Join (replicate (length bs) ''..'' @ ts) ''/'') \<longleftrightarrow> bs \<noteq> []"
    using leaves_parts [of bs ts] stays_parts [OF n(2)] by (cases "bs = []") auto
  moreover have "prefix (path_parts d) (path_parts p) \<longleftrightarrow> bs = []"
    using cs by (cases bs; cases ts) auto
  ultimately show ?thesis by simp
qed

subsection \<open>Joining\<close>

lemma Split_concat: "Split (s @ c # t) c = Split s c @ Split t c"
proof (induction s)
  case (Cons x s)
  then show ?case using Split_nonempty [of s c] by (cases "Split s c") auto
qed simp

lemma clean_parts_tail:
  "\<forall>c \<in> set cs. normal c \<Longrightarrow> clean_parts r acc (as @ cs) = clean_parts r acc as @ cs"
proof (induction as arbitrary: acc)
  case Nil
  then show ?case using clean_parts_normal [of cs r acc "[]"] by simp
next
  case (Cons a as)
  then show ?case by (cases acc; cases r) simp_all
qed

lemma join_parts:
  assumes "IsAbs d" and n: "\<forall>c \<in> set cs. normal c" and s: "Split name CHR ''/'' = cs" and ne: "name \<noteq> []"
  shows "path_parts (JoinPath [d, name]) = path_parts d @ cs" and "IsAbs (JoinPath [d, name])"
    and "Clean (JoinPath [d, name]) = JoinPath [d, name]"
proof -
  have d: "d \<noteq> []" "IsAbs (d @ t)" for t using assms(1) by (cases d; simp add: IsAbs_def HasPrefix_def)+
  have "JoinPath [d, name] = Clean (d @ CHR ''/'' # name)" using d ne by (simp add: JoinPath_def Join_def)
  moreover have "path_parts (d @ CHR ''/'' # name) = path_parts d @ cs"
    using clean_parts_tail [OF n] assms(1) d(2) by (simp add: path_parts_def Split_concat s)
  ultimately show "path_parts (JoinPath [d, name]) = path_parts d @ cs" "IsAbs (JoinPath [d, name])"
      "Clean (JoinPath [d, name]) = JoinPath [d, name]"
    using parts_Clean d(2) Clean_idem by simp_all
qed

lemma parts_Dir:
  assumes "IsAbs p" "Clean p = p" "path_parts p \<noteq> []"
  shows "path_parts (Dir p) = butlast (path_parts p)" and "IsAbs (Dir p)"
proof -
  obtain cs c where parts: "path_parts p = cs @ [c]" using assms(3) by (metis append_butlast_last_id)
  have n: "\<forall>x \<in> set cs. normal x" "normal c" using abs_parts_normal [OF assms(1)] parts by auto
  define d where "d = ''/'' @ Join cs ''/'' @ (if cs = [] then [] else ''/'')"
  have p: "p = ''/'' @ Join (cs @ [c]) ''/''" using Clean_abs [OF assms(1)] assms(2) parts by simp
  have "Join (cs @ [c]) ''/'' = Join cs ''/'' @ (if cs = [] then [] else ''/'') @ c"
    by (cases cs) (simp_all add: Join_def)
  then have dc: "p = d @ c" by (simp add: p d_def)
  have "last d = CHR ''/''" by (simp add: d_def Join_def)
  then have "dir_part p = d" using dir_file_part_append(1) [of d c] n(2) dc by (simp add: normal_def)
  then have Dir: "Dir p = Clean d" by (simp add: Dir_def)
  have abs: "IsAbs d" by (simp add: d_def)
  have "path_parts d = cs"
  proof (cases "cs = []")
    case True
    then show ?thesis by (simp add: d_def path_parts_def Join_def)
  next
    case False
    then have "Split d CHR ''/'' = Split (''/'' @ Join cs ''/'') CHR ''/'' @ [[]]"
      using Split_concat [of "''/'' @ Join cs ''/''" "CHR ''/''" "[]"] by (simp add: d_def)
    moreover have "clean_parts r acc (xs @ [[]]) = clean_parts r acc xs" for r acc xs
      by (induction r acc xs rule: clean_parts.induct) (auto split: list.splits)
    ultimately show ?thesis using parts_rooted [OF n(1)] abs by (simp add: path_parts_def)
  qed
  then show "path_parts (Dir p) = butlast (path_parts p)" "IsAbs (Dir p)"
    using parts_Clean [OF abs] Dir parts by simp_all
qed

subsection \<open>Parents\<close>

lemma JoinPath_abs: "IsAbs d \<Longrightarrow> IsAbs (JoinPath (d # ps))"
proof -
  assume d: "IsAbs d"
  then obtain t where "d = CHR ''/'' # t" by (cases d) (auto simp: IsAbs_def HasPrefix_def)
  then have "IsAbs (Join (d # ps) ''/'')" "JoinPath (d # ps) = Clean (Join (d # ps) ''/'')"
    by (simp_all add: Join_def JoinPath_def)
  then show ?thesis using parts_Clean(2) by simp
qed

lemma Dir_abs: "IsAbs p \<Longrightarrow> IsAbs (Dir p)" "IsAbs p \<Longrightarrow> Clean (Dir p) = Dir p"
proof -
  assume "IsAbs p"
  then obtain t where p: "p = CHR ''/'' # t" by (cases p) (auto simp: IsAbs_def HasPrefix_def)
  have "dir_part p \<noteq> []"
    using file_dir_part [of p] file_part_no_slash [of p] p by (cases "dir_part p") auto
  then have "IsAbs (dir_part p)" using file_dir_part [of p] p by (cases "dir_part p") auto
  then show "IsAbs (Dir p)" "Clean (Dir p) = Dir p" by (simp_all add: Dir_def parts_Clean(2) Clean_idem)
qed

lemma Dir_shorter:
  assumes "IsAbs p" "Clean p = p" "p \<noteq> ''/''"
  shows "length (Dir p) < length p"
proof -
  have ne: "path_parts p \<noteq> []" using assms Clean_abs [OF assms(1)] by (auto simp: Join_def)
  note d = parts_Dir [OF assms(1,2) ne]
  have "Dir p = ''/'' @ Join (butlast (path_parts p)) ''/''"
    using Clean_abs [OF d(2)] Dir_abs(2) [OF assms(1)] d(1) by simp
  moreover have "p = ''/'' @ Join (path_parts p) ''/''" using Clean_abs [OF assms(1)] assms(2) by simp
  moreover have "length (Join (butlast ps) ''/'') < length (Join ps ''/'')"
    if "ps \<noteq> []" "\<forall>c \<in> set ps. c \<noteq> []" for ps
    using that by (cases ps rule: rev_cases; cases "butlast ps") (auto simp: Join_def)
  ultimately show ?thesis using ne abs_parts_normal [OF assms(1)]
    by (metis (no_types, lifting) add_less_cancel_left length_append normal_def)
qed

end
