(* ===== verification/Release_Tags.thy ===== *)
theory Release_Tags
  imports Paths
begin

section \<open>Version tags\<close>

text \<open>
  \<open>validTag\<close> and \<open>validIdentifiers\<close> of release.go, and their equivalence with the grammar of semantic
  versions.  The loops over runes are loops over bytes here: a byte of a longer rune fails every test.
\<close>

definition is_letter :: "char \<Rightarrow> bool" where
  "is_letter c \<longleftrightarrow> 97 \<le> byte c \<and> byte c \<le> 122 \<or> 65 \<le> byte c \<and> byte c \<le> 90"

definition valid_identifier :: "bool \<Rightarrow> string \<Rightarrow> bool" where
  "valid_identifier noNumericLeadingZero identifier =
     (if identifier = [] then False
      else if \<not> list_all (\<lambda>c. is_digit c \<or> is_letter c \<or> c = CHR ''-'') identifier then False
      else \<not> (noNumericLeadingZero \<and> list_all is_digit identifier \<and> 1 < length identifier
              \<and> identifier ! 0 = CHR ''0''))"

definition validIdentifiers :: "string \<Rightarrow> bool \<Rightarrow> bool" where
  "validIdentifiers value noNumericLeadingZero =
     list_all (valid_identifier noNumericLeadingZero) (Split value CHR ''.'')"

definition valid_number :: "string \<Rightarrow> bool" where
  "valid_number s = (if s = [] \<or> (1 < length s \<and> s ! 0 = CHR ''0'') then False else list_all is_digit s)"

definition validTag :: "string \<Rightarrow> bool" where
  "validTag tag =
     (if \<not> HasPrefix tag ''v'' then False
      else case Cut (TrimPrefix tag ''v'') CHR ''+'' of (coreAndPre, build, hasBuild) \<Rightarrow>
        if hasBuild \<and> \<not> validIdentifiers build False then False
        else case Cut coreAndPre CHR ''-'' of (core, pre, hasPre) \<Rightarrow>
          if hasPre \<and> \<not> validIdentifiers pre True then False
          else let numbers = Split core CHR ''.'' in
            if length numbers \<noteq> 3 then False else list_all valid_number numbers)"

subsection \<open>The grammar of semantic versions\<close>

definition numeric_id :: "string \<Rightarrow> bool" where
  "numeric_id s \<longleftrightarrow> s = ''0'' \<or> (s \<noteq> [] \<and> list_all is_digit s \<and> hd s \<noteq> CHR ''0'')"

definition build_id :: "string \<Rightarrow> bool" where
  "build_id s \<longleftrightarrow> s \<noteq> [] \<and> (\<forall>c \<in> set s. is_digit c \<or> is_letter c \<or> c = CHR ''-'')"

definition pre_id :: "string \<Rightarrow> bool" where
  "pre_id s \<longleftrightarrow> numeric_id s \<or> (build_id s \<and> \<not> list_all is_digit s)"

definition dotted :: "(string \<Rightarrow> bool) \<Rightarrow> string \<Rightarrow> bool" where
  "dotted P s \<longleftrightarrow> (\<exists>ids. ids \<noteq> [] \<and> s = Join ids ''.'' \<and> (\<forall>i \<in> set ids. P i))"

definition optional_part :: "char \<Rightarrow> (string \<Rightarrow> bool) \<Rightarrow> string \<Rightarrow> bool" where
  "optional_part c P s \<longleftrightarrow> s = [] \<or> (\<exists>t. s = c # t \<and> dotted P t)"

definition semver :: "string \<Rightarrow> bool" where
  "semver t \<longleftrightarrow> (\<exists>major minor patch pre build. t = ''v'' @ Join [major, minor, patch] ''.'' @ pre @ build
     \<and> numeric_id major \<and> numeric_id minor \<and> numeric_id patch
     \<and> optional_part CHR ''-'' pre_id pre \<and> optional_part CHR ''+'' build_id build)"

subsection \<open>Dotted identifiers\<close>

lemma dotted_Split:
  assumes "\<And>i. P i \<Longrightarrow> CHR ''.'' \<notin> set i"
  shows "dotted P s \<longleftrightarrow> list_all P (Split s CHR ''.'')"
proof
  assume "dotted P s"
  then obtain ids where "ids \<noteq> []" "s = Join ids ''.''" "\<forall>i \<in> set ids. P i" by (auto simp: dotted_def)
  then show "list_all P (Split s CHR ''.'')" using assms by (simp add: Split_Join list_all_iff)
next
  assume "list_all P (Split s CHR ''.'')"
  then show "dotted P s" unfolding dotted_def
    by (intro exI [of _ "Split s CHR ''.''"]) (simp add: Split_nonempty Join_Split list_all_iff)
qed

subsection \<open>The checks are the grammar\<close>

lemma build_identifier: "valid_identifier False s \<longleftrightarrow> build_id s"
  by (auto simp: valid_identifier_def build_id_def list_all_iff)

lemma number_id: "valid_number s \<longleftrightarrow> numeric_id s"
  by (cases s; cases "tl s") (auto simp: valid_number_def numeric_id_def is_digit_def)

lemma numeric_build: "numeric_id s \<Longrightarrow> build_id s"
  by (auto simp: numeric_id_def build_id_def list_all_iff is_digit_def)

lemma pre_identifier: "valid_identifier True s \<longleftrightarrow> pre_id s"
proof -
  have "valid_identifier True s \<longleftrightarrow> build_id s \<and> \<not> (list_all is_digit s \<and> 1 < length s \<and> s ! 0 = CHR ''0'')"
    by (auto simp: valid_identifier_def build_id_def list_all_iff)
  also have "\<dots> \<longleftrightarrow> pre_id s"
  proof (cases "list_all is_digit s")
    case True
    then show ?thesis using numeric_build [of s] number_id [of s]
      by (auto simp: pre_id_def valid_number_def build_id_def)
  next
    case False
    then show ?thesis using numeric_build [of s] by (auto simp: pre_id_def numeric_id_def is_digit_def)
  qed
  finally show ?thesis .
qed

lemma id_chars:
  assumes "build_id s"
  shows "CHR ''.'' \<notin> set s" "CHR ''+'' \<notin> set s"
  using assms by (auto simp: build_id_def is_digit_def is_letter_def)

lemma numeric_chars: "numeric_id s \<Longrightarrow> CHR ''-'' \<notin> set s"
  by (auto simp: numeric_id_def list_all_iff is_digit_def)

lemma pre_build: "pre_id s \<Longrightarrow> build_id s"
  using numeric_build by (auto simp: pre_id_def)

lemma valid_identifiers:
  "validIdentifiers s False \<longleftrightarrow> dotted build_id s" "validIdentifiers s True \<longleftrightarrow> dotted pre_id s"
proof -
  have "validIdentifiers s False \<longleftrightarrow> list_all build_id (Split s CHR ''.'')"
    by (simp add: validIdentifiers_def list_all_iff build_identifier)
  then show "validIdentifiers s False \<longleftrightarrow> dotted build_id s"
    using dotted_Split [of build_id s] id_chars by blast
  have "validIdentifiers s True \<longleftrightarrow> list_all pre_id (Split s CHR ''.'')"
    by (simp add: validIdentifiers_def list_all_iff pre_identifier)
  then show "validIdentifiers s True \<longleftrightarrow> dotted pre_id s"
    using dotted_Split [of pre_id s] id_chars pre_build by blast
qed

lemma core_numbers:
  "length (Split core CHR ''.'') = 3 \<and> list_all valid_number (Split core CHR ''.'') \<longleftrightarrow>
     (\<exists>major minor patch. core = Join [major, minor, patch] ''.'' \<and> numeric_id major \<and> numeric_id minor \<and> numeric_id patch)"
proof
  assume a: "length (Split core CHR ''.'') = 3 \<and> list_all valid_number (Split core CHR ''.'')"
  then obtain x y z where s: "Split core CHR ''.'' = [x, y, z]" by (auto simp: numeral_3_eq_3 length_Suc_conv)
  then have "core = Join [x, y, z] ''.''" using Join_Split [of core "CHR ''.''"] by simp
  then show "\<exists>major minor patch. core = Join [major, minor, patch] ''.'' \<and> numeric_id major \<and> numeric_id minor \<and> numeric_id patch"
    using a s by (auto simp: number_id)
next
  assume "\<exists>major minor patch. core = Join [major, minor, patch] ''.'' \<and> numeric_id major \<and> numeric_id minor \<and> numeric_id patch"
  then obtain x y z where c: "core = Join [x, y, z] ''.''" "numeric_id x" "numeric_id y" "numeric_id z" by blast
  then have "Split core CHR ''.'' = [x, y, z]"
    using Split_Join [of "[x, y, z]" "CHR ''.''"] numeric_build id_chars(1) by simp
  then show "length (Split core CHR ''.'') = 3 \<and> list_all valid_number (Split core CHR ''.'')"
    using c by (simp add: number_id)
qed

lemma core_chars:
  assumes "numeric_id x" "numeric_id y" "numeric_id z"
  shows "CHR ''-'' \<notin> set (Join [x, y, z] ''.'')" "CHR ''+'' \<notin> set (Join [x, y, z] ''.'')"
  using assms numeric_chars numeric_build id_chars(2) by (auto simp: Join_def)

lemma dotted_chars: "dotted P t \<Longrightarrow> (\<And>i. P i \<Longrightarrow> c \<notin> set i) \<Longrightarrow> c \<noteq> CHR ''.'' \<Longrightarrow> c \<notin> set t"
proof -
  assume d: "dotted P t" and P: "\<And>i. P i \<Longrightarrow> c \<notin> set i" and c: "c \<noteq> CHR ''.''"
  from d obtain ids where ids: "t = Join ids ''.''" "\<forall>i \<in> set ids. P i" by (auto simp: dotted_def)
  have "set t \<subseteq> insert CHR ''.'' (\<Union> (set ` set ids))" by (cases ids) (auto simp: ids(1) Join_def)
  then show ?thesis using ids(2) P c by blast
qed

lemma tag_grammar: "validTag tag \<longleftrightarrow> semver tag"
proof
  assume v: "validTag tag"
  obtain rest build hb where c1: "Cut (TrimPrefix tag ''v'') CHR ''+'' = (rest, build, hb)" by (metis prod_cases3)
  obtain core pre hp where c2: "Cut rest CHR ''-'' = (core, pre, hp)" by (metis prod_cases3)
  have tag: "tag = ''v'' @ TrimPrefix tag ''v''"
    using v by (auto simp: validTag_def HasPrefix_def TrimPrefix_def prefix_def split: if_splits)
  have b: "hb \<longrightarrow> dotted build_id build" and p: "hp \<longrightarrow> dotted pre_id pre"
    and n: "length (Split core CHR ''.'') = 3 \<and> list_all valid_number (Split core CHR ''.'')"
    using v by (auto simp: validTag_def Let_def c1 c2 valid_identifiers split: if_splits)
  from n [unfolded core_numbers] obtain x y z where core: "core = Join [x, y, z] ''.''"
    "numeric_id x" "numeric_id y" "numeric_id z" by blast
  have "TrimPrefix tag ''v'' = core @ (if hp then CHR ''-'' # pre else []) @ (if hb then CHR ''+'' # build else [])"
    using Cut_cases(2) [OF c1] Cut_cases(2) [OF c2] by (auto split: if_splits)
  with tag show "semver tag" unfolding semver_def
    by (intro exI [of _ x] exI [of _ y] exI [of _ z] exI [of _ "if hp then CHR ''-'' # pre else []"]
      exI [of _ "if hb then CHR ''+'' # build else []"]) (use core b p in \<open>simp add: optional_part_def\<close>)
next
  assume "semver tag"
  then obtain x y z pre build where t: "tag = ''v'' @ Join [x, y, z] ''.'' @ pre @ build"
    and n: "numeric_id x" "numeric_id y" "numeric_id z"
    and p: "optional_part CHR ''-'' pre_id pre" and b: "optional_part CHR ''+'' build_id build"
    by (auto simp: semver_def)
  let ?core = "Join [x, y, z] ''.''"
  have trim: "TrimPrefix tag ''v'' = (?core @ pre) @ build" "HasPrefix tag ''v''"
    by (simp_all add: t TrimPrefix_def HasPrefix_def)
  have plus: "CHR ''+'' \<notin> set (?core @ pre)"
    using core_chars(2) [OF n] p dotted_chars [of pre_id _ "CHR ''+''"] pre_build id_chars(2)
    by (auto simp: optional_part_def)
  have numbers: "length (Split ?core CHR ''.'') = 3 \<and> list_all valid_number (Split ?core CHR ''.'')"
    unfolding core_numbers using n by blast
  obtain hb b' where c1: "Cut ((?core @ pre) @ build) CHR ''+'' = (?core @ pre, b', hb)" "hb \<longrightarrow> dotted build_id b'"
  proof (cases build)
    case Nil
    then show thesis by (intro that [where hb = False and b' = "[]"]) (use Cut_eqs(2) [OF plus] in simp_all)
  next
    case (Cons c t)
    then show thesis
      by (intro that [where hb = True and b' = t]) (use Cut_eqs(1) [OF plus] b in \<open>simp_all add: optional_part_def\<close>)
  qed
  obtain hp p' where c2: "Cut (?core @ pre) CHR ''-'' = (?core, p', hp)" "hp \<longrightarrow> dotted pre_id p'"
  proof (cases pre)
    case Nil
    then show thesis
      by (intro that [where hp = False and p' = "[]"]) (use Cut_eqs(2) [OF core_chars(1) [OF n]] in simp_all)
  next
    case (Cons c t)
    then show thesis
      by (intro that [where hp = True and p' = t])
        (use Cut_eqs(1) [OF core_chars(1) [OF n]] p in \<open>simp_all add: optional_part_def\<close>)
  qed
  show "validTag tag"
    unfolding validTag_def trim(1) c1(1) prod.case c2(1) Let_def valid_identifiers using trim(2) c1(2) c2(2) numbers by simp
qed

text \<open>C37. \<open>validTag\<close> accepts exactly the complete semantic versions with a leading v: three numbers without
  leading zeros, an optional pre-release of dotted identifiers whose numbers have no leading zeros, and
  optional dotted build metadata.\<close>

theorem validTag_semver: "validTag tag \<longleftrightarrow> semver tag"
  by (rule tag_grammar)

end
