(* ===== verification/Release.thy ===== *)
theory Release
  imports Release_Tags Peers
begin

section \<open>Releases\<close>

text \<open>
  release.go, archive.go and build.go: which version a build carries, where its artifacts may go, and
  the order in which they are compiled, checked and published.  The answers of git, of the compiler and
  of the file system are the record \<open>release_env\<close>; the changes made to the disk are returned as the list
  of effects that succeeded.
\<close>

subsection \<open>Environments of the tools\<close>

definition project_name :: string where "project_name = ''cross-session-codex''"
definition module_path :: string where "module_path = ''github.com/Tristan-Wilson/cross-session-codex''"
definition toolchain :: string where "toolchain = ''go1.27.1''"

definition env_key :: "string \<Rightarrow> string" where
  "env_key entry = fst (Cut entry CHR ''='')"

definition gitEnvironment :: "string list \<Rightarrow> string list" where
  "gitEnvironment environ = filter (\<lambda>e. \<not> HasPrefix (env_key e) ''GIT_'') environ
     @ [''GIT_CONFIG_NOSYSTEM=1'', ''GIT_CONFIG_GLOBAL=/dev/null'', ''GIT_NO_REPLACE_OBJECTS=1'', ''GIT_OPTIONAL_LOCKS=0'']"

record Target =
  OS :: string
  Arch :: string
  Archive :: string
  ArchiveSHA256 :: string
  BinarySHA256 :: string
  TSize :: int

definition target_of :: "string \<Rightarrow> string \<Rightarrow> Target" where
  "target_of os arch = \<lparr>OS = os, Arch = arch, Archive = [], ArchiveSHA256 = [], BinarySHA256 = [], TSize = 0\<rparr>"

definition releaseTargets :: "Target list" where
  "releaseTargets = [target_of ''darwin'' ''amd64'', target_of ''darwin'' ''arm64'',
     target_of ''linux'' ''amd64'', target_of ''linux'' ''arm64'']"

definition safe_go :: "string list" where
  "safe_go = [''GOPATH'', ''GOCACHE'', ''GOMODCACHE'', ''GOPROXY'', ''GOSUMDB'', ''GOPRIVATE'', ''GONOPROXY'', ''GONOSUMDB'']"

definition ambient_setting :: "string \<Rightarrow> bool" where
  "ambient_setting key \<longleftrightarrow> (HasPrefix key ''GO'' \<and> key \<notin> set safe_go) \<or> HasPrefix key ''CGO_''
     \<or> key \<in> {''CC'', ''CXX'', ''GCCGO''}"

definition buildEnvironment :: "string list \<Rightarrow> Target \<Rightarrow> string list" where
  "buildEnvironment environ t =
     filter (\<lambda>e. \<not> ambient_setting (env_key e)) environ
     @ [''GOTOOLCHAIN='' @ toolchain, ''GOENV=off'', ''GOWORK=off'', ''GOFLAGS='', ''CGO_ENABLED=0'']
     @ (if OS t = [] then []
        else [''GOOS='' @ OS t, ''GOARCH='' @ Arch t]
          @ (if Arch t = ''amd64'' then [''GOAMD64=v1''] else [])
          @ (if Arch t = ''arm64'' then [''GOARM64=v8.0''] else []))"

subsection \<open>The source\<close>

type_synonym command = "string \<Rightarrow> string list \<Rightarrow> string \<Rightarrow> string list \<Rightarrow> string res"

record sourceState =
  commit :: string
  fingerprint :: string
  date :: int
  dirty :: bool
  tags :: "string list"

definition hex_string :: "string \<Rightarrow> bool" where
  "hex_string s \<longleftrightarrow> even (length s)
     \<and> list_all (\<lambda>c. is_digit c \<or> 97 \<le> byte c \<and> byte c \<le> 102 \<or> 65 \<le> byte c \<and> byte c \<le> 70) s"

definition inspect_head :: "string \<Rightarrow> (string \<times> int) res" where
  "inspect_head head =
     (case Fields head of
        [c, s] \<Rightarrow>
          if length c \<noteq> 40 \<and> length c \<noteq> 64 then Inl (Failure ''git returned invalid source metadata'')
          else if \<not> hex_string c then Inl (Failure ''git returned invalid commit ID'')
          else (case ParseInt s 10 64 of
                  None \<Rightarrow> Inl (Failure ''git returned invalid commit timestamp'')
                | Some n \<Rightarrow> if n < 0 then Inl (Failure ''git returned invalid commit timestamp'') else Inr (c, n))
      | _ \<Rightarrow> Inl (Failure ''git returned invalid source metadata''))"

definition inspect_paths :: "string \<Rightarrow> string \<Rightarrow> string list" where
  "inspect_paths repo stage =
     [''--'', ''.''] @
     (if stage = [] then []
      else case Rel repo stage of
             Inl _ \<Rightarrow> []
           | Inr rel \<Rightarrow> if leaves rel then [] else ['':(exclude,literal)'' @ rel])"

definition inspectSource ::
  "(string \<Rightarrow> string) \<Rightarrow> command \<Rightarrow> string list \<Rightarrow> string \<Rightarrow> string \<Rightarrow> sourceState res" where
  "inspectSource sha run environ repo stage =
     (let git = run repo (gitEnvironment environ) ''git''; paths = inspect_paths repo stage in
      rbind (git [''show'', ''-s'', ''--format=%H%n%ct'', ''HEAD'']) (\<lambda>head.
      rbind (inspect_head head) (\<lambda>(c, seconds).
      rbind (git ([''status'', ''--porcelain=v1'', ''--untracked-files=all''] @ paths)) (\<lambda>state.
      rbind (git ([''diff'', ''--binary'', ''--no-ext-diff'', ''HEAD''] @ paths)) (\<lambda>diff.
      rbind (git [''tag'', ''--points-at'', ''HEAD'']) (\<lambda>names.
        Inr \<lparr>commit = c,
          fingerprint = sha (concat (map (\<lambda>part. part @ [CHR 0x00]) [head, state, diff, names])),
          date = seconds, dirty = (state \<noteq> []),
          tags = sort (filter validTag (Fields names))\<rparr>))))))"

subsection \<open>The version of a build\<close>

record Options =
  Source :: string
  Output :: string
  Tag :: string
  Snapshot :: bool
  Build :: bool
  CrossBuild :: bool

record Manifest =
  SchemaVersion :: int
  Project :: string
  MVersion :: string
  MTag :: string
  SourceCommit :: string
  SourceDirty :: bool
  IsRelease :: bool
  BuildDate :: string
  GoVersion :: string
  Targets :: "Target list"

text \<open>\<open>time.Unix(seconds, 0).UTC().Format(time.RFC3339)\<close>, with the proleptic Gregorian calendar.\<close>

definition two_digits :: "int \<Rightarrow> string" where
  "two_digits n = (if n < 10 then ''0'' else []) @ Itoa n"

definition four_digits :: "int \<Rightarrow> string" where
  "four_digits n = replicate (4 - length (Itoa n)) CHR ''0'' @ Itoa n"

definition civil :: "int \<Rightarrow> int \<times> int \<times> int" where
  "civil days =
     (let z = days + 719468; era = z div 146097; doe = z mod 146097;
          yoe = (doe - doe div 1460 + doe div 36524 - doe div 146096) div 365;
          doy = doe - (365 * yoe + yoe div 4 - yoe div 100);
          mp = (5 * doy + 2) div 153;
          d = doy - (153 * mp + 2) div 5 + 1;
          m = (if mp < 10 then mp + 3 else mp - 9)
      in (yoe + era * 400 + (if m \<le> 2 then 1 else 0), m, d))"

definition RFC3339 :: "int \<Rightarrow> string" where
  "RFC3339 s =
     (case civil (s div 86400) of (y, m, d) \<Rightarrow>
        let t = s mod 86400 in
        four_digits y @ ''-'' @ two_digits m @ ''-'' @ two_digits d @ ''T'' @ two_digits (t div 3600)
        @ '':'' @ two_digits (t mod 3600 div 60) @ '':'' @ two_digits (t mod 60) @ ''Z'')"

definition blank_manifest :: Manifest where
  "blank_manifest = \<lparr>SchemaVersion = 0, Project = [], MVersion = [], MTag = [], SourceCommit = [],
     SourceDirty = False, IsRelease = False, BuildDate = [], GoVersion = [], Targets = []\<rparr>"

definition metadata :: "sourceState \<Rightarrow> Options \<Rightarrow> Manifest res" where
  "metadata source opts =
     (let m = blank_manifest\<lparr>SchemaVersion := 1, Project := project_name, SourceCommit := commit source,
                SourceDirty := dirty source, BuildDate := RFC3339 (date source), GoVersion := toolchain\<rparr> in
      if Tag opts \<noteq> [] then
        (if dirty source then Inl (Failure ''release requires a clean tracked and untracked source tree'')
         else if Tag opts \<notin> set (tags source)
         then Inl (Failure (''release tag '' @ Tag opts @ '' does not name HEAD''))
         else Inr (m\<lparr>MVersion := Tag opts, MTag := Tag opts, IsRelease := True\<rparr>))
      else if \<not> Snapshot opts \<and> \<not> dirty source \<and> tags source \<noteq> [] then
        (case tags source of
           [t] \<Rightarrow> Inr (m\<lparr>MVersion := t, MTag := t\<rparr>)
         | _ \<Rightarrow> Inl (Failure ''multiple version tags name HEAD; source build version is ambiguous''))
      else Inr (m\<lparr>MVersion := ''v0.0.0-snapshot.'' @ take 12 (commit source)
                    @ (if dirty source then ''.dirty'' else [])\<rparr>))"

end
