(* ===== verification/Archives.thy ===== *)
theory Archives
  imports Release
begin

section \<open>Source and release archives\<close>

text \<open>
  archive.go: unpacking the source of a tag from git's tar stream, packing a target, and the checksums.
  What the functions do to the disk is the list of effects that succeeded; \<open>perform\<close> answers whether an
  attempted effect succeeds.  The tar and gzip formats are not modelled: an archive is the list of its
  members.
\<close>

text \<open>The modes \<open>0o755\<close>, \<open>0o644\<close>, \<open>0o700\<close> and the mask \<open>0o111\<close>.\<close>

definition mode755 :: nat where "mode755 = 493"
definition mode644 :: nat where "mode644 = 420"
definition mode700 :: nat where "mode700 = 448"
definition exec_bits :: nat where "exec_bits = 73"

datatype tar_kind = TarGlobalHeader | TarDir | TarFile | TarOther nat

record tar_header =
  tname :: string
  tkind :: tar_kind
  tmode :: nat
  tbody :: string

record archive_member =
  mname :: string
  mmode :: nat
  msize :: nat
  mtime :: int
  mfile :: string

datatype disk_effect =
    MadeDirectory string nat
  | MadeDirectories string nat
  | CreatedFile string nat string
  | RanCommand string "string list"
  | PackedArchive string "archive_member list"
  | WroteManifest string Manifest
  | WroteFile string string nat
  | PublishedDirectory string string
  | Replaced string string
  | RemovedTree string

type_synonym disk = "disk_effect \<Rightarrow> unit res"

text \<open>Computations that fail or return a value, with the effects that took place before.\<close>

type_synonym 'a job = "'a res \<times> disk_effect list"

definition quiet :: "'a res \<Rightarrow> 'a job" where
  "quiet r = (r, [])"

definition attempt :: "disk \<Rightarrow> disk_effect \<Rightarrow> unit job" where
  "attempt D e = (case D e of Inl err \<Rightarrow> (Inl err, []) | Inr _ \<Rightarrow> (Inr (), [e]))"

definition jbind :: "'a job \<Rightarrow> ('a \<Rightarrow> 'b job) \<Rightarrow> 'b job" where
  "jbind j f = (case j of (Inl e, es) \<Rightarrow> (Inl e, es) | (Inr x, es) \<Rightarrow> (case f x of (r, es') \<Rightarrow> (r, es @ es')))"

subsection \<open>Unpacking\<close>

text \<open>\<open>path.Clean(name) != name\<close> and the tests beside it.\<close>

definition unsafe_name :: "string \<Rightarrow> bool" where
  "unsafe_name name \<longleftrightarrow> name = [] \<or> name = ''.'' \<or> IsAbs name \<or> Clean name \<noteq> name \<or> name = ''..''
     \<or> HasPrefix name ''../'' \<or> CHR 0x5C \<in> set name"

definition extract_member :: "disk \<Rightarrow> string \<Rightarrow> tar_header \<Rightarrow> unit job" where
  "extract_member D destination h =
     (if tkind h = TarGlobalHeader then quiet (Inr ())
      else let name = TrimSuffix (tname h) ''/'' in
        if unsafe_name name then quiet (Inl (Failure ''unsafe source archive path''))
        else let file = JoinPath [destination, name] in
          case tkind h of
            TarDir \<Rightarrow> attempt D (MadeDirectories file mode755)
          | TarFile \<Rightarrow>
              jbind (attempt D (MadeDirectories (Dir file) mode755)) (\<lambda>_.
                attempt D (CreatedFile file (if tmode h AND exec_bits \<noteq> 0 then mode755 else mode644) (tbody h)))
          | _ \<Rightarrow> quiet (Inl (Failure ''unsupported source archive type'')))"

fun extract_members :: "disk \<Rightarrow> string \<Rightarrow> tar_header res list \<Rightarrow> unit job" where
  "extract_members D destination [] = quiet (Inr ())"
| "extract_members D destination (Inl e # hs) = quiet (Inl e)"
| "extract_members D destination (Inr h # hs) =
     jbind (extract_member D destination h) (\<lambda>_. extract_members D destination hs)"

definition extractSource :: "disk \<Rightarrow> tar_header res list \<Rightarrow> string \<Rightarrow> unit job" where
  "extractSource D stream destination =
     jbind (attempt D (MadeDirectory destination mode700)) (\<lambda>_. extract_members D destination stream)"

subsection \<open>Packing\<close>

definition archive_inputs :: "files \<Rightarrow> string \<Rightarrow> string \<Rightarrow> (string \<times> string) list res" where
  "archive_inputs F binary source =
     foldl (\<lambda>acc name. rbind acc (\<lambda>inputs.
         let file = JoinPath [source, name] in
         case lstat F file of
           Inr _ \<Rightarrow> Inr (AList.update name file inputs)
         | Inl NotExist \<Rightarrow> Inr inputs
         | Inl e \<Rightarrow> Inl e))
       (Inr [(project_name, binary), (''README.md'', JoinPath [source, ''README.md'']),
             (''docs/LAUNCH_HANDSHAKE.md'', JoinPath [source, ''docs'', ''LAUNCH_HANDSHAKE.md''])])
       [''LICENSE'', ''LICENSE.md'', ''LICENSE.txt'', ''docs/RELEASING.md'']"

fun archive_members :: "files \<Rightarrow> (string \<times> string) list \<Rightarrow> int \<Rightarrow> string list \<Rightarrow> archive_member list res" where
  "archive_members F inputs stamp [] = Inr []"
| "archive_members F inputs stamp (name # names) =
     (let file = (case map_of inputs name of None \<Rightarrow> [] | Some f \<Rightarrow> f) in
      case lstat F file of
        Inl _ \<Rightarrow> Inl (Failure (''archive input must be a regular file: '' @ file))
      | Inr st \<Rightarrow>
          if fkind st \<noteq> RegularFile then Inl (Failure (''archive input must be a regular file: '' @ file))
          else rbind (archive_members F inputs stamp names) (\<lambda>ms.
            Inr (\<lparr>mname = name, mmode = (if name = project_name then mode755 else mode644),
                  msize = fsize st, mtime = stamp, mfile = file\<rparr> # ms)))"

definition makeArchive :: "files \<Rightarrow> disk \<Rightarrow> string \<Rightarrow> string \<Rightarrow> string \<Rightarrow> int \<Rightarrow> unit job" where
  "makeArchive F D destination binary source stamp =
     jbind (quiet (archive_inputs F binary source)) (\<lambda>inputs.
     jbind (attempt D (CreatedFile destination mode644 [])) (\<lambda>_.
     jbind (quiet (archive_members F inputs stamp (sort (map fst inputs)))) (\<lambda>ms.
       attempt D (PackedArchive destination ms))))"

text \<open>\<open>writeChecksums\<close>: one line per archive and one for the manifest, sorted by name.\<close>

definition checksum_table :: "Target list \<Rightarrow> string \<Rightarrow> (string \<times> string) list" where
  "checksum_table ts digest =
     AList.update ''release.json'' digest (foldl (\<lambda>t x. AList.update (Archive x) (ArchiveSHA256 x) t) [] ts)"

definition checksum_lines :: "(string \<times> string) list \<Rightarrow> string" where
  "checksum_lines table = concat (map (\<lambda>name. (case map_of table name of None \<Rightarrow> [] | Some d \<Rightarrow> d)
     @ ''  '' @ name @ [CHR 0x0A]) (sort (map fst table)))"

definition writeChecksums :: "(string \<Rightarrow> (string \<times> int) res) \<Rightarrow> disk \<Rightarrow> string \<Rightarrow> Target list \<Rightarrow> unit job" where
  "writeChecksums digestFile D directory ts =
     jbind (quiet (digestFile (JoinPath [directory, ''release.json'']))) (\<lambda>(digest, _).
       attempt D (WroteFile (JoinPath [directory, ''SHA256SUMS'']) (checksum_lines (checksum_table ts digest)) mode644))"

end
