(* ===== verification/Release_Run.thy ===== *)
theory Release_Run
  imports Archives
begin

section \<open>Building and publishing\<close>

text \<open>
  \<open>safeOutput\<close>, \<open>checkBuildDestination\<close> and \<open>run\<close> of release.go with \<open>checkToolchain\<close> and \<open>compile\<close> of
  build.go.  The answers of the world come in three stages: before directories are created
  (\<open>view0\<close>), after (\<open>view1\<close>), and when the artifacts are published (\<open>view2\<close>).
\<close>

record view =
  v_files :: files
  v_run :: command

record release_env =
  view0 :: view
  view1 :: view
  view2 :: view
  r_cwd :: "string res"
  r_gomod :: "string \<Rightarrow> string res"
  r_environ :: "string list"
  r_sha :: "string \<Rightarrow> string"
  r_disk :: disk
  r_temp :: string
  r_digest :: "string \<Rightarrow> (string \<times> int) res"
  r_tar :: "tar_header res list res"
  r_ctx :: "unit res"
  r_goos :: string
  r_goarch :: string

subsection \<open>Where artifacts may go\<close>

text \<open>The nearest existing ancestor, with the names below it; None when the fuel runs out.\<close>

fun existing_parent :: "files \<Rightarrow> nat \<Rightarrow> string \<Rightarrow> string list \<Rightarrow> (string \<times> string list) res option" where
  "existing_parent F 0 parent missing = None"
| "existing_parent F (Suc n) parent missing =
     (case lstat F parent of
        Inr _ \<Rightarrow> Some (Inr (parent, missing))
      | Inl NotExist \<Rightarrow> existing_parent F n (Dir parent) (missing @ [Base parent])
      | Inl e \<Rightarrow> Some (Inl e))"

definition git_dir :: "view \<Rightarrow> string list \<Rightarrow> string \<Rightarrow> string \<Rightarrow> string res" where
  "git_dir V environ repo option_name =
     rbind (v_run V repo (gitEnvironment environ) ''git'' [''rev-parse'', option_name]) (\<lambda>body.
       let dir = TrimSpace body in
       real_path (v_files V) (if IsAbs dir then dir else JoinPath [repo, dir]))"

fun check_protected :: "string \<Rightarrow> string list \<Rightarrow> unit res" where
  "check_protected output [] = Inr ()"
| "check_protected output (dir # dirs) =
     rbind (Rel dir output) (\<lambda>rel.
       if leaves rel then check_protected output dirs
       else Inl (Failure ''artifact output must not be inside Git metadata''))"

definition safeOutput :: "view \<Rightarrow> string list \<Rightarrow> string \<Rightarrow> string \<Rightarrow> string res" where
  "safeOutput V environ repo output =
     (case existing_parent (v_files V) (length output + 2) (Dir output) [] of
        None \<Rightarrow> Inl (Failure ''no existing ancestor'')
      | Some (Inl e) \<Rightarrow> Inl e
      | Some (Inr (parent, missing)) \<Rightarrow>
          rbind (real_path (v_files V) parent) (\<lambda>real.
            let resolved = foldl (\<lambda>p name. JoinPath [p, name]) real (rev missing);
                output' = JoinPath [resolved, Base output]
            in rbind (git_dir V environ repo ''--absolute-git-dir'') (\<lambda>dir.
               rbind (git_dir V environ repo ''--git-common-dir'') (\<lambda>common.
               rbind (check_protected output' [JoinPath [repo, ''.git''], dir, common]) (\<lambda>_. Inr output')))))"

definition checkBuildDestination :: "view \<Rightarrow> string list \<Rightarrow> string \<Rightarrow> string \<Rightarrow> unit res" where
  "checkBuildDestination V environ repo path =
     rbind (case lstat (v_files V) path of
              Inr st \<Rightarrow> if fkind st \<noteq> RegularFile
                 then Inl (Failure (''build output must be a regular file, not a symlink or directory: '' @ path))
                 else Inr ()
            | Inl NotExist \<Rightarrow> Inr ()
            | Inl e \<Rightarrow> Inl e) (\<lambda>_.
       case Rel repo path of
         Inl _ \<Rightarrow> Inr ()
       | Inr rel \<Rightarrow>
           if leaves rel then Inr ()
           else rbind (v_run V repo (gitEnvironment environ) ''git'' [''ls-files'', ''--'', '':(literal)'' @ rel]) (\<lambda>body.
             if body \<noteq> [] then Inl (Failure (''refusing to replace tracked source: '' @ path)) else Inr ()))"

definition repositoryRoot :: "release_env \<Rightarrow> string \<Rightarrow> string res" where
  "repositoryRoot E source =
     (let from = (if source = [] then ''.'' else source); V = view0 E in
      case v_run V from (gitEnvironment (r_environ E)) ''git'' [''rev-parse'', ''--show-toplevel''] of
        Inl e \<Rightarrow> Inl (wrapped ''resolve source repository'' e)
      | Inr body \<Rightarrow>
          rbind (real_path (v_files V) (TrimSpace body)) (\<lambda>repo.
            case r_gomod E (JoinPath [repo, ''go.mod'']) of
              Inl _ \<Rightarrow> Inl (Failure ''source must be the cross-session-codex module'')
            | Inr text \<Rightarrow>
                if HasPrefix text (''module '' @ module_path @ [CHR 0x0A]) then Inr repo
                else Inl (Failure ''source must be the cross-session-codex module'')))"

definition checkToolchain :: "view \<Rightarrow> string list \<Rightarrow> string \<Rightarrow> unit res" where
  "checkToolchain V environ dir =
     rbind (v_run V dir (buildEnvironment environ (target_of [] [])) ''go'' [''env'', ''GOVERSION'']) (\<lambda>body.
       if TrimSpace body \<noteq> toolchain
       then Inl (Failure (''release compiler must be '' @ toolchain)) else Inr ())"

definition compile_args :: "string \<Rightarrow> Manifest \<Rightarrow> string list" where
  "compile_args output m =
     (let flag = (\<lambda>name value. '' -X '' @ module_path @ ''/internal/bridge.'' @ name @ ''='' @ value) in
      [''build'', ''-mod=readonly'', ''-trimpath'', ''-buildvcs=false'', ''-ldflags'',
       ''-buildid='' @ flag ''Version'' (MVersion m) @ flag ''BuildCommit'' (SourceCommit m)
         @ flag ''BuildDate'' (BuildDate m),
       ''-o'', output, ''./cmd/cross-session-codex''])"

definition rawName :: "Target \<Rightarrow> string" where
  "rawName t = project_name @ ''-'' @ OS t @ ''-'' @ Arch t"

subsection \<open>Preparing\<close>

definition abs_path :: "release_env \<Rightarrow> string \<Rightarrow> string res" where
  "abs_path E p = (if IsAbs p then Inr (Clean p) else rbind (r_cwd E) (\<lambda>cwd. Inr (JoinPath [cwd, p])))"

definition packaging :: "Options \<Rightarrow> bool" where
  "packaging opts \<longleftrightarrow> \<not> Build opts \<and> \<not> CrossBuild opts"

definition cross_output_ok :: "view \<Rightarrow> Options \<Rightarrow> string \<Rightarrow> unit res" where
  "cross_output_ok V opts output =
     (if CrossBuild opts
      then (case lstat (v_files V) output of
              Inr st \<Rightarrow> if fkind st = SymlinkFile
                then Inl (Failure ''cross-build output directory must not be a symlink'') else Inr ()
            | Inl NotExist \<Rightarrow> Inr ()
            | Inl e \<Rightarrow> Inl e)
      else Inr ())"

definition package_output_free :: "view \<Rightarrow> Options \<Rightarrow> string \<Rightarrow> unit res" where
  "package_output_free V opts output =
     (if packaging opts \<and> lstat (v_files V) output \<noteq> Inl NotExist
      then Inl (Failure (''package output must not exist: '' @ output)) else Inr ())"

definition prepare_release :: "release_env \<Rightarrow> Options \<Rightarrow> (string \<times> sourceState \<times> Manifest \<times> string) res" where
  "prepare_release E opts =
     (if count_if (\<lambda>b. b) [Tag opts \<noteq> [], Snapshot opts, Build opts, CrossBuild opts] \<noteq> 1 \<or> Output opts = []
      then Inl (Failure ''choose exactly one of --tag TAG, --snapshot, --build, --cross-build and supply --out'')
      else if Tag opts \<noteq> [] \<and> \<not> validTag (Tag opts)
      then Inl (Failure ''release tag must be a complete v-prefixed semantic version'')
      else rbind (repositoryRoot E (Source opts)) (\<lambda>repo.
        rbind (inspectSource (r_sha E) (v_run (view0 E)) (r_environ E) repo []) (\<lambda>before.
        rbind (metadata before opts) (\<lambda>manifest.
        rbind (checkToolchain (view0 E) (r_environ E) repo) (\<lambda>_.
        rbind (abs_path E (Output opts)) (\<lambda>output0.
        rbind (cross_output_ok (view0 E) opts (Clean output0)) (\<lambda>_.
        rbind (safeOutput (view0 E) (r_environ E) repo (Clean output0)) (\<lambda>output.
        rbind (package_output_free (view0 E) opts output) (\<lambda>_.
          Inr (repo, before, manifest, output))))))))))"

subsection \<open>Building\<close>

definition compile :: "release_env \<Rightarrow> string \<Rightarrow> string \<Rightarrow> Target \<Rightarrow> Manifest \<Rightarrow> unit job" where
  "compile E from output t m =
     jbind (quiet (v_run (view1 E) from (buildEnvironment (r_environ E) t) ''go'' (compile_args output m))) (\<lambda>_.
       (Inr (), [RanCommand ''go'' (compile_args output m)]))"

definition exportSource :: "release_env \<Rightarrow> string \<Rightarrow> string \<Rightarrow> string \<Rightarrow> unit job" where
  "exportSource E repo destination commit_id =
     (let archive = JoinPath [Dir destination, ''source.tar''];
          args = [''archive'', ''--format=tar'', ''--output='' @ archive, commit_id]
      in jbind (quiet (v_run (view1 E) repo (gitEnvironment (r_environ E)) ''git'' args)) (\<lambda>_.
         jbind (Inr (), [RanCommand ''git'' args]) (\<lambda>_.
         jbind (quiet (r_tar E)) (\<lambda>stream. extractSource (r_disk E) stream destination))))"

definition build_target :: "release_env \<Rightarrow> Options \<Rightarrow> string \<Rightarrow> string \<Rightarrow> string \<Rightarrow> int \<Rightarrow> Manifest \<Rightarrow> Target \<Rightarrow> Target job" where
  "build_target E opts from work artifacts stamp m t =
     (let binary = JoinPath [work, rawName t] in
      jbind (compile E from binary t m) (\<lambda>_.
      jbind (quiet (r_digest E binary)) (\<lambda>(sum, len).
        if \<not> packaging opts then quiet (Inr (t\<lparr>BinarySHA256 := sum, TSize := len\<rparr>))
        else let name = project_name @ ''_'' @ MVersion m @ ''_'' @ OS t @ ''_'' @ Arch t @ ''.tar.gz'';
                 archive = JoinPath [artifacts, name]
             in jbind (makeArchive (v_files (view1 E)) (r_disk E) archive binary from stamp) (\<lambda>_.
                jbind (quiet (r_digest E archive)) (\<lambda>(asum, alen).
                  quiet (Inr (t\<lparr>BinarySHA256 := sum, Archive := name, ArchiveSHA256 := asum, TSize := alen\<rparr>)))))))"

fun build_targets :: "release_env \<Rightarrow> Options \<Rightarrow> string \<Rightarrow> string \<Rightarrow> string \<Rightarrow> int \<Rightarrow> Manifest \<Rightarrow> Target list \<Rightarrow> Manifest job" where
  "build_targets E opts from work artifacts stamp m [] = quiet (Inr m)"
| "build_targets E opts from work artifacts stamp m (t # ts) =
     jbind (build_target E opts from work artifacts stamp m t) (\<lambda>built.
       build_targets E opts from work artifacts stamp (m\<lparr>Targets := Targets m @ [built]\<rparr>) ts)"

definition destination_of :: "Options \<Rightarrow> string \<Rightarrow> Target \<Rightarrow> string" where
  "destination_of opts output t = (if CrossBuild opts then JoinPath [output, rawName t] else output)"

fun check_destinations :: "view \<Rightarrow> string list \<Rightarrow> string \<Rightarrow> string list \<Rightarrow> unit res" where
  "check_destinations V environ repo [] = Inr ()"
| "check_destinations V environ repo (d # ds) =
     rbind (checkBuildDestination V environ repo d) (\<lambda>_. check_destinations V environ repo ds)"

fun replace_artifacts :: "release_env \<Rightarrow> Options \<Rightarrow> string \<Rightarrow> string \<Rightarrow> string \<Rightarrow> Target list \<Rightarrow> unit job" where
  "replace_artifacts E opts repo work output [] = quiet (Inr ())"
| "replace_artifacts E opts repo work output (t # ts) =
     jbind (quiet (checkBuildDestination (view2 E) (r_environ E) repo (destination_of opts output t))) (\<lambda>_.
     jbind (case attempt (r_disk E) (Replaced (JoinPath [work, rawName t]) (destination_of opts output t)) of
              (Inl e, es) \<Rightarrow> (Inl (wrapped ''publish build artifact'' e), es) | j \<Rightarrow> j) (\<lambda>_.
       replace_artifacts E opts repo work output ts))"

definition publish_artifacts :: "release_env \<Rightarrow> Options \<Rightarrow> string \<Rightarrow> string \<Rightarrow> string \<Rightarrow> string \<Rightarrow> Target list \<Rightarrow> unit job" where
  "publish_artifacts E opts repo work artifacts output ts =
     (if packaging opts
      then (case attempt (r_disk E) (PublishedDirectory artifacts output) of
              (Inl e, es) \<Rightarrow> (Inl (wrapped ''publish new output directory'' e), es) | j \<Rightarrow> j)
      else replace_artifacts E opts repo work output ts)"

definition run_targets :: "release_env \<Rightarrow> Options \<Rightarrow> Target list" where
  "run_targets E opts = (if Build opts then [target_of (r_goos E) (r_goarch E)] else releaseTargets)"

definition write_metadata :: "release_env \<Rightarrow> Options \<Rightarrow> string \<Rightarrow> Manifest \<Rightarrow> unit job" where
  "write_metadata E opts artifacts m =
     (if packaging opts
      then jbind (attempt (r_disk E) (WroteManifest (JoinPath [artifacts, ''release.json'']) m)) (\<lambda>_.
             writeChecksums (r_digest E) (r_disk E) artifacts (Targets m))
      else quiet (Inr ()))"

definition source_unchanged :: "release_env \<Rightarrow> string \<Rightarrow> string \<Rightarrow> sourceState \<Rightarrow> unit res" where
  "source_unchanged E repo stage before =
     rbind (inspectSource (r_sha E) (v_run (view2 E)) (r_environ E) repo stage) (\<lambda>after.
       if fingerprint before \<noteq> fingerprint after
       then Inl (Failure ''source state changed while building; no artifacts published'')
       else r_ctx E)"

definition build_stage ::
  "release_env \<Rightarrow> Options \<Rightarrow> string \<Rightarrow> sourceState \<Rightarrow> Manifest \<Rightarrow> string \<Rightarrow> string \<Rightarrow> string \<Rightarrow> Manifest job" where
  "build_stage E opts repo before m work artifacts output =
     (let from = (if IsRelease m then JoinPath [work, ''source''] else repo); ts = run_targets E opts
      in jbind (attempt (r_disk E) (MadeDirectory work mode700)) (\<lambda>_.
         jbind (attempt (r_disk E) (MadeDirectory artifacts mode755)) (\<lambda>_.
         jbind (if IsRelease m then exportSource E repo from (commit before) else quiet (Inr ())) (\<lambda>_.
         jbind (quiet (if packaging opts then Inr ()
                       else check_destinations (view1 E) (r_environ E) repo (map (destination_of opts output) ts))) (\<lambda>_.
         jbind (build_targets E opts from work artifacts (date before) m ts) (\<lambda>m'.
         jbind (write_metadata E opts artifacts m') (\<lambda>_. quiet (Inr m'))))))))"

definition run_staged ::
  "release_env \<Rightarrow> Options \<Rightarrow> string \<Rightarrow> sourceState \<Rightarrow> Manifest \<Rightarrow> string \<Rightarrow> string \<Rightarrow> Manifest job" where
  "run_staged E opts repo before m stage output =
     (let work = JoinPath [stage, ''work'']; artifacts = JoinPath [stage, ''artifacts'']
      in jbind (build_stage E opts repo before m work artifacts output) (\<lambda>m'.
         jbind (quiet (source_unchanged E repo stage before)) (\<lambda>_.
         jbind (publish_artifacts E opts repo work artifacts output (run_targets E opts)) (\<lambda>_.
           quiet (Inr m')))))"

definition run_release :: "release_env \<Rightarrow> Options \<Rightarrow> Manifest job" where
  "run_release E opts =
     jbind (quiet (prepare_release E opts)) (\<lambda>(repo, before, m, output0).
       let parent0 = (if CrossBuild opts then output0 else Dir output0) in
       jbind (attempt (r_disk E) (MadeDirectories parent0 mode755)) (\<lambda>_.
       jbind (quiet (case real_path (v_files (view1 E)) parent0 of
                       Inl e \<Rightarrow> Inl (wrapped ''resolve output parent'' e) | Inr p \<Rightarrow> Inr p)) (\<lambda>parent.
         let output = (if CrossBuild opts then parent else JoinPath [parent, Base output0]);
             stage = JoinPath [parent, ''.csc-release-'' @ r_temp E]
         in jbind (attempt (r_disk E) (MadeDirectory stage mode700)) (\<lambda>_.
              case run_staged E opts repo before m stage output of (r, es) \<Rightarrow> (r, es @ [RemovedTree stage])))))"

end
