(* ===== verification/Release_Paths.thy ===== *)
theory Release_Paths
  imports Release_Run
begin

section \<open>Where releases write\<close>

text \<open>
  What \<open>safeOutput\<close>, \<open>extractSource\<close> and \<open>checkBuildDestination\<close> guarantee about
  the paths they let through.
\<close>

subsection \<open>Unpacking stays inside the destination\<close>

lemma clean_step_rel:
  "clean_parts False (replicate k ''..'') (''..'' # cs) = clean_parts False (replicate (Suc k) ''..'') cs"
  by (cases k) simp_all

lemma clean_relative:
  "\<forall>c \<in> set ns. normal c \<Longrightarrow> \<forall>c \<in> set cs. CHR ''/'' \<notin> set c \<Longrightarrow>
     \<exists>j ms. clean_parts False (ns @ replicate k ''..'') cs = replicate j ''..'' @ ms \<and> (\<forall>c \<in> set ms. normal c)"
proof (induction cs arbitrary: ns k)
  case Nil
  then show ?case by (intro exI [of _ k] exI [of _ "rev ns"]) simp
next
  case (Cons c cs)
  have "c = [] \<or> c = ''.'' \<or> c = ''..'' \<or> normal c" using Cons.prems(2) by (intro normal_cases) simp
  then consider (skip) "c = [] \<or> c = ''.''" | (up) "c = ''..''" | (keep) "normal c" by blast
  then show ?case
  proof cases
    case skip
    show ?thesis unfolding clean_step(1) [OF skip] using Cons.prems by (intro Cons.IH) simp_all
  next
    case up
    show ?thesis
    proof (cases ns)
      case Nil
      then show ?thesis
        using Cons.IH [of "[]" "Suc k"] Cons.prems(2) clean_step_rel [of k cs] by (simp add: up)
    next
      case (Cons a as)
      then have n: "normal a" "\<forall>x \<in> set as. normal x" using Cons.prems(1) by simp_all
      have "clean_parts False (ns @ replicate k ''..'') (c # cs) = clean_parts False (as @ replicate k ''..'') cs"
        using clean_step(3) [OF n(1)] by (simp only: up Cons append_Cons)
      then show ?thesis using Cons.IH [OF n(2)] Cons.prems(2) by simp
    qed
  next
    case keep
    have "clean_parts False (ns @ replicate k ''..'') (c # cs) = clean_parts False ((c # ns) @ replicate k ''..'') cs"
      using clean_step(4) [OF keep] by (simp only: append_Cons)
    then show ?thesis using Cons.IH [of "c # ns" k] Cons.prems keep by simp
  qed
qed

lemma safe_name_normal:
  assumes "\<not> unsafe_name name"
  shows "name \<noteq> []" and "\<forall>c \<in> set (Split name CHR ''/''). normal c"
proof -
  have a: "name \<noteq> []" "name \<noteq> ''.''" "\<not> IsAbs name" "Clean name = name" "name \<noteq> ''..''" "\<not> HasPrefix name ''../''"
    using assms unfolding unsafe_name_def by blast+
  from clean_relative [of "[]" "Split name CHR ''/''" 0] Split_no obtain j ms where
    parts: "clean_parts False [] (Split name CHR ''/'') = replicate j ''..'' @ ms" and n: "\<forall>c \<in> set ms. normal c"
    by auto
  have "Clean name = (if replicate j ''..'' @ ms = [] then ''.'' else Join (replicate j ''..'' @ ms) ''/'')"
    using a(1,3) by (simp add: Clean_def Let_def parts)
  then have ne: "replicate j ''..'' @ ms \<noteq> []" and name: "name = Join (replicate j ''..'' @ ms) ''/''"
    using a(2,4) by (metis, metis)
  have "j = 0"
  proof (rule ccontr)
    assume "j \<noteq> 0"
    then have "leaves name" using leaves_parts [of "replicate j []" ms] name by simp
    then show False using a(5,6) by (simp add: leaves_def)
  qed
  then show "name \<noteq> []" "\<forall>c \<in> set (Split name CHR ''/''). normal c"
    using a(1) ne name n Split_joined [OF n] by simp_all
qed

definition written_path :: "disk_effect \<Rightarrow> string option" where
  "written_path e = (case e of MadeDirectory p _ \<Rightarrow> Some p | MadeDirectories p _ \<Rightarrow> Some p
     | CreatedFile p _ _ \<Rightarrow> Some p | _ \<Rightarrow> None)"

lemma attempt_effects: "set (snd (attempt D e)) \<subseteq> {e}"
  by (auto simp: attempt_def split: sum.splits)

lemma jbind_effects: "set (snd (jbind j f)) \<subseteq> set (snd j) \<union> {e. \<exists>x. fst j = Inr x \<and> e \<in> set (snd (f x))}"
  by (auto simp: jbind_def split: prod.splits sum.splits)

lemma extract_member_inside:
  assumes "IsAbs d" "e \<in> set (snd (extract_member D d h))"
  shows "\<exists>p. written_path e = Some p \<and> IsAbs p \<and> prefix (path_parts d) (path_parts p)"
proof -
  define name where "name = TrimSuffix (tname h) ''/''"
  define out where "out = JoinPath [d, name]"
  have safe: "\<not> unsafe_name name"
    using assms(2) by (auto simp: extract_member_def quiet_def name_def Let_def split: if_splits)
  note n = safe_name_normal [OF safe]
  note j = join_parts [OF assms(1) n(2) refl n(1), folded out_def]
  have "path_parts out \<noteq> []" "Clean out = out" using j Split_nonempty [of name "CHR ''/''"] by simp_all
  note dir = parts_Dir [OF j(2) this(2,1)]
  have "prefix (path_parts d) (path_parts (Dir out))"
    using dir(1) j(1) Split_nonempty [of name "CHR ''/''"] by (simp add: butlast_append)
  moreover have "e = MadeDirectories out mode755 \<or> e = MadeDirectories (Dir out) mode755
      \<or> e = CreatedFile out (if tmode h AND exec_bits \<noteq> 0 then mode755 else mode644) (tbody h)"
    using assms(2) safe by (auto simp: extract_member_def quiet_def name_def [symmetric] out_def [symmetric] Let_def
      dest!: subsetD [OF attempt_effects] subsetD [OF jbind_effects] split: tar_kind.splits if_splits)
  ultimately show ?thesis using dir(2) j by (auto simp: written_path_def)
qed

lemma extract_members_inside:
  "IsAbs d \<Longrightarrow> e \<in> set (snd (extract_members D d hs))
    \<Longrightarrow> \<exists>p. written_path e = Some p \<and> IsAbs p \<and> prefix (path_parts d) (path_parts p)"
proof (induction D d hs rule: extract_members.induct)
  case (3 D d h hs)
  then show ?case using extract_member_inside [OF 3(2), of e D h] by (auto dest!: subsetD [OF jbind_effects])
qed (simp_all add: quiet_def)

text \<open>C34. Unpacking the source of a release never writes outside its destination: whatever names the tar
  stream holds, every directory and file that is created is the destination or lies below it.\<close>

theorem extract_stays_inside:
  assumes "IsAbs destination" and "e \<in> set (snd (extractSource D stream destination))"
  shows "\<exists>p. written_path e = Some p \<and> IsAbs p \<and> prefix (path_parts destination) (path_parts p)"
  using assms extract_members_inside [OF assms(1), of e D stream]
  by (auto simp: extractSource_def written_path_def dest!: subsetD [OF attempt_effects] subsetD [OF jbind_effects])

theorem extract_stays_inside_witness:
  "\<exists>e p. e \<in> set (snd (extractSource (\<lambda>_. Inr ()) [Inr \<lparr>tname = ''a/b'', tkind = TarFile, tmode = 0, tbody = []\<rparr>] ''/s''))
     \<and> e = CreatedFile p mode644 [] \<and> prefix (path_parts ''/s'') (path_parts p)"
proof -
  let ?h = "\<lparr>tname = ''a/b'', tkind = TarFile, tmode = 0, tbody = []\<rparr>"
  have "\<not> unsafe_name ''a/b''" by code_simp
  then have e: "CreatedFile (JoinPath [''/s'', ''a/b'']) mode644 []
      \<in> set (snd (extractSource (\<lambda>_. Inr ()) [Inr ?h] ''/s''))"
    by (simp add: extractSource_def attempt_def jbind_def quiet_def extract_member_def TrimSuffix_def HasSuffix_def suffix_def Let_def)
  from extract_stays_inside [OF _ this] show ?thesis using e by (auto simp: written_path_def)
qed

subsection \<open>Outputs stay out of Git's directories\<close>

lemma existing_parent_found:
  assumes "lstat F ''/'' = Inr st"
  shows "IsAbs p \<Longrightarrow> Clean p = p \<Longrightarrow> length p < n \<Longrightarrow> \<exists>r. existing_parent F n p missing = Some r"
proof (induction n arbitrary: p missing)
  case (Suc n)
  show ?case
  proof (cases "p = ''/''")
    case True
    then show ?thesis using assms by simp
  next
    case False
    have "length (Dir p) < n" using Dir_shorter [OF Suc.prems(1,2) False] Suc.prems(3) by simp
    then have "\<exists>r. existing_parent F n (Dir p) (missing @ [Base p]) = Some r"
      using Suc.IH Dir_abs Suc.prems(1) by blast
    then show ?thesis by (auto split: sum.splits gerr.splits)
  qed
qed simp

lemma existing_parent_abs:
  "existing_parent F n p missing = Some (Inr (q, names)) \<Longrightarrow> IsAbs p \<Longrightarrow> IsAbs q \<and> (\<exists>st. lstat F q = Inr st)"
  by (induction n arbitrary: p missing) (auto simp: Dir_abs split: sum.splits gerr.splits)

lemma check_protected_ok:
  "check_protected out dirs = Inr () \<Longrightarrow> IsAbs out \<Longrightarrow> \<forall>d \<in> set dirs. IsAbs d
    \<Longrightarrow> \<forall>d \<in> set dirs. \<not> prefix (path_parts d) (path_parts out)"
proof (induction dirs)
  case (Cons d dirs)
  obtain rel where r: "Rel d out = Inr rel" "leaves rel \<longleftrightarrow> \<not> prefix (path_parts d) (path_parts out)"
    using Rel_leaves [of d out] Cons.prems by auto
  with Cons show ?case by (auto split: if_splits)
qed simp

lemma git_dir_abs:
  assumes "git_dir V environ repo name = Inr d" "IsAbs repo"
    and "\<And>p q. IsAbs p \<Longrightarrow> real_path (v_files V) p = Inr q \<Longrightarrow> IsAbs q"
  shows "IsAbs d"
  using assms JoinPath_abs [OF assms(2)] by (auto simp: git_dir_def Let_def result_iff split: if_splits)

lemma foldl_JoinPath_abs: "IsAbs p \<Longrightarrow> IsAbs (foldl (\<lambda>p name. JoinPath [p, name]) p names)"
  by (induction names arbitrary: p) (auto simp: JoinPath_abs)

text \<open>C35. The path \<open>safeOutput\<close> lets artifacts be written to lies outside the repository's \<open>.git\<close>, its Git
  directory and the common Git directory of its worktrees, after the links of its existing ancestors
  have been resolved (a resolved absolute path is absolute).\<close>

theorem output_outside_git:
  assumes "IsAbs repo" "IsAbs output"
    and real: "\<And>p q. IsAbs p \<Longrightarrow> real_path (v_files V) p = Inr q \<Longrightarrow> IsAbs q"
    and "safeOutput V environ repo output = Inr out"
  shows "IsAbs out \<and> (\<exists>dir common. git_dir V environ repo ''--absolute-git-dir'' = Inr dir
    \<and> git_dir V environ repo ''--git-common-dir'' = Inr common
    \<and> (\<forall>d \<in> {JoinPath [repo, ''.git''], dir, common}. \<not> prefix (path_parts d) (path_parts out)))"
proof -
  from assms(4) obtain parent missing real_parent dir common where
    p: "existing_parent (v_files V) (length output + 2) (Dir output) [] = Some (Inr (parent, missing))"
    and rp: "real_path (v_files V) parent = Inr real_parent"
    and g: "git_dir V environ repo ''--absolute-git-dir'' = Inr dir" "git_dir V environ repo ''--git-common-dir'' = Inr common"
    and out: "out = JoinPath [foldl (\<lambda>p name. JoinPath [p, name]) real_parent (rev missing), Base output]"
    and c: "check_protected out [JoinPath [repo, ''.git''], dir, common] = Inr ()"
    by (auto simp: safeOutput_def Let_def result_iff split: option.splits sum.splits)
  have "IsAbs real_parent" using existing_parent_abs [OF p] Dir_abs(1) assms(2) real rp by blast
  then have abs: "IsAbs out" using out JoinPath_abs foldl_JoinPath_abs by simp
  have "\<forall>d \<in> set [JoinPath [repo, ''.git''], dir, common]. \<not> prefix (path_parts d) (path_parts out)"
    using git_dir_abs [OF g(1) assms(1) real] git_dir_abs [OF g(2) assms(1) real] JoinPath_abs [OF assms(1)]
    by (intro check_protected_ok [OF c abs]) auto
  then show ?thesis using abs g by auto
qed

text \<open>The search for an existing ancestor ends at the latest at the root directory.\<close>

theorem ancestor_search_ends:
  assumes "IsAbs output" "Clean output = output" and "lstat F ''/'' = Inr st"
  shows "\<exists>r. existing_parent F (length output + 2) (Dir output) missing = Some r"
proof -
  have "length (Dir output) < length output + 2"
    using Dir_shorter [OF assms(1,2)] by (cases "output = ''/''") (simp_all add: Dir_def dir_part_def Clean_def clean_step(1) Join_def)
  then show ?thesis using existing_parent_found [OF assms(3)] Dir_abs assms(1) by blast
qed

definition sample_view :: view where
  "sample_view = \<lparr>v_files = \<lparr>lstat = \<lambda>_. Inr \<lparr>fkind = DirectoryFile, fuid = 0, fperm = 0, fsticky = False, fino = 0, fsize = 0\<rparr>,
      stat = \<lambda>_. Inl NotExist, real_path = Inr, readdir = \<lambda>_. Inr [], json_file = \<lambda>_. Inl NotExist, getuid = 0\<rparr>,
     v_run = \<lambda>_ _ _ _. Inr ''/r/.git''\<rparr>"

lemma sample_release_paths:
  "Dir ''/o/x'' = ''/o''" "Base ''/o/x'' = ''x''" "JoinPath [''/o'', ''x''] = ''/o/x''" "JoinPath [''/r'', ''.git''] = ''/r/.git''"
  "Clean ''/o/x'' = ''/o/x''" "TrimSpace ''/r/.git'' = ''/r/.git''" "Rel ''/r/.git'' ''/o/x'' = Inr ''../../o/x''"
  "leaves ''../../o/x''" "IsAbs ''/r/.git''"
  by code_simp+

lemma sample_output: "safeOutput sample_view [] ''/r'' ''/o/x'' = Inr ''/o/x''"
  unfolding safeOutput_def git_dir_def sample_release_paths
  by (simp add: sample_view_def sample_release_paths)

theorem output_outside_git_witness:
  "safeOutput sample_view [] ''/r'' ''/o/x'' = Inr ''/o/x'' \<and> \<not> prefix (path_parts ''/r/.git'') (path_parts ''/o/x'')"
proof -
  have "IsAbs q" if "IsAbs p" "real_path (v_files sample_view) p = Inr q" for p q
    using that by (simp add: sample_view_def)
  then have "\<exists>dir common. \<forall>d \<in> {JoinPath [''/r'', ''.git''], dir, common}. \<not> prefix (path_parts d) (path_parts ''/o/x'')"
    using output_outside_git [OF _ _ _ sample_output] by auto
  then show ?thesis using sample_output sample_release_paths(4) by auto
qed

theorem ancestor_search_ends_witness:
  "\<exists>r. existing_parent (v_files sample_view) (length ''/o/x'' + 2) (Dir ''/o/x'') [] = Some r"
  using ancestor_search_ends [OF _ sample_release_paths(5), of "v_files sample_view"] by (simp add: sample_view_def)

end
