(* ===== verification/Release_Order.thy ===== *)
theory Release_Order
  imports Release_Paths
begin

section \<open>What a release publishes, and when\<close>

definition publishes :: "disk_effect \<Rightarrow> bool" where
  "publishes e = (case e of PublishedDirectory _ _ \<Rightarrow> True | Replaced _ _ \<Rightarrow> True | _ \<Rightarrow> False)"

definition private_job :: "'a job \<Rightarrow> bool" where
  "private_job j \<longleftrightarrow> (\<forall>e \<in> set (snd j). \<not> publishes e)"

lemma private_base:
  "private_job (quiet r)" "\<not> publishes e \<Longrightarrow> private_job (attempt D e)" "private_job (r, [])"
  "\<not> publishes e \<Longrightarrow> private_job (r, [e])"
  by (auto simp: private_job_def quiet_def attempt_def split: sum.splits)

lemma private_bind:
  assumes "private_job j" "\<And>x. private_job (f x)"
  shows "private_job (jbind j f)"
proof (cases "fst j")
  case (Inl e)
  then show ?thesis using assms(1) by (cases j) (simp add: private_job_def jbind_def)
next
  case (Inr x)
  then show ?thesis using assms(1) assms(2) [of x] by (cases j; cases "f x") (auto simp: private_job_def jbind_def)
qed

lemma private_if: "private_job a \<Longrightarrow> private_job b \<Longrightarrow> private_job (if c then a else b)"
  by simp

lemma private_prod: "(\<And>a b. private_job (f a b)) \<Longrightarrow> private_job (case p of (a, b) \<Rightarrow> f a b)"
  by (cases p) simp

lemmas private_rules = private_base private_bind private_if private_prod

lemma publishes_simps [simp]:
  "\<not> publishes (MadeDirectory p n)" "\<not> publishes (MadeDirectories p n)" "\<not> publishes (CreatedFile p n b)"
  "\<not> publishes (RanCommand c as)" "\<not> publishes (PackedArchive p ms)" "\<not> publishes (WroteManifest p m)"
  "\<not> publishes (WroteFile p b n)" "\<not> publishes (RemovedTree p)"
  "publishes (PublishedDirectory p q)" "publishes (Replaced p q)"
  by (simp_all add: publishes_def)

lemma jbind_iff: "jbind j f = (r, es) \<longleftrightarrow> (\<exists>e. j = (Inl e, es) \<and> r = Inl e)
    \<or> (\<exists>x es1 es2. j = (Inr x, es1) \<and> f x = (r, es2) \<and> es = es1 @ es2)"
proof (cases "fst j")
  case (Inl e)
  then show ?thesis by (cases j) (auto simp: jbind_def)
next
  case (Inr x)
  then show ?thesis by (cases j; cases "f x") (auto simp: jbind_def)
qed

lemma private_extract: "private_job (extractSource D stream d)"
proof -
  have member: "private_job (extract_member D d h)" for D d h
    by (cases "tkind h") (auto simp: extract_member_def Let_def intro!: private_rules)
  have "private_job (extract_members D d hs)" for hs
    by (induction D d hs rule: extract_members.induct) (auto intro!: private_rules member)
  then show ?thesis unfolding extractSource_def by (intro private_rules) simp_all
qed

lemma private_build_targets: "private_job (build_targets E opts from work artifacts stamp m ts)"
proof (induction E opts "from" work artifacts stamp m ts rule: build_targets.induct)
  case (2 E opts "from" work artifacts stamp m t ts)
  have "private_job (build_target E opts from work artifacts stamp m t)"
    unfolding build_target_def compile_def makeArchive_def Let_def by (intro private_rules) simp_all
  then show ?case using 2 by (auto intro!: private_bind)
qed (simp add: private_base)

lemma private_export: "private_job (exportSource E repo d c)"
  unfolding exportSource_def Let_def by (intro private_rules private_extract) simp_all

lemma private_metadata: "private_job (write_metadata E opts artifacts m)"
  unfolding write_metadata_def writeChecksums_def by (intro private_rules) simp_all

text \<open>The commands that compile the targets are among the effects of a successful build.\<close>

lemma compile_args_targets [simp]: "compile_args p (m\<lparr>Targets := ts\<rparr>) = compile_args p m"
  by (simp add: compile_args_def)

lemma build_targets_compiles:
  "build_targets E opts from work artifacts stamp m ts = (Inr m', es) \<Longrightarrow>
     \<forall>t \<in> set ts. RanCommand ''go'' (compile_args (JoinPath [work, rawName t]) m) \<in> set es"
proof (induction E opts "from" work artifacts stamp m ts arbitrary: es rule: build_targets.induct)
  case (2 E opts "from" work artifacts stamp m t ts)
  from 2(2) obtain built es1 es2 where
    b: "build_target E opts from work artifacts stamp m t = (Inr built, es1)"
    and r: "build_targets E opts from work artifacts stamp (m\<lparr>Targets := Targets m @ [built]\<rparr>) ts = (Inr m', es2)"
    and es: "es = es1 @ es2" by (auto simp: jbind_iff)
  from b have "RanCommand ''go'' (compile_args (JoinPath [work, rawName t]) m) \<in> set es1"
    by (auto simp: build_target_def compile_def Let_def jbind_iff quiet_def)
  then show ?case using 2(1) [OF r] es by auto
qed simp

lemma replace_artifacts_checked:
  "replace_artifacts E opts repo work output ts = (r, es) \<Longrightarrow> Replaced p d \<in> set es
    \<Longrightarrow> checkBuildDestination (view2 E) (r_environ E) repo d = Inr ()"
proof (induction ts arbitrary: es)
  case (Cons t ts)
  then show ?case
    by (auto simp: jbind_iff quiet_def attempt_def split: sum.splits)
qed (simp add: quiet_def)

lemma attempt_one: "attempt D e = (r, es) \<Longrightarrow> es = [] \<or> es = [e]"
  by (auto simp: attempt_def split: sum.splits)

lemma replace_artifacts_kind:
  "replace_artifacts E opts repo work output ts = (r, es) \<Longrightarrow> e \<in> set es \<Longrightarrow> \<exists>p d. e = Replaced p d"
proof (induction ts arbitrary: es)
  case (Cons t ts)
  then show ?case by (auto simp: jbind_iff quiet_def attempt_def split: sum.splits)
qed (simp add: quiet_def)

lemma publish_artifacts_checked:
  assumes "publish_artifacts E opts repo work artifacts output ts = (r, es)" "e \<in> set es"
  shows "(e = PublishedDirectory artifacts output \<and> packaging opts)
    \<or> (\<exists>p d. e = Replaced p d \<and> \<not> packaging opts \<and> checkBuildDestination (view2 E) (r_environ E) repo d = Inr ())"
proof (cases "packaging opts")
  case True
  then show ?thesis using assms by (auto simp: publish_artifacts_def attempt_def split: sum.splits)
next
  case False
  then have r: "replace_artifacts E opts repo work output ts = (r, es)" using assms(1) by (simp add: publish_artifacts_def)
  obtain p d where "e = Replaced p d" using replace_artifacts_kind [OF r assms(2)] by blast
  then show ?thesis using replace_artifacts_checked [OF r] assms(2) False by blast
qed

lemma private_es: "private_job j \<Longrightarrow> j = (r, es) \<Longrightarrow> \<forall>e \<in> set es. \<not> publishes e"
  by (simp add: private_job_def)

lemma private_build_stage: "private_job (build_stage E opts repo before m work artifacts output)"
  unfolding build_stage_def Let_def
  by (intro private_rules private_export private_build_targets private_metadata) simp_all

lemma build_stage_compiles:
  assumes "build_stage E opts repo before m work artifacts output = (Inr m', es)" "t \<in> set (run_targets E opts)"
  shows "RanCommand ''go'' (compile_args (JoinPath [work, rawName t]) m) \<in> set es"
proof -
  let ?from = "if IsRelease m then JoinPath [work, ''source''] else repo"
  from assms(1) have "\<exists>m1 es1. build_targets E opts ?from work artifacts (date before) m (run_targets E opts) = (Inr m1, es1)
    \<and> set es1 \<subseteq> set es" unfolding build_stage_def Let_def jbind_iff by fastforce
  with build_targets_compiles assms(2) show ?thesis by blast
qed

lemma run_staged_cases:
  assumes "run_staged E opts repo before m stage output = (r, es)"
  shows "(\<forall>e \<in> set es. \<not> publishes e) \<or>
    (\<exists>pre post r'. es = pre @ post \<and> (\<forall>e \<in> set pre. \<not> publishes e)
      \<and> (\<forall>t \<in> set (run_targets E opts).
           RanCommand ''go'' (compile_args (JoinPath [JoinPath [stage, ''work''], rawName t]) m) \<in> set pre)
      \<and> source_unchanged E repo stage before = Inr ()
      \<and> publish_artifacts E opts repo (JoinPath [stage, ''work'']) (JoinPath [stage, ''artifacts'']) output
          (run_targets E opts) = (r', post))"
proof -
  let ?work = "JoinPath [stage, ''work'']" and ?art = "JoinPath [stage, ''artifacts'']"
  obtain rb eb where b: "build_stage E opts repo before m ?work ?art output = (rb, eb)" by (metis surj_pair)
  have p: "\<forall>e \<in> set eb. \<not> publishes e" using private_es [OF private_build_stage b] .
  show ?thesis
  proof (cases rb)
    case (Inl x)
    then show ?thesis using assms b p by (auto simp: run_staged_def jbind_iff)
  next
    case (Inr m')
    show ?thesis
    proof (cases "source_unchanged E repo stage before")
      case (Inl x)
      then show ?thesis using assms b p Inr by (auto simp: run_staged_def jbind_iff quiet_def)
    next
      case unchanged: (Inr u)
      obtain r' post where post: "publish_artifacts E opts repo ?work ?art output (run_targets E opts) = (r', post)"
        by (metis surj_pair)
      have "es = eb @ post" using assms b Inr unchanged post by (auto simp: run_staged_def jbind_iff quiet_def)
      then show ?thesis using p post unchanged build_stage_compiles [OF b [unfolded Inr]] by auto
    qed
  qed
qed

lemma jbind_quiet [simp]: "jbind (quiet (Inr x)) f = f x" "jbind (quiet (Inl e)) f = (Inl e, [])"
  by (simp_all add: jbind_def quiet_def)

lemma run_release_cases:
  assumes "run_release E opts = (r, es)" and "e \<in> set es" "publishes e"
  shows "\<exists>repo before m output0 stage out es1 es2. prepare_release E opts = Inr (repo, before, m, output0)
    \<and> run_staged E opts repo before m stage out = (r, es2) \<and> es = es1 @ es2 @ [RemovedTree stage]
    \<and> (\<forall>x \<in> set es1. \<not> publishes x)"
proof (cases "prepare_release E opts")
  case (Inl x)
  then show ?thesis using assms by (simp add: run_release_def)
next
  case (Inr q)
  obtain repo before m output0 where q: "q = (repo, before, m, output0)" by (cases q)
  define p0 where "p0 = (if CrossBuild opts then output0 else Dir output0)"
  define stage where "stage parent = JoinPath [parent, ''.csc-release-'' @ r_temp E]" for parent
  define out where "out parent = (if CrossBuild opts then parent else JoinPath [parent, Base output0])" for parent
  define final where "final parent = (case run_staged E opts repo before m (stage parent) (out parent) of
      (r, es) \<Rightarrow> (r, es @ [RemovedTree (stage parent)]))" for parent
  have run: "run_release E opts = jbind (attempt (r_disk E) (MadeDirectories p0 mode755)) (\<lambda>_.
      jbind (quiet (case real_path (v_files (view1 E)) p0 of
                      Inl e \<Rightarrow> Inl (wrapped ''resolve output parent'' e) | Inr p \<Rightarrow> Inr p)) (\<lambda>parent.
        jbind (attempt (r_disk E) (MadeDirectory (stage parent) mode700)) (\<lambda>_. final parent)))"
    using Inr q by (simp add: run_release_def p0_def stage_def out_def final_def Let_def)
  show ?thesis
  proof (cases "r_disk E (MadeDirectories p0 mode755)")
    case (Inl x)
    then show ?thesis using assms run by (simp add: attempt_def jbind_def)
  next
    case made: (Inr u)
    then have first: "attempt (r_disk E) (MadeDirectories p0 mode755) = (Inr (), [MadeDirectories p0 mode755])"
      by (simp add: attempt_def)
    show ?thesis
    proof (cases "real_path (v_files (view1 E)) p0")
      case (Inl x)
      then have "es = [MadeDirectories p0 mode755]" using assms(1) run first by (auto simp: jbind_iff)
      then show ?thesis using assms by auto
    next
      case parent: (Inr parent)
      show ?thesis
      proof (cases "r_disk E (MadeDirectory (stage parent) mode700)")
        case (Inl x)
        then have "es = [MadeDirectories p0 mode755]"
          using assms(1) run first parent by (auto simp: jbind_iff attempt_def)
        then show ?thesis using assms by auto
      next
        case (Inr v)
        obtain r2 es2 where s: "run_staged E opts repo before m (stage parent) (out parent) = (r2, es2)" by (metis surj_pair)
        have "r = r2 \<and> es = [MadeDirectories p0 mode755, MadeDirectory (stage parent) mode700] @ es2 @ [RemovedTree (stage parent)]"
          using assms(1) run first parent Inr s by (auto simp: jbind_iff attempt_def final_def)
        then show ?thesis using s q \<open>prepare_release E opts = Inr q\<close>
          by (intro exI [of _ repo] exI [of _ before] exI [of _ m] exI [of _ output0] exI [of _ "stage parent"]
            exI [of _ "out parent"] exI [of _ "[MadeDirectories p0 mode755, MadeDirectory (stage parent) mode700]"]
            exI [of _ es2]) simp
      qed
    qed
  qed
qed


subsection \<open>A concrete build\<close>

definition build_files :: files where
  "build_files = \<lparr>lstat = \<lambda>p. if p = ''/o/x'' then Inl NotExist
        else Inr \<lparr>fkind = DirectoryFile, fuid = 0, fperm = 0, fsticky = False, fino = 0, fsize = 0\<rparr>,
      stat = \<lambda>_. Inl NotExist, real_path = Inr, readdir = \<lambda>_. Inr [], json_file = \<lambda>_. Inl NotExist, getuid = 0\<rparr>"

definition build_head :: string where
  "build_head = replicate 40 CHR ''a'' @ '' 0''"

definition build_run :: command where
  "build_run dir env name args =
     (if name = ''go'' then Inr toolchain
      else if args = [''rev-parse'', ''--show-toplevel''] then Inr ''/r''
      else if hd args = ''rev-parse'' then Inr ''/r/.git''
      else if hd args = ''show'' then Inr build_head
      else Inr [])"

definition build_view :: view where
  "build_view = \<lparr>v_files = build_files, v_run = build_run\<rparr>"

definition build_env :: release_env where
  "build_env = \<lparr>view0 = build_view, view1 = build_view, view2 = build_view, r_cwd = Inr ''/r'',
     r_gomod = \<lambda>_. Inr (''module '' @ module_path @ [CHR 0x0A]), r_environ = [], r_sha = \<lambda>s. s,
     r_disk = \<lambda>_. Inr (), r_temp = ''1'', r_digest = \<lambda>_. Inr ([], 0), r_tar = Inr [], r_ctx = Inr (),
     r_goos = ''linux'', r_goarch = ''amd64''\<rparr>"

definition build_options :: Options where
  "build_options = \<lparr>Source = ''/r'', Output = ''/o/x'', Tag = [], Snapshot = False, Build = True, CrossBuild = False\<rparr>"

lemma build_texts: "TrimSpace ''/r'' = ''/r''" "TrimSpace toolchain = toolchain" "IsAbs ''/o/x''"
  by (simp_all add: TrimSpace_plain plain_def toolchain_def)

lemma build_rel: "Rel ''/r'' ''/o/x'' = Inr ''../o/x''" "leaves ''../o/x''"
  by code_simp+

lemma build_fields: "Fields build_head = [replicate 40 CHR ''a'', ''0'']"
  by (simp add: build_head_def Fields_def fields_from_simps numeral_eq_Suc plain_def)

lemma build_hex: "hex_string (replicate 40 CHR ''a'')"
  by (simp add: hex_string_def list_all_iff)

lemma build_inspect: "inspect_head build_head = Inr (replicate 40 CHR ''a'', 0)"
  by (simp add: inspect_head_def build_fields build_hex ParseInt_def digits_val.simps digit_val_def)

definition build_source :: sourceState where
  "build_source = \<lparr>commit = replicate 40 CHR ''a'', fingerprint = build_head @ replicate 4 CHR 0x00, date = 0, dirty = False,
     tags = []\<rparr>"

lemma build_inspects: "inspectSource (\<lambda>s. s) build_run [] ''/r'' stage = Inr build_source"
  using build_inspect
  by (simp add: inspectSource_def Let_def build_run_def Fields_def fields_from_simps build_source_def numeral_eq_Suc)

lemma build_metadata: "\<exists>m. metadata build_source build_options = Inr m \<and> \<not> IsRelease m"
  by (simp add: metadata_def Let_def build_options_def build_source_def blank_manifest_def)

lemma build_output: "safeOutput build_view [] ''/r'' ''/o/x'' = Inr ''/o/x''"
  unfolding safeOutput_def git_dir_def sample_release_paths
  by (simp add: build_view_def build_files_def build_run_def sample_release_paths)

lemma build_prepared: "\<exists>m. prepare_release build_env build_options = Inr (''/r'', build_source, m, ''/o/x'') \<and> \<not> IsRelease m"
proof -
  obtain m where m: "metadata build_source build_options = Inr m" "\<not> IsRelease m" using build_metadata by blast
  have root: "repositoryRoot build_env ''/r'' = Inr ''/r''"
    by (simp add: repositoryRoot_def build_env_def build_view_def build_run_def build_files_def build_texts HasPrefix_def)
  have tool: "checkToolchain build_view [] ''/r'' = Inr ()"
    by (simp add: checkToolchain_def build_view_def build_run_def build_texts)
  show ?thesis
    using m root tool build_inspects [of "[]"] build_output
    by (simp add: prepare_release_def build_options_def abs_path_def build_env_def build_view_def build_texts
      sample_release_paths cross_output_ok_def package_output_free_def packaging_def)
qed

lemma build_destination: "checkBuildDestination build_view [] ''/r'' ''/o/x'' = Inr ()"
  by (simp add: checkBuildDestination_def build_view_def build_files_def build_rel)

lemma build_succeeds: "\<exists>m es p. run_release build_env build_options = (Inr m, es) \<and> Replaced p ''/o/x'' \<in> set es"
proof -
  obtain m where m: "prepare_release build_env build_options = Inr (''/r'', build_source, m, ''/o/x'')" and rel: "\<not> IsRelease m"
    using build_prepared by blast
  have done': "attempt (r_disk build_env) e = (Inr (), [e])" for e by (simp add: attempt_def build_env_def)
  have views: "view0 build_env = build_view" "view1 build_env = build_view" "view2 build_env = build_view"
    "r_environ build_env = []" "real_path (v_files build_view) = Inr" "v_run build_view = build_run"
    by (simp_all add: build_env_def build_view_def build_files_def)
  have unchanged: "source_unchanged build_env ''/r'' stage build_source = Inr ()" for stage
    using build_inspects by (simp add: source_unchanged_def views) (simp add: build_env_def)
  have opts: "CrossBuild build_options = False" "packaging build_options = False" "Build build_options"
    by (simp_all add: build_options_def packaging_def)
  have go: "build_run d e ''go'' as = Inr toolchain" for d e as by (simp add: build_run_def)
  have digest: "r_digest build_env p = Inr ([], 0)" for p by (simp add: build_env_def)
  show ?thesis
    by (simp add: run_release_def m Let_def done' views opts sample_release_paths run_staged_def build_stage_def rel
      run_targets_def destination_of_def build_destination build_target_def compile_def go digest write_metadata_def
      unchanged publish_artifacts_def jbind_def quiet_def)
qed


end
