(* ===== verification/Release_Facts.thy ===== *)
theory Release_Facts
  imports Release_Run
begin

section \<open>Versions, environments and archives\<close>

lemma hex_chars:
  assumes "hex_string s" "c \<in> set s" shows "is_digit c \<or> is_letter c"
  using assms by (auto simp: hex_string_def list_all_iff is_letter_def)

lemma snapshot_semver:
  assumes h: "hex_string c" "12 \<le> length c"
    and z: "\<not> (list_all is_digit (take 12 c) \<and> hd c = CHR ''0'')"
  shows "semver (''v0.0.0-snapshot.'' @ take 12 c @ (if b then ''.dirty'' else []))"
proof -
  let ?id = "take 12 c"
  have "build_id ?id" using h hex_chars [OF h(1)] by (auto simp: build_id_def dest: in_set_takeD)
  moreover have "numeric_id ?id" if "list_all is_digit ?id"
    using that z h(2) by (cases c) (auto simp: numeric_id_def)
  ultimately have id: "pre_id ?id" by (auto simp: pre_id_def)
  have words: "pre_id ''snapshot''" "pre_id ''dirty''"
    by (simp_all add: pre_id_def build_id_def is_letter_def is_digit_def)
  let ?ids = "[''snapshot'', ?id] @ (if b then [''dirty''] else [])"
  have "dotted pre_id (Join ?ids ''.'')" unfolding dotted_def
    using id words by (intro exI [of _ ?ids]) auto
  moreover have "''v0.0.0-snapshot.'' @ ?id @ (if b then ''.dirty'' else [])
      = ''v'' @ Join [''0'', ''0'', ''0''] ''.'' @ (CHR ''-'' # Join ?ids ''.'') @ []"
    by (simp add: Join_def)
  moreover have "numeric_id ''0''" by (simp add: numeric_id_def)
  ultimately show ?thesis unfolding semver_def optional_part_def by blast
qed

text \<open>The version stamped into a build comes from Git alone: a release names a valid tag of a clean HEAD, and
  every version is a semantic version, except that of a snapshot whose abbreviated commit happens to
  consist of decimal digits with a leading zero.\<close>

theorem release_version:
  assumes "metadata source opts = Inr m"
    and "\<forall>t \<in> set (tags source). validTag t" and "hex_string (commit source)" and "12 \<le> length (commit source)"
  shows "(IsRelease m \<longrightarrow> Tag opts \<noteq> [] \<and> \<not> dirty source \<and> Tag opts \<in> set (tags source) \<and> MVersion m = Tag opts)
    \<and> (validTag (MVersion m) \<or> MTag m = [] \<and> list_all is_digit (take 12 (commit source)) \<and> hd (commit source) = CHR ''0'')"
proof (cases "Tag opts \<noteq> []")
  case True
  then show ?thesis using assms(1,2) by (auto simp: metadata_def Let_def blank_manifest_def split: if_splits)
next
  case no_tag: False
  show ?thesis
  proof (cases "\<not> Snapshot opts \<and> \<not> dirty source \<and> tags source \<noteq> []")
    case True
    then obtain t ts where "tags source = t # ts" by (cases "tags source") auto
    then show ?thesis using True no_tag assms(1,2)
      by (cases ts) (auto simp: metadata_def Let_def blank_manifest_def)
  next
    case False
    then have v: "MVersion m = ''v0.0.0-snapshot.'' @ take 12 (commit source) @ (if dirty source then ''.dirty'' else [])"
      "MTag m = []" "\<not> IsRelease m"
      using no_tag assms(1) by (auto simp: metadata_def Let_def blank_manifest_def)
    show ?thesis using snapshot_semver [OF assms(3,4), of "dirty source", folded v(1)] v(2,3) unfolding tag_grammar by blast
  qed
qed

theorem release_version_witness:
  "\<exists>m. metadata \<lparr>commit = replicate 40 CHR ''a'', fingerprint = [], date = 0, dirty = False, tags = [''v1.2.3'']\<rparr>
      \<lparr>Source = [], Output = [], Tag = ''v1.2.3'', Snapshot = False, Build = False, CrossBuild = False\<rparr> = Inr m
    \<and> IsRelease m \<and> MVersion m = ''v1.2.3'' \<and> validTag ''v1.2.3''"
proof -
  let ?s = "\<lparr>commit = replicate 40 CHR ''a'', fingerprint = [], date = 0, dirty = False, tags = [''v1.2.3'']\<rparr>"
  let ?o = "\<lparr>Source = [], Output = [], Tag = ''v1.2.3'', Snapshot = False, Build = False, CrossBuild = False\<rparr>"
  obtain m where m: "metadata ?s ?o = Inr m" "IsRelease m" "MTag m = ''v1.2.3''"
    by (simp add: metadata_def Let_def blank_manifest_def)
  have v: "\<forall>t \<in> set (tags ?s). validTag t" by simp code_simp
  have h: "hex_string (commit ?s)" "12 \<le> length (commit ?s)" by (simp_all add: hex_string_def list_all_iff)
  from release_version [OF m(1) v h] m v show ?thesis by auto
qed

text \<open>No setting of the caller's environment reaches the compiler: the variables that select a target,
  a compiler, an experiment or flags are exactly the pinned ones, whatever the environment holds.\<close>

theorem build_environment_pinned:
  "filter (\<lambda>e. ambient_setting (env_key e)) (buildEnvironment environ t)
     = filter (\<lambda>e. ambient_setting (env_key e)) (buildEnvironment [] t)
   \<and> filter (\<lambda>e. HasPrefix (env_key e) ''GIT_'') (gitEnvironment environ)
     = [''GIT_CONFIG_NOSYSTEM=1'', ''GIT_CONFIG_GLOBAL=/dev/null'', ''GIT_NO_REPLACE_OBJECTS=1'', ''GIT_OPTIONAL_LOCKS=0'']"
proof -
  have none: "filter P (filter (\<lambda>x. \<not> P x) xs) = []" for P and xs :: "string list" by (simp add: filter_empty_conv)
  show ?thesis
    by (simp add: buildEnvironment_def gitEnvironment_def none) (simp add: env_key_def Cut_def HasPrefix_def)
qed

text \<open>The exception of \<open>release_version\<close> occurs.\<close>

lemma snapshot_not_semver: "\<not> validTag ''v0.0.0-snapshot.012345678901''"
  by code_simp

subsection \<open>Archives\<close>

definition optional_inputs :: "string list" where
  "optional_inputs = [''LICENSE'', ''LICENSE.md'', ''LICENSE.txt'', ''docs/RELEASING.md'']"

definition required_inputs :: "string list" where
  "required_inputs = [project_name, ''README.md'', ''docs/LAUNCH_HANDSHAKE.md'']"

lemma collect_inputs:
  fixes F :: files and names :: "string list" and al al' :: "(string \<times> string) list"
  assumes "foldl (\<lambda>acc name. rbind acc (\<lambda>inputs. case lstat F (f name) of
        Inr _ \<Rightarrow> Inr (AList.update name (f name) inputs) | Inl NotExist \<Rightarrow> Inr inputs | Inl e \<Rightarrow> Inl e)) (Inr al) names = Inr al'"
    and "distinct (map fst al)"
  shows "distinct (map fst al') \<and> fst ` set al \<subseteq> fst ` set al' \<and> fst ` set al' \<subseteq> fst ` set al \<union> set names"
  using assms
proof (induction names arbitrary: al)
  case (Cons name names)
  have fail: "foldl (\<lambda>acc name. rbind acc (g name)) (Inl e) names = Inl e" for g :: "string \<Rightarrow> (string \<times> string) list \<Rightarrow> (string \<times> string) list res" and e
    by (induction names) auto
  show ?case
  proof (cases "lstat F (f name)")
    case (Inl e)
    then have e: "e = NotExist" using Cons.prems(1) fail by (cases e) auto
    then show ?thesis using Cons.IH [of al] Cons.prems Inl by auto
  next
    case (Inr st)
    have k: "fst ` set (AList.update name (f name) al) = insert name (fst ` set al)" by (simp add: dom_update)
    then show ?thesis using Cons.IH [of "AList.update name (f name) al"] Cons.prems Inr
      by (auto simp: distinct_update)
  qed
qed simp

lemma archive_members_shape:
  "archive_members F inputs stamp names = Inr ms \<Longrightarrow> map mname ms = names
    \<and> (\<forall>x \<in> set ms. mtime x = stamp \<and> mmode x = (if mname x = project_name then mode755 else mode644)
         \<and> map_of inputs (mname x) \<in> {None, Some (mfile x)}
         \<and> (\<exists>st. lstat F (mfile x) = Inr st \<and> fkind st = RegularFile \<and> msize x = fsize st))"
proof (induction names arbitrary: ms)
  case (Cons name names)
  then show ?case by (auto simp: Let_def result_iff split: sum.splits if_splits option.splits)
qed simp

text \<open>An archive is reproducible: its members are the project's binary, README and handshake document and
  whichever of the four optional documents exist, once each and in ascending order, every one a regular
  file stamped with the date of the commit, the binary executable and the others not.\<close>

theorem archive_layout:
  assumes "makeArchive F D destination binary source stamp = (Inr (), es)"
  shows "\<exists>ms. PackedArchive destination ms \<in> set es \<and> sorted (map mname ms) \<and> distinct (map mname ms)
    \<and> set required_inputs \<subseteq> set (map mname ms) \<and> set (map mname ms) \<subseteq> set (required_inputs @ optional_inputs)
    \<and> (\<forall>x \<in> set ms. mtime x = stamp \<and> mmode x = (if mname x = project_name then mode755 else mode644)
         \<and> (\<exists>st. lstat F (mfile x) = Inr st \<and> fkind st = RegularFile \<and> msize x = fsize st))"
proof -
  let ?base = "[(project_name, binary), (''README.md'', JoinPath [source, ''README.md'']),
             (''docs/LAUNCH_HANDSHAKE.md'', JoinPath [source, ''docs'', ''LAUNCH_HANDSHAKE.md''])]"
  from assms obtain inputs ms where i: "archive_inputs F binary source = Inr inputs"
    and m: "archive_members F inputs stamp (sort (map fst inputs)) = Inr ms" and e: "PackedArchive destination ms \<in> set es"
    by (auto simp: makeArchive_def jbind_def quiet_def attempt_def split: sum.splits prod.splits)
  have "distinct (map fst ?base)" by (simp add: project_name_def)
  from collect_inputs [OF i [unfolded archive_inputs_def Let_def] this]
  have k: "distinct (map fst inputs)" "fst ` set ?base \<subseteq> fst ` set inputs"
    "fst ` set inputs \<subseteq> fst ` set ?base \<union> set optional_inputs" by (auto simp: optional_inputs_def)
  have names: "map mname ms = sort (map fst inputs)" using archive_members_shape [OF m] by simp
  then have "set (map mname ms) = fst ` set inputs" by simp
  then show ?thesis using e k names archive_members_shape [OF m]
    by (intro exI [of _ ms]) (auto simp: required_inputs_def)
qed

definition plain_files :: files where
  "plain_files = \<lparr>lstat = \<lambda>_. Inr \<lparr>fkind = RegularFile, fuid = 0, fperm = 0, fsticky = False, fino = 0, fsize = 7\<rparr>,
      stat = \<lambda>_. Inl NotExist, real_path = Inr, readdir = \<lambda>_. Inr [], json_file = \<lambda>_. Inl NotExist, getuid = 0\<rparr>"

lemma plain_members: "\<exists>ms. archive_members plain_files inputs stamp names = Inr ms"
  by (induction names) (auto simp: plain_files_def Let_def)

theorem archive_layout_witness:
  "\<exists>es ms. makeArchive plain_files (\<lambda>_. Inr ()) ''/d'' ''/b'' ''/s'' 0 = (Inr (), es) \<and> PackedArchive ''/d'' ms \<in> set es
     \<and> sorted (map mname ms) \<and> project_name \<in> set (map mname ms)"
proof -
  have "\<exists>inputs. archive_inputs plain_files ''/b'' ''/s'' = Inr inputs"
    by (simp add: archive_inputs_def Let_def plain_files_def)
  then obtain inputs where i: "archive_inputs plain_files ''/b'' ''/s'' = Inr inputs" ..
  obtain ms where "archive_members plain_files inputs 0 (sort (map fst inputs)) = Inr ms" using plain_members by blast
  then have m: "\<exists>es. makeArchive plain_files (\<lambda>_. Inr ()) ''/d'' ''/b'' ''/s'' 0 = (Inr (), es)"
    using i by (simp add: makeArchive_def jbind_def quiet_def attempt_def)
  then obtain es where es: "makeArchive plain_files (\<lambda>_. Inr ()) ''/d'' ''/b'' ''/s'' 0 = (Inr (), es)" ..
  from archive_layout [OF es] show ?thesis using es by (auto simp: required_inputs_def)
qed

lemma update_fresh: "k \<notin> fst ` set al \<Longrightarrow> AList.update k v al = al @ [(k, v)]"
  by (induction al) auto

lemma archive_table:
  assumes "distinct (map Archive ts @ map fst t)"
  shows "foldl (\<lambda>t x. AList.update (Archive x) (ArchiveSHA256 x) t) t ts = t @ map (\<lambda>x. (Archive x, ArchiveSHA256 x)) ts"
  using assms
proof (induction ts arbitrary: t)
  case (Cons x ts)
  then have "AList.update (Archive x) (ArchiveSHA256 x) t = t @ [(Archive x, ArchiveSHA256 x)]"
    by (intro update_fresh) (auto simp: image_iff)
  then show ?case using Cons by auto
qed simp

text \<open>The checksum file names the manifest and every archive once, in ascending order, each with the digest
  recorded for it.\<close>

theorem checksums_complete:
  assumes "distinct (map Archive ts)" and "''release.json'' \<notin> set (map Archive ts)"
    and "digests (JoinPath [directory, ''release.json'']) = Inr (digest, len)"
  shows "\<exists>names. writeChecksums digests (\<lambda>_. Inr ()) directory ts = (Inr (),
      [WroteFile (JoinPath [directory, ''SHA256SUMS''])
        (concat (map (\<lambda>name. the (map_of ((''release.json'', digest) # map (\<lambda>x. (Archive x, ArchiveSHA256 x)) ts) name)
            @ ''  '' @ name @ [CHR 0x0A]) names)) mode644])
    \<and> sorted names \<and> distinct names \<and> set names = insert ''release.json'' (set (map Archive ts))"
proof -
  let ?t = "map (\<lambda>x. (Archive x, ArchiveSHA256 x)) ts"
  have table: "checksum_table ts digest = ?t @ [(''release.json'', digest)]"
    using archive_table [of ts "[]"] assms(1,2) update_fresh [of "''release.json''" ?t digest]
    by (auto simp: checksum_table_def image_iff)
  have names: "set (map fst (checksum_table ts digest)) = insert ''release.json'' (set (map Archive ts))"
    "distinct (map fst (checksum_table ts digest))" using assms(1,2) by (auto simp: table o_def)
  have look: "(case map_of (checksum_table ts digest) name of None \<Rightarrow> [] | Some d \<Rightarrow> d)
      = the (map_of ((''release.json'', digest) # ?t) name)" if "name \<in> set (map fst (checksum_table ts digest))" for name
    using that assms(2) names by (auto simp: table map_add_def map_of_eq_None_iff image_iff split: option.splits)
  have "checksum_lines (checksum_table ts digest) = concat (map (\<lambda>name. the (map_of ((''release.json'', digest) # ?t) name)
      @ ''  '' @ name @ [CHR 0x0A]) (sort (map fst (checksum_table ts digest))))"
    unfolding checksum_lines_def using look by (intro arg_cong [where f = concat] map_cong refl) simp
  then show ?thesis using assms(3) names
    by (intro exI [of _ "sort (map fst (checksum_table ts digest))"])
      (auto simp: writeChecksums_def jbind_def quiet_def attempt_def)
qed

theorem checksums_complete_witness:
  "\<exists>names. writeChecksums (\<lambda>_. Inr (''d'', 1)) (\<lambda>_. Inr ()) ''/a'' [(target_of ''linux'' ''amd64'')\<lparr>Archive := ''x'', ArchiveSHA256 := ''h''\<rparr>]
      = (Inr (), [WroteFile (JoinPath [''/a'', ''SHA256SUMS'']) (concat (map (\<lambda>name.
          the (map_of [(''release.json'', ''d''), (''x'', ''h'')] name) @ ''  '' @ name @ [CHR 0x0A]) names)) mode644])
    \<and> set names = {''release.json'', ''x''}"
  using checksums_complete [of "[(target_of ''linux'' ''amd64'')\<lparr>Archive := ''x'', ArchiveSHA256 := ''h''\<rparr>]"
    "\<lambda>_. Inr (''d'', 1)" "''/a''" "''d''" 1]
  by auto

end
