(* ===== verification/Directories.thy ===== *)
theory Directories
  imports Config Paths
begin

section \<open>Private directories, lock files and socket directories\<close>

text \<open>
  \<open>privateDir\<close> and \<open>chooseSocketDir\<close> of protocol.go, \<open>ownedDirectory\<close> of install.go, the lock files of
  appserver_start.go and lifecycle.go.  The files are looked at twice, before and after a call that may create
  something; \<open>F\<close> is the file system before, \<open>F'\<close> the one after.
\<close>

text \<open>The nearest ancestor that exists.  \<open>filepath.Dir\<close> is its own fixed point at the end of the path, where
  \<open>privateDir\<close> gives up; \<open>None\<close> when the fuel runs out.\<close>

fun existing_ancestor :: "files \<Rightarrow> nat \<Rightarrow> string \<Rightarrow> string res option" where
  "existing_ancestor F 0 ancestor = None"
| "existing_ancestor F (Suc n) ancestor =
     (case lstat F ancestor of
        Inr _ \<Rightarrow> Some (Inr ancestor)
      | Inl NotExist \<Rightarrow>
          if Dir ancestor = ancestor then Some (Inl NotExist) else existing_ancestor F n (Dir ancestor)
      | Inl e \<Rightarrow> Some (Inl e))"

text \<open>\<open>mkdirs\<close> is the answer of \<open>os.MkdirAll\<close>.\<close>

definition privateDir :: "files \<Rightarrow> (string \<Rightarrow> unit res) \<Rightarrow> files \<Rightarrow> string \<Rightarrow> unit res" where
  "privateDir F mkdirs F' path =
     (case existing_ancestor F (length path + 2) path of
        None \<Rightarrow> Inl (Failure ''the search for an ancestor does not end'')
      | Some (Inl e) \<Rightarrow> Inl e
      | Some (Inr ancestor) \<Rightarrow>
          rbind (vetParents F ancestor) (\<lambda>_.
          rbind (mkdirs path) (\<lambda>_.
          rbind (vetParents F' path) (\<lambda>_.
          rbind (owned F' path DirectoryFile True) (\<lambda>_. Inr ())))))"

text \<open>The installer's variant has no test for the end of the path.\<close>

fun installed_ancestor :: "files \<Rightarrow> nat \<Rightarrow> string \<Rightarrow> string res option" where
  "installed_ancestor F 0 ancestor = None"
| "installed_ancestor F (Suc n) ancestor =
     (case lstat F ancestor of
        Inr _ \<Rightarrow> Some (Inr ancestor)
      | Inl NotExist \<Rightarrow> installed_ancestor F n (Dir ancestor)
      | Inl e \<Rightarrow> Some (Inl e))"

definition ownedDirectory :: "files \<Rightarrow> (string \<Rightarrow> unit res) \<Rightarrow> files \<Rightarrow> string \<Rightarrow> unit res" where
  "ownedDirectory F mkdirs F' path =
     (case installed_ancestor F (length path + 2) path of
        None \<Rightarrow> Inl (Failure ''the search for an ancestor does not end'')
      | Some (Inl e) \<Rightarrow> Inl e
      | Some (Inr ancestor) \<Rightarrow>
          rbind (vetParents F ancestor) (\<lambda>_.
          rbind (mkdirs path) (\<lambda>_.
          rbind (vetParents F' path) (\<lambda>_.
          rbind (owned F' path DirectoryFile False) (\<lambda>_. Inr ())))))"

subsection \<open>Socket directories\<close>

definition socket_dirs :: "string \<Rightarrow> nat \<Rightarrow> string list" where
  "socket_dirs runtime_dir uid =
     [JoinPath [if runtime_dir = [] then ''/tmp'' else runtime_dir, ''cc-socks''],
      ''/tmp/cc-socks-'' @ Itoa (int uid)]"

text \<open>\<open>mk\<close> is the outcome of \<open>privateDir\<close> for a path.\<close>

fun first_socket_dir :: "(string \<Rightarrow> unit res) \<Rightarrow> string list \<Rightarrow> string res" where
  "first_socket_dir mk [] = Inl (Failure ''no safe Claude-compatible socket directory'')"
| "first_socket_dir mk (p # ps) =
     (if socketDirRE p \<and> is_ok (mk p) then Inr p else first_socket_dir mk ps)"

definition chooseSocketDir :: "(string \<Rightarrow> unit res) \<Rightarrow> string \<Rightarrow> nat \<Rightarrow> string res" where
  "chooseSocketDir mk runtime_dir uid = first_socket_dir mk (socket_dirs runtime_dir uid)"

definition worker_socket :: "string \<Rightarrow> int \<Rightarrow> string" where
  "worker_socket sockets pid = JoinPath [sockets, Itoa pid @ ''.sock'']"

definition worker_control :: "string \<Rightarrow> int \<Rightarrow> string" where
  "worker_control sockets pid = JoinPath [sockets, Itoa pid @ ''.control.sock'']"

subsection \<open>Files opened for appending and locks\<close>

text \<open>A file that exists has to be the user's own and private; \<open>opened\<close> is the answer of \<open>open\<close> with
  \<open>O_NOFOLLOW\<close>.\<close>

definition private_file :: "files \<Rightarrow> string \<Rightarrow> unit res" where
  "private_file F path =
     (case lstat F path of
        Inr _ \<Rightarrow> rbind (owned F path RegularFile True) (\<lambda>_. Inr ())
      | Inl NotExist \<Rightarrow> Inr ()
      | Inl e \<Rightarrow> Inl e)"

definition openAppServerFile :: "files \<Rightarrow> unit res \<Rightarrow> string \<Rightarrow> unit res" where
  "openAppServerFile F opened path = rbind (private_file F path) (\<lambda>_. opened)"

text \<open>One attempt to take the lock of the app-server: it is taken, held by another process, or fails; between
  two attempts the context may end.\<close>

datatype lock_event = Locked | WouldBlock | LockFails gerr | ContextDone gerr

fun lock_loop :: "lock_event list \<Rightarrow> unit res option" where
  "lock_loop [] = None"
| "lock_loop (Locked # _) = Some (Inr ())"
| "lock_loop (WouldBlock # evs) = lock_loop evs"
| "lock_loop (LockFails e # _) = Some (Inl e)"
| "lock_loop (ContextDone e # _) = Some (Inl e)"

definition lockAppServer ::
  "files \<Rightarrow> (string \<Rightarrow> unit res) \<Rightarrow> files \<Rightarrow> unit res \<Rightarrow> lock_event list \<Rightarrow> string \<Rightarrow> unit res option" where
  "lockAppServer F mkdirs F' opened evs socket =
     (let dir = Dir socket in
      case rbind (privateDir F mkdirs F' dir) (\<lambda>_.
             openAppServerFile F' opened (JoinPath [dir, ''cross-session-codex-start.lock''])) of
        Inl e \<Rightarrow> Some (Inl e)
      | Inr _ \<Rightarrow> lock_loop evs)"

definition lockPeerNames :: "files \<Rightarrow> unit res \<Rightarrow> unit res \<Rightarrow> string \<Rightarrow> unit res" where
  "lockPeerNames F opened locked registry =
     rbind (openAppServerFile F opened (JoinPath [registry, ''.cross-session-codex-names.lock''])) (\<lambda>_. locked)"

end
