(* ===== verification/App_Start.thy ===== *)
theory App_Start
  imports Launch Directories
begin

section \<open>Starting the shared app-server\<close>

text \<open>
  \<open>ensureAppServerLocked\<close> and \<open>ensureAppServer\<close> of appserver_start.go.  A probe is \<open>dialApp\<close> with a deadline of one second:
  it answers with the process that serves the socket.  The record \<open>server_site\<close> holds the answers of the
  system; \<open>sv_events\<close> is what the select of the waiting loop receives.
\<close>

datatype server_event = ServerExited string | StartCancelled gerr | ServerProbed "int res"

record server_site =
  sv_probe :: "int res"
  sv_files :: files
  sv_openlog :: "unit res"
  sv_spawn :: "int res"
  sv_events :: "server_event list"
  sv_start :: "int \<Rightarrow> string res"
  sv_save :: "appServerRecord \<Rightarrow> unit res"

datatype server_effect =
    SpawnedServer int string "string list" string
  | KilledServer int
  | RecordedServer appServerRecord
  | ClosedClient int

text \<open>The child answers on the socket: its identity is recorded, unless another process serves the socket.\<close>

definition record_server :: "server_site \<Rightarrow> string \<Rightarrow> int \<Rightarrow> int \<Rightarrow> int res \<times> server_effect list" where
  "record_server V socket child served =
     (let recorded = rbind (sv_start V child) (\<lambda>start.
            if served \<noteq> child then Inl (Failure ''app-server socket belongs to a different process'')
            else let r = \<lparr>RPID = child, RStart = start, RSocket = socket\<rparr> in rbind (sv_save V r) (\<lambda>_. Inr r))
      in case recorded of
           Inl e \<Rightarrow> (Inl (wrapped ''record app-server identity'' e), [ClosedClient served])
         | Inr r \<Rightarrow> (Inr served, [RecordedServer r]))"

fun wait_server :: "server_site \<Rightarrow> string \<Rightarrow> string \<Rightarrow> int \<Rightarrow> server_event list \<Rightarrow> (int res \<times> server_effect list) option" where
  "wait_server V socket logPath child [] = None"
| "wait_server V socket logPath child (ev # evs) =
     (case ev of
        ServerExited t \<Rightarrow> Some (Inl (Failure (''codex app-server exited ('' @ t @ ''); see '' @ logPath)), [])
      | StartCancelled e \<Rightarrow> Some (Inl (wrapped ''codex app-server startup'' e), [KilledServer child])
      | ServerProbed (Inl _) \<Rightarrow> wait_server V socket logPath child evs
      | ServerProbed (Inr served) \<Rightarrow> Some (record_server V socket child served))"

definition ensureAppServerLocked ::
  "server_site \<Rightarrow> string \<Rightarrow> string \<Rightarrow> string \<Rightarrow> (int res \<times> server_effect list) option" where
  "ensureAppServerLocked V codex socket cwd =
     (let dir = Dir socket; logPath = JoinPath [dir, ''cross-session-codex.log''];
          args = [''app-server'', ''--listen'', ''unix://'' @ socket] in
      case sv_probe V of
        Inr served \<Rightarrow> Some (Inr served, [])
      | Inl e \<Rightarrow>
          if e \<noteq> NotExist \<and> e \<noteq> ConnRefused then Some (Inl e, [])
          else (case openAppServerFile (sv_files V) (sv_openlog V) logPath of
            Inl e1 \<Rightarrow> Some (Inl e1, [])
          | Inr _ \<Rightarrow>
              (case sv_spawn V of
                 Inl e2 \<Rightarrow> Some (Inl (wrapped ''start Codex app-server'' e2), [])
               | Inr child \<Rightarrow>
                   map_option (\<lambda>(r, es). (r, SpawnedServer child codex args cwd # es))
                     (wait_server V socket logPath child (sv_events V)))))"

text \<open>Under the lock: \<open>lock\<close> is the outcome of \<open>lockAppServer\<close>.\<close>

definition ensureAppServer ::
  "server_site \<Rightarrow> unit res option \<Rightarrow> string \<Rightarrow> string \<Rightarrow> string \<Rightarrow> (int res \<times> server_effect list) option" where
  "ensureAppServer V lock codex socket cwd =
     (case lock of
        None \<Rightarrow> None
      | Some (Inl e) \<Rightarrow> Some (Inl e, [])
      | Some (Inr _) \<Rightarrow> ensureAppServerLocked V codex socket cwd)"

subsection \<open>At most one server\<close>

lemma wait_server_cases:
  assumes "wait_server V socket logPath child evs = Some (r, es)"
  shows "(\<exists>e. r = Inl e \<and> (es = [] \<or> es = [KilledServer child] \<or> (\<exists>p. es = [ClosedClient p])))
    \<or> (\<exists>start. r = Inr child \<and> sv_start V child = Inr start
        \<and> sv_save V \<lparr>RPID = child, RStart = start, RSocket = socket\<rparr> = Inr ()
        \<and> es = [RecordedServer \<lparr>RPID = child, RStart = start, RSocket = socket\<rparr>])"
  using assms
  by (induction evs)
    (auto simp: record_server_def Let_def result_iff split: server_event.splits sum.splits if_splits)

text \<open>C17. A server is started only when nothing answers on the socket because it is missing or refuses the
  connection: an answering server is used as it is, and any other failure starts nothing.  At most one
  process is started; the call succeeds only with the process it found or with the one it started, which
  then serves the socket itself and whose identity was recorded for the shutdown; a cancelled start kills
  it.\<close>

theorem one_server:
  assumes "ensureAppServerLocked V codex socket cwd = Some (r, es)"
  shows "case sv_probe V of
      Inr served \<Rightarrow> r = Inr served \<and> es = []
    | Inl e \<Rightarrow> (e \<noteq> NotExist \<and> e \<noteq> ConnRefused \<longrightarrow> r = Inl e \<and> es = [])
        \<and> (es = [] \<longrightarrow> \<not> is_ok r)
        \<and> (es \<noteq> [] \<longrightarrow> (\<exists>child rest. sv_spawn V = Inr child
            \<and> es = SpawnedServer child codex [''app-server'', ''--listen'', ''unix://'' @ socket] cwd # rest
            \<and> (if is_ok r then r = Inr child \<and> (\<exists>start. sv_start V child = Inr start
                 \<and> rest = [RecordedServer \<lparr>RPID = child, RStart = start, RSocket = socket\<rparr>])
               else rest = [] \<or> rest = [KilledServer child] \<or> (\<exists>p. rest = [ClosedClient p]))))"
proof (cases "sv_probe V")
  case (Inr served)
  have "r = Inr served \<and> es = []" using assms unfolding ensureAppServerLocked_def Inr Let_def by simp
  then show ?thesis unfolding Inr by simp
next
  case (Inl e)
  show ?thesis
  proof (cases "e \<noteq> NotExist \<and> e \<noteq> ConnRefused")
    case True
    then have "r = Inl e \<and> es = []" using assms unfolding ensureAppServerLocked_def Inl Let_def by auto
    then show ?thesis unfolding Inl by simp
  next
    case False
    show ?thesis
    proof (cases "rbind (openAppServerFile (sv_files V) (sv_openlog V) (JoinPath [Dir socket, ''cross-session-codex.log''])) (\<lambda>_. sv_spawn V)")
      case (Inl e1)
      then have "\<not> is_ok r \<and> es = []" using assms False \<open>sv_probe V = Inl e\<close>
        by (auto simp: ensureAppServerLocked_def Let_def rbind_def split: sum.splits)
      then show ?thesis using False \<open>sv_probe V = Inl e\<close> by auto
    next
      case (Inr child)
      then have s: "sv_spawn V = Inr child" by (simp add: rbind_Inr)
      with assms False \<open>sv_probe V = Inl e\<close> Inr obtain rest where
        w: "wait_server V socket (JoinPath [Dir socket, ''cross-session-codex.log'']) child (sv_events V) = Some (r, rest)"
        and es: "es = SpawnedServer child codex [''app-server'', ''--listen'', ''unix://'' @ socket] cwd # rest"
        by (auto simp: ensureAppServerLocked_def Let_def rbind_Inr)
      show ?thesis using wait_server_cases [OF w] False \<open>sv_probe V = Inl e\<close> s es by auto
    qed
  qed
qed


definition starting :: "int \<Rightarrow> server_event list \<Rightarrow> server_site" where
  "starting served evs = \<lparr>sv_probe = Inl ConnRefused,
     sv_files = \<lparr>lstat = (\<lambda>_. Inl NotExist), stat = (\<lambda>_. Inl NotExist), real_path = Inr, readdir = (\<lambda>_. Inr []),
        json_file = (\<lambda>_. Inl NotExist), getuid = 1\<rparr>,
     sv_openlog = Inr (), sv_spawn = Inr 12, sv_events = evs @ [ServerProbed (Inr served)], sv_start = (\<lambda>_. Inr ''5''),
     sv_save = (\<lambda>_. Inr ())\<rparr>"

theorem one_server_witness:
  "\<exists>es. ensureAppServerLocked (starting 12 [ServerProbed (Inl ConnRefused)]) ''/codex'' ''/s/x.sock'' ''/w'' = Some (Inr 12, es)
     \<and> (\<exists>r. last es = RecordedServer r \<and> RPID r = 12)"
proof -
  obtain es where e: "ensureAppServerLocked (starting 12 [ServerProbed (Inl ConnRefused)]) ''/codex'' ''/s/x.sock'' ''/w'' = Some (Inr 12, es)"
    and "es \<noteq> []"
    by (simp add: ensureAppServerLocked_def starting_def openAppServerFile_def private_file_def record_server_def)
  with one_server [OF e] show ?thesis by (auto simp: starting_def)
qed

end
