(* ===== verification/Flags.thy ===== *)
theory Flags
  imports Values
begin

section \<open>Command-line options\<close>

text \<open>
  Go's \<open>flag\<close> package as cli.go and the release helper use it: flag sets of strings, switches, integers
  and floats, \<open>FlagSet.Parse\<close>, and \<open>parseFlags\<close> of cli.go, which moves the options before the positional
  arguments.  \<open>strconv.ParseFloat\<close> is the argument \<open>pf\<close>.
\<close>

datatype go_float = Finite rat | NotANumber | Infinite bool

datatype flag_kind = StringFlag | BoolFlag | IntFlag | FloatFlag

datatype flag_value = TextValue string | SwitchValue bool | IntValue int | FloatValue go_float

type_synonym flag_defs = "(string \<times> flag_kind) list"
type_synonym settings = "(string \<times> flag_value) list"

text \<open>Help was asked for (\<open>flag.ErrHelp\<close>), or an error.\<close>

datatype cli_stop = HelpShown | CliError gerr

type_synonym 'a cli = "cli_stop + 'a"

definition refuse :: "string \<Rightarrow> 'a cli" where
  "refuse text = Inl (CliError (Failure text))"

subsection \<open>Values\<close>

definition ParseBool :: "string \<Rightarrow> bool option" where
  "ParseBool s =
     (if s \<in> {''1'', ''t'', ''T'', ''TRUE'', ''true'', ''True''} then Some True
      else if s \<in> {''0'', ''f'', ''F'', ''FALSE'', ''false'', ''False''} then Some False else None)"

text \<open>\<open>strconv.ParseInt(s, 0, 64)\<close>: a sign, a prefix that names the base, and underscores between digits.\<close>

definition base_prefix :: "string \<Rightarrow> (nat \<times> string) option" where
  "base_prefix s =
     (if 2 \<le> length s \<and> hd s = CHR ''0'' then
        (if s ! 1 \<in> {CHR ''b'', CHR ''B''} then Some (2, drop 2 s)
         else if s ! 1 \<in> {CHR ''o'', CHR ''O''} then Some (8, drop 2 s)
         else if s ! 1 \<in> {CHR ''x'', CHR ''X''} then Some (16, drop 2 s) else None)
      else None)"

text \<open>\<open>underscoreOK\<close>: \<open>last\<close> is whether the last character was a digit, an underscore, or something else.\<close>

datatype seen = SeenDigit | SeenUnderscore | SeenOther

fun underscores_ok :: "bool \<Rightarrow> seen \<Rightarrow> string \<Rightarrow> bool" where
  "underscores_ok hex before [] = (before \<noteq> SeenUnderscore)"
| "underscores_ok hex before (c # cs) =
     (if is_digit c \<or> hex \<and> (case digit_val c of None \<Rightarrow> False | Some d \<Rightarrow> 10 \<le> d \<and> d < 16) then underscores_ok hex SeenDigit cs
      else if c = CHR ''_'' then before = SeenDigit \<and> underscores_ok hex SeenUnderscore cs
      else before \<noteq> SeenUnderscore \<and> underscores_ok hex SeenOther cs)"

definition underscoreOK :: "string \<Rightarrow> bool" where
  "underscoreOK s =
     (case base_prefix s of
        None \<Rightarrow> underscores_ok False SeenOther s
      | Some (base, rest) \<Rightarrow> underscores_ok (base = 16) SeenDigit rest)"

definition digits_base0 :: "string \<Rightarrow> nat option" where
  "digits_base0 s =
     (if s = [] then None
      else let (base, ds) = (case base_prefix s of
                 Some (b, rest) \<Rightarrow> if rest = [] then (8, tl s) else (b, rest)
               | None \<Rightarrow> if hd s = CHR ''0'' then (8, tl s) else (10, s))
           in if CHR ''_'' \<in> set ds \<and> \<not> underscoreOK s then None
              else digits_val base 0 (removeAll (CHR ''_'') ds))"

definition ParseInt0 :: "string \<Rightarrow> int option" where
  "ParseInt0 s =
     (let neg = (s \<noteq> [] \<and> hd s = CHR ''-'');
          body = (if s \<noteq> [] \<and> (hd s = CHR ''-'' \<or> hd s = CHR ''+'') then tl s else s)
      in case digits_base0 body of
           None \<Rightarrow> None
         | Some n \<Rightarrow>
             if neg then (if n \<le> 2 ^ 63 then Some (- int n) else None)
             else (if n < 2 ^ 63 then Some (int n) else None))"

definition read_flag :: "(string \<Rightarrow> go_float option) \<Rightarrow> flag_kind \<Rightarrow> string \<Rightarrow> flag_value option" where
  "read_flag pf kind s =
     (case kind of
        StringFlag \<Rightarrow> Some (TextValue s)
      | BoolFlag \<Rightarrow> map_option SwitchValue (ParseBool s)
      | IntFlag \<Rightarrow> map_option IntValue (ParseInt0 s)
      | FloatFlag \<Rightarrow> map_option FloatValue (pf s))"

subsection \<open>The parser of the flag package\<close>

text \<open>The name and the value after an equals sign, which cannot be the first character.\<close>

definition split_flag :: "string \<Rightarrow> string \<times> string option" where
  "split_flag s = (case Cut (tl s) (CHR ''='') of (before, after, found) \<Rightarrow> (hd s # before, if found then Some after else None))"

definition strip_dashes :: "string \<Rightarrow> string" where
  "strip_dashes s = (if s ! 1 = CHR ''-'' then drop 2 s else drop 1 s)"

text \<open>\<open>FlagSet.Parse\<close>: the assignments, the latest of a name counting, and the arguments that are left.  What
  it prints about an error goes to the error stream.\<close>

fun flag_Parse :: "(string \<Rightarrow> go_float option) \<Rightarrow> flag_defs \<Rightarrow> string list \<Rightarrow> settings \<Rightarrow> (settings \<times> string list) cli" where
  "flag_Parse pf defs [] st = Inr (st, [])"
| "flag_Parse pf defs (s # args) st =
     (if length s < 2 \<or> hd s \<noteq> CHR ''-'' then Inr (st, s # args)
      else if s = ''--'' then Inr (st, args)
      else if strip_dashes s = [] \<or> hd (strip_dashes s) = CHR ''-'' \<or> hd (strip_dashes s) = CHR ''=''
      then refuse (''bad flag syntax: '' @ s)
      else (case split_flag (strip_dashes s) of (name, value) \<Rightarrow>
        (case map_of defs name of
           None \<Rightarrow> if name = ''help'' \<or> name = ''h'' then Inl HelpShown
                   else refuse (''flag provided but not defined: -'' @ name)
         | Some kind \<Rightarrow>
             if kind = BoolFlag then
               (case read_flag pf kind (case value of None \<Rightarrow> ''true'' | Some v \<Rightarrow> v) of
                  None \<Rightarrow> refuse (''invalid boolean value for -'' @ name)
                | Some x \<Rightarrow> flag_Parse pf defs args (AList.update name x st))
             else (case value of
                 Some v \<Rightarrow>
                   (case read_flag pf kind v of
                      None \<Rightarrow> refuse (''invalid value for flag -'' @ name)
                    | Some x \<Rightarrow> flag_Parse pf defs args (AList.update name x st))
               | None \<Rightarrow>
                   (case args of
                      [] \<Rightarrow> refuse (''flag needs an argument: -'' @ name)
                    | v # args' \<Rightarrow>
                        (case read_flag pf kind v of
                           None \<Rightarrow> refuse (''invalid value for flag -'' @ name)
                         | Some x \<Rightarrow> flag_Parse pf defs args' (AList.update name x st)))))))"

subsection \<open>Options after positional arguments\<close>

definition option_name :: "string \<Rightarrow> string" where
  "option_name arg = TrimLeft (fst (Cut arg (CHR ''=''))) ''-''"

text \<open>The loop of \<open>parseFlags\<close>: the options with their values, and the positional arguments.\<close>

fun split_args :: "flag_defs \<Rightarrow> string list \<Rightarrow> string list \<times> string list" where
  "split_args defs [] = ([], [])"
| "split_args defs (arg # args) =
     (if arg = ''--'' then ([], args)
      else if \<not> HasPrefix arg ''-'' \<or> arg = ''-'' then
        (case split_args defs args of (options, positionals) \<Rightarrow> (options, arg # positionals))
      else if Contains arg ''='' \<or> map_of defs (option_name arg) \<in> {None, Some BoolFlag} then
        (case split_args defs args of (options, positionals) \<Rightarrow> (arg # options, positionals))
      else (case args of
          [] \<Rightarrow> ([arg], [])
        | v # args' \<Rightarrow>
            (case split_args defs args' of (options, positionals) \<Rightarrow> (arg # v # options, positionals))))"

definition parseFlags :: "(string \<Rightarrow> go_float option) \<Rightarrow> flag_defs \<Rightarrow> string list \<Rightarrow> (settings \<times> string list) cli" where
  "parseFlags pf defs args =
     (case split_args defs args of (options, positionals) \<Rightarrow> flag_Parse pf defs ((options @ [''--'']) @ positionals) [])"

subsection \<open>Reading the settings\<close>

text \<open>The variable of an option holds its default until the option is assigned.\<close>

definition flag_text :: "settings \<Rightarrow> string \<Rightarrow> string \<Rightarrow> string" where
  "flag_text st name fallback = (case map_of st name of Some (TextValue s) \<Rightarrow> s | _ \<Rightarrow> fallback)"

definition flag_switch :: "settings \<Rightarrow> string \<Rightarrow> bool" where
  "flag_switch st name = (map_of st name = Some (SwitchValue True))"

end
