(* ===== verification/Artifacts.thy ===== *)
theory Artifacts
  imports Worker Directories
begin

section \<open>The files of a worker\<close>

text \<open>
  \<open>RunWorker\<close>, \<open>listen\<close>, \<open>writeArtifact\<close> and \<open>cleanup\<close> of worker.go, \<open>atomicJSON\<close> of protocol.go.  Here the file system
  is a state: a map from paths to nodes with an inode each, so that \<open>os.SameFile\<close> is the comparison of
  inodes.  A system call that fails does nothing; which ones fail, and with what, is the argument \<open>x\<close> of an
  operation, by the number of the call.  An operation runs without interference; other processes act between
  operations.
\<close>

record node =
  nstat :: fstat
  nvalue :: "gval option"

record disk_state =
  nodes :: "string \<Rightarrow> node option"
  next_inode :: nat

type_synonym faults = "nat \<Rightarrow> string option"

definition syscall :: "faults \<Rightarrow> nat \<Rightarrow> 'a res \<Rightarrow> 'a res" where
  "syscall x i r = (case x i of None \<Rightarrow> r | Some e \<Rightarrow> Inl (Failure e))"

definition Lstat :: "disk_state \<Rightarrow> string \<Rightarrow> fstat res" where
  "Lstat d path = (case nodes d path of None \<Rightarrow> Inl NotExist | Some n \<Rightarrow> Inr (nstat n))"

definition remove :: "string \<Rightarrow> disk_state \<Rightarrow> disk_state" where
  "remove path d = d\<lparr>nodes := (nodes d)(path := None)\<rparr>"

text \<open>A new file with an inode that nothing has.\<close>

definition create :: "fkind \<Rightarrow> nat \<Rightarrow> nat \<Rightarrow> gval option \<Rightarrow> string \<Rightarrow> disk_state \<Rightarrow> disk_state" where
  "create k uid mode v path d =
     d\<lparr>nodes := (nodes d)(path \<mapsto> \<lparr>nstat = \<lparr>fkind = k, fuid = uid, fperm = mode, fsticky = False,
         fino = next_inode d, fsize = 0\<rparr>, nvalue = v\<rparr>), next_inode := next_inode d + 1\<rparr>"

definition set_mode :: "nat \<Rightarrow> string \<Rightarrow> disk_state \<Rightarrow> disk_state" where
  "set_mode mode path d =
     d\<lparr>nodes := (nodes d)(path := map_option (\<lambda>n. n\<lparr>nstat := (nstat n)\<lparr>fperm := mode\<rparr>\<rparr>) (nodes d path))\<rparr>"

definition set_value :: "gval \<Rightarrow> string \<Rightarrow> disk_state \<Rightarrow> disk_state" where
  "set_value v path d =
     d\<lparr>nodes := (nodes d)(path := map_option (\<lambda>n. n\<lparr>nvalue := Some v\<rparr>) (nodes d path))\<rparr>"

definition rename :: "string \<Rightarrow> string \<Rightarrow> disk_state \<Rightarrow> disk_state" where
  "rename old new d = d\<lparr>nodes := ((nodes d)(new := nodes d old))(old := None)\<rparr>"

text \<open>Rename fails where the new name is a directory.\<close>

definition is_directory :: "string \<Rightarrow> disk_state \<Rightarrow> bool" where
  "is_directory path d = (case nodes d path of None \<Rightarrow> False | Some n \<Rightarrow> fkind (nstat n) = DirectoryFile)"

text \<open>\<open>atomicJSON\<close>: \<open>tmp\<close> is the unused name that \<open>CreateTemp\<close> found, with mode 0600.  The deferred
  \<open>Remove\<close> of that name runs on every path after it was created.\<close>

definition atomicJSON ::
  "faults \<Rightarrow> nat \<Rightarrow> nat \<Rightarrow> string \<Rightarrow> string \<Rightarrow> gval \<Rightarrow> nat \<Rightarrow> disk_state \<Rightarrow> unit res \<times> disk_state" where
  "atomicJSON x i uid tmp path v mode d =
     (case syscall x i (if nodes d tmp \<noteq> None then Inl (Failure ''file exists'') else Inr ()) of
        Inl e \<Rightarrow> (Inl e, d)
      | Inr _ \<Rightarrow>
        (let d1 = create RegularFile uid 384 None tmp d in
         case syscall x (i + 1) (Inr ()) of Inl e \<Rightarrow> (Inl e, remove tmp d1)
       | Inr _ \<Rightarrow>
        (let d2 = set_mode mode tmp d1 in
         case syscall x (i + 2) (Inr ()) of Inl e \<Rightarrow> (Inl e, remove tmp d2)
       | Inr _ \<Rightarrow>
        (let d3 = set_value v tmp d2 in
         case rbind (syscall x (i + 3) (Inr ())) (\<lambda>_. rbind (syscall x (i + 4) (Inr ())) (\<lambda>_.
                syscall x (i + 5) (if is_directory path d3 then Inl (Failure ''file exists'') else Inr ()))) of
           Inl e \<Rightarrow> (Inl e, remove tmp d3)
         | Inr _ \<Rightarrow> (Inr (), remove tmp (rename tmp path d3))))))"

subsection \<open>Tracked files\<close>

text \<open>\<open>artifacts\<close> is the map of the worker; \<open>made\<close> holds the inodes its operations created.  The code has no
  such set: it is what the statements about other people's files refer to.\<close>

record keeper =
  disk :: disk_state
  artifacts :: "(string \<times> fstat) list"
  made :: "nat set"

definition SameFile :: "fstat \<Rightarrow> fstat \<Rightarrow> bool" where
  "SameFile a b = (fino a = fino b)"

definition listen :: "faults \<Rightarrow> nat \<Rightarrow> string \<Rightarrow> keeper \<Rightarrow> unit res \<times> keeper" where
  "listen x uid path k =
     (case syscall x 0 (Lstat (disk k) path) of
        Inr _ \<Rightarrow> (Inl (Failure (''refusing to replace socket: '' @ path)), k)
      | Inl NotExist \<Rightarrow>
         (case syscall x 1 (if nodes (disk k) path \<noteq> None then Inl (Failure ''address already in use'') else Inr ()) of
            Inl e \<Rightarrow> (Inl e, k)
          | Inr _ \<Rightarrow>
            (let k1 = k\<lparr>disk := create SocketFile uid 448 None path (disk k),
                        made := insert (next_inode (disk k)) (made k)\<rparr> in
             case syscall x 2 (Inr ()) of
               Inl e \<Rightarrow> (Inl e, k1\<lparr>disk := remove path (disk k1)\<rparr>)
             | Inr _ \<Rightarrow>
               (let k2 = k1\<lparr>disk := set_mode 384 path (disk k1)\<rparr> in
                case syscall x 3 (Lstat (disk k2) path) of
                  Inl e \<Rightarrow> (Inl e, k2)
                | Inr st \<Rightarrow> (Inr (), k2\<lparr>artifacts := AList.update path st (artifacts k2)\<rparr>))))
      | Inl e \<Rightarrow> (Inl e, k))"

text \<open>Whether \<open>writeArtifact\<close> may write: a tracked path still holds the tracked file, any other path is
  free.\<close>

definition may_write :: "fstat option \<Rightarrow> fstat res \<Rightarrow> string \<Rightarrow> unit res" where
  "may_write tracked found path =
     (case tracked of
        Some old \<Rightarrow> (case found of
            Inr st \<Rightarrow> if SameFile old st then Inr () else Inl (Failure (''worker artifact changed: '' @ path))
          | Inl _ \<Rightarrow> Inl (Failure (''worker artifact changed: '' @ path)))
      | None \<Rightarrow> (case found of
            Inr _ \<Rightarrow> Inl (Failure (''refusing to replace existing artifact: '' @ path))
          | Inl NotExist \<Rightarrow> Inr ()
          | Inl e \<Rightarrow> Inl e))"

definition writeArtifact :: "faults \<Rightarrow> nat \<Rightarrow> string \<Rightarrow> string \<Rightarrow> gval \<Rightarrow> nat \<Rightarrow> keeper \<Rightarrow> unit res \<times> keeper" where
  "writeArtifact x uid tmp path v mode k =
     (case may_write (map_of (artifacts k) path) (syscall x 0 (Lstat (disk k) path)) path of
        Inl e \<Rightarrow> (Inl e, k)
      | Inr _ \<Rightarrow>
        (case atomicJSON x 1 uid tmp path v mode (disk k) of
           (r, d) \<Rightarrow>
             (let k1 = k\<lparr>disk := d, made := made k \<union> {next_inode (disk k)..<next_inode d}\<rparr> in
              case r of
                Inl e \<Rightarrow> (Inl e, k1)
              | Inr _ \<Rightarrow>
                (case syscall x 7 (Lstat d path) of
                   Inl e \<Rightarrow> (Inl e, k1)
                 | Inr st \<Rightarrow> (Inr (), k1\<lparr>artifacts := AList.update path st (artifacts k1)\<rparr>)))))"

text \<open>\<open>cleanup\<close> visits the map in some order; \<open>x\<close> fails the \<open>Lstat\<close> or the \<open>Remove\<close> of an entry.\<close>

definition clean_one :: "(string \<Rightarrow> bool) \<Rightarrow> (string \<Rightarrow> bool) \<Rightarrow> string \<times> fstat \<Rightarrow> disk_state \<Rightarrow> disk_state" where
  "clean_one no_lstat no_remove p d =
     (case Lstat d (fst p) of
        Inl _ \<Rightarrow> d
      | Inr st \<Rightarrow> if \<not> no_lstat (fst p) \<and> SameFile (snd p) st \<and> \<not> no_remove (fst p) then remove (fst p) d else d)"

definition cleanup :: "(string \<Rightarrow> bool) \<Rightarrow> (string \<Rightarrow> bool) \<Rightarrow> keeper \<Rightarrow> keeper" where
  "cleanup no_lstat no_remove k =
     k\<lparr>disk := fold (clean_one no_lstat no_remove) (artifacts k) (disk k)\<rparr>"

end
