(* ===== verification/Install.thy ===== *)
theory Install
  imports Artifacts Control
begin

section \<open>Installation\<close>

text \<open>
  install.go on the file system of Artifacts: the text of a file is kept as a \<open>GStr\<close>, and so is the path
  a symbolic link names.  Every step may fail (\<open>n_faults\<close>, by the number of the step); the names of temporary
  files, the answers about the own program and the embedded documents are fields of \<open>install_env\<close>.
\<close>

record InstallOptions =
  iPrefix :: string
  iBinDir :: string
  iSkillDir :: string
  iNoSkill :: bool

record install_env =
  n_codex :: bool
  n_wd :: "string res"
  n_base :: files
  n_faults :: "nat \<Rightarrow> faults"
  n_tmp :: "nat \<Rightarrow> string"
  n_lock :: "unit res"
  n_exe :: "string res"
  n_binary :: "string \<Rightarrow> string res"
  n_readme :: string
  n_messaging :: string
  n_sha :: "string \<Rightarrow> string"
  n_stage :: string
  n_order :: "string list"
  n_version :: string

definition launcherMarker :: string where
  "launcherMarker = ''# Managed by cross-session-codex installer.''"

definition skillMarker :: string where
  "skillMarker = ''<!-- Managed by cross-session-codex installer. -->''"

subsection \<open>Steps on the file system\<close>

definition dbind :: "'a res \<times> disk_state \<Rightarrow> ('a \<Rightarrow> disk_state \<Rightarrow> 'b res \<times> disk_state) \<Rightarrow> 'b res \<times> disk_state" where
  "dbind m f = (case m of (Inl e, d) \<Rightarrow> (Inl e, d) | (Inr a, d) \<Rightarrow> f a d)"

definition ask :: "'a res \<Rightarrow> disk_state \<Rightarrow> 'a res \<times> disk_state" where
  "ask r d = (r, d)"

definition seen_by :: "install_env \<Rightarrow> disk_state \<Rightarrow> files" where
  "seen_by E d = (n_base E)\<lparr>lstat := Lstat d\<rparr>"

definition file_text :: "disk_state \<Rightarrow> string \<Rightarrow> string" where
  "file_text d path =
     (case nodes d path of Some n \<Rightarrow> (case nvalue n of Some (GStr s) \<Rightarrow> s | _ \<Rightarrow> []) | None \<Rightarrow> [])"

definition ReadFile :: "faults \<Rightarrow> disk_state \<Rightarrow> string \<Rightarrow> string res" where
  "ReadFile x d path = syscall x 0 (case nodes d path of None \<Rightarrow> Inl NotExist | Some _ \<Rightarrow> Inr (file_text d path))"

text \<open>\<open>os.MkdirAll\<close>: the path and every ancestor that is missing.\<close>

definition path_prefixes :: "string \<Rightarrow> string list" where
  "path_prefixes path = map (\<lambda>i. take i path) (filter (\<lambda>i. path ! i = CHR ''/'') [1..<length path]) @ [path]"

definition make_dir :: "nat \<Rightarrow> string \<Rightarrow> disk_state \<Rightarrow> disk_state" where
  "make_dir uid p d = (if nodes d p = None then create DirectoryFile uid 493 None p d else d)"

definition blocks_dir :: "files \<Rightarrow> disk_state \<Rightarrow> string \<Rightarrow> bool" where
  "blocks_dir F d p =
     (case nodes d p of None \<Rightarrow> False
      | Some n \<Rightarrow> fkind (nstat n) \<noteq> DirectoryFile \<and> \<not> (fkind (nstat n) = SymlinkFile \<and> is_ok (stat F p)))"

definition MkdirAll :: "install_env \<Rightarrow> nat \<Rightarrow> string \<Rightarrow> disk_state \<Rightarrow> unit res \<times> disk_state" where
  "MkdirAll E i path d =
     (case syscall (n_faults E i) 0 (if list_ex (blocks_dir (n_base E) d) (path_prefixes path)
             then Inl (Failure ''not a directory'') else Inr ()) of
        Inl e \<Rightarrow> (Inl e, d)
      | Inr _ \<Rightarrow> (Inr (), fold (make_dir (getuid (n_base E))) (path_prefixes path) d))"

text \<open>\<open>ownedDirectory\<close> with the directories it makes.\<close>

definition own_directory :: "install_env \<Rightarrow> nat \<Rightarrow> string \<Rightarrow> disk_state \<Rightarrow> unit res \<times> disk_state" where
  "own_directory E i path d =
     (let F = seen_by E d;
          asked = (case installed_ancestor F (length path + 2) path of Some (Inr a) \<Rightarrow> is_ok (vetParents F a) | _ \<Rightarrow> False)
      in case (if asked then MkdirAll E i path d else (Inr (), d)) of
           (r, d1) \<Rightarrow> (ownedDirectory F (\<lambda>_. r) (seen_by E d1) path, d1))"

definition below :: "string \<Rightarrow> string \<Rightarrow> bool" where
  "below p q \<longleftrightarrow> q = p \<or> prefix (p @ ''/'') q"

text \<open>\<open>os.RemoveAll\<close>, and \<open>os.Rename\<close> of a directory to a path where nothing is.\<close>

definition remove_all :: "string \<Rightarrow> disk_state \<Rightarrow> disk_state" where
  "remove_all p d = d\<lparr>nodes := (\<lambda>q. if below p q then None else nodes d q)\<rparr>"

definition move_tree :: "string \<Rightarrow> string \<Rightarrow> disk_state \<Rightarrow> disk_state" where
  "move_tree old new d =
     d\<lparr>nodes := (\<lambda>q. if below new q then nodes d (old @ drop (length new) q) else if below old q then None else nodes d q)\<rparr>"

text \<open>\<open>replaceFile\<close> makes the calls of \<open>atomicJSON\<close>, with the bytes it is given.\<close>

definition replaceFile :: "install_env \<Rightarrow> nat \<Rightarrow> string \<Rightarrow> string \<Rightarrow> nat \<Rightarrow> disk_state \<Rightarrow> unit res \<times> disk_state" where
  "replaceFile E i path text mode d =
     atomicJSON (n_faults E i) 0 (getuid (n_base E)) (n_tmp E i) path (GStr text) mode d"

subsection \<open>What the installer checks before it changes anything\<close>

definition ensureManaged :: "install_env \<Rightarrow> nat \<Rightarrow> disk_state \<Rightarrow> string \<Rightarrow> string \<Rightarrow> unit res" where
  "ensureManaged E i d path marker =
     (case Lstat d path of
        Inl NotExist \<Rightarrow> Inr ()
      | Inl e \<Rightarrow> Inl e
      | Inr _ \<Rightarrow>
          rbind (owned (seen_by E d) path RegularFile False) (\<lambda>_.
          rbind (ReadFile (n_faults E i) d path) (\<lambda>b.
            if Contains b marker then Inr () else Inl (Failure (''refusing to overwrite unrelated file: '' @ path)))))"

definition absolute :: "string res \<Rightarrow> string \<Rightarrow> string res" where
  "absolute wd p = (if IsAbs p then Inr (Clean p) else rbind wd (\<lambda>cwd. Inr (JoinPath [cwd, p])))"

definition resolve_options :: "install_env \<Rightarrow> InstallOptions \<Rightarrow> InstallOptions res" where
  "resolve_options E opts =
     (if \<not> n_codex E then Inl (Failure ''codex CLI must be installed and on PATH'')
      else rbind (absolute (n_wd E) (iPrefix opts)) (\<lambda>p.
           rbind (absolute (n_wd E) (iBinDir opts)) (\<lambda>b.
           rbind (absolute (n_wd E) (iSkillDir opts)) (\<lambda>s.
             Inr (opts\<lparr>iPrefix := p, iBinDir := b, iSkillDir := s\<rparr>)))))"

definition launcher_path :: "InstallOptions \<Rightarrow> string" where
  "launcher_path opts = JoinPath [iBinDir opts, ''cross-session-codex'']"

definition skill_path :: "InstallOptions \<Rightarrow> string" where
  "skill_path opts = JoinPath [iSkillDir opts, ''SKILL.md'']"

definition current_path :: "InstallOptions \<Rightarrow> string" where
  "current_path opts = JoinPath [iPrefix opts, ''current'']"

definition releases_path :: "InstallOptions \<Rightarrow> string" where
  "releases_path opts = JoinPath [iPrefix opts, ''releases'']"

definition current_ok :: "install_env \<Rightarrow> InstallOptions \<Rightarrow> disk_state \<Rightarrow> unit res" where
  "current_ok E opts d =
     (case Lstat d (current_path opts) of
        Inl NotExist \<Rightarrow> Inr ()
      | Inl e \<Rightarrow> Inl e
      | Inr st \<Rightarrow>
          if fkind st \<noteq> SymlinkFile then Inl (Failure (''refusing to replace unrelated install path: '' @ current_path opts))
          else rbind (real_path (n_base E) (current_path opts)) (\<lambda>resolved.
            case Rel (releases_path opts) resolved of
              Inl _ \<Rightarrow> Inl (Failure ''current install link points outside managed releases'')
            | Inr rel \<Rightarrow> if leaves rel then Inl (Failure ''current install link points outside managed releases'') else Inr ()))"

definition check_install :: "install_env \<Rightarrow> InstallOptions \<Rightarrow> disk_state \<Rightarrow> unit res" where
  "check_install E opts d =
     rbind (ensureManaged E 1 d (launcher_path opts) launcherMarker) (\<lambda>_.
     rbind (if iNoSkill opts then Inr () else ensureManaged E 2 d (skill_path opts) skillMarker) (\<lambda>_.
       current_ok E opts d))"

subsection \<open>The release\<close>

definition release_files :: "install_env \<Rightarrow> string \<Rightarrow> (string \<times> string) list" where
  "release_files E binary = [(''cross-session-codex'', binary), (''README.md'', n_readme E), (''SKILL.md'', n_messaging E)]"

definition release_id :: "install_env \<Rightarrow> string \<Rightarrow> string" where
  "release_id E binary =
     take 20 (n_sha E (concat (map (\<lambda>(name, data). name @ [CHR 0x00] @ data @ [CHR 0x00]) (release_files E binary))))"

fun put_files :: "install_env \<Rightarrow> nat \<Rightarrow> string \<Rightarrow> (string \<times> string) list \<Rightarrow> disk_state \<Rightarrow> unit res \<times> disk_state" where
  "put_files E i dir [] d = (Inr (), d)"
| "put_files E i dir ((name, data) # fs) d =
     dbind (replaceFile E i (JoinPath [dir, name]) data (if name = ''cross-session-codex'' then 493 else 420) d)
       (\<lambda>_. put_files E (i + 1) dir fs)"

text \<open>The order in which Go visits the map of files.\<close>

definition in_order :: "install_env \<Rightarrow> (string \<times> string) list \<Rightarrow> (string \<times> string) list" where
  "in_order E fs = map (\<lambda>name. (name, the (map_of fs name))) (filter (\<lambda>name. map_of fs name \<noteq> None) (remdups (n_order E @ map fst fs)))"

text \<open>A new release is written to a stage beside it, which is removed again on any error.\<close>

definition stage_release :: "install_env \<Rightarrow> string \<Rightarrow> string \<Rightarrow> (string \<times> string) list \<Rightarrow> disk_state \<Rightarrow> unit res \<times> disk_state" where
  "stage_release E releases release fs d =
     (let stage = JoinPath [releases, n_stage E] in
      case syscall (n_faults E 7) 0 (if nodes d stage \<noteq> None then Inl (Failure ''file exists'') else Inr ()) of
        Inl e \<Rightarrow> (Inl e, d)
      | Inr _ \<Rightarrow>
        (case dbind (put_files E 8 stage (in_order E fs) (create DirectoryFile (getuid (n_base E)) 448 None stage d))
                (\<lambda>_ d1. case syscall (n_faults E 7) 1 (Inr ()) of
                   Inl e \<Rightarrow> (Inl e, d1) | Inr _ \<Rightarrow> (Inr (), move_tree stage release d1)) of
           (Inl e, d2) \<Rightarrow> (Inl e, remove_all stage d2)
         | (Inr _, d2) \<Rightarrow> (Inr (), remove_all stage d2)))"

fun same_files :: "install_env \<Rightarrow> nat \<Rightarrow> string \<Rightarrow> (string \<times> string) list \<Rightarrow> disk_state \<Rightarrow> unit res" where
  "same_files E i release [] d = Inr ()"
| "same_files E i release ((name, data) # fs) d =
     (let p = JoinPath [release, name] in
      rbind (owned (seen_by E d) p RegularFile False) (\<lambda>_.
      rbind (ReadFile (n_faults E i) d p) (\<lambda>b.
        if b \<noteq> data then Inl (Failure (''installed release was modified: '' @ p)) else same_files E (i + 1) release fs d)))"

definition place_release :: "install_env \<Rightarrow> string \<Rightarrow> string \<Rightarrow> (string \<times> string) list \<Rightarrow> disk_state \<Rightarrow> unit res \<times> disk_state" where
  "place_release E releases release fs d =
     (case syscall (n_faults E 6) 0 (Lstat d release) of
        Inl NotExist \<Rightarrow> stage_release E releases release fs d
      | Inl e \<Rightarrow> (Inl e, d)
      | Inr _ \<Rightarrow>
          (rbind (owned (seen_by E d) release DirectoryFile False) (\<lambda>_. same_files E 8 release (in_order E fs) d), d))"

text \<open>The link is made under another name and renamed; that name is gone afterwards.\<close>

definition link_path :: "InstallOptions \<Rightarrow> string \<Rightarrow> string" where
  "link_path opts tag = JoinPath [iPrefix opts, ''.current-'' @ tag]"

definition switch_current :: "install_env \<Rightarrow> InstallOptions \<Rightarrow> string \<Rightarrow> disk_state \<Rightarrow> unit res \<times> disk_state" where
  "switch_current E opts tag d =
     (let link = link_path opts tag in
      case syscall (n_faults E 11) 0 (if nodes d link \<noteq> None then Inl (Failure ''file exists'') else Inr ()) of
        Inl e \<Rightarrow> (Inl e, d)
      | Inr _ \<Rightarrow>
        (let d1 = create SymlinkFile (getuid (n_base E)) 511 (Some (GStr (JoinPath [''releases'', tag]))) link d in
         case syscall (n_faults E 11) 1 (if is_directory (current_path opts) d1 then Inl (Failure ''file exists'') else Inr ()) of
           Inl e \<Rightarrow> (Inl e, remove link d1)
         | Inr _ \<Rightarrow> (Inr (), remove link (rename link (current_path opts) d1))))"

subsection \<open>The launcher and the skill\<close>

definition launcher_text :: "InstallOptions \<Rightarrow> string" where
  "launcher_text opts =
     ''#!/bin/sh'' @ [newline] @ launcherMarker @ [newline] @ ''exec ''
       @ shellQuote (JoinPath [current_path opts, ''cross-session-codex'']) @ '' '' @ [quote] @ ''$@'' @ [quote] @ [newline]"

text \<open>\<open>strings.Replace\<close> of the first occurrence.\<close>

fun replace_first :: "string \<Rightarrow> string \<Rightarrow> string \<Rightarrow> string" where
  "replace_first [] old new = []"
| "replace_first (c # cs) old new =
     (if prefix old (c # cs) then new @ drop (length old) (c # cs) else c # replace_first cs old new)"

definition skill_text :: "install_env \<Rightarrow> InstallOptions \<Rightarrow> string" where
  "skill_text E opts =
     replace_first (n_messaging E) (''name: messaging'' @ [newline]) (''name: cross-session-messaging'' @ [newline])
       @ [newline] @ skillMarker @ [newline, newline] @ ''The installed CLI is `'' @ shellQuote (launcher_path opts)
       @ ''`. Use this absolute path from the user'' @ [CHR 0x27] @ ''s project if the command is not on PATH.'' @ [newline]"

definition write_skill :: "install_env \<Rightarrow> InstallOptions \<Rightarrow> disk_state \<Rightarrow> unit res \<times> disk_state" where
  "write_skill E opts d =
     (if iNoSkill opts then (Inr (), d)
      else dbind (own_directory E 13 (iSkillDir opts) d)
             (\<lambda>_. replaceFile E 14 (skill_path opts) (skill_text E opts) 420))"

definition install_report :: "install_env \<Rightarrow> InstallOptions \<Rightarrow> string \<Rightarrow> obj" where
  "install_report E opts release =
     [(''command'', GStr (launcher_path opts)), (''release'', GStr release), (''skill'', GStr (iSkillDir opts)),
      (''version'', GStr (n_version E)), (''launch'', GStr (shellQuote (launcher_path opts) @ '' launch'')),
      (''note'', GStr (''Existing workers keep their code until restarted. Launch Codex from your project directory; ''
         @ ''no Python, tmux or source checkout is needed at runtime.''))]"

subsection \<open>The whole installation\<close>

definition lock_path :: "InstallOptions \<Rightarrow> string" where
  "lock_path opts = JoinPath [iPrefix opts, ''install.lock'']"

definition take_lock :: "install_env \<Rightarrow> InstallOptions \<Rightarrow> disk_state \<Rightarrow> unit res \<times> disk_state" where
  "take_lock E opts d =
     (case rbind (private_file (seen_by E d) (lock_path opts)) (\<lambda>_. syscall (n_faults E 5) 0 (Inr ())) of
        Inl e \<Rightarrow> (Inl e, d)
      | Inr _ \<Rightarrow> (n_lock E, if nodes d (lock_path opts) = None
                         then create RegularFile (getuid (n_base E)) 384 None (lock_path opts) d else d))"

definition install_release :: "install_env \<Rightarrow> InstallOptions \<Rightarrow> disk_state \<Rightarrow> obj res \<times> disk_state" where
  "install_release E opts d =
     dbind (ask (rbind (n_exe E) (n_binary E)) d) (\<lambda>binary d.
       let fs = release_files E binary; tag = release_id E binary; release = JoinPath [releases_path opts, tag] in
       dbind (place_release E (releases_path opts) release fs d) (\<lambda>_ d.
       dbind (switch_current E opts tag d) (\<lambda>_ d.
       dbind (replaceFile E 12 (launcher_path opts) (launcher_text opts) 493 d) (\<lambda>_ d.
       dbind (write_skill E opts d) (\<lambda>_ d. (Inr (install_report E opts release), d))))))"

definition Install :: "install_env \<Rightarrow> InstallOptions \<Rightarrow> disk_state \<Rightarrow> obj res \<times> disk_state" where
  "Install E opts0 d =
     dbind (ask (rbind (resolve_options E opts0) (\<lambda>opts. rbind (check_install E opts d) (\<lambda>_. Inr opts))) d) (\<lambda>opts d.
     dbind (own_directory E 2 (iPrefix opts) d) (\<lambda>_ d.
     dbind (own_directory E 3 (releases_path opts) d) (\<lambda>_ d.
     dbind (own_directory E 4 (iBinDir opts) d) (\<lambda>_ d.
     dbind (take_lock E opts d) (\<lambda>_ d. install_release E opts d)))))"

end
