(* ===== verification/Command_Line.thy ===== *)
theory Command_Line
  imports Flags Install Launch Mcp
begin

section \<open>The command line\<close>

text \<open>
  cli.go: \<open>runCLI\<close> as a function from the arguments to the action they stand for, and \<open>Main\<close>, which performs
  it and reports its result.  The record \<open>cli_env\<close> holds the environment variables, the defaults, the standard
  input and the files that are read.
\<close>

record cli_env =
  c_lib :: lib
  c_float :: "string \<Rightarrow> go_float option"
  c_thread :: string
  c_session :: string
  c_socket :: string
  c_version :: string
  c_commit :: string
  c_built :: string
  c_go :: string
  c_os :: string
  c_arch :: string
  c_install :: InstallOptions
  c_stdin :: "string res"
  c_open :: "string \<Rightarrow> string res"
  c_unmarshal :: "string \<Rightarrow> gval res"

datatype action =
    WriteText string
  | Answer obj
  | RunWorkerIn string
  | ServeMCP
  | RunHook obj
  | StopServer string bool
  | InstallWith InstallOptions
  | LaunchWith LaunchOptions
  | ListPeers
  | EnableThread string obj
  | DisableThread string
  | Request string string obj

definition cbind :: "'a cli \<Rightarrow> ('a \<Rightarrow> 'b cli) \<Rightarrow> 'b cli" where
  "cbind r f = (case r of Inl e \<Rightarrow> Inl e | Inr x \<Rightarrow> f x)"

lemma cbind_Inr [result_iff]: "cbind r f = Inr y \<longleftrightarrow> (\<exists>x. r = Inr x \<and> f x = Inr y)"
  by (cases r) (simp_all add: cbind_def)

definition attempted :: "'a res \<Rightarrow> 'a cli" where
  "attempted r = (case r of Inl e \<Rightarrow> Inl (CliError e) | Inr x \<Rightarrow> Inr x)"

lemma attempted_Inr [result_iff]: "attempted r = Inr y \<longleftrightarrow> r = Inr y"
  by (cases r) (simp_all add: attempted_def)

lemma refuse_not [simp]: "refuse t \<noteq> Inr x"
  by (simp add: refuse_def)

subsection \<open>Settings\<close>

definition flag_int :: "settings \<Rightarrow> string \<Rightarrow> int \<Rightarrow> int" where
  "flag_int st name fallback = (case map_of st name of Some (IntValue n) \<Rightarrow> n | _ \<Rightarrow> fallback)"

definition flag_float :: "settings \<Rightarrow> string \<Rightarrow> go_float \<Rightarrow> go_float" where
  "flag_float st name fallback = (case map_of st name of Some (FloatValue x) \<Rightarrow> x | _ \<Rightarrow> fallback)"

definition visited :: "settings \<Rightarrow> string \<Rightarrow> bool" where
  "visited st name \<longleftrightarrow> map_of st name \<noteq> None"

definition texts :: "string list \<Rightarrow> flag_defs" where
  "texts names = map (\<lambda>name. (name, StringFlag)) names"

text \<open>\<open>io.ReadAll\<close> of at most one byte more than the limit.\<close>

definition read_bounded :: "string res \<Rightarrow> string \<Rightarrow> string res" where
  "read_bounded source complaint =
     rbind source (\<lambda>s. let b = take (MaxBuffer + 1) s in if MaxBuffer < length b then Inl (Failure complaint) else Inr b)"

subsection \<open>Commands without a thread\<close>

definition usage :: string where
  "usage = concat (map (\<lambda>l. l @ [newline])
     [''cross-session-codex '' @ bytes [0xE2, 0x80, 0x94] @ '' local Claude/Codex messaging'',
      '''',
      ''  install                         Install the binary and optional Codex skill'',
      ''  launch [--resume UUID]           Launch Codex on the shared app-server'',
      ''  shutdown [--check]               Stop the shared server after closing all sessions'',
      ''  start [--name NAME]              Enable the current exact thread (alias: enable)'',
      ''  status | disable | identity      Inspect or stop this thread'' @ [CHR 0x27] @ ''s worker'',
      ''  list                            Discover local peers'',
      ''  send PEER --body-file PATH       Send to an authorized peer'',
      ''  reply INBOX_ID --body-file PATH  Reply to a received message'',
      ''  read [--state held] [--after ID]  Read a repeatable, bounded inbox page'',
      ''  ack ID...                       Acknowledge messages after reading'',
      ''  release ID... | decline ID...    Decide held messages'',
      ''  wait [--timeout 20] | sent       Wait for messages or inspect sent status'',
      ''  version                         Print runtime/build versions'',
      ''  capabilities                    Describe the versioned companion CLI contract'',
      ''  mcp | hook                      Optional host integration'',
      '''',
      ''Stateful commands accept --thread UUID (defaults to CODEX_THREAD_ID).'',
      ''Send/reply also accept --body TEXT; --body-file - reads stdin.'',
      ''Use COMMAND --help for options. No Python or tmux is required.''])"

definition version_answer :: "cli_env \<Rightarrow> obj" where
  "version_answer C =
     [(''name'', GStr ''cross-session-codex''), (''version'', GStr (c_version C)), (''commit'', GStr (c_commit C)),
      (''build_date'', GStr (c_built C)), (''go'', GStr (c_go C)), (''os'', GStr (c_os C)), (''arch'', GStr (c_arch C))]"

definition hook_event :: "cli_env \<Rightarrow> obj res" where
  "hook_event C =
     rbind (read_bounded (c_stdin C) ''hook event too large'') (\<lambda>b. rbind (c_unmarshal C b) object_of_json)"

definition cli_shutdown :: "cli_env \<Rightarrow> string list \<Rightarrow> action cli" where
  "cli_shutdown C args =
     cbind (parseFlags (c_float C) [(''app-server-socket'', StringFlag), (''check'', BoolFlag)] args) (\<lambda>(st, rest).
       if rest \<noteq> [] then refuse ''unexpected shutdown arguments''
       else if \<not> flag_switch st ''check'' \<and> c_thread C \<noteq> []
       then refuse (''run shutdown in your terminal after exiting all Codex sessions; use shutdown --check to inspect'' @ '' blockers'')
       else Inr (StopServer (flag_text st ''app-server-socket'' (c_socket C)) (flag_switch st ''check'')))"

definition cli_install :: "cli_env \<Rightarrow> string list \<Rightarrow> action cli" where
  "cli_install C args =
     cbind (parseFlags (c_float C) (texts [''prefix'', ''bin-dir'', ''skill-dir''] @ [(''no-skill'', BoolFlag)]) args) (\<lambda>(st, rest).
       if rest \<noteq> [] then refuse ''unexpected install arguments''
       else Inr (InstallWith \<lparr>iPrefix = flag_text st ''prefix'' (iPrefix (c_install C)), iBinDir = flag_text st ''bin-dir'' (iBinDir (c_install C)),
         iSkillDir = flag_text st ''skill-dir'' (iSkillDir (c_install C)), iNoSkill = flag_switch st ''no-skill''\<rparr>))"

text \<open>What stands behind the first \<open>--\<close> goes to Codex.\<close>

fun split_client :: "string list \<Rightarrow> string list \<times> string list" where
  "split_client [] = ([], [])"
| "split_client (arg # args) =
     (if arg = ''--'' then ([], args) else case split_client args of (own, client) \<Rightarrow> (arg # own, client))"

definition launch_defs :: flag_defs where
  "launch_defs = texts [''resume'', ''name'', ''inbound'', ''permission-class'', ''app-server-socket'', ''cwd'', ''codex'']
     @ [(''ready-fd'', IntFlag), (''continue-fd'', IntFlag)]"

definition cli_launch :: "cli_env \<Rightarrow> string list \<Rightarrow> action cli" where
  "cli_launch C args0 =
     (case split_client args0 of (args, client) \<Rightarrow>
      cbind (parseFlags (c_float C) launch_defs args) (\<lambda>(st, rest).
        let ready = flag_int st ''ready-fd'' (- 1); continue = flag_int st ''continue-fd'' (- 1) in
        if rest \<noteq> [] then refuse ''unexpected launch arguments; Codex client options go after --''
        else if (visited st ''ready-fd'' \<or> visited st ''continue-fd'') \<and> (ready < 3 \<or> continue < 3)
        then refuse (''--ready-fd and --continue-fd must both be supplied with pipe descriptors at'' @ '' least 3'')
        else Inr (LaunchWith \<lparr>oResume = flag_text st ''resume'' [], oName = flag_text st ''name'' [],
          oInbound = flag_text st ''inbound'' [], oPermission = flag_text st ''permission-class'' [],
          oSocket = flag_text st ''app-server-socket'' [], oCWD = flag_text st ''cwd'' [], oCodex = flag_text st ''codex'' ''codex'',
          oClientArgs = client, oReadyFD = ready, oContinueFD = continue\<rparr>)))"

subsection \<open>Commands of a thread\<close>

definition thread_defs :: "string \<Rightarrow> flag_defs option" where
  "thread_defs command =
     (if command \<in> {''start'', ''enable''}
      then Some (texts [''thread'', ''name'', ''inbound'', ''permission-class'', ''delivery'', ''app-server-socket'', ''cwd''])
      else if command \<in> {''send'', ''reply''} then Some (texts [''thread'', ''body'', ''body-file''])
      else if command = ''read'' then Some (texts [''thread'', ''state'', ''after''] @ [(''limit'', IntFlag)])
      else if command = ''wait'' then Some (texts [''thread''] @ [(''timeout'', FloatFlag)])
      else if command = ''sent'' then Some (texts [''thread'', ''message-id''])
      else if command \<in> {''status'', ''disable'', ''ack'', ''release'', ''decline''} then Some (texts [''thread''])
      else None)"

text \<open>The options of \<open>start\<close> that are configuration, by the names the configuration has for them.\<close>

definition config_flags :: "(string \<times> string) list" where
  "config_flags = [(''name'', ''name''), (''inbound'', ''inbound''), (''permission_class'', ''permission-class''), (''delivery'', ''delivery''),
     (''app_server_socket'', ''app-server-socket''), (''cwd'', ''cwd'')]"

definition start_options :: "settings \<Rightarrow> obj" where
  "start_options st =
     map (\<lambda>(key, flag). (key, GStr (flag_text st flag []))) (filter (\<lambda>(key, flag). visited st flag) config_flags)"

definition cli_body :: "cli_env \<Rightarrow> settings \<Rightarrow> string cli" where
  "cli_body C st =
     (if visited st ''body'' = visited st ''body-file'' then refuse ''supply exactly one of --body or --body-file''
      else if visited st ''body-file''
      then attempted (read_bounded (if flag_text st ''body-file'' [] = ''-'' then c_stdin C else c_open C (flag_text st ''body-file'' []))
             ''message body exceeds size limit'')
      else Inr (flag_text st ''body'' []))"

definition cli_params :: "cli_env \<Rightarrow> string \<Rightarrow> settings \<Rightarrow> string list \<Rightarrow> obj cli" where
  "cli_params C command st rest =
     (if command \<in> {''send'', ''reply''} then
        (if length rest \<noteq> 1 then refuse ''send/reply requires exactly one target or inbox ID''
         else cbind (cli_body C st) (\<lambda>body.
           Inr [(''body'', GStr body), (if command = ''reply'' then ''message_id'' else ''target'', GStr (hd rest))]))
      else if command \<in> {''ack'', ''release'', ''decline''} then
        (if rest = [] \<or> 100 < length rest then refuse (''provide 1'' @ bytes [0xE2, 0x80, 0x93] @ ''100 inbox IDs'')
         else Inr [(''ids'', GArr (map GStr rest))])
      else if rest \<noteq> [] then refuse ''unexpected positional arguments'' else Inr [])"

definition cli_thread :: "string \<Rightarrow> string \<Rightarrow> settings \<Rightarrow> obj \<Rightarrow> action cli" where
  "cli_thread command i st params =
     (if command \<in> {''start'', ''enable''} then Inr (EnableThread i (params @ start_options st))
      else if command = ''status'' then Inr (Request i ''info'' params)
      else if command = ''disable'' then Inr (DisableThread i)
      else if command = ''read'' then
        (let n = flag_int st ''limit'' 20 in
         if n < 1 \<or> 50 < n then refuse ''limit must be between 1 and 50''
         else Inr (Request i command (params @ [(''state'', GStr (flag_text st ''state'' ''unread'')), (''limit'', GInt n)]
                @ (if flag_text st ''after'' [] = [] then [] else [(''after'', GStr (flag_text st ''after'' []))]))))
      else if command = ''wait'' then
        (case flag_float st ''timeout'' (Finite 20) of
           Finite x \<Rightarrow> if x < 0 \<or> 25 < x then refuse ''timeout must be between 0 and 25 seconds''
                       else Inr (Request i command (params @ [(''timeout'', GFloat x)]))
         | _ \<Rightarrow> refuse ''timeout must be between 0 and 25 seconds'')
      else if command = ''sent'' then
        Inr (Request i command (params @ (if flag_text st ''message-id'' [] = [] then [] else [(''message_id'', GStr (flag_text st ''message-id'' []))])))
      else Inr (Request i command params))"

definition cli_stateful :: "cli_env \<Rightarrow> string \<Rightarrow> string list \<Rightarrow> action cli" where
  "cli_stateful C command args =
     (case thread_defs command of
        None \<Rightarrow> refuse ''unknown command; use --help''
      | Some defs \<Rightarrow>
          cbind (parseFlags (c_float C) defs args) (\<lambda>(st, rest).
          cbind (attempted (canonicalThread (c_lib C) (flag_text st ''thread'' (c_thread C)))) (\<lambda>i.
          cbind (cli_params C command st rest) (\<lambda>params. cli_thread command i st params))))"

subsection \<open>All commands\<close>

definition runCLI :: "cli_env \<Rightarrow> string list \<Rightarrow> action cli" where
  "runCLI C all =
     (case all of
        [] \<Rightarrow> Inr (WriteText usage)
      | command # args \<Rightarrow>
          if command \<in> {''--help'', ''-h''} then Inr (WriteText usage)
          else if command = ''version'' then Inr (Answer (version_answer C))
          else if command = ''capabilities'' then
            (if args \<noteq> [] then refuse ''capabilities takes no arguments''
             else Inr (Answer [(''name'', GStr ''cross-session-codex''), (''version'', GStr (c_version C)), (''cli_api'', GInt 1),
                    (''features'', GArr [GStr ''launch-handshake-v1''])]))
          else if command = ''worker'' then
            (case args of [dir] \<Rightarrow> Inr (RunWorkerIn dir) | _ \<Rightarrow> refuse ''worker requires its state directory'')
          else if command = ''mcp'' then Inr ServeMCP
          else if command = ''hook'' then cbind (attempted (hook_event C)) (\<lambda>event. Inr (RunHook event))
          else if command = ''shutdown'' then cli_shutdown C args
          else if command = ''install'' then cli_install C args
          else if command = ''launch'' then cli_launch C args
          else if command = ''identity''
          then Inr (Answer [(''thread_id'', GStr (if c_thread C = [] then c_session C else c_thread C))])
          else if command = ''list'' then (if args \<noteq> [] then refuse ''list takes no arguments'' else Inr ListPeers)
          else cli_stateful C command args)"

text \<open>The parts of the program that the actions start; a nil map is \<open>None\<close>.\<close>

record cli_services =
  s_write :: "string \<Rightarrow> unit res"
  s_worker :: "string \<Rightarrow> unit res"
  s_mcp :: "unit res"
  s_hook :: "obj \<Rightarrow> obj option res"
  s_shutdown :: "string \<Rightarrow> bool \<Rightarrow> obj option res"
  s_install :: "InstallOptions \<Rightarrow> obj res"
  s_launch :: "LaunchOptions \<Rightarrow> unit res"
  s_discover :: "Peer list res"
  s_enable :: "string \<Rightarrow> obj \<Rightarrow> obj option res"
  s_stop :: "string \<Rightarrow> unit res"
  s_rpc :: "string \<Rightarrow> string \<Rightarrow> obj \<Rightarrow> obj option res"
  s_encode :: "tool_value \<Rightarrow> unit res"

definition perform :: "cli_services \<Rightarrow> action \<Rightarrow> tool_value res" where
  "perform V a =
     (let nothing = (\<lambda>r. rbind r (\<lambda>_. Inr (ToolObject None))); object = (\<lambda>r. rbind r (\<lambda>m. Inr (ToolObject m))) in
      case a of
        WriteText s \<Rightarrow> nothing (s_write V s)
      | Answer m \<Rightarrow> Inr (ToolObject (Some m))
      | RunWorkerIn dir \<Rightarrow> nothing (s_worker V dir)
      | ServeMCP \<Rightarrow> nothing (s_mcp V)
      | RunHook event \<Rightarrow> object (s_hook V event)
      | StopServer socket check \<Rightarrow> object (s_shutdown V socket check)
      | InstallWith opts \<Rightarrow> rbind (s_install V opts) (\<lambda>m. Inr (ToolObject (Some m)))
      | LaunchWith opts \<Rightarrow> nothing (s_launch V opts)
      | ListPeers \<Rightarrow> rbind (s_discover V) (\<lambda>peers. Inr (Sessions peers))
      | EnableThread i options \<Rightarrow> object (s_enable V i options)
      | DisableThread i \<Rightarrow> rbind (s_stop V i) (\<lambda>_. Inr (ToolObject (Some [(''stopped'', GBool True)])))
      | Request i op params \<Rightarrow> object (s_rpc V i op params))"

text \<open>The exit status, the value printed and the text of the error object.\<close>

definition Main :: "cli_env \<Rightarrow> cli_services \<Rightarrow> string list \<Rightarrow> nat \<times> tool_value option \<times> string option" where
  "Main C V args =
     (case cbind (runCLI C args) (\<lambda>a. attempted (perform V a)) of
        Inl HelpShown \<Rightarrow> (0, None, None)
      | Inl (CliError e) \<Rightarrow> (1, None, Some (err_text e))
      | Inr (ToolObject None) \<Rightarrow> (0, None, None)
      | Inr v \<Rightarrow> (case s_encode V v of Inl e \<Rightarrow> (1, None, Some (err_text e)) | Inr _ \<Rightarrow> (0, Some v, None)))"

end
