(* ===== verification/Flag_Props.thy ===== *)
theory Flag_Props
  imports Flags
begin

section \<open>Options in any position\<close>

text \<open>
  A command line is a sequence of items: positional arguments and options in the spellings of the flag
  package.  \<open>parseFlags\<close> recovers it, wherever the options stand.
\<close>

datatype item =
    Positional string
  | Separate string string string
  | Joined string string string
  | Switch string string

text \<open>Dashes, name and value.\<close>

fun render :: "item \<Rightarrow> string list" where
  "render (Positional p) = [p]"
| "render (Separate d n v) = [d @ n, v]"
| "render (Joined d n v) = [d @ n @ ''='' @ v]"
| "render (Switch d n) = [d @ n]"

definition flag_name :: "string \<Rightarrow> string \<Rightarrow> bool" where
  "flag_name d n \<longleftrightarrow> d \<in> {''-'', ''--''} \<and> n \<noteq> [] \<and> hd n \<noteq> CHR ''-'' \<and> CHR ''='' \<notin> set n"

fun item_ok :: "(string \<Rightarrow> go_float option) \<Rightarrow> flag_defs \<Rightarrow> item \<Rightarrow> bool" where
  "item_ok pf defs (Positional p) = (p = ''-'' \<or> \<not> HasPrefix p ''-'')"
| "item_ok pf defs (Separate d n v) = (flag_name d n \<and>
     (\<exists>k. map_of defs n = Some k \<and> k \<noteq> BoolFlag \<and> read_flag pf k v \<noteq> None))"
| "item_ok pf defs (Joined d n v) = (flag_name d n \<and> (\<exists>k. map_of defs n = Some k \<and> read_flag pf k v \<noteq> None))"
| "item_ok pf defs (Switch d n) = (flag_name d n \<and> map_of defs n = Some BoolFlag)"

fun assign :: "(string \<Rightarrow> go_float option) \<Rightarrow> flag_defs \<Rightarrow> item \<Rightarrow> settings \<Rightarrow> settings" where
  "assign pf defs (Positional p) st = st"
| "assign pf defs (Separate d n v) st = AList.update n (the (read_flag pf (the (map_of defs n)) v)) st"
| "assign pf defs (Joined d n v) st = AList.update n (the (read_flag pf (the (map_of defs n)) v)) st"
| "assign pf defs (Switch d n) st = AList.update n (SwitchValue True) st"

fun is_positional :: "item \<Rightarrow> bool" where
  "is_positional (Positional p) = True"
| "is_positional _ = False"

definition options_of :: "item list \<Rightarrow> string list" where
  "options_of its = concat (map render (filter (\<lambda>i. \<not> is_positional i) its))"

definition positionals_of :: "item list \<Rightarrow> string list" where
  "positionals_of its = concat (map render (filter is_positional its))"

lemma items_simps [simp]:
  "options_of [] = []" "positionals_of [] = []"
  "options_of (it # its) = (if is_positional it then [] else render it) @ options_of its"
  "positionals_of (it # its) = (if is_positional it then render it else []) @ positionals_of its"
  by (simp_all add: options_of_def positionals_of_def)

subsection \<open>One option\<close>

lemma flag_nameE:
  assumes "flag_name d n"
  obtains c n' where "n = c # n'" "c \<noteq> CHR ''-''" "c \<noteq> CHR ''=''" "CHR ''='' \<notin> set n'" "d = ''-'' \<or> d = ''--''"
  using assms unfolding flag_name_def by (cases n) auto

lemma Cut_at: "c \<notin> set a \<Longrightarrow> Cut (a @ c # v) c = (a, v, True)"
proof -
  assume "c \<notin> set a"
  then have "takeWhile (\<lambda>x. x \<noteq> c) (a @ c # v) = a \<and> dropWhile (\<lambda>x. x \<noteq> c) (a @ c # v) = c # v"
    by (induction a) auto
  then show ?thesis by (simp add: Cut_def)
qed

lemma Contains_char: "Contains s [c] \<longleftrightarrow> c \<in> set s"
  by (simp add: Contains_def sublist_def in_set_conv_decomp)

lemma Cut_without: "c \<notin> set a \<Longrightarrow> Cut a c = (a, [], False)"
  by (simp add: Cut_def)

lemma flag_spelling:
  assumes "flag_name d n" "rest = [] \<or> hd rest = CHR ''=''"
  shows "\<not> length (d @ n @ rest) < 2" "hd (d @ n @ rest) = CHR ''-''" "d @ n @ rest \<noteq> ''--''" "d @ n @ rest \<noteq> ''-''"
    "HasPrefix (d @ n @ rest) ''-''" "strip_dashes (d @ n @ rest) = n @ rest" "n @ rest \<noteq> []"
    "hd (n @ rest) \<noteq> CHR ''-''" "hd (n @ rest) \<noteq> CHR ''=''"
  using assms(1) by (auto elim!: flag_nameE simp: strip_dashes_def HasPrefix_def)

lemma flag_split:
  assumes "flag_name d n"
  shows "split_flag n = (n, None)" "split_flag (n @ ''='' @ v) = (n, Some v)" "option_name (d @ n) = n" "\<not> Contains (d @ n) ''=''"
    "Contains (d @ n @ ''='' @ v) ''=''"
proof -
  from assms obtain c n' where n: "n = c # n'" "c \<noteq> CHR ''-''" "c \<noteq> CHR ''=''" "CHR ''='' \<notin> set n'" and d: "d = ''-'' \<or> d = ''--''"
    by (rule flag_nameE)
  have "CHR ''='' \<notin> set (d @ n)" using n d by auto
  then show "option_name (d @ n) = n" "\<not> Contains (d @ n) ''=''"
    using n d by (auto simp: option_name_def Cut_without TrimLeft_def Contains_char)
  show "split_flag n = (n, None)" using n by (simp add: split_flag_def Cut_without)
  show "split_flag (n @ ''='' @ v) = (n, Some v)" using n Cut_at [of "CHR ''=''" n' v] by (simp add: split_flag_def)
  show "Contains (d @ n @ ''='' @ v) ''=''" by (simp add: Contains_char)
qed

subsection \<open>All of them\<close>

lemma flag_Parse_stop: "flag_Parse pf defs (''--'' # rest) st = Inr (st, rest)"
  by simp

lemma flag_Parse_joined:
  assumes "\<not> length s < 2" "hd s = CHR ''-''" "s \<noteq> ''--''" "strip_dashes s = t" "t \<noteq> []" "hd t \<noteq> CHR ''-''" "hd t \<noteq> CHR ''=''"
    "split_flag t = (n, Some v)" "map_of defs n = Some k" "read_flag pf k v = Some x"
  shows "flag_Parse pf defs (s # args) st = flag_Parse pf defs args (AList.update n x st)"
  using assms by (cases "k = BoolFlag") simp_all

lemma flag_Parse_item:
  assumes "item_ok pf defs it" "\<not> is_positional it"
  shows "flag_Parse pf defs (render it @ args) st = flag_Parse pf defs args (assign pf defs it st)"
proof (cases it)
  case (Separate d n v)
  with assms have n: "flag_name d n" by simp
  from Separate assms show ?thesis using flag_spelling [OF n, of "[]"] flag_split(1) [OF n] by auto
next
  case (Joined d n v)
  with assms have n: "flag_name d n" by simp
  from Joined assms obtain k x where k: "map_of defs n = Some k" "read_flag pf k v = Some x" by auto
  note f = flag_spelling [OF n, of "''='' @ v"]
  from flag_Parse_joined [OF f(1-3) f(6-9) flag_split(2) [OF n] k] show ?thesis using Joined k by (simp only: render.simps assign.simps) simp
next
  case (Switch d n)
  with assms have n: "flag_name d n" by simp
  from Switch assms show ?thesis using flag_spelling [OF n, of "[]"] flag_split(1) [OF n]
    by (simp add: read_flag_def ParseBool_def)
qed (use assms in simp)

lemma flag_Parse_options:
  "list_all (item_ok pf defs) its \<Longrightarrow>
     flag_Parse pf defs (options_of its @ args) st = flag_Parse pf defs args (fold (assign pf defs) its st)"
proof (induction its arbitrary: st)
  case (Cons it its)
  show ?case
  proof (cases "is_positional it")
    case True
    then have "assign pf defs it st = st" by (cases it) simp_all
    then show ?thesis using Cons True by simp
  next
    case False
    then show ?thesis using Cons flag_Parse_item [of pf defs it "options_of its @ args" st] by (simp del: flag_Parse.simps)
  qed
qed simp

lemma split_args_item:
  assumes "item_ok pf defs it"
  shows "split_args defs (render it @ args) =
    ((if is_positional it then [] else render it) @ fst (split_args defs args),
     (if is_positional it then render it else []) @ snd (split_args defs args))"
proof (cases it)
  case (Positional p)
  with assms show ?thesis by (auto simp: HasPrefix_def split: prod.splits)
next
  case (Separate d n v)
  with assms have n: "flag_name d n" by simp
  from Separate assms show ?thesis using flag_spelling [OF n, of "[]"] flag_split(3,4) [OF n] by (auto split: prod.splits)
next
  case (Joined d n v)
  with assms have n: "flag_name d n" by simp
  define s where "s = d @ n @ ''='' @ v"
  note f = flag_spelling [OF n, of "''='' @ v", folded s_def] flag_split(5) [OF n, of v, folded s_def]
  from Joined have "render it = [s]" by (simp add: s_def)
  then show ?thesis using Joined f by (auto split: prod.splits)
next
  case (Switch d n)
  with assms have n: "flag_name d n" by simp
  from Switch assms show ?thesis using flag_spelling [OF n, of "[]"] flag_split(3,4) [OF n] by (auto split: prod.splits)
qed

lemma split_args_items:
  "list_all (item_ok pf defs) its \<Longrightarrow>
     split_args defs (concat (map render its) @ args) =
       (options_of its @ fst (split_args defs args), positionals_of its @ snd (split_args defs args))"
proof (induction its)
  case (Cons it its)
  then show ?case using split_args_item [of pf defs it "concat (map render its) @ args"] by simp
qed simp

lemma positional_first: "p = ''-'' \<or> \<not> HasPrefix p ''-'' \<Longrightarrow> length p < 2 \<or> hd p \<noteq> CHR ''-''"
  by (cases p) (auto simp: HasPrefix_def)

text \<open>C21. The options of a command may stand anywhere between its positional arguments, in either spelling and with any
  value, one that begins with a dash included: \<open>parseFlags\<close> assigns exactly them, in their order, and returns
  exactly the positional arguments, in their order, with everything behind a separate \<open>--\<close>.\<close>

theorem parse_flags_round_trip:
  assumes "list_all (item_ok pf defs) its" and "tail = [] \<and> rest = [] \<or> tail = ''--'' # rest"
  shows "parseFlags pf defs (concat (map render its) @ tail) = Inr (fold (assign pf defs) its [], positionals_of its @ rest)"
proof -
  have "split_args defs tail = ([], rest)" using assms(2) by auto
  then have "parseFlags pf defs (concat (map render its) @ tail) =
      flag_Parse pf defs (options_of its @ (''--'' # positionals_of its @ rest)) []"
    by (simp add: parseFlags_def split_args_items [OF assms(1)] del: flag_Parse.simps)
  then show ?thesis by (simp only: flag_Parse_options [OF assms(1)] flag_Parse_stop)
qed


subsection \<open>A concrete command line\<close>

definition send_flags :: flag_defs where
  "send_flags = [(''thread'', StringFlag), (''body'', StringFlag), (''body-file'', StringFlag)]"

theorem parse_flags_round_trip_witness:
  "parseFlags (\<lambda>_. None) send_flags [''bob'', ''--body'', ''--thread'', ''-thread=t=1'', ''--'', ''-x''] =
     Inr ([(''body'', TextValue ''--thread''), (''thread'', TextValue ''t=1'')], [''bob'', ''-x''])"
proof -
  let ?its = "[Positional ''bob'', Separate ''--'' ''body'' ''--thread'', Joined ''-'' ''thread'' ''t=1'']"
  have "list_all (item_ok (\<lambda>_. None) send_flags) ?its"
    by (simp add: flag_name_def send_flags_def read_flag_def HasPrefix_def)
  from parse_flags_round_trip [OF this, of "[''--'', ''-x'']" "[''-x'']"] show ?thesis
    by (simp add: send_flags_def read_flag_def)
qed


end
