(* ===== verification/Running.thy ===== *)
theory Running
  imports Artifacts Shutdown Control
begin

section \<open>The run of a worker process\<close>

text \<open>
  \<open>RunWorker\<close>, \<open>serve\<close> and \<open>peerConnection\<close> of worker.go and \<open>registerName\<close> of lifecycle.go.  The record
  \<open>start_env\<close> holds what the process is told before it serves: the directories and files it reads, its own
  process, the database that \<open>openStore\<close> opened, the random key, and which system calls fail.
\<close>

record start_env =
  r_env :: env
  r_private :: "string \<Rightarrow> unit res"
  r_sessions :: string
  r_runtime_dir :: string
  r_uid :: nat
  r_pid :: int
  r_start :: "string res"
  r_store :: "store res"
  r_key :: "string res"
  r_lock :: "unit res"
  r_tmp :: "nat \<Rightarrow> string"
  r_faults :: "nat \<Rightarrow> faults"

subsection \<open>Before it serves\<close>

definition read_own_config :: "start_env \<Rightarrow> string \<Rightarrow> Config res" where
  "read_own_config S dir =
     rbind (r_private S dir) (\<lambda>_.
     rbind (readConfig (efiles (r_env S)) dir) (\<lambda>c0.
     rbind (Validate (elib (r_env S)) c0) (\<lambda>c.
     rbind (checkHost (ehost (r_env S)) c) (\<lambda>_.
       if Base dir \<noteq> CThread c then Inl (Failure ''worker directory does not match thread'') else Inr c))))"

definition new_worker :: "start_env \<Rightarrow> string \<Rightarrow> Config \<Rightarrow> string \<Rightarrow> string \<Rightarrow> store \<Rightarrow> worker" where
  "new_worker S dir c sockets start st =
     \<lparr>wdir = dir, wregistry = r_sessions S, wpath = worker_socket sockets (r_pid S),
      waddress = ''uds:'' @ worker_socket sockets (r_pid S), wstart = start, wpid = r_pid S,
      wborn = emillis (r_env S), wstore = st, wconfig = c, wactivity = [], lastTouch = enow (r_env S),
      wclient = False, attached = False, lastReconcile = 0, ownerUnverified = False, statusQueue = [],
      drops = [], changed = False, cancelled = False\<rparr>"

text \<open>The worker and the path of its control socket.\<close>

definition open_worker :: "start_env \<Rightarrow> string \<Rightarrow> (worker \<times> string) res" where
  "open_worker S dir =
     rbind (read_own_config S dir) (\<lambda>c.
     rbind (r_private S (r_sessions S)) (\<lambda>_.
     rbind (chooseSocketDir (r_private S) (r_runtime_dir S) (r_uid S)) (\<lambda>sockets.
     rbind (r_start S) (\<lambda>start.
     rbind (r_store S) (\<lambda>st.
       Inr (new_worker S dir c sockets start st, worker_control sockets (r_pid S)))))))"

definition kbind :: "'a res \<times> keeper \<Rightarrow> ('a \<Rightarrow> keeper \<Rightarrow> 'b res \<times> keeper) \<Rightarrow> 'b res \<times> keeper" where
  "kbind rk f = (case rk of (Inl e, k) \<Rightarrow> (Inl e, k) | (Inr a, k) \<Rightarrow> f a k)"

definition key_json :: "string \<Rightarrow> string \<Rightarrow> string \<Rightarrow> gval" where
  "key_json token start domain =
     GObj [(''peerToken'', GStr token), (''procStart'', GStr start), (''pidDomain'', GStr domain)]"

definition meta_json :: "worker \<Rightarrow> string \<Rightarrow> string \<Rightarrow> gval" where
  "meta_json w control keyFile =
     GObj [(''pid'', GInt (wpid w)), (''procStart'', GStr (wstart w)), (''control'', GStr control),
           (''socket'', GStr (wpath w)), (''registry'', GStr (wregistry w)),
           (''thread_id'', GStr (CThread (wconfig w))), (''key'', GStr keyFile), (''runtime'', GStr ''go'')]"

text \<open>\<open>publish\<close> through \<open>writeArtifact\<close>; \<open>S\<close> numbers the faults and the temporary name by \<open>i\<close>.\<close>

definition publish_file :: "start_env \<Rightarrow> nat \<Rightarrow> worker \<Rightarrow> keeper \<Rightarrow> unit res \<times> keeper" where
  "publish_file S i w =
     writeArtifact (r_faults S i) (r_uid S) (r_tmp S i) (JoinPath [wregistry w, Itoa (wpid w) @ ''.json''])
       (GObj (registration (r_env S) w)) 420"

definition register_file :: "start_env \<Rightarrow> worker \<Rightarrow> keeper \<Rightarrow> unit res \<times> keeper" where
  "register_file S w k =
     (case rbind (lockPeerNames (efiles (r_env S)) (r_lock S) (Inr ()) (wregistry w)) (\<lambda>_.
             checkPeerName (ehost (r_env S)) (efiles (r_env S)) (esha (r_env S)) (wregistry w)
               (CName (wconfig w)) (wpid w)) of
        Inl e \<Rightarrow> (Inl e, k)
      | Inr _ \<Rightarrow> publish_file S 3 w k)"

text \<open>The sockets, the key, the registration and \<open>worker.json\<close>, in this order.\<close>

definition start_files :: "start_env \<Rightarrow> worker \<Rightarrow> string \<Rightarrow> keeper \<Rightarrow> worker res \<times> keeper" where
  "start_files S w control k =
     (let keyFile = keyPath (esha (r_env S)) (wregistry w) (wpid w) (wpath w);
          w1 = setActivity (r_env S) w ''unknown'' ''No app-server observation yet'' in
      kbind (listen (r_faults S 0) (r_uid S) (wpath w) k) (\<lambda>_ k.
      kbind (listen (r_faults S 1) (r_uid S) control k) (\<lambda>_ k.
      kbind (case r_key S of Inl e \<Rightarrow> (Inl e, k) | Inr token \<Rightarrow>
               writeArtifact (r_faults S 2) (r_uid S) (r_tmp S 2) keyFile
                 (key_json token (wstart w) (goos (ehost (r_env S)))) 384 k) (\<lambda>_ k.
      kbind (register_file S w1 k) (\<lambda>_ k.
      kbind (writeArtifact (r_faults S 4) (r_uid S) (r_tmp S 4) (JoinPath [wdir w, ''worker.json''])
               (meta_json w control keyFile) 384 k) (\<lambda>_ k. (Inr w1, k)))))))"

text \<open>While it serves, maintenance and \<open>configure\<close> publish the worker as it is then; an error there is
  theirs.\<close>

fun publish_all :: "start_env \<Rightarrow> (nat \<times> worker) list \<Rightarrow> keeper \<Rightarrow> keeper" where
  "publish_all S [] k = k"
| "publish_all S ((i, w) # ws) k = publish_all S ws (snd (publish_file S i w k))"

text \<open>The outcome and the files: \<open>serving\<close> lists the publications of a worker that reaches its service, and
  the deferred \<open>cleanup\<close> runs on every return after the database was opened.\<close>

definition RunWorker ::
  "start_env \<Rightarrow> string \<Rightarrow> (nat \<times> worker) list \<Rightarrow> (string \<Rightarrow> bool) \<Rightarrow> (string \<Rightarrow> bool) \<Rightarrow> disk_state \<Rightarrow> worker res \<times> keeper" where
  "RunWorker S dir serving no_lstat no_remove d =
     (let k = \<lparr>disk = d, artifacts = [], made = {}\<rparr> in
      case open_worker S dir of
        Inl e \<Rightarrow> (Inl e, k)
      | Inr (w, control) \<Rightarrow>
        (case start_files S w control k of
           (Inl e, k1) \<Rightarrow> (Inl e, cleanup no_lstat no_remove k1)
         | (Inr w1, k1) \<Rightarrow> (Inr w1, cleanup no_lstat no_remove (publish_all S serving k1))))"

subsection \<open>Connections of peers\<close>

text \<open>The frames of one connection: a line, its decoding, and the handler.  \<open>start\<close> is looked up at the first
  frame that has a type of the protocol; an unreadable process ends the connection.  Each line comes with the
  system as it is when it is handled.\<close>

definition peer_line :: "env \<Rightarrow> (string \<Rightarrow> gval res) \<Rightarrow> int \<Rightarrow> string \<Rightarrow> string \<Rightarrow> worker \<Rightarrow> string option \<times> worker" where
  "peer_line E unmarshal pid start raw w =
     (case rbind (unmarshal raw) object_of_json of
        Inl _ \<Rightarrow> (Some start, w)
      | Inr f \<Rightarrow>
          if str f ''type'' \<noteq> ''user'' \<and> str f ''type'' \<noteq> ''control'' then (Some start, w)
          else (case (if start = [] then processStart (ehost E) pid else Inr start) of
            Inl _ \<Rightarrow> (None, w)
          | Inr s \<Rightarrow> (Some s, snd (receive E w f pid s))))"

text \<open>\<open>peerConnection\<close>: \<open>creds\<close> are the credentials of the socket, \<open>chunks\<close> what arrives on it, with the
  system at each line; other goroutines change the worker between lines (\<open>meanwhile\<close>).\<close>

fun peer_lines ::
  "(env \<times> (worker \<Rightarrow> worker)) list \<Rightarrow> (string \<Rightarrow> gval res) \<Rightarrow> int \<Rightarrow> string \<Rightarrow> string \<Rightarrow> worker \<Rightarrow> worker" where
  "peer_lines [] unmarshal pid start input w = w"
| "peer_lines ((E, meanwhile) # Es) unmarshal pid start input w =
     (case readLine MaxBuffer input of
        Inl _ \<Rightarrow> w
      | Inr (raw, rest) \<Rightarrow>
          (case peer_line E unmarshal pid start raw (meanwhile w) of
             (None, w1) \<Rightarrow> w1
           | (Some s, w1) \<Rightarrow> peer_lines Es unmarshal pid s rest w1))"

definition peerConnection ::
  "(env \<times> (worker \<Rightarrow> worker)) list \<Rightarrow> (string \<Rightarrow> gval res) \<Rightarrow> (int \<times> nat) res \<Rightarrow> nat \<Rightarrow> string \<Rightarrow> worker \<Rightarrow> worker" where
  "peerConnection Es unmarshal creds myuid input w =
     (case creds of
        Inl _ \<Rightarrow> w
      | Inr (pid, uid) \<Rightarrow> if uid \<noteq> myuid then w else peer_lines Es unmarshal pid [] input w)"

text \<open>\<open>controlConnection\<close>: one request, one answer; a foreign user gets none.\<close>

definition controlConnection ::
  "env \<Rightarrow> app \<Rightarrow> wait_event list \<Rightarrow> (string \<Rightarrow> gval res) \<Rightarrow> (int \<times> nat) res \<Rightarrow> nat \<Rightarrow> string \<Rightarrow> worker
     \<Rightarrow> string option \<times> worker" where
  "controlConnection E A evs unmarshal creds myuid input w =
     (case creds of
        Inl _ \<Rightarrow> (None, w)
      | Inr (pid, uid) \<Rightarrow>
          if uid \<noteq> myuid then (None, w)
          else (case rbind (readLine MaxBuffer input) (\<lambda>(raw, rest). rbind (unmarshal raw) object_of_json) of
            Inl e \<Rightarrow> (Some (control_response (elib E) (Inl e)), w)
          | Inr args \<Rightarrow>
              (case operation E A evs w args of (r, w1) \<Rightarrow> (Some (control_response (elib E) r), w1))))"

subsection \<open>The maintenance loop\<close>

text \<open>\<open>maintain\<close>: at each turn a maintenance pass when the last one is more than two seconds old, then a wait that
  ends with the worker or with a tick, at which the drop batches are sent (\<open>order\<close>: Go does not fix the order
  of a map).  Other goroutines change the worker in between.\<close>

datatype pause = Tick "(worker \<Rightarrow> (string \<times> obj list) list)" | Ended

fun maintain :: "(env \<times> app \<times> (worker \<Rightarrow> worker) \<times> pause) list \<Rightarrow> rat \<Rightarrow> worker \<Rightarrow> worker" where
  "maintain [] upcoming w = w"
| "maintain ((E, A, meanwhile, p) # ts) upcoming w =
     (let due = upcoming < enow E;
          w1 = meanwhile (if due then fst (snd (maintenance E A w)) else w);
          upcoming1 = (if due then enow E + 2 else upcoming)
      in case p of Ended \<Rightarrow> w1 | Tick order \<Rightarrow> maintain ts upcoming1 (flushDrops (order w1) w1))"

subsection \<open>Accepting\<close>

text \<open>\<open>serve\<close>: at most 64 connections of a listener are handled at a time, any other is closed at once.  The
  state is the connections in service and those closed.  A failing accept ends the listener, and the worker with
  it unless the worker has ended before.\<close>

datatype listener_event = Accepted nat | Finished nat | AcceptFails bool

record listener =
  serving :: "nat list"
  refused_conns :: "nat list"
  stopped :: bool
  cancels_worker :: bool

definition serve :: "listener_event \<Rightarrow> listener \<Rightarrow> listener" where
  "serve ev l =
     (case ev of
        Accepted c \<Rightarrow>
          if stopped l then l
          else if length (serving l) < 64 then l\<lparr>serving := serving l @ [c]\<rparr>
          else l\<lparr>refused_conns := refused_conns l @ [c]\<rparr>
      | Finished c \<Rightarrow> l\<lparr>serving := remove1 c (serving l)\<rparr>
      | AcceptFails ended \<Rightarrow> l\<lparr>stopped := True, cancels_worker := cancels_worker l \<or> \<not> ended\<rparr>)"

end
