(* ===== verification/Artifact_Safety.thy ===== *)
theory Artifact_Safety
  imports Running
begin

section \<open>A worker touches its own files only\<close>

text \<open>
  What \<open>listen\<close>, \<open>writeArtifact\<close> and \<open>cleanup\<close> do to the files of other processes (nothing), and what a
  worker that ends leaves behind (nothing, unless a system call failed where the code cannot recover).
\<close>

definition disk_wf :: "disk_state \<Rightarrow> bool" where
  "disk_wf d \<longleftrightarrow> (\<forall>p n. nodes d p = Some n \<longrightarrow> fino (nstat n) < next_inode d)"

definition keeper_ok :: "keeper \<Rightarrow> bool" where
  "keeper_ok k \<longleftrightarrow> disk_wf (disk k) \<and> (\<forall>i \<in> made k. i < next_inode (disk k))
     \<and> (\<forall>(p, st) \<in> set (artifacts k). fino st \<in> made k)"

text \<open>What other processes may do: anything, but an inode is never used for a second file.\<close>

definition foreign :: "disk_state \<Rightarrow> disk_state \<Rightarrow> bool" where
  "foreign d d' \<longleftrightarrow> disk_wf d' \<and> next_inode d \<le> next_inode d' \<and>
     (\<forall>p n. nodes d' p = Some n \<longrightarrow>
        next_inode d \<le> fino (nstat n) \<or> (\<exists>q m. nodes d q = Some m \<and> fino (nstat m) = fino (nstat n)))"

text \<open>From \<open>d\<close> to \<open>d'\<close> no node changes that has another inode than those of \<open>own\<close>.\<close>

definition spares :: "nat set \<Rightarrow> disk_state \<Rightarrow> disk_state \<Rightarrow> bool" where
  "spares own d d' \<longleftrightarrow>
     (\<forall>p n. nodes d p = Some n \<longrightarrow> fino (nstat n) \<in> own \<or> nodes d' p = Some n)"

inductive own_step :: "keeper \<Rightarrow> keeper \<Rightarrow> bool" where
  listen: "listen x uid path k = (r, k') \<Longrightarrow> own_step k k'"
| publish: "writeArtifact x uid tmp path v mode k = (r, k') \<Longrightarrow> own_step k k'"
| cleanup: "cleanup no_lstat no_remove k = k' \<Longrightarrow> own_step k k'"

inductive keeper_step :: "keeper \<Rightarrow> keeper \<Rightarrow> bool" where
  own: "own_step k k' \<Longrightarrow> keeper_step k k'"
| other: "foreign (disk k) d \<Longrightarrow> keeper_step k (k\<lparr>disk := d\<rparr>)"

subsection \<open>The effects of system calls\<close>

lemma syscall_Inr: "syscall x i r = Inr a \<longleftrightarrow> x i = None \<and> r = Inr a"
  by (cases "x i") (simp_all add: syscall_def)

lemma syscall_NotExist: "syscall x i r = Inl NotExist \<longleftrightarrow> x i = None \<and> r = Inl NotExist"
  by (cases "x i") (simp_all add: syscall_def)

lemma syscall_error [simp]: "syscall x i (Inl e) \<noteq> Inr a"
  by (simp add: syscall_Inr)

lemma Lstat_simps:
  "Lstat d path = Inl NotExist \<longleftrightarrow> nodes d path = None"
  "Lstat d path = Inr st \<longleftrightarrow> (\<exists>n. nodes d path = Some n \<and> st = nstat n)"
  by (auto simp: Lstat_def split: option.splits)

lemma nodes_simps [simp]:
  "nodes (remove p d) = (nodes d)(p := None)" "next_inode (remove p d) = next_inode d"
  "next_inode (create t uid mode v p d) = next_inode d + 1"
  "next_inode (set_mode mode p d) = next_inode d" "next_inode (set_value u p d) = next_inode d"
  "next_inode (rename p q d) = next_inode d"
  by (simp_all add: remove_def create_def set_mode_def set_value_def rename_def)

lemma nodes_create [simp]: "q \<noteq> p \<Longrightarrow> nodes (create t uid mode v p d) q = nodes d q"
  "\<exists>n. nodes (create t uid mode v p d) p = Some n \<and> fino (nstat n) = next_inode d \<and> fkind (nstat n) = t"
  by (simp_all add: create_def)

lemma nodes_set [simp]: "q \<noteq> p \<Longrightarrow> nodes (set_mode mode p d) q = nodes d q" "q \<noteq> p \<Longrightarrow> nodes (set_value u p d) q = nodes d q"
  by (simp_all add: set_mode_def set_value_def)

text \<open>What \<open>atomicJSON\<close> leaves: on an error the files as they were; on success a new file at \<open>path\<close>.\<close>

lemma atomicJSON_error:
  assumes "atomicJSON x i uid tmp path v mode d = (Inl e, d')"
  shows "nodes d' = nodes d \<and> next_inode d \<le> next_inode d'"
proof (cases "syscall x i (if nodes d tmp \<noteq> None then Inl (Failure ''file exists'') else Inr ())")
  case (Inl e')
  then show ?thesis using assms by (simp add: atomicJSON_def)
next
  case (Inr u)
  then have "nodes d tmp = None" by (simp add: syscall_Inr split: if_splits)
  with Inr show ?thesis using assms
    by (auto simp: atomicJSON_def Let_def fun_eq_iff create_def set_mode_def set_value_def remove_def split: sum.splits)
qed

lemma atomicJSON_success:
  assumes "atomicJSON x i uid tmp path v mode d = (Inr (), d')"
  shows "nodes d tmp = None \<and> next_inode d' = next_inode d + 1 \<and>
     nodes d' = (nodes d)(path := (if path = tmp then None else Some \<lparr>nstat = \<lparr>fkind = RegularFile, fuid = uid, fperm = mode,
         fsticky = False, fino = next_inode d, fsize = 0\<rparr>, nvalue = Some v\<rparr>))"
proof -
  have t: "nodes d tmp = None" using assms by (auto simp: atomicJSON_def Let_def split: sum.splits if_splits)
  with assms show ?thesis
    by (auto simp: atomicJSON_def Let_def rbind_Inr syscall_Inr rename_def create_def set_mode_def set_value_def remove_def fun_eq_iff
        split: sum.splits if_splits)
qed


lemma listen_effect:
  assumes "listen x uid path k = (r, k')"
  shows "k' = k \<or> nodes (disk k) path = None \<and> made k' = insert (next_inode (disk k)) (made k)
      \<and> next_inode (disk k') = next_inode (disk k) + 1
      \<and> (nodes (disk k') = nodes (disk k) \<and> artifacts k' = artifacts k
         \<or> (\<exists>n. nodes (disk k') = (nodes (disk k))(path \<mapsto> n) \<and> fino (nstat n) = next_inode (disk k)
              \<and> (artifacts k' = AList.update path (nstat n) (artifacts k) \<or> artifacts k' = artifacts k \<and> x 3 \<noteq> None)))"
proof (cases "syscall x 0 (Lstat (disk k) path)")
  case (Inr st)
  then show ?thesis using assms by (simp add: listen_def)
next
  case (Inl e)
  show ?thesis
  proof (cases "e = NotExist")
    case False
    then show ?thesis using assms unfolding listen_def Inl sum.case by (cases e) simp_all
  next
    case True
    with Inl have free: "nodes (disk k) path = None" and x0: "x 0 = None" by (simp_all add: syscall_NotExist Lstat_simps)
    have s0: "syscall x 0 (Lstat (disk k) path) = Inl NotExist" using Inl True by blast
    show ?thesis using assms free
      unfolding listen_def s0 sum.case gerr.case Let_def
      by (cases "x 1"; cases "x 2"; cases "x 3")
        (auto simp: syscall_def create_def set_mode_def remove_def Lstat_def fun_eq_iff)
  qed
qed

lemma writeArtifact_effect:
  assumes "writeArtifact x uid tmp path v mode k = (r, k')"
  shows "nodes (disk k') = nodes (disk k) \<and> artifacts k' = artifacts k \<and> next_inode (disk k) \<le> next_inode (disk k')
      \<and> made k' = made k \<union> {next_inode (disk k)..<next_inode (disk k')}
    \<or> (\<exists>n. nodes (disk k') = (nodes (disk k))(path \<mapsto> n) \<and> fino (nstat n) = next_inode (disk k) \<and> nvalue n = Some v
        \<and> next_inode (disk k') = next_inode (disk k) + 1 \<and> made k' = insert (next_inode (disk k)) (made k)
        \<and> (case map_of (artifacts k) path of None \<Rightarrow> nodes (disk k) path = None
           | Some old \<Rightarrow> \<exists>n0. nodes (disk k) path = Some n0 \<and> SameFile old (nstat n0))
        \<and> (artifacts k' = AList.update path (nstat n) (artifacts k) \<and> r = Inr () \<or> artifacts k' = artifacts k \<and> x 7 \<noteq> None))"
proof (cases "may_write (map_of (artifacts k) path) (syscall x 0 (Lstat (disk k) path)) path")
  case (Inl e)
  then show ?thesis using assms by (simp add: writeArtifact_def)
next
  case (Inr u)
  then have may: "case map_of (artifacts k) path of None \<Rightarrow> nodes (disk k) path = None
           | Some old \<Rightarrow> \<exists>n0. nodes (disk k) path = Some n0 \<and> SameFile old (nstat n0)"
    by (auto simp: may_write_def syscall_Inr syscall_NotExist Lstat_simps split: option.splits sum.splits gerr.splits if_splits)
  obtain q d where a: "atomicJSON x 1 uid tmp path v mode (disk k) = (q, d)" by fastforce
  show ?thesis
  proof (cases q)
    case (Inl e)
    with a atomicJSON_error [of x 1 uid tmp path v mode "disk k" e d] assms Inr show ?thesis
      by (auto simp: writeArtifact_def Let_def)
  next
    case (Inr w)
    with a have s: "atomicJSON x 1 uid tmp path v mode (disk k) = (Inr (), d)" by simp
    note d = atomicJSON_success [OF s]
    have k': "(case syscall x 7 (Lstat d path) of
         Inl e \<Rightarrow> (Inl e, k\<lparr>disk := d, made := made k \<union> {next_inode (disk k)..<next_inode d}\<rparr>)
       | Inr st \<Rightarrow> (Inr (), k\<lparr>disk := d, made := made k \<union> {next_inode (disk k)..<next_inode d},
            artifacts := AList.update path st (artifacts k)\<rparr>)) = (r, k')"
      using assms \<open>may_write _ _ _ = Inr u\<close> s by (simp add: writeArtifact_def Let_def split: sum.splits)
    have ino: "{next_inode (disk k)..<next_inode d} = {next_inode (disk k)}" using d by auto
    show ?thesis
    proof (cases "path = tmp")
      case True
      then have "nodes d = nodes (disk k)" using d by auto
      then show ?thesis using k' d True
        by (cases "x 7") (auto simp: syscall_def Lstat_def)
    next
      case False
      then show ?thesis using k' d may ino by (cases "x 7") (auto simp: syscall_def Lstat_def)
    qed
  qed
qed

subsection \<open>Other people's files\<close>

lemma spares_refl: "spares own d d"
  by (simp add: spares_def)

lemma spares_trans: "spares own d d1 \<Longrightarrow> spares own d1 d2 \<Longrightarrow> spares own d d2"
  by (fastforce simp: spares_def)

lemma clean_one_spares: "fino (snd p) \<in> own \<Longrightarrow> spares own d (clean_one no_lstat no_remove p d)"
  by (auto simp: clean_one_def spares_def SameFile_def Lstat_def split: option.splits)

lemma cleanup_spares:
  "\<forall>(p, st) \<in> set as. fino st \<in> own \<Longrightarrow> spares own d (fold (clean_one no_lstat no_remove) as d)"
proof (induction as arbitrary: d)
  case (Cons a as)
  then have "spares own (clean_one no_lstat no_remove a d) (fold (clean_one no_lstat no_remove) as (clean_one no_lstat no_remove a d))"
    by simp
  moreover have "spares own d (clean_one no_lstat no_remove a d)"
    using Cons.prems by (intro clean_one_spares) auto
  ultimately show ?case using spares_trans by simp
qed (simp add: spares_refl)

lemma cleanup_frame: "next_inode (fold (clean_one f g) as d) = next_inode d
    \<and> (nodes (fold (clean_one f g) as d) p = None \<or> nodes (fold (clean_one f g) as d) p = nodes d p)"
proof (induction as arbitrary: d)
  case (Cons a as)
  have "next_inode (clean_one f g a d) = next_inode d \<and> (nodes (clean_one f g a d) p = None \<or> nodes (clean_one f g a d) p = nodes d p)"
    by (auto simp: clean_one_def split: sum.splits)
  with Cons show ?case by (metis fold_simps(2))
qed simp

lemma set_update: "(p, st) \<in> set (AList.update q s m) \<Longrightarrow> (p, st) \<in> set m \<or> (p, st) = (q, s)"
  by (induction m) (auto split: if_splits)

lemma own_step_effect:
  assumes "own_step k k'" "keeper_ok k"
  shows "keeper_ok k' \<and> spares (made k) (disk k) (disk k') \<and> (\<forall>i \<in> made k'. i \<in> made k \<or> next_inode (disk k) \<le> i)
    \<and> next_inode (disk k) \<le> next_inode (disk k')"
  using assms
proof (induction rule: own_step.induct)
  case (listen x uid path k r k')
  from listen_effect [OF listen.hyps] listen.prems show ?case
    by (auto simp: keeper_ok_def disk_wf_def spares_def less_Suc_eq split: if_splits dest!: set_update)
next
  case (publish x uid tmp path v mode k r k')
  consider (same) "nodes (disk k') = nodes (disk k)" "artifacts k' = artifacts k" "next_inode (disk k) \<le> next_inode (disk k')"
      "made k' = made k \<union> {next_inode (disk k)..<next_inode (disk k')}"
    | (new) n where "nodes (disk k') = (nodes (disk k))(path \<mapsto> n)" "fino (nstat n) = next_inode (disk k)"
      "next_inode (disk k') = next_inode (disk k) + 1" "made k' = insert (next_inode (disk k)) (made k)"
      "case map_of (artifacts k) path of None \<Rightarrow> nodes (disk k) path = None
           | Some old \<Rightarrow> \<exists>n0. nodes (disk k) path = Some n0 \<and> SameFile old (nstat n0)"
      "artifacts k' = AList.update path (nstat n) (artifacts k) \<or> artifacts k' = artifacts k"
    using writeArtifact_effect [OF publish.hyps] by blast
  then show ?case
  proof cases
    case same
    then show ?thesis using publish.prems
      by (auto simp: keeper_ok_def disk_wf_def spares_def dest: less_le_trans)
  next
    case new
    have "spares (made k) (disk k) (disk k')" unfolding spares_def
    proof (intro allI impI)
      fix p m
      assume m: "nodes (disk k) p = Some m"
      show "fino (nstat m) \<in> made k \<or> nodes (disk k') p = Some m"
      proof (cases "p = path")
        case True
        then obtain old where "map_of (artifacts k) path = Some old" "fino old = fino (nstat m)"
          using new(5) m by (auto simp: SameFile_def split: option.splits)
        then show ?thesis using publish.prems map_of_SomeD by (fastforce simp: keeper_ok_def)
      qed (use new m in simp)
    qed
    then show ?thesis using new publish.prems
      by (auto simp: keeper_ok_def disk_wf_def less_Suc_eq dest!: set_update)
  qed
next
  case (cleanup no_lstat no_remove k k')
  have d: "disk k' = fold (clean_one no_lstat no_remove) (artifacts k) (disk k)" "made k' = made k" "artifacts k' = artifacts k"
    using cleanup.hyps by (auto simp: cleanup_def)
  have "spares (made k) (disk k) (disk k')" unfolding d(1)
    using cleanup.prems by (intro cleanup_spares) (auto simp: keeper_ok_def)
  moreover have "disk_wf (disk k')" unfolding disk_wf_def d(1)
    using cleanup.prems cleanup_frame by (metis disk_wf_def keeper_ok_def option.distinct(1))
  ultimately show ?case using cleanup.prems cleanup_frame d by (auto simp: keeper_ok_def)
qed

lemma keeper_run:
  assumes "keeper_step\<^sup>*\<^sup>* k k'" "keeper_ok k"
  shows "keeper_ok k' \<and> (\<forall>i \<in> made k'. i \<in> made k \<or> next_inode (disk k) \<le> i) \<and> next_inode (disk k) \<le> next_inode (disk k')"
  using assms
proof (induction rule: rtranclp_induct)
  case (step k1 k2)
  from step.hyps(2) show ?case
  proof cases
    case own
    then show ?thesis using step own_step_effect by (metis order_trans)
  next
    case (other d)
    then show ?thesis using step by (auto simp: keeper_ok_def foreign_def dest: less_le_trans)
  qed
qed simp

definition fresh_keeper :: "disk_state \<Rightarrow> keeper" where
  "fresh_keeper d = \<lparr>disk = d, artifacts = [], made = {}\<rparr>"

lemma fresh_keeper_ok: "disk_wf d \<Longrightarrow> keeper_ok (fresh_keeper d)"
  by (simp add: fresh_keeper_def keeper_ok_def)



subsection \<open>Nothing left behind\<close>

text \<open>Against the files \<open>d\<close> at the start: a path is tracked exactly when it was free and holds the tracked file,
  and every other path is as it was.\<close>

definition accounted :: "disk_state \<Rightarrow> keeper \<Rightarrow> bool" where
  "accounted d k \<longleftrightarrow> distinct (map fst (artifacts k)) \<and>
     (\<forall>p. map_of (artifacts k) p = None \<longrightarrow> nodes (disk k) p = nodes d p) \<and>
     (\<forall>p st. map_of (artifacts k) p = Some st \<longrightarrow>
        nodes d p = None \<and> (\<exists>n. nodes (disk k) p = Some n \<and> SameFile st (nstat n)))"

lemma accountedD:
  assumes "accounted d k"
  shows "distinct (map fst (artifacts k))"
    and "map_of (artifacts k) p = None \<Longrightarrow> nodes (disk k) p = nodes d p"
    and "map_of (artifacts k) p = Some st \<Longrightarrow> nodes d p = None \<and> (\<exists>n. nodes (disk k) p = Some n \<and> SameFile st (nstat n))"
  by (insert assms, unfold accounted_def) blast+

lemma accounted_new:
  assumes "accounted d k" "nodes (disk k') = (nodes (disk k))(path \<mapsto> n)"
    and "artifacts k' = AList.update path (nstat n) (artifacts k)"
    and "map_of (artifacts k) path = None \<Longrightarrow> nodes (disk k) path = None"
  shows "accounted d k'"
  unfolding accounted_def
proof (intro conjI allI impI)
  show "distinct (map fst (artifacts k'))" using accountedD(1) [OF assms(1)] assms(3) by (simp add: distinct_update)
next
  fix p
  assume "map_of (artifacts k') p = None"
  then have "p \<noteq> path \<and> map_of (artifacts k) p = None" unfolding assms(3) map_of_update by (simp split: if_splits)
  then show "nodes (disk k') p = nodes d p" using accountedD(2) [OF assms(1)] assms(2) by simp
next
  fix p st
  assume t: "map_of (artifacts k') p = Some st"
  have "nodes d p = None \<and> (\<exists>n. nodes (disk k') p = Some n \<and> SameFile st (nstat n))"
  proof (cases "p = path")
    case True
    have "nodes d p = None"
    proof (cases "map_of (artifacts k) p")
      case None
      then show ?thesis using accountedD(2) [OF assms(1) None] assms(4) True by simp
    next
      case (Some s)
      then show ?thesis using accountedD(3) [OF assms(1) Some] by simp
    qed
    then show ?thesis
      using t True unfolding assms(2,3) map_of_update by (simp add: SameFile_def)
  next
    case False
    then have "map_of (artifacts k) p = Some st" using t unfolding assms(3) map_of_update by simp
    then show ?thesis using accountedD(3) [OF assms(1)] False assms(2) by simp
  qed
  then show "nodes d p = None" "\<exists>n. nodes (disk k') p = Some n \<and> SameFile st (nstat n)" by simp_all
qed

lemma accounted_same:
  "accounted d k \<Longrightarrow> nodes (disk k') = nodes (disk k) \<Longrightarrow> artifacts k' = artifacts k \<Longrightarrow> accounted d k'"
  unfolding accounted_def by simp

lemma accounted_listen:
  assumes "accounted d k" "x 3 = None" shows "accounted d (snd (listen x uid path k))"
proof -
  obtain r k' where l: "listen x uid path k = (r, k')" by fastforce
  have "map_of (artifacts k) path = None" if "nodes (disk k) path = None"
    using accountedD(3) [OF assms(1), of path] that by (cases "map_of (artifacts k) path") simp_all
  then show ?thesis
    using listen_effect [OF l] assms l accounted_new [OF assms(1)] accounted_same [OF assms(1)] by auto
qed

lemma accounted_write:
  assumes "accounted d k" "x 7 = None" shows "accounted d (snd (writeArtifact x uid tmp path v mode k))"
proof -
  obtain r k' where l: "writeArtifact x uid tmp path v mode k = (r, k')" by fastforce
  show ?thesis
    using writeArtifact_effect [OF l] assms l accounted_new [OF assms(1), of k' path] accounted_same [OF assms(1), of k']
    by (auto split: option.splits)
qed

lemma cleanup_nodes:
  "distinct (map fst as) \<Longrightarrow> \<forall>(p, st) \<in> set as. \<exists>n. nodes d p = Some n \<and> SameFile st (nstat n) \<Longrightarrow>
     nodes (fold (clean_one (\<lambda>_. False) (\<lambda>_. False)) as d) = (\<lambda>p. if p \<in> fst ` set as then None else nodes d p)"
proof (induction as arbitrary: d)
  case (Cons a as)
  obtain n where n: "nodes d (fst a) = Some n" "SameFile (snd a) (nstat n)" using Cons.prems(2) by (cases a) auto
  have c: "clean_one (\<lambda>_. False) (\<lambda>_. False) a d = remove (fst a) d"
    using n by (simp add: clean_one_def Lstat_def)
  have "\<forall>(p, st) \<in> set as. \<exists>n. nodes (remove (fst a) d) p = Some n \<and> SameFile st (nstat n)"
    using Cons.prems by (force simp: remove_def)
  then have "nodes (fold (clean_one (\<lambda>_. False) (\<lambda>_. False)) as (remove (fst a) d))
      = (\<lambda>p. if p \<in> fst ` set as then None else nodes (remove (fst a) d) p)"
    using Cons.IH Cons.prems(1) by simp
  then show ?case by (auto simp: c remove_def fun_eq_iff)
qed simp

lemma cleanup_restores:
  assumes "accounted d k" shows "nodes (disk (cleanup (\<lambda>_. False) (\<lambda>_. False) k)) = nodes d"
proof -
  note a = accountedD [OF assms]
  have "\<forall>(p, st) \<in> set (artifacts k). \<exists>n. nodes (disk k) p = Some n \<and> SameFile st (nstat n)"
    using a(1,3) by auto
  note c = cleanup_nodes [OF a(1) this]
  show ?thesis
  proof
    fix p
    show "nodes (disk (cleanup (\<lambda>_. False) (\<lambda>_. False) k)) p = nodes d p"
    proof (cases "map_of (artifacts k) p")
      case None
      then have "p \<notin> fst ` set (artifacts k)" by (simp add: map_of_eq_None_iff)
      then show ?thesis using a(2) [OF None] c by (simp add: cleanup_def)
    next
      case (Some st)
      then have "p \<in> fst ` set (artifacts k)" by (metis map_of_eq_None_iff option.distinct(1))
      then show ?thesis using a(3) [OF Some] c by (simp add: cleanup_def)
    qed
  qed
qed

lemma kbind_invariant:
  "P (snd rk) \<Longrightarrow> (\<And>a k. P k \<Longrightarrow> P (snd (f a k))) \<Longrightarrow> P (snd (kbind rk f))"
  by (cases rk) (auto simp: kbind_def split: sum.splits)

lemma accounted_start:
  assumes "accounted d k" "\<forall>i. r_faults S i 3 = None \<and> r_faults S i 7 = None"
  shows "accounted d (snd (start_files S w control k))"
  unfolding start_files_def Let_def
  using assms
  by (intro kbind_invariant [where P = "accounted d"])
    (auto simp: register_file_def publish_file_def accounted_listen accounted_write split: sum.splits)

lemma accounted_serving:
  assumes "\<forall>i. r_faults S i 3 = None \<and> r_faults S i 7 = None"
  shows "accounted d k \<Longrightarrow> accounted d (publish_all S ws k)"
  by (induction ws arbitrary: k) (auto simp: publish_file_def accounted_write assms)

text \<open>A worker that ends, because its start failed at any point or after any number of publications, leaves
  the files exactly as they were when it started, unless the \<open>Lstat\<close> of a file it has just created or its
  removal failed, or another process changed them.\<close>

theorem worker_leaves_no_files:
  assumes "\<forall>i. r_faults S i 3 = None \<and> r_faults S i 7 = None"
  shows "nodes (disk (snd (RunWorker S dir served (\<lambda>_. False) (\<lambda>_. False) d))) = nodes d"
proof -
  let ?k = "\<lparr>disk = d, artifacts = [], made = {}\<rparr> :: keeper"
  have k: "accounted d ?k" by (simp add: accounted_def)
  show ?thesis
  proof (cases "open_worker S dir")
    case (Inr wc)
    obtain w control r k1 where s: "wc = (w, control)" "start_files S w control ?k = (r, k1)" by (metis prod.exhaust)
    have "accounted d k1" using accounted_start [OF k assms, of w control] s(2) by simp
    then show ?thesis using Inr s accounted_serving [OF assms]
      by (auto simp: RunWorker_def cleanup_restores split: sum.splits)
  qed (simp add: RunWorker_def)
qed

end
