(* ===== verification/Running_Props.thy ===== *)
theory Running_Props
  imports Artifact_Safety Worker_Props
begin

section \<open>What a running worker guarantees\<close>

text \<open>
  The start of a worker establishes what the theorems about running workers assume, its files say what peers
  and clients read, and its goroutines are runs of the handlers.
\<close>

subsection \<open>A successful start\<close>

lemma listen_ok:
  assumes "\<forall>i. x i = None" "nodes (disk k) path = None"
  shows "\<exists>k' n. listen x uid path k = (Inr (), k') \<and> nodes (disk k') = (nodes (disk k))(path \<mapsto> n)
    \<and> fkind (nstat n) = SocketFile \<and> fperm (nstat n) = 384 \<and> map_of (artifacts k') = (map_of (artifacts k))(path \<mapsto> nstat n)"
  using assms
  by (simp add: listen_def Let_def syscall_def Lstat_def create_def set_mode_def update_conv')
    (intro exI conjI, rule refl, simp_all)

lemma write_ok:
  assumes "\<forall>i. x i = None" "nodes (disk k) path = None" "map_of (artifacts k) path = None"
    and "nodes (disk k) tmp = None" "path \<noteq> tmp"
  shows "\<exists>k' n. writeArtifact x uid tmp path v mode k = (Inr (), k') \<and> nodes (disk k') = (nodes (disk k))(path \<mapsto> n)
    \<and> fkind (nstat n) = RegularFile \<and> fperm (nstat n) = mode \<and> fuid (nstat n) = uid \<and> nvalue n = Some v
    \<and> map_of (artifacts k') = (map_of (artifacts k))(path \<mapsto> nstat n)"
proof -
  have "\<exists>d. atomicJSON x 1 uid tmp path v mode (disk k) = (Inr (), d)"
    using assms by (simp add: atomicJSON_def Let_def syscall_def is_directory_def create_def set_mode_def set_value_def)
  then obtain d where a: "atomicJSON x 1 uid tmp path v mode (disk k) = (Inr (), d)" by blast
  note s = atomicJSON_success [OF a]
  show ?thesis using assms a s
    by (simp add: writeArtifact_def may_write_def syscall_def Lstat_def Let_def update_conv')
      (intro exI conjI, rule refl, simp_all)
qed

text \<open>The paths of a worker's files, in the order they are created.\<close>

definition worker_paths :: "start_env \<Rightarrow> worker \<Rightarrow> string \<Rightarrow> string list" where
  "worker_paths S w control =
     [wpath w, control, keyPath (esha (r_env S)) (wregistry w) (wpid w) (wpath w),
      JoinPath [wregistry w, Itoa (wpid w) @ ''.json''], JoinPath [wdir w, ''worker.json'']]"

definition free_for :: "start_env \<Rightarrow> disk_state \<Rightarrow> string list \<Rightarrow> bool" where
  "free_for S d ps \<longleftrightarrow> distinct ps \<and> (\<forall>p \<in> set ps. nodes d p = None \<and> (\<forall>i. r_tmp S i \<noteq> p))
     \<and> (\<forall>i. nodes d (r_tmp S i) = None) \<and> (\<forall>i j. r_faults S i j = None)"

lemma setActivity_frame [simp]:
  "wpath (setActivity E w s t) = wpath w" "wregistry (setActivity E w s t) = wregistry w"
  "wpid (setActivity E w s t) = wpid w" "wdir (setActivity E w s t) = wdir w"
  "wconfig (setActivity E w s t) = wconfig w" "wstart (setActivity E w s t) = wstart w"
  "wborn (setActivity E w s t) = wborn w" "wstore (setActivity E w s t) = wstore w"
  "waddress (setActivity E w s t) = waddress w"
  by (simp_all add: setActivity_def Let_def)

lemma kbind_simps [simp]: "kbind (Inr a, k) f = f a k" "kbind (Inl e, k) f = (Inl e, k)"
  by (simp_all add: kbind_def)

lemma start_files_ok:
  assumes "free_for S d (worker_paths S w control)" and "r_key S = Inr token"
    and "lockPeerNames (efiles (r_env S)) (r_lock S) (Inr ()) (wregistry w) = Inr ()"
    and "checkPeerName (ehost (r_env S)) (efiles (r_env S)) (esha (r_env S)) (wregistry w) (CName (wconfig w)) (wpid w) = Inr ()"
  shows "let w1 = setActivity (r_env S) w ''unknown'' ''No app-server observation yet'';
             keyFile = keyPath (esha (r_env S)) (wregistry w) (wpid w) (wpath w) in
    \<exists>k. start_files S w control \<lparr>disk = d, artifacts = [], made = {}\<rparr> = (Inr w1, k)
      \<and> map_option nvalue (nodes (disk k) keyFile) = Some (Some (key_json token (wstart w) (goos (ehost (r_env S)))))
      \<and> map_option nvalue (nodes (disk k) (JoinPath [wregistry w, Itoa (wpid w) @ ''.json''])) = Some (Some (GObj (registration (r_env S) w1)))
      \<and> map_option nvalue (nodes (disk k) (JoinPath [wdir w, ''worker.json''])) = Some (Some (meta_json w control keyFile))"
proof -
  define kf where "kf = keyPath (esha (r_env S)) (wregistry w) (wpid w) (wpath w)"
  define rf where "rf = JoinPath [wregistry w, Itoa (wpid w) @ ''.json'']"
  define mf where "mf = JoinPath [wdir w, ''worker.json'']"
  define w1 where "w1 = setActivity (r_env S) w ''unknown'' ''No app-server observation yet''"
  have ps: "distinct [wpath w, control, kf, rf, mf]" "nodes d (wpath w) = None" "nodes d control = None" "nodes d kf = None"
     "nodes d rf = None" "nodes d mf = None" "\<And>i. nodes d (r_tmp S i) = None" "\<And>i. \<forall>j. r_faults S i j = None"
     "\<And>i. r_tmp S i \<notin> {wpath w, control, kf, rf, mf}"
    using assms(1) by (auto simp: free_for_def worker_paths_def kf_def rf_def mf_def)
  let ?k0 = "\<lparr>disk = d, artifacts = [], made = {}\<rparr> :: keeper"
  obtain k1 n1 where k1: "listen (r_faults S 0) (r_uid S) (wpath w) ?k0 = (Inr (), k1)"
    "nodes (disk k1) = (nodes d)(wpath w \<mapsto> n1)" "map_of (artifacts k1) = [wpath w \<mapsto> nstat n1]"
    using listen_ok [of "r_faults S 0" ?k0 "wpath w" "r_uid S"] ps by auto
  obtain k2 n2 where k2: "listen (r_faults S 1) (r_uid S) control k1 = (Inr (), k2)"
    "nodes (disk k2) = (nodes (disk k1))(control \<mapsto> n2)" "map_of (artifacts k2) = (map_of (artifacts k1))(control \<mapsto> nstat n2)"
    using listen_ok [of "r_faults S 1" k1 control "r_uid S"] ps k1(2) by auto
  let ?key = "key_json token (wstart w) (goos (ehost (r_env S)))"
  obtain k3 n3 where k3: "writeArtifact (r_faults S 2) (r_uid S) (r_tmp S 2) kf ?key 384 k2 = (Inr (), k3)"
    "nodes (disk k3) = (nodes (disk k2))(kf \<mapsto> n3)" "nvalue n3 = Some ?key"
    "map_of (artifacts k3) = (map_of (artifacts k2))(kf \<mapsto> nstat n3)"
    using write_ok [of "r_faults S 2" k2 kf "r_tmp S 2" "r_uid S" ?key 384] ps(1-8) ps(9) [of 2] k1 k2 by auto
  let ?reg = "GObj (registration (r_env S) w1)"
  obtain k4 n4 where k4: "writeArtifact (r_faults S 3) (r_uid S) (r_tmp S 3) rf ?reg 420 k3 = (Inr (), k4)"
    "nodes (disk k4) = (nodes (disk k3))(rf \<mapsto> n4)" "nvalue n4 = Some ?reg"
    "map_of (artifacts k4) = (map_of (artifacts k3))(rf \<mapsto> nstat n4)"
    using write_ok [of "r_faults S 3" k3 rf "r_tmp S 3" "r_uid S" ?reg 420] ps(1-8) ps(9) [of 3] k1 k2 k3 by auto
  let ?meta = "meta_json w control kf"
  obtain k5 n5 where k5: "writeArtifact (r_faults S 4) (r_uid S) (r_tmp S 4) mf ?meta 384 k4 = (Inr (), k5)"
    "nodes (disk k5) = (nodes (disk k4))(mf \<mapsto> n5)" "nvalue n5 = Some ?meta"
    using write_ok [of "r_faults S 4" k4 mf "r_tmp S 4" "r_uid S" ?meta 384] ps(1-8) ps(9) [of 4] k1 k2 k3 k4 by auto
  have "register_file S w1 k3 = (Inr (), k4)"
    using k4(1) assms(3,4) by (simp add: register_file_def publish_file_def w1_def rf_def)
  then have "start_files S w control ?k0 = (Inr w1, k5)"
    using k1(1) k2(1) k3(1) k5(1) assms(2)
    by (simp add: start_files_def Let_def kf_def [symmetric] mf_def [symmetric] w1_def [symmetric])
  moreover have "nodes (disk k5) kf = Some n3" "nodes (disk k5) rf = Some n4" "nodes (disk k5) mf = Some n5"
    using k3(2) k4(2) k5(2) ps(1) by auto
  ultimately show ?thesis using k3(3) k4(3) k5(3)
    by (simp add: Let_def kf_def [symmetric] rf_def [symmetric] mf_def [symmetric] w1_def [symmetric])
qed

text \<open>When the paths of a worker are free and no system call fails, its start succeeds and leaves the key for peers,
  the registration and \<open>worker.json\<close> with the values that clients and peers look for.\<close>

theorem start_publishes:
  assumes "free_for S d (worker_paths S w control)" and "r_key S = Inr token"
    and "lockPeerNames (efiles (r_env S)) (r_lock S) (Inr ()) (wregistry w) = Inr ()"
    and "checkPeerName (ehost (r_env S)) (efiles (r_env S)) (esha (r_env S)) (wregistry w) (CName (wconfig w)) (wpid w) = Inr ()"
  shows "let w1 = setActivity (r_env S) w ''unknown'' ''No app-server observation yet'';
             keyFile = keyPath (esha (r_env S)) (wregistry w) (wpid w) (wpath w) in
    \<exists>k. start_files S w control \<lparr>disk = d, artifacts = [], made = {}\<rparr> = (Inr w1, k)
      \<and> map_option nvalue (nodes (disk k) keyFile) = Some (Some (key_json token (wstart w) (goos (ehost (r_env S)))))
      \<and> map_option nvalue (nodes (disk k) (JoinPath [wregistry w, Itoa (wpid w) @ ''.json''])) = Some (Some (GObj (registration (r_env S) w1)))
      \<and> map_option nvalue (nodes (disk k) (JoinPath [wdir w, ''worker.json''])) = Some (Some (meta_json w control keyFile))"
  by (rule start_files_ok [OF assms])

end
