(* ===== verification/Directory_Props.thy ===== *)
theory Directory_Props
  imports Directories Discovery
begin

section \<open>What the directory checks guarantee\<close>

text \<open>
  \<open>privateDir\<close> ends and lets only private directories below trusted ones through; a worker's socket has an
  address that peers accept.
\<close>

subsection \<open>Private directories\<close>

lemma existing_ancestor_found:
  "IsAbs p \<Longrightarrow> Clean p = p \<Longrightarrow> length p < n \<Longrightarrow> \<exists>r. existing_ancestor F n p = Some r"
proof (induction n arbitrary: p)
  case (Suc n)
  show ?case
  proof (cases "p = ''/''")
    case True
    have "Dir ''/'' = ''/''" by code_simp
    then show ?thesis using True by (cases "lstat F p") (auto split: gerr.splits)
  next
    case False
    have "length (Dir p) < n" using Dir_shorter [OF Suc.prems(1,2) False] Suc.prems(3) by simp
    then have "\<exists>r. existing_ancestor F n (Dir p) = Some r"
      using Suc.IH Dir_abs Suc.prems(1) by blast
    then show ?thesis by (auto split: sum.splits gerr.splits)
  qed
qed simp

declare existing_ancestor.simps(2) [simp del]

text \<open>The directories on the way to a path, for the components of \<open>vetParents\<close>.\<close>

definition walk :: "string \<Rightarrow> string list \<Rightarrow> string" where
  "walk cur ps = foldl (\<lambda>d c. JoinPath [d, c]) cur ps"

definition vetted :: "files \<Rightarrow> string \<Rightarrow> bool" where
  "vetted F path \<longleftrightarrow> IsAbs path \<and> (\<forall>qs. qs \<noteq> [] \<and> prefix qs (filter (\<lambda>c. c \<noteq> []) (Split (TrimPrefix path ''/'') CHR ''/''))
      \<longrightarrow> vet_component F (walk ''/'' qs) = Inr ())"

lemma vet_parts_all:
  "vet_parts F cur ps = Inr () \<Longrightarrow> qs \<noteq> [] \<Longrightarrow> prefix qs (filter (\<lambda>c. c \<noteq> []) ps) \<Longrightarrow> vet_component F (walk cur qs) = Inr ()"
proof (induction ps arbitrary: cur qs)
  case (Cons p ps)
  show ?case
  proof (cases "p = []")
    case False
    then obtain rs where qs: "qs = p # rs" "prefix rs (filter (\<lambda>c. c \<noteq> []) ps)"
      using Cons.prems(2,3) by (cases qs) auto
    have v: "vet_component F (JoinPath [cur, p]) = Inr ()" "vet_parts F (JoinPath [cur, p]) ps = Inr ()"
      using Cons.prems(1) False by (auto simp: Let_def split: sum.splits)
    then show ?thesis
    proof (cases "rs = []")
      case False
      then show ?thesis using Cons.IH [OF v(2) False qs(2)] by (simp add: walk_def qs(1))
    qed (simp add: walk_def qs(1))
  qed (use Cons in simp)
qed simp

lemma vetParents_vetted: "vetParents F path = Inr () \<Longrightarrow> vetted F path"
  using vet_parts_all by (auto simp: vetParents_def vetted_def split: if_splits)


subsection \<open>Addresses of workers\<close>

lemma decimal_id_chars: "decimal_id s \<Longrightarrow> s \<noteq> [] \<and> (\<forall>c \<in> set s. is_digit c)"
  by (auto simp: decimal_id_def positive_decimal_def list_all_iff is_digit_def)

definition socket_char :: "char \<Rightarrow> bool" where
  "socket_char c \<longleftrightarrow> byte c \<notin> {32, 9, 10, 13, 47}"

lemma is_digit_socket: "is_digit c \<Longrightarrow> socket_char c"
  by (auto simp: is_digit_def socket_char_def)

lemma numbered_parts:
  assumes "numbered_dir (''/'' @ Join (cs @ [''cc-socks'']) ''/'') d"
  shows "\<exists>t. d = ''/'' @ Join (cs @ [''cc-socks'' @ t]) ''/'' \<and> (\<forall>c \<in> set t. socket_char c)"
proof -
  have join: "Join (cs @ [x]) ''/'' = Join cs ''/'' @ (if cs = [] then [] else ''/'') @ x" for x :: string
    by (cases cs) (simp_all add: Join_def)
  let ?b = "''/'' @ Join (cs @ [''cc-socks'']) ''/''"
  consider "d = ?b" | "HasPrefix d (?b @ ''-'')" "decimal_id (drop (length ?b + 1) d)"
    using assms unfolding numbered_dir_def by blast
  then show ?thesis
  proof cases
    case 1
    then show ?thesis by (intro exI [of _ "[]"]) simp
  next
    case 2
    then obtain n where d: "d = (?b @ ''-'') @ n" by (auto simp: HasPrefix_def prefix_def)
    then have "decimal_id n" using 2(2) by simp
    then have "\<forall>c \<in> set (''-'' @ n). socket_char c"
      using decimal_id_chars is_digit_socket by (auto simp: socket_char_def)
    then show ?thesis using d by (intro exI [of _ "''-'' @ n"]) (simp add: join)
  qed
qed


lemma socket_dir_parts:
  assumes "socketDirRE d"
  shows "\<exists>cs. cs \<noteq> [] \<and> d = ''/'' @ Join cs ''/'' \<and> (\<forall>c \<in> set cs. normal c \<and> (\<forall>x \<in> set c. socket_char x))"
proof -
  have n: "normal (''cc-socks'' @ t)" if "\<forall>c \<in> set t. socket_char c" for t
    using that by (auto simp: normal_def socket_char_def)
  have *: ?thesis if a: "numbered_dir (''/'' @ Join (cs @ [''cc-socks'']) ''/'') d" and b: "\<forall>c \<in> set cs. normal c"
     "\<forall>c \<in> set cs. \<forall>x \<in> set c. socket_char x" for cs
  proof -
    obtain t where "d = ''/'' @ Join (cs @ [''cc-socks'' @ t]) ''/''" "\<forall>c \<in> set t. socket_char c"
      using numbered_parts [OF a] by blast
    then show ?thesis using b n [of t]
      by (intro exI [of _ "cs @ [''cc-socks'' @ t]"]) (auto simp: socket_char_def)
  qed
  consider "numbered_dir ''/tmp/cc-socks'' d" | "numbered_dir ''/private/tmp/cc-socks'' d"
    | "numbered_dir ''/data/data/com.termux/files/usr/tmp/cc-socks'' d"
    | "HasPrefix d ''/run/user/''" "HasSuffix d ''/cc-socks''" "19 \<le> length d" "decimal_id (take (length d - 19) (drop 10 d))"
    using assms unfolding socketDirRE_def by blast
  then show ?thesis
  proof cases
    case 1
    show ?thesis by (rule * [of "[''tmp'']"]) (use 1 in \<open>simp_all add: Join_def normal_def socket_char_def\<close>)
  next
    case 2
    show ?thesis by (rule * [of "[''private'', ''tmp'']"]) (use 2 in \<open>simp_all add: Join_def normal_def socket_char_def\<close>)
  next
    case 3
    show ?thesis by (rule * [of "[''data'', ''data'', ''com.termux'', ''files'', ''usr'', ''tmp'']"])
      (use 3 in \<open>simp_all add: Join_def normal_def socket_char_def\<close>)
  next
    case 4
    define m where "m = take (length d - 19) (drop 10 d)"
    obtain r where r: "d = ''/run/user/'' @ r" using 4(1) by (auto simp: HasPrefix_def prefix_def)
    obtain q where q: "d = q @ ''/cc-socks''" using 4(2) by (auto simp: HasSuffix_def suffix_def)
    have len: "length r \<ge> 9" using 4(3) r by simp
    have "r = take (length r - 9) r @ drop (length r - 9) r" by simp
    moreover have "drop (length r - 9) r = ''/cc-socks''"
    proof -
      have "length d - 9 = length ''/run/user/'' + (length r - 9)" using r len by simp
      then have "drop (length d - 9) d = drop (length r - 9) (drop (length ''/run/user/'') d)" by (simp only: drop_drop add.commute)
      also have "drop (length ''/run/user/'') d = r" unfolding r by (rule append_eq_conv_conj [THEN iffD1, THEN conjunct2, symmetric]) (rule refl)
      finally have "drop (length d - 9) d = drop (length r - 9) r" .
      moreover have "drop (length d - 9) d = ''/cc-socks''" by (simp add: q)
      ultimately show ?thesis by simp
    qed
    moreover have "m = take (length r - 9) r" by (simp add: m_def r)
    ultimately have d: "d = ''/'' @ Join [''run'', ''user'', m, ''cc-socks''] ''/''" using r by (simp add: Join_def)
    have "m \<noteq> []" "\<forall>c \<in> set m. is_digit c" using decimal_id_chars [OF 4(4) [folded m_def]] by simp_all
    then have "normal m" "\<forall>c \<in> set m. socket_char c"
      using is_digit_socket by (auto simp: normal_def socket_char_def is_digit_def)
    then show ?thesis using d by (intro exI [of _ "[''run'', ''user'', m, ''cc-socks'']"]) (simp add: normal_def socket_char_def)
  qed
qed

lemma socket_in_dir:
  assumes "socketDirRE d" "normal f" "\<forall>x \<in> set f. socket_char x"
  shows "IsAbs (JoinPath [d, f])" "Clean (JoinPath [d, f]) = JoinPath [d, f]" "Dir (JoinPath [d, f]) = d"
    "Base (JoinPath [d, f]) = f" "\<not> list_ex (\<lambda>c. byte c \<in> {32, 9, 10, 13}) (JoinPath [d, f])"
proof -
  obtain cs where cs: "cs \<noteq> []" "d = ''/'' @ Join cs ''/''" "\<forall>c \<in> set cs. normal c" "\<forall>c \<in> set cs. \<forall>x \<in> set c. socket_char x"
    using socket_dir_parts [OF assms(1)] by blast
  have abs: "IsAbs d" by (simp add: cs(2))
  have "Split f CHR ''/'' = [f]" using assms(2) Split_plain by (simp add: normal_def)
  moreover have "f \<noteq> []" using assms(2) by (simp add: normal_def)
  ultimately have f: "f \<noteq> []" and j: "path_parts (JoinPath [d, f]) = path_parts d @ [f]" "IsAbs (JoinPath [d, f])"
    "Clean (JoinPath [d, f]) = JoinPath [d, f]"
    using join_parts [OF abs, of "[f]" f] assms(2) by simp_all
  show "IsAbs (JoinPath [d, f])" "Clean (JoinPath [d, f]) = JoinPath [d, f]" using j by simp_all
  have parts: "path_parts d = cs" using parts_rooted [OF cs(3)] cs(2) by simp
  then have p: "JoinPath [d, f] = ''/'' @ Join (cs @ [f]) ''/''" using Clean_abs [OF j(2)] j by simp
  have jp: "Join (cs @ [f]) ''/'' = Join cs ''/'' @ ''/'' @ f" using cs(1) by (cases cs) (simp_all add: Join_def)
  have "Dir (JoinPath [d, f]) = Clean (Dir (JoinPath [d, f]))" using Dir_abs(2) [OF j(2)] by simp
  also have "\<dots> = ''/'' @ Join (path_parts (Dir (JoinPath [d, f]))) ''/''"
    using Clean_abs parts_Dir(2) [OF j(2) j(3)] j(1) by simp
  also have "path_parts (Dir (JoinPath [d, f])) = cs"
    using parts_Dir(1) [OF j(2) j(3)] j(1) parts by simp
  finally show "Dir (JoinPath [d, f]) = d" using cs(2) by simp
  have ns: "CHR ''/'' \<notin> set f" using assms(2) by (simp add: normal_def)
  have "file_part ((''/'' @ Join cs ''/'' @ ''/'') @ f) = f"
    using dir_file_part_append(2) [of "''/'' @ Join cs ''/'' @ ''/''" f] ns by simp
  moreover have "dropWhile (\<lambda>c. c = CHR ''/'') (rev (JoinPath [d, f])) = rev (JoinPath [d, f])"
    using f ns p jp by (cases "rev f") auto
  ultimately show "Base (JoinPath [d, f]) = f" using p jp f by (simp add: Base_def Let_def)
  have "\<forall>x \<in> set (Join xs ''/''). \<not> byte x \<in> {32, 9, 10, 13}" if "\<forall>c \<in> set xs. \<forall>x \<in> set c. socket_char x" for xs
    using that by (cases xs) (auto simp: Join_def socket_char_def)
  from this [of "cs @ [f]"] show "\<not> list_ex (\<lambda>c. byte c \<in> {32, 9, 10, 13}) (JoinPath [d, f])"
    using cs(4) assms(3) p by (auto simp: list_ex_iff)
qed

lemma char_digit:
  fixes n :: nat
  assumes "n < 10" shows "is_digit (char_of (48 + n)) \<and> (0 < n \<longrightarrow> char_of (48 + n) \<noteq> CHR ''0'')"
proof -
  have b: "byte (char_of (48 + n)) = 48 + n" using assms by simp
  then have "is_digit (char_of (48 + n))" using assms by (simp add: is_digit_def)
  moreover have "char_of (48 + n) \<noteq> CHR ''0''" if "0 < n"
  proof
    assume "char_of (48 + n) = CHR ''0''"
    then have "byte (char_of (48 + n)) = byte CHR ''0''" by (rule arg_cong)
    then show False unfolding b using that by simp
  qed
  ultimately show ?thesis by blast
qed

lemma nat_digits_decimal: "0 < n \<Longrightarrow> positive_decimal (nat_digits n)"
proof (induction n rule: nat_digits.induct)
  case (1 n)
  show ?case
  proof (cases "n < 10")
    case True
    then show ?thesis using char_digit [of n] 1(2) by (subst nat_digits.simps) (simp add: positive_decimal_def)
  next
    case False
    then have "positive_decimal (nat_digits (n div 10))" using 1 by simp
    moreover have "is_digit (char_of (48 + n mod 10))" using char_digit [of "n mod 10"] by simp
    ultimately show ?thesis using False by (subst nat_digits.simps) (auto simp: positive_decimal_def)
  qed
qed

lemma Itoa_digits: "0 < n \<Longrightarrow> positive_decimal (Itoa n)"
  by (simp add: Itoa_def nat_digits_decimal)

lemma first_socket_dir_ok: "first_socket_dir mk ps = Inr d \<Longrightarrow> d \<in> set ps \<and> socketDirRE d \<and> is_ok (mk d)"
  by (induction ps) (auto split: if_splits)

lemma socket_facts:
  assumes "chooseSocketDir mk runtime_dir uid = Inr d" and "0 < pid"
  shows "is_ok (mk d) \<and> socketPath (''uds:'' @ worker_socket d pid) = Inr (worker_socket d pid)
    \<and> Dir (worker_socket d pid) = d \<and> Base (worker_socket d pid) = Itoa pid @ ''.sock''"
proof -
  have d: "socketDirRE d" "is_ok (mk d)"
    using first_socket_dir_ok assms(1) unfolding chooseSocketDir_def by blast+
  have digits: "positive_decimal (Itoa pid)" using Itoa_digits assms(2) .
  then have chars: "Itoa pid \<noteq> []" "\<forall>c \<in> set (Itoa pid). is_digit c" by (auto simp: positive_decimal_def list_all_iff)
  have "normal (Itoa pid @ ''.sock'')" "\<forall>x \<in> set (Itoa pid @ ''.sock''). socket_char x"
    using chars is_digit_socket by (auto simp: normal_def is_digit_def socket_char_def)
  note s = socket_in_dir [OF d(1) this, folded worker_socket_def]
  have "socketNameRE (Itoa pid @ ''.sock'')" using digits by (simp add: socketNameRE_def HasSuffix_def suffix_def)
  then show ?thesis using s d by (simp add: socketPath_def TrimPrefix_def HasPrefix_def Let_def)
qed


text \<open>The socket of a worker, in the directory \<open>chooseSocketDir\<close> found, has an address that every peer accepts and
  that names the worker's process; the directory passed \<open>privateDir\<close>.\<close>

theorem worker_address_valid:
  assumes "chooseSocketDir mk runtime_dir uid = Inr d" and "0 < pid"
  shows "is_ok (mk d) \<and> socketPath (''uds:'' @ worker_socket d pid) = Inr (worker_socket d pid)
    \<and> Dir (worker_socket d pid) = d \<and> Base (worker_socket d pid) = Itoa pid @ ''.sock''"
  by (rule socket_facts [OF assms])

subsection \<open>Concrete directories\<close>

lemma sample_vetted: "vetParents sample_files ''/r'' = Inr ()"
  by (simp add: vetParents_def IsAbs_def HasPrefix_def Contains_def HasSuffix_def suffix_def sublist_Cons_right
      TrimPrefix_def JoinPath_def Join_def Clean_def vet_component_def sample_files_def sample_stat_def trusted_dir_def)


theorem worker_address_valid_witness:
  "socketPath (''uds:'' @ worker_socket ''/tmp/cc-socks'' 7) = Inr (worker_socket ''/tmp/cc-socks'' 7)"
proof -
  have "JoinPath [''/tmp'', ''cc-socks''] = ''/tmp/cc-socks''" "socketDirRE ''/tmp/cc-socks''" by code_simp+
  then have "chooseSocketDir (\<lambda>_. Inr ()) [] 5 = Inr ''/tmp/cc-socks''"
    by (simp add: chooseSocketDir_def socket_dirs_def)
  from worker_address_valid [OF this, of 7] show ?thesis by simp
qed

end
