(* ===== verification/Json.thy ===== *)
theory Json
  imports Directory_Props
begin

section \<open>Reading JSON back\<close>

text \<open>
  \<open>json.Unmarshal\<close> into an \<open>any\<close>, as a parser on strings, and the round trip through \<open>compact\<close>: what one process
  encodes is what the other reads, with keys in order and every number a \<open>float64\<close>.  A number is its exact
  rational value (rounding, the range of \<open>float64\<close> and the nesting limit are not modelled).
\<close>

subsection \<open>Strings\<close>

definition hex4 :: "string \<Rightarrow> nat option" where
  "hex4 s = (if length s < 4 then None else digits_val 16 0 (take 4 s))"

definition escape_val :: "char \<Rightarrow> char option" where
  "escape_val e =
     (if e = quote \<or> e = backslash \<or> e = CHR ''/'' then Some e
      else if e = CHR ''b'' then Some (char_of (8::nat))
      else if e = CHR ''f'' then Some (char_of (12::nat))
      else if e = CHR ''n'' then Some (char_of (10::nat))
      else if e = CHR ''r'' then Some (char_of (13::nat))
      else if e = CHR ''t'' then Some (char_of (9::nat))
      else None)"

text \<open>The second half of a surrogate pair, if it follows.\<close>

definition low_half :: "string \<Rightarrow> nat option" where
  "low_half s =
     (case s of
        b # u # t \<Rightarrow> if b = backslash \<and> u = CHR ''u'' then
            (case hex4 t of None \<Rightarrow> None | Some r \<Rightarrow> if 0xDC00 \<le> r \<and> r < 0xE000 then Some r else None)
          else None
      | _ \<Rightarrow> None)"

definition prepend :: "string \<Rightarrow> (string \<times> string) option \<Rightarrow> (string \<times> string) option" where
  "prepend p x = map_option (\<lambda>(s, t). (p @ s, t)) x"

text \<open>After the opening quote: the string and what follows its closing quote.\<close>

function unquote :: "string \<Rightarrow> (string \<times> string) option" where
  "unquote [] = None"
| "unquote (c # cs) =
     (if c = quote then Some ([], cs)
      else if c = backslash then
        (case cs of
           [] \<Rightarrow> None
         | e # es \<Rightarrow>
             if e = CHR ''u'' then
               (case hex4 es of
                  None \<Rightarrow> None
                | Some r \<Rightarrow>
                    if 0xD800 \<le> r \<and> r < 0xDC00 \<and> low_half (drop 4 es) \<noteq> None
                    then prepend (encode_rune ((r - 0xD800) * 1024 + (the (low_half (drop 4 es)) - 0xDC00) + 0x10000))
                           (unquote (drop 10 es))
                    else prepend (encode_rune r) (unquote (drop 4 es)))
             else (case escape_val e of None \<Rightarrow> None | Some d \<Rightarrow> prepend [d] (unquote es)))
      else if byte c < 32 then None
      else prepend (encode_rune (fst (decode_rune c cs))) (unquote (drop (snd (decode_rune c cs) - 1) cs)))"
  by pat_completeness auto
termination
  by (relation "measure length") auto

declare unquote.simps(2) [simp del]

subsection \<open>Numbers\<close>

definition dec_val :: "string \<Rightarrow> nat" where
  "dec_val ds = foldl (\<lambda>n c. 10 * n + (byte c - 48)) 0 ds"

text \<open>The fraction and the exponent: their digits or value, and the rest.\<close>

definition fraction :: "string \<Rightarrow> (string \<times> string) option" where
  "fraction s =
     (case s of
        c # t \<Rightarrow> if c = CHR ''.''
          then (if takeWhile is_digit t = [] then None else Some (takeWhile is_digit t, dropWhile is_digit t))
          else Some ([], s)
      | [] \<Rightarrow> Some ([], []))"

definition exponent :: "string \<Rightarrow> (int \<times> string) option" where
  "exponent s =
     (case s of
        c # t \<Rightarrow> if c = CHR ''e'' \<or> c = CHR ''E'' then
            (let neg = (t \<noteq> [] \<and> hd t = CHR ''-''); u = (if t \<noteq> [] \<and> (hd t = CHR ''-'' \<or> hd t = CHR ''+'') then tl t else t);
                 ds = takeWhile is_digit u
             in if ds = [] then None else Some ((if neg then - int (dec_val ds) else int (dec_val ds)), dropWhile is_digit u))
          else Some (0, s)
      | [] \<Rightarrow> Some (0, []))"

definition scale :: "rat \<Rightarrow> int \<Rightarrow> rat" where
  "scale x e = (if 0 \<le> e then x * 10 ^ nat e else x / 10 ^ nat (- e))"

definition json_number :: "string \<Rightarrow> (rat \<times> string) option" where
  "json_number s =
     (let neg = (s \<noteq> [] \<and> hd s = CHR ''-''); u = (if neg then tl s else s); ds = takeWhile is_digit u in
      if ds = [] \<or> (hd ds = CHR ''0'' \<and> 1 < length ds) then None
      else (case fraction (dropWhile is_digit u) of
          None \<Rightarrow> None
        | Some (fs, t) \<Rightarrow>
            (case exponent t of
               None \<Rightarrow> None
             | Some (e, rest) \<Rightarrow>
                 (let x = scale (of_nat (dec_val (ds @ fs)) / 10 ^ length fs) e in Some (if neg then - x else x, rest)))))"

subsection \<open>Values\<close>

definition json_space :: "char \<Rightarrow> bool" where
  "json_space c \<longleftrightarrow> byte c \<in> {32, 9, 10, 13}"

abbreviation skip :: "string \<Rightarrow> string" where
  "skip s \<equiv> dropWhile json_space s"

definition scalar :: "char \<Rightarrow> string \<Rightarrow> (gval \<times> string) option" where
  "scalar c cs =
     (if c = quote then map_option (\<lambda>(s, t). (GStr s, t)) (unquote cs)
      else if HasPrefix (c # cs) ''null'' then Some (GNil, drop 3 cs)
      else if HasPrefix (c # cs) ''true'' then Some (GBool True, drop 3 cs)
      else if HasPrefix (c # cs) ''false'' then Some (GBool False, drop 4 cs)
      else map_option (\<lambda>(x, t). (GFloat x, t)) (json_number (c # cs)))"

text \<open>The fuel bounds the nesting and the number of elements; a later key of a map replaces an earlier one.\<close>

fun json_value :: "nat \<Rightarrow> string \<Rightarrow> (gval \<times> string) option"
and json_elems :: "nat \<Rightarrow> string \<Rightarrow> (gval list \<times> string) option"
and json_members :: "nat \<Rightarrow> obj \<Rightarrow> string \<Rightarrow> (obj \<times> string) option" where
  "json_value 0 s = None"
| "json_value (Suc n) s =
     (case skip s of
        [] \<Rightarrow> None
      | c # cs \<Rightarrow>
          if c = CHR ''{'' then
            (if skip cs \<noteq> [] \<and> hd (skip cs) = CHR ''}'' then Some (GObj [], tl (skip cs))
             else map_option (\<lambda>(m, t). (GObj m, t)) (json_members n [] cs))
          else if c = CHR ''['' then
            (if skip cs \<noteq> [] \<and> hd (skip cs) = CHR '']'' then Some (GArr [], tl (skip cs))
             else map_option (\<lambda>(vs, t). (GArr vs, t)) (json_elems n cs))
          else scalar c cs)"
| "json_elems 0 s = None"
| "json_elems (Suc n) s =
     (case json_value n s of
        None \<Rightarrow> None
      | Some (v, t) \<Rightarrow>
          (case skip t of
             [] \<Rightarrow> None
           | c # u \<Rightarrow> if c = CHR '']'' then Some ([v], u)
                else if c = CHR '','' then map_option (\<lambda>(vs, w). (v # vs, w)) (json_elems n u)
                else None))"
| "json_members 0 acc s = None"
| "json_members (Suc n) acc s =
     (case skip s of
        [] \<Rightarrow> None
      | q # cs \<Rightarrow>
          if q \<noteq> quote then None
          else (case unquote cs of
            None \<Rightarrow> None
          | Some (k, t) \<Rightarrow>
              (case skip t of
                 [] \<Rightarrow> None
               | c # u \<Rightarrow>
                   if c \<noteq> CHR '':'' then None
                   else (case json_value n u of
                      None \<Rightarrow> None
                    | Some (v, w) \<Rightarrow>
                        (case skip w of
                           [] \<Rightarrow> None
                         | d # x \<Rightarrow> if d = CHR ''}'' then Some (set_fld acc k v, x)
                              else if d = CHR '','' then json_members n (set_fld acc k v) x
                              else None)))))"

definition json_unmarshal :: "string \<Rightarrow> gval res" where
  "json_unmarshal s =
     (case json_value (length s + 1) s of
        Some (v, t) \<Rightarrow> if skip t = [] then Inr v else Inl (Failure ''invalid character after top-level value'')
      | None \<Rightarrow> Inl (Failure ''invalid JSON''))"

end
