(* ===== verification/Json_Round_Trip.thy ===== *)
theory Json_Round_Trip
  imports Json
begin

section \<open>Encoded values are read back\<close>

text \<open>
  The proof that \<open>json_unmarshal\<close> inverts \<open>compact\<close>, string by string, number by number and by induction on
  values.
\<close>

subsection \<open>Strings\<close>

lemma decode_rune_local:
  assumes "decode_rune c cs = (r, w)" "1 < w"
  shows "decode_rune c (take (w - 1) cs @ t) = (r, w)" and "length (take (w - 1) cs) = w - 1"
proof -
  have d2: "decode2 b (take (w - 1) cs @ t) = (r, w) \<and> length (take (w - 1) cs) = w - 1" if "decode2 b cs = (r, w)" for b
    using that assms(2) by (auto simp: decode2_def split: list.splits if_splits)
  have d3: "decode3 b (take (w - 1) cs @ t) = (r, w) \<and> length (take (w - 1) cs) = w - 1" if "decode3 b cs = (r, w)" for b
    using that assms(2) by (auto simp: decode3_def numeral_2_eq_2 split: list.splits if_splits)
  have d4: "decode4 b (take (w - 1) cs @ t) = (r, w) \<and> length (take (w - 1) cs) = w - 1" if "decode4 b cs = (r, w)" for b
    using that assms(2) by (auto simp: decode4_def numeral_3_eq_3 split: list.splits if_splits)
  have "decode_rune c (take (w - 1) cs @ t) = (r, w) \<and> length (take (w - 1) cs) = w - 1"
    using assms d2 d3 d4 unfolding decode_rune_def Let_def by (auto split: if_splits)
  then show "decode_rune c (take (w - 1) cs @ t) = (r, w)" "length (take (w - 1) cs) = w - 1" by simp_all
qed

lemma decode_rune_bad:
  assumes "decode_rune c cs = (r, w)" "w \<le> 1" "128 \<le> byte c"
  shows "r = rune_error"
proof -
  have "decode2 b cs = (r, w) \<Longrightarrow> r = rune_error" for b
    using assms(2) by (auto simp: decode2_def split: list.splits if_splits)
  moreover have "decode3 b cs = (r, w) \<Longrightarrow> r = rune_error" for b
    using assms(2) by (auto simp: decode3_def split: list.splits if_splits)
  moreover have "decode4 b cs = (r, w) \<Longrightarrow> r = rune_error" for b
    using assms(2) by (auto simp: decode4_def split: list.splits if_splits)
  ultimately show ?thesis using assms(1,3) unfolding decode_rune_def Let_def by (auto split: if_splits)
qed

lemma prepend_Some [simp]: "prepend p (Some (s, t)) = Some (p @ s, t)"
  by (simp add: prepend_def)

lemma special_chars [simp]: "quote \<noteq> backslash" "backslash \<noteq> quote" "byte quote = 34" "byte backslash = 92"
  by (simp_all add: quote_def backslash_def)

lemma unquote_plain: "c \<noteq> quote \<Longrightarrow> c \<noteq> backslash \<Longrightarrow> 32 \<le> byte c \<Longrightarrow> byte c < 128 \<Longrightarrow> unquote (c # t) = prepend [c] (unquote t)"
  by (simp add: unquote.simps(2) decode_rune_def encode_rune_def bytes_def)

lemma unquote_multi:
  assumes "128 \<le> byte c" "decode_rune c cs = (r, w)" "1 < w"
  shows "unquote ((c # take (w - 1) cs) @ t) = prepend (encode_rune r) (unquote t)"
proof -
  note l = decode_rune_local(1) [OF assms(2,3), of t] decode_rune_local(2) [OF assms(2,3)]
  have "c \<noteq> quote \<and> c \<noteq> backslash" using assms(1) by auto
  then show ?thesis using assms(1) l by (simp add: unquote.simps(2))
qed

lemma unquote_escape: "e \<noteq> CHR ''u'' \<Longrightarrow> escape_val e = Some d \<Longrightarrow> unquote (backslash # e # t) = prepend [d] (unquote t)"
  by (simp add: unquote.simps(2))

lemma length_4: "length ''fffd'' = 4" "length (''202'' @ [x]) = 4"
  by simp_all

lemma unquote_hex:
  "hex4 h = Some r \<Longrightarrow> length h = 4 \<Longrightarrow> r < 0xD800 \<or> 0xE000 \<le> r \<Longrightarrow>
     unquote ([backslash] @ ''u'' @ h @ t) = prepend (encode_rune r) (unquote t)"
  by (auto simp: unquote.simps(2) hex4_def)

lemma hex_digit_val: "n < 16 \<Longrightarrow> digit_val (hex_digit n) = Some n"
  by (auto simp: digit_val_def hex_digit_def)

lemma hex4_low: "a < 16 \<Longrightarrow> b < 16 \<Longrightarrow> hex4 (''00'' @ [hex_digit a, hex_digit b]) = Some (16 * a + b)"
proof -
  have "digit_val CHR ''0'' = Some 0" by code_simp
  then show "a < 16 \<Longrightarrow> b < 16 \<Longrightarrow> ?thesis" by (simp add: hex4_def hex_digit_val)
qed

lemma unquote_ascii:
  assumes "byte c < 128" shows "unquote (escape_ascii c @ t) = prepend [c] (unquote t)"
proof -
  have ch: "char_of (byte c) = c" by simp
  consider "c = quote \<or> c = backslash" | "c \<noteq> quote" "c \<noteq> backslash" "32 \<le> byte c" | "byte c = 8" | "byte c = 12" | "byte c = 10" | "byte c = 13"
    | "byte c = 9" | "c \<noteq> quote" "c \<noteq> backslash" "byte c < 32" "byte c \<notin> {8, 12, 10, 13, 9}" by fastforce
  then show ?thesis
  proof cases
    case 1
    then have "escape_ascii c = [backslash, c]" by (simp add: escape_ascii_def)
    moreover have "escape_val c = Some c" "c \<noteq> CHR ''u''" using 1 by (auto simp: escape_val_def quote_def backslash_def)
    ultimately show ?thesis using unquote_escape by simp
  next
    case 2
    then show ?thesis using unquote_plain assms by (simp add: escape_ascii_def)
  next
    case 8
    then have "escape_ascii c = [backslash] @ ''u'' @ ''00'' @ [hex_digit (byte c div 16), hex_digit (byte c mod 16)]"
      by (simp add: escape_ascii_def)
    moreover have "hex4 (''00'' @ [hex_digit (byte c div 16), hex_digit (byte c mod 16)]) = Some (byte c)"
      using hex4_low [of "byte c div 16" "byte c mod 16"] 8 by simp
    ultimately show ?thesis using unquote_hex [of "''00'' @ [hex_digit (byte c div 16), hex_digit (byte c mod 16)]" "byte c" t] 8
      by (simp add: encode_rune_def bytes_def)
  qed (use ch in \<open>auto simp: escape_ascii_def quote_def backslash_def intro!: unquote_escape [unfolded backslash_def] simp: escape_val_def\<close>)
qed

lemma unquote_json_chars: "unquote (json_chars s @ quote # t) = Some (encode_runes (runes s), t)"
proof (induction s rule: json_chars.induct)
  case 1
  then show ?case by (simp add: unquote.simps(2) encode_runes_def)
next
  case (2 c cs)
  obtain r w where d: "decode_rune c cs = (r, w)" by fastforce
  have runes: "encode_runes (runes (c # cs)) = encode_rune r @ encode_runes (runes (drop (w - 1) cs))"
    by (simp add: runes.simps(2) d encode_runes_def)
  show ?case
  proof (cases "byte c < 0x80")
    case True
    then have "r = byte c" "w = 1" using d by (simp_all add: decode_rune_def)
    moreover have "unquote (json_chars cs @ quote # t) = Some (encode_runes (runes cs), t)" using 2(1) [OF True] .
    ultimately show ?thesis using True runes unquote_ascii [OF True]
      by (simp add: json_chars.simps(2) encode_rune_def bytes_def)
  next
    case high: False
    show ?thesis
    proof (cases "w \<le> 1")
      case True
      have "r = rune_error" using decode_rune_bad [OF d] True high by simp
      moreover have "unquote (json_chars cs @ quote # t) = Some (encode_runes (runes cs), t)"
        using 2(2) [OF high d [symmetric] refl True] .
      moreover have "json_chars (c # cs) = [backslash] @ ''u'' @ ''fffd'' @ json_chars cs"
        using high True d by (simp add: json_chars.simps(2))
      moreover have "hex4 ''fffd'' = Some rune_error" "rune_error < 0xD800 \<or> 0xE000 \<le> rune_error"
        by (simp_all add: hex4_def digit_val_def rune_error_def)
      moreover have "drop (w - 1) cs = cs" using True by simp
      ultimately show ?thesis
        using unquote_hex [of "''fffd''" rune_error "json_chars cs @ quote # t"] unfolding runes
        by (simp only: append.assoc prepend_Some length_4) 
    next
      case False
      have ih: "unquote (json_chars (drop (w - 1) cs) @ quote # t) = Some (encode_runes (runes (drop (w - 1) cs)), t)"
        using 2(3) 2(4) high d False by (cases "r = 0x2028 \<or> r = 0x2029") auto
      show ?thesis
      proof (cases "r = 0x2028 \<or> r = 0x2029")
        case True
        have h: "hex4 (''202'' @ [hex_digit (r mod 16)]) = Some r" using True by (auto simp: hex4_def digit_val_def hex_digit_def)
        then show ?thesis
          using unquote_hex [OF h, of "json_chars (drop (w - 1) cs) @ quote # t"] ih high d False True runes
          by (auto simp: json_chars.simps(2))
      next
        case plain: False
        have "1 < w" using False by simp
        from unquote_multi [OF _ d this, of "json_chars (drop (w - 1) cs) @ quote # t"]
        show ?thesis using ih high d False plain runes by (simp add: json_chars.simps(2))
      qed
    qed
  qed
qed

lemma unquote_json_str: "unquote (tl (json_str s) @ t) = Some (encode_runes (runes s), t)" "hd (json_str s) = quote" "json_str s \<noteq> []"
  using unquote_json_chars by (simp_all add: json_str_def)


subsection \<open>Valid strings\<close>

lemma div_mod_64: "c < 64 \<Longrightarrow> (x * 64 + c) div 64 = x \<and> (x * 64 + c) mod 64 = (c :: nat)"
  by simp

lemma encode2:
  assumes "byte c = 0xC0 + a" "byte d = 0x80 + b" "2 \<le> a" "a < 32" "b < 64"
  shows "encode_rune (a * 64 + b) = [c, d]"
proof -
  have "\<not> a * 64 + b < 0x80" "a * 64 + b < 0x800" using assms by simp_all
  then show ?thesis using assms div_mod_64 [of b a] by (simp add: encode_rune_def bytes_def) (metis char_of_char)
qed

lemma encode3:
  assumes "byte c = 0xE0 + a" "byte d = 0x80 + b" "byte e = 0x80 + g" "a < 16" "b < 64" "g < 64" "a = 0 \<Longrightarrow> 32 \<le> b"
    and "valid_rune (a * 4096 + b * 64 + g)"
  shows "encode_rune (a * 4096 + b * 64 + g) = [c, d, e]"
proof -
  let ?r = "a * 4096 + b * 64 + g"
  have r: "?r = (a * 64 + b) * 64 + g" by simp
  have "?r div 64 = a * 64 + b" "?r mod 64 = g" using div_mod_64 [OF assms(6), of "a * 64 + b"] unfolding r by simp_all
  moreover from this(1) have "?r div 64 div 64 = a" "?r div 64 mod 64 = b" using assms(5) by simp_all
  ultimately have d: "?r div 4096 = a" "?r div 64 mod 64 = b" "?r mod 64 = g" unfolding div_64_64 by simp_all
  have big: "\<not> ?r < 0x80" "\<not> ?r < 0x800" using assms(7) by (cases "a = 0"; simp)+
  have "?r < 0x10000" using assms(4-6) by simp
  then have "encode_rune ?r = bytes [0xE0 + a, 0x80 + b, 0x80 + g]" using big assms(8) unfolding encode_rune_def d by simp
  then show ?thesis using assms(1-3) by (simp add: bytes_def) (metis char_of_char)
qed

lemma encode4:
  assumes "byte c = 0xF0 + a" "byte d = 0x80 + b" "byte e = 0x80 + g" "byte f = 0x80 + h"
    and "a < 5" "b < 64" "g < 64" "h < 64" "a = 0 \<Longrightarrow> 16 \<le> b" and "valid_rune (a * 262144 + b * 4096 + g * 64 + h)"
  shows "encode_rune (a * 262144 + b * 4096 + g * 64 + h) = [c, d, e, f]"
proof -
  let ?r = "a * 262144 + b * 4096 + g * 64 + h"
  have r: "?r = (a * 4096 + b * 64 + g) * 64 + h" by simp
  have x: "?r div 64 = (a * 64 + b) * 64 + g" "?r mod 64 = h"
    using div_mod_64 [OF assms(8), of "a * 4096 + b * 64 + g"] unfolding r by simp_all
  have y: "?r div 64 div 64 = a * 64 + b" "?r div 64 mod 64 = g" using div_mod_64 [OF assms(7), of "a * 64 + b"] unfolding x by simp_all
  have z: "?r div 64 div 64 div 64 = a" "?r div 64 div 64 mod 64 = b" using div_mod_64 [OF assms(6), of a] unfolding y by simp_all
  have d: "?r div 262144 = a" "?r div 4096 mod 64 = b" "?r div 64 mod 64 = g" "?r mod 64 = h"
    using x(2) y(2) z unfolding div_64_64 div_4096_64 by simp_all
  have "\<not> ?r < 0x10000" using assms(9) by (cases "a = 0") simp_all
  then have "encode_rune ?r = bytes [0xF0 + a, 0x80 + b, 0x80 + g, 0x80 + h]" using assms(10) unfolding encode_rune_def d by simp
  then show ?thesis using assms(1-4) by (simp add: bytes_def) (metis char_of_char)
qed

lemma encode_decode:
  assumes "decode_rune c cs = (r, w)" "1 < w"
  shows "encode_rune r = c # take (w - 1) cs"
proof -
  have v: "valid_rune r" using decode_rune_valid [of c cs] assms(1) by simp
  have nb: "\<not> byte c < 0x80" using assms by (auto simp: decode_rune_def)
  consider (two) "0xC2 \<le> byte c" "byte c \<le> 0xDF" "decode2 (byte c) cs = (r, w)"
    | (three) "0xE0 \<le> byte c" "byte c \<le> 0xEF" "decode3 (byte c) cs = (r, w)"
    | (four) "0xF0 \<le> byte c" "byte c \<le> 0xF4" "decode4 (byte c) cs = (r, w)"
    using assms nb unfolding decode_rune_def Let_def by (auto split: if_splits)
  then show ?thesis
  proof cases
    case two
    then obtain d ds where cs: "cs = d # ds" "cont d" "r = (byte c - 0xC0) * 64 + (byte d - 0x80)" "w = 2"
      using assms(2) by (auto simp: decode2_def split: list.splits if_splits)
    have "encode_rune r = [c, d]" unfolding cs(3)
      by (rule encode2) (use two cs(2) in \<open>auto simp: cont_def\<close>)
    then show ?thesis using cs by simp
  next
    case three
    then obtain d e ds where cs: "cs = d # e # ds" "in_range (if byte c = 0xE0 then 0xA0 else 0x80) (if byte c = 0xED then 0x9F else 0xBF) d" "cont e"
      "r = (byte c - 0xE0) * 4096 + (byte d - 0x80) * 64 + (byte e - 0x80)" "w = 3"
      using assms(2) by (auto simp: decode3_def split: list.splits if_splits)
    have "encode_rune r = [c, d, e]" unfolding cs(4)
      by (rule encode3) (use three cs(2,3) v [unfolded cs(4)] in \<open>auto simp: cont_def in_range_def split: if_splits\<close>)
    then show ?thesis using cs by (simp add: numeral_2_eq_2)
  next
    case four
    then obtain d e f ds where cs: "cs = d # e # f # ds" "in_range (if byte c = 0xF0 then 0x90 else 0x80) (if byte c = 0xF4 then 0x8F else 0xBF) d"
      "cont e" "cont f"
      "r = (byte c - 0xF0) * 262144 + (byte d - 0x80) * 4096 + (byte e - 0x80) * 64 + (byte f - 0x80)" "w = 4"
      using assms(2) by (auto simp: decode4_def split: list.splits if_splits)
    have "encode_rune r = [c, d, e, f]" unfolding cs(5)
      by (rule encode4) (use four cs(2-4) v [unfolded cs(5)] in \<open>auto simp: cont_def in_range_def split: if_splits\<close>)
    then show ?thesis using cs by (simp add: numeral_3_eq_3)
  qed
qed

lemma valid_utf8: "ValidString s \<Longrightarrow> encode_runes (runes s) = s"
proof (induction s rule: ValidString.induct)
  case (2 c cs)
  obtain r w where d: "decode_rune c cs = (r, w)" by fastforce
  have v: "byte c < 0x80 \<or> 1 < w" "ValidString (drop (w - 1) cs)" using 2(2) by (simp_all add: ValidString.simps(2) d)
  have "encode_runes (runes (drop (w - 1) cs)) = drop (w - 1) cs" using 2(1) [OF d [symmetric] refl v(2)] .
  moreover have "encode_rune r = c # take (w - 1) cs"
  proof (cases "byte c < 0x80")
    case True
    then have "r = byte c" "w = 1" using d by (simp_all add: decode_rune_def)
    then show ?thesis using True by (simp add: encode_rune_def bytes_def)
  next
    case False
    then show ?thesis using encode_decode [OF d] v(1) by simp
  qed
  ultimately show ?case by (simp add: runes.simps(2) d encode_runes_def)
qed (simp add: encode_runes_def)

subsection \<open>Numbers\<close>

definition ends :: "string \<Rightarrow> bool" where
  "ends t \<longleftrightarrow> t = [] \<or> hd t \<in> {CHR '','', CHR ''}'', CHR '']'', newline}"

lemma dec_val_append: "dec_val (ds @ [c]) = 10 * dec_val ds + (byte c - 48)"
  by (simp add: dec_val_def)

lemma nat_digits_val: "dec_val (nat_digits n) = n \<and> (\<forall>c \<in> set (nat_digits n). is_digit c)"
proof (induction n rule: nat_digits.induct)
  case (1 n)
  show ?case
  proof (cases "n < 10")
    case True
    then show ?thesis by (subst (1 2) nat_digits.simps) (simp add: dec_val_def is_digit_def)
  next
    case False
    then show ?thesis using 1
      by (subst (1 2) nat_digits.simps) (auto simp: dec_val_append is_digit_def)
  qed
qed

lemma ends_stop:
  assumes "ends t" shows "t = [] \<or> \<not> is_digit (hd t)" "fraction t = Some ([], t)" "exponent t = Some (0, t)"
  using assms by (cases t; auto simp: ends_def is_digit_def fraction_def exponent_def newline_def)+

lemma digits_span: "\<forall>c \<in> set ds. is_digit c \<Longrightarrow> t = [] \<or> \<not> is_digit (hd t) \<Longrightarrow> takeWhile is_digit (ds @ t) = ds \<and> dropWhile is_digit (ds @ t) = t"
  by (cases t) (auto simp: takeWhile_append2 dropWhile_append2)

lemma json_number_Itoa:
  assumes "ends t" shows "json_number (Itoa n @ t) = Some (of_int n, t)"
proof -
  define m where "m = nat \<bar>n\<bar>"
  define ds where "ds = nat_digits m"
  have dig: "dec_val ds = m" "\<forall>c \<in> set ds. is_digit c" using nat_digits_val unfolding ds_def by blast+
  have ne: "ds \<noteq> []" unfolding ds_def by (subst nat_digits.simps) simp
  have lead: "\<not> (hd ds = CHR ''0'' \<and> 1 < length ds)"
  proof (cases "m = 0")
    case True
    then show ?thesis by (simp add: ds_def nat_digits.simps)
  next
    case False
    then show ?thesis using nat_digits_decimal [of m] by (simp add: ds_def positive_decimal_def)
  qed
  have span: "takeWhile is_digit (ds @ t) = ds" "dropWhile is_digit (ds @ t) = t"
    using digits_span [OF dig(2) ends_stop(1) [OF assms]] by simp_all
  have pos: "hd (ds @ t) \<noteq> CHR ''-''" using ne dig(2) by (cases ds) (auto simp: is_digit_def)
  show ?thesis
  proof (cases "n < 0")
    case True
    then have "Itoa n = CHR ''-'' # ds" by (simp add: Itoa_def ds_def m_def)
    moreover have "(of_nat m :: rat) = - of_int n" using True by (simp add: m_def)
    ultimately show ?thesis using span ne lead dig(1) ends_stop(2,3) [OF assms]
      by (simp add: json_number_def scale_def)
  next
    case False
    then have "Itoa n = ds" by (simp add: Itoa_def ds_def m_def)
    moreover have "(of_nat m :: rat) = of_int n" using False by (simp add: m_def)
    ultimately show ?thesis using span ne lead dig(1) pos ends_stop(2,3) [OF assms]
      by (simp add: json_number_def scale_def)
  qed
qed


subsection \<open>Values\<close>

text \<open>What can be read back: floats whose text the parser reads as the same number, and maps with distinct keys
  in UTF-8.\<close>

fun readable :: "(rat \<Rightarrow> string) \<Rightarrow> gval \<Rightarrow> bool" where
  "readable ff (GFloat x) = (\<forall>t. ends t \<longrightarrow> json_number (ff x @ t) = Some (x, t))"
| "readable ff (GArr vs) = (\<forall>v \<in> set vs. readable ff v)"
| "readable ff (GObj m) = (distinct (map fst m) \<and> (\<forall>kv \<in> set m. ValidString (fst kv) \<and> readable ff (snd kv)))"
| "readable ff v = True"

text \<open>The value that is read: numbers as \<open>float64\<close>, invalid UTF-8 replaced, keys in order.\<close>

fun as_read :: "gval \<Rightarrow> gval" where
  "as_read (GInt n) = GFloat (of_int n)"
| "as_read (GStr s) = GStr (encode_runes (runes s))"
| "as_read (GArr vs) = GArr (map as_read vs)"
| "as_read (GObj m) = GObj (sort_key fst (map (\<lambda>kv. (fst kv, as_read (snd kv))) m))"
| "as_read v = v"

definition reads :: "(rat \<Rightarrow> string) \<Rightarrow> gval \<Rightarrow> bool" where
  "reads ff v \<longleftrightarrow> compact ff v \<noteq> [] \<and> \<not> json_space (hd (compact ff v)) \<and> hd (compact ff v) \<notin> {CHR '']'', CHR ''}''}
     \<and> (\<forall>n t. length (compact ff v) \<le> n \<and> ends t \<longrightarrow> json_value n (compact ff v @ t) = Some (as_read v, t))"

lemma readsD:
  assumes "reads ff v"
  shows "\<exists>c cs. compact ff v = c # cs \<and> \<not> json_space c \<and> c \<notin> {CHR '']'', CHR ''}''}"
    and "length (compact ff v) \<le> n \<Longrightarrow> ends t \<Longrightarrow> json_value n (compact ff v @ t) = Some (as_read v, t)"
  using assms unfolding reads_def by (cases "compact ff v"; simp)+

lemma reads_scalar:
  assumes "compact ff v = c # cs" "\<not> json_space c" "c \<notin> {CHR ''{'', CHR ''['', CHR '']'', CHR ''}''}"
    and "\<And>t. ends t \<Longrightarrow> scalar c (cs @ t) = Some (as_read v, t)"
  shows "reads ff v"
proof -
  have "json_value n ((c # cs) @ t) = Some (as_read v, t)" if "length (c # cs) \<le> n" "ends t" for n t
    using that assms(2-4) by (cases n) auto
  then show ?thesis using assms(1-3) unfolding reads_def by simp
qed

lemma number_head:
  assumes "json_number (c # cs) = Some r" shows "c = CHR ''-'' \<or> is_digit c"
  using assms by (cases "is_digit c") (auto simp: json_number_def Let_def split: if_splits)

lemma number_scalar:
  assumes "\<And>t. ends t \<Longrightarrow> json_number (s @ t) = Some (x, t)" and "compact ff v = s" and "as_read v = GFloat x"
  shows "reads ff v"
proof -
  have e: "ends []" by (simp add: ends_def)
  have "s \<noteq> []" using assms(1) [OF e] by (auto simp: json_number_def)
  then obtain c cs where s: "s = c # cs" by (cases s) auto
  have c: "c = CHR ''-'' \<or> is_digit c" using number_head [of c cs] assms(1) [OF e] s by simp
  have "scalar c (cs @ t) = Some (as_read v, t)" if "ends t" for t
  proof -
    have "c \<noteq> quote" "c \<noteq> CHR ''n''" "c \<noteq> CHR ''t''" "c \<noteq> CHR ''f''" using c by (auto simp: is_digit_def quote_def)
    then show ?thesis using assms(1) [OF that] assms(3) s by (simp add: scalar_def HasPrefix_def)
  qed
  moreover have "\<not> json_space c" "c \<notin> {CHR ''{'', CHR ''['', CHR '']'', CHR ''}''}" using c by (auto simp: json_space_def is_digit_def)
  ultimately show ?thesis using reads_scalar [of ff v c cs] assms(2) s by blast
qed

lemma skip_head: "\<not> json_space c \<Longrightarrow> skip (c # cs) = c # cs"
  by simp

lemma delimiters [simp]: "\<not> json_space CHR '',''" "\<not> json_space CHR ''}''" "\<not> json_space CHR '']''" "\<not> json_space CHR '':''"
  "\<not> json_space quote" "\<not> json_space CHR ''{''" "\<not> json_space CHR ''[''"
  by (simp_all add: json_space_def)

lemma ends_delimiter [simp]: "ends (CHR '','' # t)" "ends (CHR ''}'' # t)" "ends (CHR '']'' # t)"
  by (simp_all add: ends_def)

lemma Join_Cons: "Join (x # xs) sep = x @ (if xs = [] then [] else sep @ Join xs sep)"
  by (cases xs) (simp_all add: Join_def)

lemma elems_read:
  "vs \<noteq> [] \<Longrightarrow> \<forall>v \<in> set vs. reads ff v \<Longrightarrow> length (Join (map (compact ff) vs) '','') < n \<Longrightarrow>
     json_elems n (Join (map (compact ff) vs) '','' @ '']'' @ t) = Some (map as_read vs, t)"
proof (induction vs arbitrary: n)
  case (Cons v vs)
  have r: "reads ff v" using Cons.prems(2) by simp
  obtain k where n: "n = Suc k" using Cons.prems(3) by (cases n) auto
  have len: "length (compact ff v) \<le> k" using Cons.prems(3) n by (simp add: Join_Cons split: if_splits)
  show ?case
  proof (cases "vs = []")
    case True
    then show ?thesis using readsD(2) [OF r len] n by (simp add: Join_Cons)
  next
    case False
    have "json_elems k (Join (map (compact ff) vs) '','' @ '']'' @ t) = Some (map as_read vs, t)"
      using Cons.IH [OF False, of k] Cons.prems(2,3) n False by (simp add: Join_Cons)
    then show ?thesis using readsD(2) [OF r len, of "'','' @ Join (map (compact ff) vs) '','' @ '']'' @ t"] n False
      by (simp add: Join_Cons)
  qed
qed simp

definition entry :: "(rat \<Rightarrow> string) \<Rightarrow> string \<times> gval \<Rightarrow> string" where
  "entry ff kv = json_str (fst kv) @ '':'' @ compact ff (snd kv)"

lemma members_read:
  "ms \<noteq> [] \<Longrightarrow> \<forall>kv \<in> set ms. reads ff (snd kv) \<and> ValidString (fst kv) \<Longrightarrow> distinct (map fst (acc @ ms))
     \<Longrightarrow> length (Join (map (entry ff) ms) '','') < n \<Longrightarrow>
     json_members n acc (Join (map (entry ff) ms) '','' @ ''}'' @ t) = Some (acc @ map (\<lambda>kv. (fst kv, as_read (snd kv))) ms, t)"
proof (induction ms arbitrary: n acc)
  case (Cons kv ms)
  obtain key v where kv: "kv = (key, v)" by fastforce
  have r: "reads ff v" and valid: "encode_runes (runes key) = key" using Cons.prems(2) kv valid_utf8 by auto
  obtain k where n: "n = Suc k" using Cons.prems(4) by (cases n) auto
  have len: "length (compact ff v) \<le> k" using Cons.prems(4) n kv by (simp add: Join_Cons entry_def split: if_splits)
  have upd: "set_fld acc key (as_read v) = acc @ [(key, as_read v)]"
    using Cons.prems(3) kv by (intro update_new_key) auto
  have u: "unquote (json_chars key @ quote # u) = Some (key, u)" for u using unquote_json_chars valid by simp
  have start: "Join (map (entry ff) (kv # ms)) '','' = quote # json_chars key @ quote # CHR '':'' # compact ff v
      @ (if ms = [] then [] else '','' @ Join (map (entry ff) ms) '','')"
    by (simp add: Join_Cons entry_def kv json_str_def)
  show ?case
  proof (cases "ms = []")
    case True
    then show ?thesis using readsD(2) [OF r len, of "''}'' @ t"] n u upd unfolding start by (simp add: kv)
  next
    case False
    have "json_members k (acc @ [(key, as_read v)]) (Join (map (entry ff) ms) '','' @ ''}'' @ t)
        = Some ((acc @ [(key, as_read v)]) @ map (\<lambda>kv. (fst kv, as_read (snd kv))) ms, t)"
      using Cons.IH [OF False, of "acc @ [(key, as_read v)]" k] Cons.prems(2-4) n False kv by (simp add: Join_Cons)
    then show ?thesis using readsD(2) [OF r len, of "'','' @ Join (map (entry ff) ms) '','' @ ''}'' @ t"] n u upd False
      unfolding start by (simp add: kv)
  qed
qed simp

lemma sort_key_snd: "sort_key fst (map (\<lambda>kv. (fst kv, g (snd kv))) m) = map (\<lambda>kv. (fst kv, g (snd kv))) (sort_key fst m)"
proof -
  have "insort_key fst (fst x, g (snd x)) (map (\<lambda>kv. (fst kv, g (snd kv))) ys) = map (\<lambda>kv. (fst kv, g (snd kv))) (insort_key fst x ys)"
    for x and ys :: "('a \<times> 'c) list"
    by (induction ys) simp_all
  then show ?thesis by (induction m) simp_all
qed

lemma sort_key_keys: "map fst (sort_key fst m) = sort (map fst m)"
proof -
  have "map fst (insort_key fst x ys) = insort (fst x) (map fst ys)" for x and ys :: "('a \<times> 'b) list"
    by (induction ys) simp_all
  then show ?thesis by (induction m) simp_all
qed

lemma reads_all: "readable ff v \<Longrightarrow> reads ff v"
proof (induction ff v rule: compact.induct)
  case (1 ff)
  show ?case by (rule reads_scalar [of _ _ "CHR ''n''" "''ull''"]) (simp_all add: json_space_def scalar_def quote_def HasPrefix_def)
next
  case (2 ff b)
  show ?case
  proof (cases b)
    case True
    then show ?thesis by (intro reads_scalar [of _ _ "CHR ''t''" "''rue''"]) (simp_all add: json_space_def scalar_def quote_def HasPrefix_def)
  next
    case False
    then show ?thesis by (intro reads_scalar [of _ _ "CHR ''f''" "''alse''"]) (simp_all add: json_space_def scalar_def quote_def HasPrefix_def)
  qed
next
  case (3 ff x)
  then show ?case by (intro number_scalar [where s = "ff x" and x = x]) auto
next
  case (4 ff n)
  show ?case by (rule number_scalar [where s = "Itoa n" and x = "of_int n"]) (simp_all add: json_number_Itoa)
next
  case (5 ff s)
  show ?case
    by (rule reads_scalar [of _ _ quote "json_chars s @ [quote]"])
      (simp_all add: json_str_def scalar_def unquote_json_chars quote_def [symmetric], simp add: quote_def)
next
  case (6 ff vs)
  then have r: "\<forall>v \<in> set vs. reads ff v" by simp
  have enc: "compact ff (GArr vs) = ''['' @ Join (map (compact ff) vs) '','' @ '']''" by simp
  have "json_value n (compact ff (GArr vs) @ t) = Some (as_read (GArr vs), t)" if len: "length (compact ff (GArr vs)) \<le> n" for n t
  proof -
    obtain k where n: "n = Suc k" using len by (cases n) auto
    show ?thesis
    proof (cases vs)
      case Nil
      then show ?thesis using n by (simp add: Join_def)
    next
      case (Cons v ws)
      then obtain c cs where c: "compact ff v = c # cs" "\<not> json_space c" "c \<noteq> CHR '']''"
        using readsD(1) [of ff v] r by auto
      have "json_elems k (Join (map (compact ff) vs) '','' @ '']'' @ t) = Some (map as_read vs, t)"
        using elems_read [OF _ r, of k t] len n Cons by simp
      then show ?thesis using n c Cons by (simp add: Join_Cons)
    qed
  qed
  then show ?case unfolding reads_def by (simp add: json_space_def)
next
  case (7 ff m)
  let ?ms = "sort_key fst m"
  have r: "\<forall>kv \<in> set ?ms. reads ff (snd kv) \<and> ValidString (fst kv)" using 7 by auto
  have dist: "distinct (map fst ?ms)" using 7(2) by (simp add: sort_key_keys)
  have enc: "compact ff (GObj m) = ''{'' @ Join (map (entry ff) ?ms) '','' @ ''}''"
    by (simp add: sort_key_snd comp_def entry_def [abs_def])
  have "json_value n (compact ff (GObj m) @ t) = Some (as_read (GObj m), t)" if len: "length (compact ff (GObj m)) \<le> n" for n t
  proof -
    obtain k where n: "n = Suc k" using len by (cases n) auto
    show ?thesis
    proof (cases "?ms")
      case Nil
      then have "m = []" by (metis length_0_conv length_sort)
      then show ?thesis using n by (simp add: Join_def)
    next
      case (Cons kv ms)
      have "json_members k [] (Join (map (entry ff) ?ms) '','' @ ''}'' @ t) = Some ([] @ map (\<lambda>kv. (fst kv, as_read (snd kv))) ?ms, t)"
        using members_read [OF _ r, of "[]" k t] dist len n Cons unfolding enc by simp
      moreover have "\<exists>cs. Join (map (entry ff) ?ms) '','' = quote # cs" unfolding Cons by (simp add: Join_Cons entry_def json_str_def)
      moreover have "quote \<noteq> CHR ''}''" by (simp add: quote_def)
      ultimately show ?thesis using n unfolding enc by (auto simp: sort_key_snd)
    qed
  qed
  then show ?case unfolding reads_def enc by (simp add: json_space_def)
qed

lemma read_back:
  assumes "readable ff v"
  shows "json_unmarshal (compact ff v) = Inr (as_read v) \<and> json_unmarshal (compact ff v @ [newline]) = Inr (as_read v)"
proof -
  have e: "ends []" "ends [newline]" "json_space newline" by (simp_all add: ends_def json_space_def newline_def)
  show ?thesis using readsD(2) [OF reads_all [OF assms] _ e(1), of "length (compact ff v) + 1"]
      readsD(2) [OF reads_all [OF assms] _ e(2), of "length (compact ff v) + 2"] e(3)
    by (simp add: json_unmarshal_def)
qed

definition read_obj :: "obj \<Rightarrow> obj" where
  "read_obj m = sort_key fst (map (\<lambda>kv. (fst kv, as_read (snd kv))) m)"

lemma as_read_obj: "as_read (GObj m) = GObj (read_obj m)"
  by (simp add: read_obj_def)

lemma map_of_sort: "distinct (map fst m) \<Longrightarrow> map_of (sort_key fst m) = map_of m"
proof
  fix x
  assume d: "distinct (map fst m)"
  then have s: "distinct (map fst (sort_key fst m))" by (simp add: sort_key_keys)
  show "map_of (sort_key fst m) x = map_of m x"
  proof (cases "map_of m x")
    case None
    then have "x \<notin> fst ` set (sort_key fst m)" by (simp add: map_of_eq_None_iff)
    then show ?thesis using None by (metis map_of_eq_None_iff)
  next
    case (Some y)
    then have "(x, y) \<in> set (sort_key fst m)" by (auto dest: map_of_SomeD)
    then show ?thesis using s Some by (metis map_of_is_SomeI)
  qed
qed

lemma fld_read: "distinct (map fst m) \<Longrightarrow> fld (read_obj m) k = as_read (fld m k)"
proof -
  assume d: "distinct (map fst m)"
  have "map_of (read_obj m) k = map_of (map (\<lambda>kv. (fst kv, as_read (snd kv))) m) k"
    unfolding read_obj_def using d by (subst map_of_sort) (simp_all add: comp_def)
  also have "\<dots> = map_option as_read (map_of m k)" by (induction m) auto
  finally show ?thesis by (auto simp: fld_def split: option.splits)
qed



end
