(* ===== verification/Serving.thy ===== *)
theory Serving
  imports Running_Props Json_Round_Trip
begin

section \<open>A started worker\<close>

text \<open>
  From the start to the service: the state \<open>RunWorker\<close> hands to its goroutines satisfies the invariant of
  running workers, its registration is what a peer's \<open>Discover\<close> reads, its goroutines are runs of the
  handlers, and its connections are limited.
\<close>

subsection \<open>The state at the start of the service\<close>

lemma start_files_worker:
  "start_files S w control k = (Inr w1, k') \<Longrightarrow> w1 = setActivity (r_env S) w ''unknown'' ''No app-server observation yet''"
  by (auto simp: start_files_def Let_def kbind_def split: prod.splits sum.splits)

lemma open_worker_cases:
  assumes "open_worker S dir = Inr (w, control)"
  obtains c sockets start st where "read_own_config S dir = Inr c"
    "chooseSocketDir (r_private S) (r_runtime_dir S) (r_uid S) = Inr sockets" "r_start S = Inr start" "r_store S = Inr st"
    "w = new_worker S dir c sockets start st" "control = worker_control sockets (r_pid S)"
  using assms that unfolding open_worker_def by (fastforce simp: rbind_Inr)

text \<open>C13. A worker that reaches its service runs for the thread of its directory with a valid configuration and a
  live client owner (or manual delivery), satisfies the invariant of running workers, and is addressed by a
  socket that peers accept, whose name is its own process.\<close>

theorem worker_starts_ok:
  assumes "RunWorker S dir served no_lstat no_remove d = (Inr w, k)" and "0 < r_pid S"
  shows "worker_ok w \<and> CThread (wconfig w) = Base dir \<and> checkHost (ehost (r_env S)) (wconfig w) = Inr ()
    \<and> r_store S = Inr (wstore w) \<and> r_start S = Inr (wstart w) \<and> waddress w = ''uds:'' @ wpath w
    \<and> socketPath (waddress w) = Inr (wpath w) \<and> Base (wpath w) = Itoa (wpid w) @ ''.sock'' \<and> wpid w = r_pid S"
proof -
  from assms(1) obtain w0 control k1 where o: "open_worker S dir = Inr (w0, control)"
    and s: "start_files S w0 control \<lparr>disk = d, artifacts = [], made = {}\<rparr> = (Inr w, k1)"
    by (auto simp: RunWorker_def Let_def split: sum.splits prod.splits)
  from open_worker_cases [OF o] obtain c sockets start st where
    c: "read_own_config S dir = Inr c" and so: "chooseSocketDir (r_private S) (r_runtime_dir S) (r_uid S) = Inr sockets"
    and st: "r_start S = Inr start" "r_store S = Inr st" and w0: "w0 = new_worker S dir c sockets start st" by metis
  have w: "w = setActivity (r_env S) w0 ''unknown'' ''No app-server observation yet''" using start_files_worker [OF s] .
  from c obtain c0 where v: "Validate (elib (r_env S)) c0 = Inr c" and h: "checkHost (ehost (r_env S)) c = Inr ()"
    and b: "Base dir = CThread c" by (auto simp: read_own_config_def rbind_Inr split: if_splits)
  have "queues_ok w" by (simp add: w w0 new_worker_def setActivity_def Let_def queues_ok_def)
  then have "worker_ok w" using Validate_wf [OF v] by (simp add: worker_ok_def w w0 new_worker_def)
  then show ?thesis using socket_facts [OF so assms(2)] h b st by (simp add: w w0 new_worker_def)
qed

subsection \<open>The registration as peers read it\<close>

lemma dec_read:
  assumes "distinct (map fst m)"
  shows "fld m k = GInt n \<Longrightarrow> dec_int (read_obj m) k = Inr n"
    and "fld m k = GStr s \<Longrightarrow> ValidString s \<Longrightarrow> dec_str (read_obj m) k = Inr s"
    and "fld m k = GNil \<Longrightarrow> dec_str (read_obj m) k = Inr []"
    and "fld m k = GObj a \<Longrightarrow> dec_obj (read_obj m) k = Inr (Some (read_obj a))"
    and "fld m k = GArr [GStr s] \<Longrightarrow> ValidString s \<Longrightarrow> dec_strs (read_obj m) k = Inr [s]"
  by (simp_all add: dec_int_def dec_str_def dec_obj_def dec_strs_def fld_read [OF assms] valid_utf8 as_read_obj del: as_read.simps(4))

definition registered_peer :: "env \<Rightarrow> worker \<Rightarrow> Peer" where
  "registered_peer E w =
     blank_peer\<lparr>PID := wpid w, PStart := wstart w, PDomain := goos (ehost E), PSocket := wpath w, PName := CName (wconfig w),
       PThread := CThread (wconfig w), PHostPID := CHostPID (wconfig w), PHostStart := CHostStart (wconfig w),
       PFeatures := [''inbox-receipts''], PCWD := CCWD (wconfig w), PStatus := peer_status (clone (wactivity w)),
       PActivity := Some (read_obj (clone (wactivity w))), PVersion := eversion E, PProtocol := 1\<rparr>"

definition valid_strings :: "env \<Rightarrow> worker \<Rightarrow> bool" where
  "valid_strings E w \<longleftrightarrow> list_all ValidString [wstart w, goos (ehost E), wpath w, CName (wconfig w), CThread (wconfig w),
     CHostStart (wconfig w), CCWD (wconfig w), eversion E]"

lemma registration_keys: "distinct (map fst (registration E w))"
  by (simp add: registration_def Let_def)

lemma registration_read:
  assumes "valid_strings E w"
  shows "peer_of_json (as_read (GObj (registration E w))) = Inr (registered_peer E w)"
proof -
  have *: "as_read (GObj (registration E w)) = GObj (read_obj (registration E w))" by (rule as_read_obj)
  have f: "fld (registration E w) ''pid'' = GInt (wpid w)" "fld (registration E w) ''procStart'' = GStr (wstart w)"
    "fld (registration E w) ''pidDomain'' = GStr (goos (ehost E))" "fld (registration E w) ''messagingSocketPath'' = GStr (wpath w)"
    "fld (registration E w) ''name'' = GStr (CName (wconfig w))" "fld (registration E w) ''sessionId'' = GStr (CThread (wconfig w))"
    "fld (registration E w) ''hostPid'' = GInt (CHostPID (wconfig w))" "fld (registration E w) ''hostStart'' = GStr (CHostStart (wconfig w))"
    "fld (registration E w) ''peerFeatures'' = GArr [GStr ''inbox-receipts'']" "fld (registration E w) ''ref'' = GNil"
    "fld (registration E w) ''cwd'' = GStr (CCWD (wconfig w))" "fld (registration E w) ''status'' = GStr (peer_status (clone (wactivity w)))"
    "fld (registration E w) ''activity'' = GObj (clone (wactivity w))" "fld (registration E w) ''version'' = GStr (eversion E)"
    "fld (registration E w) ''peerProtocol'' = GInt 1"
    by (simp_all add: registration_def Let_def fld_def)
  have "ValidString ''inbox-receipts''" "ValidString ''idle''" "ValidString ''busy''" by code_simp+
  then have v: "ValidString ''inbox-receipts''" "ValidString (peer_status (clone (wactivity w)))" by (simp_all add: peer_status_def)
  note d = dec_read [OF registration_keys [of E w]]
  show ?thesis using assms v unfolding * peer_of_json_def object_of_json_simps rbind_simps
    by (simp add: f d valid_strings_def registered_peer_def blank_peer_def)
qed

text \<open>C14. The registration file that a worker writes, read and decoded by a peer, is that worker: \<open>Discover\<close> lists it
  under its name, process and socket with the receipts feature, as long as its process and its owner are
  verified and it is not the caller.\<close>

theorem registration_discovered:
  assumes "readJSON F (JoinPath [registry, Itoa (wpid w) @ ''.json'']) False = json_unmarshal (compact ff (GObj (registration E w)))"
    and "readable ff (GObj (registration E w))" and "valid_strings E w"
    and "verifyPeerIdentity h (wpid w) (wstart w) (goos (ehost E)) = Inr ()" and "wpid w \<noteq> exclude"
    and "worker_ok w" and "is_ok (socketPath (''uds:'' @ wpath w))"
    and "CHostPID (wconfig w) \<le> 0 \<or> processStart h (CHostPID (wconfig w)) = Inr (CHostStart (wconfig w))"
  shows "discover_entry h F sha registry exclude (Itoa (wpid w) @ ''.json'') =
    Some ((registered_peer E w)\<lparr>PRef := take 10 (sha (Itoa (wpid w) @ '':'' @ wstart w))\<rparr>)"
proof -
  have "readJSON F (JoinPath [registry, Itoa (wpid w) @ ''.json'']) False = Inr (as_read (GObj (registration E w)))"
    using assms(1) read_back [OF assms(2)] by simp
  then have "readPeer F (JoinPath [registry, Itoa (wpid w) @ ''.json'']) = Inr (registered_peer E w)"
    using registration_read [OF assms(3)] by (simp add: readPeer_def)
  moreover have "CName (wconfig w) \<noteq> []" using assms(6) by (simp add: worker_ok_def config_wf_def)
  ultimately show ?thesis using assms(4,5,7,8)
    by (simp add: discover_entry_def HasSuffix_def suffix_def registered_peer_def blank_peer_def owner_live_def
        split: sum.splits) auto
qed

subsection \<open>Goroutines\<close>

definition others :: "(worker \<Rightarrow> worker) \<Rightarrow> bool" where
  "others f \<longleftrightarrow> (\<forall>w. worker_step\<^sup>*\<^sup>* w (f w))"

lemma peer_line_steps:
  assumes "euuid E \<noteq> []" shows "worker_step\<^sup>*\<^sup>* w (snd (peer_line E unmarshal pid start raw w))"
proof -
  have "worker_step w (snd (receive E w f pid s))" if "str f ''type'' = ''user'' \<or> str f ''type'' = ''control''" for f s
    using that assms by (intro worker_step.frame [where E = E and f = f and out = "fst (receive E w f pid s)"])
      (auto simp: peer_frame_def)
  then show ?thesis by (auto simp: peer_line_def split: sum.splits)
qed

lemma peer_lines_steps:
  "\<forall>(E, f) \<in> set Es. euuid E \<noteq> [] \<and> others f \<Longrightarrow> worker_step\<^sup>*\<^sup>* w (peer_lines Es unmarshal pid start input w)"
proof (induction Es unmarshal pid start input w rule: peer_lines.induct)
  case (2 E f Es unmarshal pid start input w)
  have f: "worker_step\<^sup>*\<^sup>* w (f w)" "euuid E \<noteq> []" using "2.prems" by (auto simp: others_def)
  show ?case
  proof (cases "readLine MaxBuffer input")
    case (Inr p)
    obtain raw rest where p: "p = (raw, rest)" by fastforce
    obtain s w1 where l: "peer_line E unmarshal pid start raw (f w) = (s, w1)" by fastforce
    have "worker_step\<^sup>*\<^sup>* w w1" using f peer_line_steps [OF f(2), of "f w" unmarshal pid start raw] l by simp
    moreover have "worker_step\<^sup>*\<^sup>* w1 (peer_lines Es unmarshal pid t rest w1)" if "s = Some t" for t
      using "2.IH" [OF Inr p [symmetric] l [symmetric] that] "2.prems" by auto
    ultimately show ?thesis using Inr p l by (cases s) auto
  qed simp
qed simp

lemma maintain_steps:
  "\<forall>(E, A, f, p) \<in> set ts. others f \<and> (\<forall>order. p = Tick order \<longrightarrow> (\<forall>w. set (order w) = set (drops w)))
    \<Longrightarrow> worker_step\<^sup>*\<^sup>* w (maintain ts upcoming w)"
proof (induction ts upcoming w rule: maintain.induct)
  case (2 E A f p ts upcoming w)
  define due where "due \<longleftrightarrow> upcoming < enow E"
  define w0 where "w0 = (if due then fst (snd (maintenance E A w)) else w)"
  have "worker_step\<^sup>*\<^sup>* w w0"
    unfolding w0_def by (auto intro!: r_into_rtranclp worker_step.maintain simp: prod_eq_iff)
  then have w1: "worker_step\<^sup>*\<^sup>* w (f w0)" using "2.prems" by (auto simp: others_def intro: rtranclp_trans)
  show ?case
  proof (cases p)
    case (Tick order)
    have "worker_step (f w0) (flushDrops (order (f w0)) (f w0))"
      using "2.prems" Tick by (intro worker_step.flush [where order = "order (f w0)"]) auto
    then have "worker_step\<^sup>*\<^sup>* w (flushDrops (order (f w0)) (f w0))" using w1 by simp
    moreover have "worker_step\<^sup>*\<^sup>* (flushDrops (order (f w0)) (f w0))
        (maintain ts (if due then enow E + 2 else upcoming) (flushDrops (order (f w0)) (f w0)))"
      using "2.IH" [OF due_def refl refl Tick] "2.prems" by (simp add: w0_def)
    ultimately have "worker_step\<^sup>*\<^sup>* w (maintain ts (if due then enow E + 2 else upcoming) (flushDrops (order (f w0)) (f w0)))"
      by (rule rtranclp_trans)
    then show ?thesis by (simp add: Tick Let_def w0_def due_def)
  next
    case Ended
    then show ?thesis using w1 by (simp add: w0_def due_def)
  qed
qed simp


lemma control_steps:
  "worker_step\<^sup>*\<^sup>* w (snd (controlConnection E A [] unmarshal creds myuid input w))"
proof -
  have "worker_step\<^sup>*\<^sup>* w (snd (operation E A [] w args))" for args
    by (rule r_into_rtranclp, rule worker_step.control [where E = E and A = A and args = args and out = "fst (operation E A [] w args)"]) simp
  then show ?thesis
    by (auto simp: controlConnection_def split: sum.splits prod.splits) (metis snd_conv)
qed


subsection \<open>The limit on connections\<close>

definition idle_listener :: listener where
  "idle_listener = \<lparr>serving = [], refused_conns = [], stopped = False, cancels_worker = False\<rparr>"

lemma serve_bound: "length (serving l) \<le> 64 \<Longrightarrow> length (serving (serve ev l)) \<le> 64"
  by (auto simp: serve_def length_remove1 split: listener_event.splits)

text \<open>A listener never has more than 64 connections in service, and refuses one only while 64 are.\<close>

theorem connections_limited:
  shows "length (serving (fold serve evs idle_listener)) \<le> 64
    \<and> (refused_conns (serve ev (fold serve evs idle_listener)) \<noteq> refused_conns (fold serve evs idle_listener)
        \<longrightarrow> length (serving (fold serve evs idle_listener)) = 64)"
proof -
  have "length (serving l) \<le> 64 \<Longrightarrow> length (serving (fold serve evs l)) \<le> 64" for l
    by (induction evs arbitrary: l) (simp_all add: serve_bound)
  then have "length (serving (fold serve evs idle_listener)) \<le> 64" by (simp add: idle_listener_def)
  then show ?thesis by (auto simp: serve_def split: listener_event.splits if_splits)
qed


subsection \<open>A concrete worker\<close>

definition start_disk_files :: files where
  "start_disk_files = sample_files\<lparr>
     lstat := (\<lambda>p. if HasSuffix p ''.lock'' then Inl NotExist
        else Inr (sample_stat (if HasSuffix p ''.json'' then RegularFile else DirectoryFile))),
     stat := (\<lambda>_. Inl NotExist),
     json_file := (\<lambda>_. Inr (GObj [(''thread_id'', GStr sample_uuid), (''cwd'', GStr ''/w''), (''name'', GStr ''amy''),
       (''inbound'', GStr ''accept''), (''permission_class'', GStr ''prompting''), (''delivery'', GStr ''app-server''),
       (''app_server_socket'', GStr ''/s''), (''executable'', GStr ''/x''), (''lease_seconds'', GFloat 100),
       (''host_pid'', GFloat 7), (''host_start'', GStr ''5'')]))\<rparr>"

definition sample_begin :: start_env where
  "sample_begin = \<lparr>r_env = sample_env\<lparr>efiles := start_disk_files\<rparr>, r_private = (\<lambda>_. Inr ()), r_sessions = ''/r'', r_runtime_dir = [],
     r_uid = 1, r_pid = 9, r_start = Inr ''3'', r_store = Inr empty_store, r_key = Inr sample_token, r_lock = Inr (),
     r_tmp = (\<lambda>_. ''/t''), r_faults = (\<lambda>_ _. None)\<rparr>"

definition sample_dir :: string where
  "sample_dir = ''/d/'' @ sample_uuid"

definition sample_disk :: disk_state where
  "sample_disk = \<lparr>nodes = [''/f'' \<mapsto> \<lparr>nstat = sample_stat RegularFile, nvalue = None\<rparr>], next_inode = fino (sample_stat RegularFile) + 1\<rparr>"

lemma sample_read_config: "read_own_config sample_begin sample_dir = Inr sample_config"
proof -
  have "HasSuffix (JoinPath [sample_dir, ''config.json'']) ''.json''" "\<not> HasSuffix (JoinPath [sample_dir, ''config.json'']) ''.lock''"
    "Base sample_dir = sample_uuid" by code_simp+
  moreover have "checkHost live_host sample_config = Inr ()" by (simp add: checkHost_def sample_config_def sample_start)
  moreover have "Validate sample_lib sample_config = Inr sample_config"
    by (simp add: Validate_def canonicalThread_def sample_lib_def sample_uuid_def nil_uuid_def sample_config_def sample_name IsAbs_def HasPrefix_def)
  ultimately show ?thesis
    by (simp add: read_own_config_def sample_begin_def sample_env_def readConfig_def readJSON_def owned_def start_disk_files_def
        sample_files_def sample_stat_def perm_mask_def MaxBuffer_def config_over_def over_str_def over_int_def dec_str_def
        dec_int_def fld_def zero_config_def sample_config_def [symmetric])
      (simp add: sample_config_def)
qed


definition sample_new :: worker where
  "sample_new = new_worker sample_begin sample_dir sample_config ''/tmp/cc-socks'' ''3'' empty_store"

lemma sample_opened: "open_worker sample_begin sample_dir = Inr (sample_new, ''/tmp/cc-socks/9.control.sock'')"
proof -
  have "JoinPath [''/tmp'', ''cc-socks''] = ''/tmp/cc-socks''" "socketDirRE ''/tmp/cc-socks''"
    "worker_control ''/tmp/cc-socks'' 9 = ''/tmp/cc-socks/9.control.sock''" by code_simp+
  then show ?thesis
    by (simp add: open_worker_def sample_read_config sample_new_def)
      (simp add: sample_begin_def chooseSocketDir_def socket_dirs_def)
qed

lemma started_paths: "worker_paths sample_begin sample_new ''/tmp/cc-socks/9.control.sock'' =
    [''/tmp/cc-socks/9.sock'', ''/tmp/cc-socks/9.control.sock'', ''/r/9.ab.key'', ''/r/9.json'', JoinPath [sample_dir, ''worker.json'']]"
proof -
  have "worker_socket ''/tmp/cc-socks'' 9 = ''/tmp/cc-socks/9.sock''" "JoinPath [''/r'', Itoa 9 @ ''.json''] = ''/r/9.json''"
    "JoinPath [''/r'', Itoa 9 @ ''.'' @ ''ab'' @ ''.key''] = ''/r/9.ab.key''" by code_simp+
  then show ?thesis
    by (simp add: worker_paths_def sample_new_def new_worker_def sample_begin_def sample_env_def keyPath_def)
qed

lemma sample_free: "free_for sample_begin sample_disk (worker_paths sample_begin sample_new ''/tmp/cc-socks/9.control.sock'')"
proof -
  have "take 3 (JoinPath [sample_dir, ''worker.json'']) = ''/d/''" by code_simp
  then have "JoinPath [sample_dir, ''worker.json''] \<notin> {''/tmp/cc-socks/9.sock'', ''/tmp/cc-socks/9.control.sock'', ''/r/9.ab.key'', ''/r/9.json'', ''/t'', ''/f''}"
    by auto
  moreover have "r_tmp sample_begin i = ''/t''" "r_faults sample_begin i j = None" for i j by (simp_all add: sample_begin_def)
  ultimately show ?thesis unfolding free_for_def started_paths by (simp add: sample_disk_def eq_commute)
qed

lemma sample_checks:
  "lockPeerNames (efiles (r_env sample_begin)) (r_lock sample_begin) (Inr ()) (wregistry sample_new) = Inr ()"
  "checkPeerName (ehost (r_env sample_begin)) (efiles (r_env sample_begin)) (esha (r_env sample_begin)) (wregistry sample_new)
     (CName (wconfig sample_new)) (wpid sample_new) = Inr ()"
proof -
  have "HasSuffix (JoinPath [''/r'', ''.cross-session-codex-names.lock'']) ''.lock''" by code_simp
  then show "lockPeerNames (efiles (r_env sample_begin)) (r_lock sample_begin) (Inr ()) (wregistry sample_new) = Inr ()"
    by (simp add: lockPeerNames_def openAppServerFile_def private_file_def sample_new_def new_worker_def sample_begin_def
        sample_env_def start_disk_files_def)
  show "checkPeerName (ehost (r_env sample_begin)) (efiles (r_env sample_begin)) (esha (r_env sample_begin)) (wregistry sample_new)
     (CName (wconfig sample_new)) (wpid sample_new) = Inr ()"
    by (simp add: checkPeerName_def Discover_def sample_begin_def start_disk_files_def sample_env_def)
qed

lemma sample_started: "\<exists>w k. RunWorker sample_begin sample_dir [] (\<lambda>_. False) (\<lambda>_. False) sample_disk = (Inr w, k)"
proof -
  have "r_key sample_begin = Inr sample_token" by (simp add: sample_begin_def)
  from start_files_ok [OF sample_free this sample_checks] show ?thesis
    by (auto simp: RunWorker_def sample_opened Let_def)
qed

theorem worker_starts_ok_witness:
  "\<exists>w k. RunWorker sample_begin sample_dir [] (\<lambda>_. False) (\<lambda>_. False) sample_disk = (Inr w, k)
     \<and> worker_ok w \<and> CThread (wconfig w) = Base sample_dir"
proof -
  obtain w k where r: "RunWorker sample_begin sample_dir [] (\<lambda>_. False) (\<lambda>_. False) sample_disk = (Inr w, k)"
    using sample_started by blast
  have "0 < r_pid sample_begin" by (simp add: sample_begin_def)
  from worker_starts_ok [OF r this] r show ?thesis by blast
qed

theorem start_publishes_witness:
  "\<exists>w k. start_files sample_begin sample_new ''/tmp/cc-socks/9.control.sock'' \<lparr>disk = sample_disk, artifacts = [], made = {}\<rparr> = (Inr w, k)
     \<and> nodes (disk k) ''/r/9.ab.key'' \<noteq> None"
proof -
  have "r_key sample_begin = Inr sample_token" by (simp add: sample_begin_def)
  from start_publishes [OF sample_free this sample_checks] started_paths show ?thesis
    by (auto simp: Let_def worker_paths_def)
qed

theorem worker_leaves_no_files_witness:
  "\<exists>w k. RunWorker sample_begin sample_dir [(5, sample_new)] (\<lambda>_. False) (\<lambda>_. False) sample_disk = (Inr w, k)
     \<and> nodes (disk k) = nodes sample_disk"
proof -
  have f: "\<forall>i. r_faults sample_begin i 3 = None \<and> r_faults sample_begin i 7 = None" by (simp add: sample_begin_def)
  have "r_key sample_begin = Inr sample_token" by (simp add: sample_begin_def)
  from start_files_ok [OF sample_free this sample_checks]
  obtain w k where "RunWorker sample_begin sample_dir [(5, sample_new)] (\<lambda>_. False) (\<lambda>_. False) sample_disk = (Inr w, k)"
    by (auto simp: RunWorker_def sample_opened Let_def)
  moreover from worker_leaves_no_files [OF f, of sample_dir "[(5, sample_new)]" sample_disk] this
  have "nodes (disk k) = nodes sample_disk" by simp
  ultimately show ?thesis by blast
qed


definition seven :: worker where
  "seven = (sample_worker empty_store)\<lparr>wpid := 7, wstart := ''5'', wpath := ''/tmp/cc-socks/7.sock''\<rparr>"

definition seven_files :: files where
  "seven_files = sample_files\<lparr>json_file := (\<lambda>_. json_unmarshal (compact (\<lambda>x. Itoa \<lfloor>x\<rfloor>) (GObj (registration sample_env seven))))\<rparr>"

lemma seven_readable: "readable (\<lambda>x. Itoa \<lfloor>x\<rfloor>) (GObj (registration sample_env seven))"
proof -
  have keys: "\<forall>k \<in> {''pid'', ''sessionId'', ''hostPid'', ''hostStart'', ''cwd'', ''startedAt'', ''procStart'', ''version'', ''peerProtocol'',
      ''peerFeatures'', ''kind'', ''entrypoint'', ''pidDomain'', ''messagingSocketPath'', ''name'', ''nameSource'', ''nameSince'', ''status'',
      ''activity'', ''updatedAt'', ''statusUpdatedAt''}. \<forall>c \<in> set k. byte c < 0x80" by simp
  have "ValidString k" if "\<forall>c \<in> set k. byte c < 0x80" for k
    using that by (induction k) (simp_all add: ValidString.simps(2) decode_rune_def)
  then show ?thesis using keys
    by (simp add: registration_def Let_def seven_def sample_worker_def clone_def)
qed

theorem registration_discovered_witness:
  "\<exists>p. discover_entry live_host seven_files (\<lambda>s. s) ''/r'' 3 (Itoa 7 @ ''.json'') = Some p \<and> PName p = ''amy'' \<and> PProtocol p = 1"
proof -
  have "JoinPath [''/r'', Itoa 7 @ ''.json''] = ''/r/7.json''" by code_simp
  then have r: "readJSON seven_files (JoinPath [''/r'', Itoa (wpid seven) @ ''.json'']) False = json_unmarshal (compact (\<lambda>x. Itoa \<lfloor>x\<rfloor>) (GObj (registration sample_env seven)))"
    by (simp add: seven_def seven_files_def readJSON_def owned_def sample_files_def sample_stat_def perm_mask_def MaxBuffer_def
        del: compact.simps)
  have v: "verifyPeerIdentity live_host (wpid seven) (wstart seven) (goos (ehost sample_env)) = Inr ()"
    using sample_start by (simp add: verifyPeerIdentity_def seven_def sample_env_def)
  have ok: "worker_ok seven" using sample_worker_ok [of empty_store] by (simp add: seven_def worker_ok_def queues_ok_def)
  have p: "is_ok (socketPath (''uds:'' @ wpath seven))" using sample_socketPath by (simp add: seven_def)
  have o: "processStart live_host (CHostPID (wconfig seven)) = Inr (CHostStart (wconfig seven))"
    using sample_start by (simp add: seven_def sample_worker_def sample_config_def)
  have "goos live_host = ''linux''" by (simp add: live_host_def)
  moreover have "ValidString ''5''" "ValidString ''linux''" "ValidString ''/tmp/cc-socks/7.sock''" "ValidString ''amy''" "ValidString sample_uuid"
    "ValidString ''/w''" "ValidString ''1''" by code_simp+
  ultimately have u: "valid_strings sample_env seven"
    by (simp add: valid_strings_def seven_def sample_worker_def sample_config_def sample_env_def)
  have "wpid seven \<noteq> 3" by (simp add: seven_def)
  from registration_discovered [OF r seven_readable u v this ok p disjI2 [OF o], of "\<lambda>s. s"] show ?thesis
    by (simp add: seven_def registered_peer_def blank_peer_def sample_worker_def sample_config_def)
qed


end
