(* ===== verification/Manager.thy ===== *)
theory Manager
  imports Launch Directories Control
begin

section \<open>Workers as clients see them\<close>

text \<open>
  \<open>RPC\<close>, \<open>Enable\<close>, \<open>Stop\<close> and \<open>workerStartupError\<close> of manager.go, \<open>handleHook\<close> of hooks.go.  What \<open>Enable\<close> changes is
  returned as the list of its effects, in order.
\<close>

subsection \<open>Requests to a worker\<close>

text \<open>The system during one request: \<open>q_connect\<close> is \<open>connectVerified\<close>, \<open>q_reply\<close> what arrives on the connection after a
  request was written.\<close>

record rpc_site =
  q_lib :: lib
  q_root :: string
  q_files :: files
  q_connect :: "string \<Rightarrow> int \<Rightarrow> string \<Rightarrow> unit res"
  q_write :: "string \<Rightarrow> unit res"
  q_reply :: "string \<Rightarrow> string"
  q_unmarshal :: "string \<Rightarrow> gval res"

definition worker_meta :: "files \<Rightarrow> string \<Rightarrow> workerMeta res" where
  "worker_meta F dir = rbind (readJSON F (JoinPath [dir, ''worker.json'']) True) meta_of_json"

definition rpc_request :: "lib \<Rightarrow> string \<Rightarrow> obj \<Rightarrow> string" where
  "rpc_request L op args = compact (fmt_float L) (GObj (set_fld (clone args) ''op'' (GStr op))) @ [newline]"

definition rpc_response :: "gval \<Rightarrow> obj res" where
  "rpc_response v =
     rbind (object_of_json v) (\<lambda>m.
     rbind (dec_obj m ''result'') (\<lambda>result.
     rbind (dec_str m ''error'') (\<lambda>error.
       if error \<noteq> [] then Inl (Failure error) else Inr (case result of None \<Rightarrow> [] | Some r \<Rightarrow> r))))"

definition RPC :: "rpc_site \<Rightarrow> string \<Rightarrow> string \<Rightarrow> obj \<Rightarrow> obj res" where
  "RPC Q thread op args =
     rbind (threadDir (q_lib Q) (q_root Q) thread) (\<lambda>dir.
     case worker_meta (q_files Q) dir of
       Inl e \<Rightarrow> Inl (wrapped ''messaging is unavailable for this thread; run start'' e)
     | Inr m \<Rightarrow>
         if MThread m \<noteq> Base dir then Inl (Failure ''worker thread identity mismatch'')
         else rbind (q_connect Q (MControl m) (MPID m) (MStart m)) (\<lambda>_.
           let b = rpc_request (q_lib Q) op args in
           if MaxBuffer < length b then Inl (Failure ''control request exceeds size limit'')
           else rbind (q_write Q b) (\<lambda>_.
                rbind (readLine MaxRPCResponse (q_reply Q b)) (\<lambda>(raw, rest).
                rbind (q_unmarshal Q raw) rpc_response))))"

text \<open>\<open>Stop\<close> asks the worker to stop and looks a hundred times whether its file is gone.\<close>

definition Stop :: "obj res \<Rightarrow> (nat \<Rightarrow> fstat res) \<Rightarrow> unit res" where
  "Stop asked look =
     rbind asked (\<lambda>_.
       if list_ex (\<lambda>i. look i = Inl NotExist) [0..<100] then Inr ()
       else Inl (Failure ''worker is still shutting down; inspect status before restarting''))"

subsection \<open>Starting a worker\<close>

text \<open>What the launcher of a worker sees while it waits: the process ended, the deadline, or a tick with the answer
  of an \<open>info\<close> request.\<close>

datatype startup = ChildExited string | StartDeadline | Probed "obj res"

record enable_env =
  e_lib :: lib
  e_root :: string
  e_private :: "string \<Rightarrow> unit res"
  e_lockfile :: files
  e_lock :: "unit res"
  e_rpc :: "string \<Rightarrow> obj \<Rightarrow> obj res"
  e_host :: host
  e_files :: files
  e_sha :: "string \<Rightarrow> string"
  e_remove :: "string \<Rightarrow> unit res"
  e_wd :: string
  e_getwd :: "string res"
  e_default :: string
  e_executable :: "string res"
  e_attach :: "string \<Rightarrow> string \<Rightarrow> unit res"
  e_save :: "Config \<Rightarrow> unit res"
  e_log :: files
  e_openlog :: "unit res"
  e_spawn :: "unit res"
  e_startup :: "startup list"
  e_logtail :: string
  e_unmarshal :: "string \<Rightarrow> gval res"

datatype enable_effect =
    RemovedFile string
  | Reconfigured obj
  | SavedConfig Config
  | Spawned string string string
  | KilledChild

text \<open>The last error event in the tail of the log; the scanner drops the line's end and a carriage return.\<close>

definition log_lines :: "string \<Rightarrow> string list" where
  "log_lines s = (let ls = Split s newline in map (\<lambda>l. TrimSuffix l [CHR 0x0D]) (if last ls = [] then butlast ls else ls))"

definition log_message :: "(string \<Rightarrow> gval res) \<Rightarrow> string \<Rightarrow> string" where
  "log_message unmarshal s =
     foldl (\<lambda>message l. case rbind (unmarshal l) object_of_json of
         Inl _ \<Rightarrow> message | Inr entry \<Rightarrow> if str entry ''error'' \<noteq> [] then str entry ''error'' else message) [] (log_lines s)"

definition workerStartupError :: "(string \<Rightarrow> gval res) \<Rightarrow> string \<Rightarrow> string \<Rightarrow> string \<Rightarrow> gerr" where
  "workerStartupError unmarshal tail exit_text logPath =
     (let message = log_message unmarshal tail in
      if message \<noteq> [] then Failure (''worker exited ('' @ exit_text @ ''): '' @ message @ ''; see '' @ logPath)
      else Failure (''worker exited ('' @ exit_text @ ''); see '' @ logPath))"

fun wait_startup :: "(string \<Rightarrow> gval res) \<Rightarrow> string \<Rightarrow> string \<Rightarrow> startup list \<Rightarrow> (obj res \<times> enable_effect list) option" where
  "wait_startup unmarshal tail logPath [] = None"
| "wait_startup unmarshal tail logPath (ev # evs) =
     (case ev of
        ChildExited t \<Rightarrow> Some (Inl (workerStartupError unmarshal tail t logPath), [])
      | StartDeadline \<Rightarrow> Some (Inl (Failure (''worker startup timed out; see '' @ logPath)), [KilledChild])
      | Probed (Inr reply) \<Rightarrow> Some (Inr reply, [])
      | Probed (Inl _) \<Rightarrow> wait_startup unmarshal tail logPath evs)"

text \<open>The configuration is saved, then the process is started in its own session.\<close>

definition spawn_worker :: "enable_env \<Rightarrow> string \<Rightarrow> Config \<Rightarrow> (obj res \<times> enable_effect list) option" where
  "spawn_worker E dir c =
     (let logPath = JoinPath [dir, ''worker.log''] in
      case e_save E c of
        Inl e \<Rightarrow> Some (Inl e, [])
      | Inr _ \<Rightarrow>
        (case rbind (private_file (e_log E) logPath) (\<lambda>_. rbind (e_openlog E) (\<lambda>_. e_spawn E)) of
           Inl e \<Rightarrow> Some (Inl e, [SavedConfig c])
         | Inr _ \<Rightarrow>
             map_option (\<lambda>(r, es). (r, [SavedConfig c, Spawned (CExecutable c) dir (CCWD c)] @ es))
               (wait_startup (e_unmarshal E) (e_logtail E) logPath (e_startup E))))"

definition enable_new :: "enable_env \<Rightarrow> string \<Rightarrow> obj \<Rightarrow> (obj res \<times> enable_effect list) option" where
  "enable_new E dir options =
     (case recoverWorker (e_host E) (e_files E) (e_sha E) (e_remove E) dir of
        (Inl e, removed) \<Rightarrow> Some (Inl e, map RemovedFile removed)
      | (Inr _, removed) \<Rightarrow>
        (case rbind (e_getwd E) (\<lambda>cwd.
                enable_config (e_host E) (e_lib E) dir cwd (e_default E) (e_executable E)
                  (readJSON (e_files E) (JoinPath [dir, ''config.json'']) True) options) of
           Inl e \<Rightarrow> Some (Inl e, map RemovedFile removed)
         | Inr c \<Rightarrow>
           (case (if CDelivery c = ''app-server'' then e_attach E (CAppSocket c) (CThread c) else Inr ()) of
              Inl e \<Rightarrow> Some (Inl e, map RemovedFile removed)
            | Inr _ \<Rightarrow> map_option (\<lambda>(r, es). (r, map RemovedFile removed @ es)) (spawn_worker E dir c))))"

text \<open>A worker that answers is reconfigured, never replaced.\<close>

definition enable_running :: "enable_env \<Rightarrow> string \<Rightarrow> obj \<Rightarrow> obj \<Rightarrow> obj res \<times> enable_effect list" where
  "enable_running E dir options reply =
     (if str reply ''runtime'' \<noteq> ''go''
      then (Inl (Failure (''a legacy worker is still running; disable it before starting the Go worker (inbox''
              @ '' history is preserved)'')), [])
      else case rbind (readConfig (e_files E) dir) (\<lambda>c0.
             rbind (applyConfig (e_lib E) (e_wd E) c0 options) (checkHost (e_host E))) of
        Inl e \<Rightarrow> (Inl e, [])
      | Inr _ \<Rightarrow> if options = [] then (Inr reply, []) else (e_rpc E ''configure'' options, [Reconfigured options]))"

definition open_lock :: "enable_env \<Rightarrow> string \<Rightarrow> string res" where
  "open_lock E thread =
     rbind (threadDir (e_lib E) (e_root E) thread) (\<lambda>dir.
     rbind (e_private E (e_root E)) (\<lambda>_.
     rbind (e_private E dir) (\<lambda>_.
     rbind (private_file (e_lockfile E) (JoinPath [dir, ''start.lock''])) (\<lambda>_.
     rbind (e_lock E) (\<lambda>_. Inr dir)))))"

text \<open>\<open>None\<close>: still waiting for the worker to start.\<close>

definition Enable :: "enable_env \<Rightarrow> string \<Rightarrow> obj \<Rightarrow> (obj res \<times> enable_effect list) option" where
  "Enable E thread options =
     (case open_lock E thread of
        Inl e \<Rightarrow> Some (Inl e, [])
      | Inr dir \<Rightarrow>
        (case e_rpc E ''info'' [] of
           Inr reply \<Rightarrow> Some (enable_running E dir options reply)
         | Inl _ \<Rightarrow> enable_new E dir options))"

subsection \<open>Hooks\<close>

text \<open>The answer to the host and the requests made, in order; \<open>rpc i\<close> answers the \<open>i\<close>-th one.\<close>

type_synonym request = "string \<times> string \<times> obj"

definition hook_options :: "obj \<Rightarrow> obj" where
  "hook_options event = (if str event ''cwd'' = [] then [] else [(''cwd'', GStr (str event ''cwd''))])"

definition handleHook :: "lib \<Rightarrow> string \<Rightarrow> (nat \<Rightarrow> request \<Rightarrow> obj res) \<Rightarrow> obj \<Rightarrow> obj res \<times> request list" where
  "handleHook L executable rpc event =
     (if fld event ''agent_id'' \<noteq> GNil then (Inr [], [])
      else case canonicalThread L (str event ''session_id'') of
        Inl e \<Rightarrow> (Inl e, [])
      | Inr thread \<Rightarrow>
          if str event ''hook_event_name'' = ''SessionStart'' then
            (let ask = (thread, ''info'', []); set = (thread, ''configure'', hook_options event) in
             case rpc 0 ask of
               Inl _ \<Rightarrow> (Inr [], [ask])
             | Inr _ \<Rightarrow>
               (case rpc 1 set of
                  Inl e \<Rightarrow> (Inr [(''systemMessage'', GStr (''Cross-session messaging: '' @ err_text e))], [ask, set])
                | Inr state \<Rightarrow>
                    (Inr [(''hookSpecificOutput'', GObj [(''hookEventName'', GStr ''SessionStart''),
                       (''additionalContext'', GStr (''Cross-session peer '' @ str state ''name'' @ '' is enabled. ''
                          @ inboxNotice executable thread))])], [ask, set])))
          else if str event ''hook_event_name'' = ''SessionEnd'' then (Inr [], [(thread, ''stop'', [])])
          else (Inr [], []))"

end
