(* ===== verification/Manager_Safety.thy ===== *)
theory Manager_Safety
  imports Manager Worker_Props
begin

section \<open>What clients may do to a worker\<close>

text \<open>
  Recovery removes the files of dead workers only, \<open>Enable\<close> starts a process only where no worker lives and with
  a configuration that was checked and saved, and a hook leaves the user's choices alone.
\<close>

subsection \<open>Recovery\<close>

definition stale_artifact :: "files \<Rightarrow> string \<Rightarrow> string \<Rightarrow> bool" where
  "stale_artifact F start p \<longleftrightarrow>
     (if Ext p = ''.sock'' then is_ok (owned F p SocketFile False)
      else is_ok (owned F p RegularFile False)
        \<and> (\<exists>data. rbind (readJSON F p False) object_of_json = Inr data \<and> str data ''procStart'' = start))"

lemma stale_file_artifact: "stale_file F start p = Inr True \<Longrightarrow> stale_artifact F start p"
  by (auto simp: stale_file_def stale_artifact_def Let_def split: if_splits sum.splits gerr.splits)

lemma recover_loop_removed:
  "recover_loop F rm start removed ps = (r, out) \<Longrightarrow> p \<in> set out \<Longrightarrow> p \<in> set removed \<or> p \<in> set ps \<and> stale_artifact F start p"
proof (induction F rm start removed ps rule: recover_loop.induct)
  case (2 F rm start removed q ps)
  then show ?case
    using stale_file_artifact [of F start q] by (auto split: sum.splits bool.splits)
qed simp

definition stale_paths :: "(string \<Rightarrow> string) \<Rightarrow> workerMeta \<Rightarrow> string \<Rightarrow> string list" where
  "stale_paths sha m peer =
     [peer, JoinPath [Dir peer, Itoa (MPID m) @ ''.control.sock''], keyPath sha (MRegistry m) (MPID m) peer,
      JoinPath [MRegistry m, Itoa (MPID m) @ ''.json'']]"

text \<open>C11. \<open>recoverWorker\<close> removes something only when the recorded worker is not running any more: its process
  cannot be the one that wrote \<open>worker.json\<close>, and beside that file only sockets and JSON files go that belong to
  this user, that are among the four paths of that worker, and whose process is known to be gone; a JSON
  file only when it names the dead process.  A worker that is alive or cannot be verified is an error.\<close>

theorem recover_only_dead:
  assumes "recoverWorker h F sha rm dir = (r, removed)" and "p \<in> set removed"
  shows "\<exists>m. worker_meta F dir = Inr m \<and> processStart h (MPID m) \<noteq> Inr (MStart m)
    \<and> (is_ok (processStart h (MPID m)) \<or> kill_esrch h (MPID m))
    \<and> (p = JoinPath [dir, ''worker.json''] \<or>
        kill_esrch h (MPID m) \<and> (\<exists>peer. socketPath (''uds:'' @ MSocket m) = Inr peer \<and> Base peer = Itoa (MPID m) @ ''.sock''
          \<and> p \<in> set (stale_paths sha m peer) \<and> stale_artifact F (MStart m) p))"
proof -
  obtain m where m: "worker_meta F dir = Inr m"
    using assms by (cases "worker_meta F dir")
      (auto simp: recoverWorker_def worker_meta_def [symmetric] Let_def split: gerr.splits)
  have w: "rbind (readJSON F (JoinPath [dir, ''worker.json'']) True) meta_of_json = Inr m"
    using m by (simp add: worker_meta_def)
  have dead: "processStart h (MPID m) \<noteq> Inr (MStart m)" "is_ok (processStart h (MPID m)) \<or> kill_esrch h (MPID m)"
    using assms unfolding recoverWorker_def Let_def w by (auto split: if_splits)
  show ?thesis
  proof (cases "kill_esrch h (MPID m) \<and> p \<noteq> JoinPath [dir, ''worker.json'']")
    case False
    then show ?thesis
      using m dead assms unfolding recoverWorker_def Let_def w by (auto split: if_splits sum.splits)
  next
    case True
    then obtain peer where peer: "socketPath (''uds:'' @ MSocket m) = Inr peer" "Base peer = Itoa (MPID m) @ ''.sock''"
      using assms dead unfolding recoverWorker_def Let_def w by (auto split: if_splits sum.splits)
    obtain r1 out where l: "recover_loop F rm (MStart m) [] (stale_paths sha m peer) = (r1, out)" by fastforce
    have "p \<in> set out"
      using assms dead True peer l unfolding recoverWorker_def Let_def w
      by (auto simp: stale_paths_def split: if_splits sum.splits)
    then show ?thesis using recover_loop_removed [OF l] m dead True peer by auto
  qed
qed

subsection \<open>Starting\<close>

lemma wait_startup_cases:
  assumes "wait_startup unmarshal tail logPath evs = Some (r, es)"
  shows "(es = [] \<or> es = [KilledChild]) \<and> (\<forall>info. r = Inr info \<longrightarrow> es = [] \<and> Probed (Inr info) \<in> set evs)"
  using assms by (induction evs) (auto split: startup.splits sum.splits)

lemma Validate_exe: "Validate L c = Inr c' \<Longrightarrow> CExecutable c' = CExecutable c"
  by (auto simp: Validate_def split: sum.splits if_splits)

lemma enable_config_checked:
  assumes "enable_config h L dir cwd app_socket executable stored options = Inr c"
  shows "config_wf c \<and> checkHost h c = Inr () \<and> executable = Inr (CExecutable c) \<and> canonicalThread L (Base dir) = Inr (CThread c)"
proof -
  from assms obtain c4 exe where "executable = Inr exe" and v: "Validate L (c4\<lparr>CThread := Base dir, CExecutable := exe\<rparr>) = Inr c"
    and h: "checkHost h c = Inr ()"
    by (auto simp: enable_config_def Let_def rbind_Inr)
  moreover have "canonicalThread L (Base dir) = Inr (CThread c)"
    using v by (auto simp: Validate_def split: sum.splits if_splits)
  ultimately show ?thesis using Validate_wf [OF v] Validate_exe [OF v] h by simp
qed

text \<open>C16. \<open>Enable\<close> starts a worker process only when no worker answers for the thread and the files of an earlier
  one, if any, were recovered; the process runs with a valid configuration for this thread whose client
  owner was checked, whose app-server accepted the thread, and which was saved just before.  At most one process is
  started, and success means that the worker answered.\<close>

theorem enable_starts_checked:
  assumes "Enable E thread options = Some (r, effs)" and "Spawned exe dir cwd \<in> set effs"
  shows "open_lock E thread = Inr dir \<and> \<not> is_ok (e_rpc E ''info'' []) \<and> (\<exists>removed c post.
      recoverWorker (e_host E) (e_files E) (e_sha E) (e_remove E) dir = (Inr (), removed)
    \<and> effs = map RemovedFile removed @ [SavedConfig c, Spawned exe dir cwd] @ post
    \<and> (post = [] \<or> post = [KilledChild] \<and> \<not> is_ok r)
    \<and> config_wf c \<and> canonicalThread (e_lib E) (Base dir) = Inr (CThread c) \<and> CCWD c = cwd \<and> e_executable E = Inr exe
    \<and> checkHost (e_host E) c = Inr () \<and> e_save E c = Inr ()
    \<and> (CDelivery c = ''app-server'' \<longrightarrow> e_attach E (CAppSocket c) (CThread c) = Inr ())
    \<and> (\<forall>info. r = Inr info \<longrightarrow> Probed (Inr info) \<in> set (e_startup E)))"
proof -
  from assms obtain dir' where d: "open_lock E thread = Inr dir'" by (auto simp: Enable_def split: sum.splits)
  have no: "\<not> is_ok (e_rpc E ''info'' [])"
  proof
    assume "is_ok (e_rpc E ''info'' [])"
    then obtain reply where "e_rpc E ''info'' [] = Inr reply" by (auto simp: is_ok_iff)
    then show False using assms d by (auto simp: Enable_def enable_running_def split: sum.splits if_splits)
  qed
  then have n: "enable_new E dir' options = Some (r, effs)"
    using assms d by (auto simp: Enable_def is_ok_iff split: sum.splits)
  obtain rr removed where rec: "recoverWorker (e_host E) (e_files E) (e_sha E) (e_remove E) dir' = (rr, removed)" by fastforce
  have rr: "rr = Inr ()" using n assms(2) rec by (cases rr) (auto simp: enable_new_def)
  let ?cfg = "rbind (e_getwd E) (\<lambda>cwd. enable_config (e_host E) (e_lib E) dir' cwd (e_default E) (e_executable E)
                  (readJSON (e_files E) (JoinPath [dir', ''config.json'']) True) options)"
  obtain c where c: "?cfg = Inr c" using n assms(2) rec rr by (cases ?cfg) (auto simp: enable_new_def)
  have att: "(if CDelivery c = ''app-server'' then e_attach E (CAppSocket c) (CThread c) else Inr ()) = Inr ()"
    using n assms(2) rec rr c
    by (cases "if CDelivery c = ''app-server'' then e_attach E (CAppSocket c) (CThread c) else Inr ()") (auto simp: enable_new_def)
  obtain es where sp: "spawn_worker E dir' c = Some (r, es)" and effs: "effs = map RemovedFile removed @ es"
    using n unfolding enable_new_def rec rr prod.case sum.case c att by auto
  have "Spawned exe dir cwd \<in> set es" using assms(2) effs by auto
  then obtain post where save: "e_save E c = Inr ()" and es: "es = [SavedConfig c, Spawned (CExecutable c) dir' (CCWD c)] @ post"
    and w: "wait_startup (e_unmarshal E) (e_logtail E) (JoinPath [dir', ''worker.log'']) (e_startup E) = Some (r, post)"
    using sp by (auto simp: spawn_worker_def Let_def split: sum.splits)
  note ws = wait_startup_cases [OF w]
  have "exe = CExecutable c" "dir = dir'" "cwd = CCWD c" using \<open>Spawned exe dir cwd \<in> set es\<close> es ws by auto
  moreover from c obtain wd where "enable_config (e_host E) (e_lib E) dir' wd (e_default E) (e_executable E)
      (readJSON (e_files E) (JoinPath [dir', ''config.json'']) True) options = Inr c" by (auto simp: rbind_Inr)
  note enable_config_checked [OF this]
  moreover have "post = [] \<or> post = [KilledChild] \<and> \<not> is_ok r" using ws by (auto simp: is_ok_def split: sum.splits)
  ultimately show ?thesis
    using d no rec rr att save ws effs es
    by (intro conjI exI [of _ removed] exI [of _ c] exI [of _ post]) (auto split: if_splits)
qed


subsection \<open>Hooks\<close>

lemma admit_held_config: "wconfig (snd (admit_held ms w)) = wconfig w"
  by (induction ms w rule: admit_held.induct) (auto split: sum.splits prod.splits)

lemma configure_finish_config: "wconfig (snd (configure_finish E w)) = wconfig w"
  using admit_held_config by (auto simp: configure_finish_def signal_def split: sum.splits prod.splits) (metis snd_conv)+

lemma configure_checks_config: "wconfig (snd (configure_checks E A w c)) = wconfig w"
  by (auto simp: configure_checks_def Let_def split: sum.splits prod.splits)

lemma configure_config:
  assumes "configure E A w args = (r, w')"
  shows "wconfig w' = wconfig w
    \<or> applyConfig (elib E) (ewd E) (wconfig w) (AList.delete ''status'' (AList.delete ''op'' (clone args))) = Inr (wconfig w')"
proof -
  have commit: "wconfig (snd (configure_commit E w1 c ch)) \<in> {wconfig w1, c}" for w1 c ch
    using configure_finish_config
    by (auto simp: configure_commit_def Let_def split: sum.splits)
  obtain c where "applyConfig (elib E) (ewd E) (wconfig w) (AList.delete ''status'' (AList.delete ''op'' (clone args))) = Inr c
      \<or> wconfig w' = wconfig w"
    using assms by (auto simp: configure_def Let_def split: sum.splits)
  moreover have "wconfig w' \<in> {wconfig w, c}"
    if "applyConfig (elib E) (ewd E) (wconfig w) (AList.delete ''status'' (AList.delete ''op'' (clone args))) = Inr c" for c
  proof -
    obtain r1 w1 where k: "configure_checks E A w c = (r1, w1)" by fastforce
    then have "wconfig w1 = wconfig w" using configure_checks_config [of E A w c] by simp
    then show ?thesis using assms that k commit [of w1 c] by (auto simp: configure_def Let_def split: sum.splits) (metis snd_conv)+
  qed
  ultimately show ?thesis by blast
qed

text \<open>A hook never starts or creates a worker and never changes what the user chose: it asks only \<open>info\<close>,
  \<open>configure\<close> and \<open>stop\<close> of the thread of its event, configures only a worker that has answered, and a worker that
  handles that request keeps its whole configuration except the working directory.  Events of subagents do
  nothing.\<close>

theorem hook_keeps_choices:
  assumes "handleHook L exe rpc event = (r, calls)"
  shows "(fld event ''agent_id'' \<noteq> GNil \<longrightarrow> calls = [])
    \<and> (\<forall>(thread, op, opts) \<in> set calls. canonicalThread L (str event ''session_id'') = Inr thread
        \<and> (op = ''info'' \<and> opts = [] \<or> op = ''stop'' \<and> opts = [] \<and> str event ''hook_event_name'' = ''SessionEnd''
          \<or> op = ''configure'' \<and> is_ok (rpc 0 (thread, ''info'', [])) \<and>
            (\<forall>E A evs w out w'. worker_ok w \<and> canonicalThread (elib E) (CThread (wconfig w)) = Inr (CThread (wconfig w))
               \<and> operation E A evs w (set_fld opts ''op'' (GStr op)) = (out, w')
               \<longrightarrow> wconfig w' = (wconfig w)\<lparr>CCWD := CCWD (wconfig w')\<rparr>)))"
proof -
  have keep: "wconfig w' = (wconfig w)\<lparr>CCWD := CCWD (wconfig w')\<rparr>"
    if ok: "worker_ok w" and t: "canonicalThread (elib E) (CThread (wconfig w)) = Inr (CThread (wconfig w))"
      and o: "operation E A evs w (set_fld (hook_options event) ''op'' (GStr ''configure'')) = (out, w')" for E A evs w out w'
  proof -
    let ?args = "set_fld (hook_options event) ''op'' (GStr ''configure'')"
    have opts: "AList.delete ''status'' (AList.delete ''op'' (clone ?args)) = hook_options event"
      by (simp add: hook_options_def clone_def AList.delete_eq)
    have c: "configure E A (w\<lparr>lastTouch := enow E\<rparr>) ?args = (out, w')"
      using o by (simp add: operation_def Let_def str_def)
    have v: "c' = c\<lparr>CCWD := CCWD c'\<rparr>"
      if "applyConfig (elib E) (ewd E) (wconfig w) (hook_options event) = Inr c'" "c = wconfig w" for c c'
    proof -
      have "\<exists>d. apply_options (ewd E) (hook_options event) (hook_options event) c = Inr (c\<lparr>CCWD := d\<rparr>)"
      proof (cases "str event ''cwd'' = []")
        case True
        then show ?thesis by (intro exI [of _ "CCWD c"]) (simp add: hook_options_def)
      next
        case False
        then show ?thesis
          by (intro exI [of _ "Abs (ewd E) (str event ''cwd'')"]) (simp add: hook_options_def apply_option_def Let_def)
      qed
      then obtain d where "apply_options (ewd E) (hook_options event) (hook_options event) c = Inr (c\<lparr>CCWD := d\<rparr>)" by blast
      then have "Validate (elib E) (c\<lparr>CCWD := d\<rparr>) = Inr c'" using that by (simp add: applyConfig_def)
      then have "c' = c\<lparr>CThread := CThread c, CCWD := d, CName := CName c, CLease := CLease c\<rparr>"
        using t ok that(2) by (auto simp: Validate_def worker_ok_def config_wf_def split: if_splits)
      then show ?thesis by simp
    qed
    from configure_config [OF c] show ?thesis
    proof
      assume "wconfig w' = wconfig (w\<lparr>lastTouch := enow E\<rparr>)"
      then show ?thesis by simp
    next
      assume "applyConfig (elib E) (ewd E) (wconfig (w\<lparr>lastTouch := enow E\<rparr>)) (AList.delete ''status'' (AList.delete ''op'' (clone ?args))) = Inr (wconfig w')"
      then show ?thesis using v [of "wconfig w'" "wconfig w"] unfolding opts by simp
    qed
  qed
  have "snd (handleHook L exe rpc event) = calls" using assms by simp
  then show ?thesis using keep
    by (auto simp: handleHook_def Let_def is_ok_def split: if_splits sum.splits)
qed


subsection \<open>Concrete runs\<close>

definition gone_host :: host where
  "gone_host = live_host\<lparr>ps_output := (\<lambda>_. Inl NotExist), kill_esrch := (\<lambda>_. True)\<rparr>"

definition gone_files :: files where
  "gone_files = sample_files\<lparr>
     lstat := (\<lambda>p. if HasSuffix p ''.key'' \<or> HasSuffix p ''.control.sock'' then Inl NotExist
        else Inr (sample_stat (if HasSuffix p ''.sock'' then SocketFile else RegularFile))),
     json_file := (\<lambda>_. Inr (GObj [(''pid'', GInt 7), (''procStart'', GStr ''5''), (''socket'', GStr ''/tmp/cc-socks/7.sock''),
        (''registry'', GStr ''/r'')]))\<rparr>"

lemma gone_paths:
  "HasSuffix (JoinPath [''/d'', ''worker.json'']) ''.json''" "\<not> HasSuffix (JoinPath [''/d'', ''worker.json'']) ''.key''"
  "\<not> HasSuffix (JoinPath [''/d'', ''worker.json'']) ''.control.sock''" "\<not> HasSuffix (JoinPath [''/d'', ''worker.json'']) ''.sock''"
  "JoinPath [Dir ''/tmp/cc-socks/7.sock'', Itoa 7 @ ''.control.sock''] = ''/tmp/cc-socks/7.control.sock''"
  "JoinPath [''/r'', Itoa 7 @ ''.ab.key''] = ''/r/7.ab.key''" "JoinPath [''/r'', Itoa 7 @ ''.json''] = ''/r/7.json''"
  "Base ''/tmp/cc-socks/7.sock'' = Itoa 7 @ ''.sock''"
  "Ext ''/tmp/cc-socks/7.sock'' = ''.sock''" "Ext ''/tmp/cc-socks/7.control.sock'' = ''.sock''" "Ext ''/r/7.ab.key'' = ''.key''" "Ext ''/r/7.json'' = ''.json''"
  "HasSuffix ''/tmp/cc-socks/7.sock'' ''.sock''" "\<not> HasSuffix ''/tmp/cc-socks/7.sock'' ''.control.sock''" "\<not> HasSuffix ''/tmp/cc-socks/7.sock'' ''.key''"
  "HasSuffix ''/tmp/cc-socks/7.control.sock'' ''.control.sock''" "HasSuffix ''/r/7.ab.key'' ''.key''"
  "\<not> HasSuffix ''/r/7.json'' ''.sock''" "\<not> HasSuffix ''/r/7.json'' ''.control.sock''" "\<not> HasSuffix ''/r/7.json'' ''.key''"
  by code_simp+

lemma gone_recovered:
  "recoverWorker gone_host gone_files (\<lambda>_. ''ab'') (\<lambda>_. Inr ()) ''/d'' =
     (Inr (), [''/tmp/cc-socks/7.sock'', ''/r/7.json'', JoinPath [''/d'', ''worker.json'']])"
proof -
  have m: "rbind (readJSON gone_files (JoinPath [''/d'', ''worker.json'']) True) meta_of_json =
      Inr \<lparr>MPID = 7, MStart = ''5'', MControl = [], MSocket = ''/tmp/cc-socks/7.sock'', MRegistry = ''/r'', MThread = [], MKey = [], MRuntime = []\<rparr>"
    by (simp add: readJSON_def owned_def gone_files_def gone_paths sample_files_def sample_stat_def perm_mask_def MaxBuffer_def
        meta_of_json_def dec_int_def dec_str_def fld_def)
  have k: "keyPath (\<lambda>_. ''ab'') ''/r'' 7 ''/tmp/cc-socks/7.sock'' = ''/r/7.ab.key''"
    using gone_paths(6) by (simp add: keyPath_def)
  have p: "processStart gone_host 7 = Inl (Failure (''cannot verify process '' @ Itoa 7 @ '': '' @ err_text NotExist))"
    "kill_esrch gone_host 7" by (simp_all add: processStart_def gone_host_def)
  have s: "stale_file gone_files ''5'' ''/tmp/cc-socks/7.sock'' = Inr True" "stale_file gone_files ''5'' ''/tmp/cc-socks/7.control.sock'' = Inr False"
    "stale_file gone_files ''5'' ''/r/7.ab.key'' = Inr False" "stale_file gone_files ''5'' ''/r/7.json'' = Inr True"
    by (simp_all add: stale_file_def Let_def gone_paths owned_def readJSON_def gone_files_def sample_files_def sample_stat_def
        perm_mask_def MaxBuffer_def str_def fld_def)
  show ?thesis unfolding recoverWorker_def Let_def m
    by (simp add: p sample_socketPath gone_paths(8) gone_paths(5) gone_paths(7) k s)
qed

theorem recover_only_dead_witness:
  "\<exists>m. worker_meta gone_files ''/d'' = Inr m \<and> kill_esrch gone_host (MPID m) \<and> stale_artifact gone_files (MStart m) ''/r/7.json''"
proof -
  have "''/r/7.json'' \<noteq> JoinPath [''/d'', ''worker.json'']" by code_simp
  with recover_only_dead [OF gone_recovered, of "''/r/7.json''"] show ?thesis by auto
qed

definition first_enable :: enable_env where
  "first_enable = \<lparr>e_lib = sample_lib, e_root = ''/r'', e_private = (\<lambda>_. Inr ()), e_lockfile = sample_files\<lparr>lstat := (\<lambda>_. Inl NotExist)\<rparr>,
     e_lock = Inr (), e_rpc = (\<lambda>_ _. Inl NotExist), e_host = live_host, e_files = sample_files\<lparr>lstat := (\<lambda>_. Inl NotExist)\<rparr>,
     e_sha = (\<lambda>_. ''ab''), e_remove = (\<lambda>_. Inr ()), e_wd = ''/w'', e_getwd = Inr ''/w'', e_default = ''/s'', e_executable = Inr ''/x'',
     e_attach = (\<lambda>_ _. Inr ()), e_save = (\<lambda>_. Inr ()), e_log = sample_files\<lparr>lstat := (\<lambda>_. Inl NotExist)\<rparr>, e_openlog = Inr (),
     e_spawn = Inr (), e_startup = [Probed (Inl NotExist), Probed (Inr [(''runtime'', GStr ''go'')])], e_logtail = [],
     e_unmarshal = (\<lambda>_. Inl NotExist)\<rparr>"

definition first_options :: obj where
  "first_options = [(''name'', GStr ''amy''), (''host_pid'', GInt 7), (''host_start'', GStr ''5'')]"

lemma first_enabled:
  "\<exists>c. Enable first_enable sample_uuid first_options = Some (Inr [(''runtime'', GStr ''go'')],
     [SavedConfig c, Spawned ''/x'' (JoinPath [''/r'', sample_uuid]) ''/w''])"
proof -
  let ?dir = "JoinPath [''/r'', sample_uuid]"
  define c where "c = \<lparr>CThread = sample_uuid, CCWD = ''/w'', CName = ''amy'', CInbound = ''accept'', CPermission = ''bypass'',
     CDelivery = ''app-server'', CAppSocket = ''/s'', CExecutable = ''/x'', CLease = 86400, CHostPID = 7, CHostStart = ''5''\<rparr>"
  have can: "canonicalThread sample_lib sample_uuid = Inr sample_uuid"
    by (simp add: canonicalThread_def sample_lib_def sample_uuid_def nil_uuid_def)
  have b: "Base ?dir = sample_uuid" by code_simp
  have lock: "open_lock first_enable sample_uuid = Inr ?dir"
    by (simp add: open_lock_def first_enable_def threadDir_def can private_file_def)
  have none: "readJSON (sample_files\<lparr>lstat := (\<lambda>_. Inl NotExist)\<rparr>) p True = Inl NotExist" for p
    by (simp add: readJSON_def owned_def)
  have rec: "recoverWorker live_host (sample_files\<lparr>lstat := (\<lambda>_. Inl NotExist)\<rparr>) sha rm ?dir = (Inr (), [])" for sha rm
    by (simp add: recoverWorker_def none)
  have v: "Validate sample_lib (x\<lparr>CThread := sample_uuid\<rparr>) = Inr (x\<lparr>CThread := sample_uuid\<rparr>)"
    if "CName x = ''amy''" "CInbound x = ''accept''" "CPermission x = ''bypass''" "CDelivery x = ''app-server''"
      "CAppSocket x = ''/s''" "CCWD x = ''/w''" "CLease x = 86400" for x
    using that by (simp add: Validate_def can sample_name IsAbs_def HasPrefix_def)
  have a: "applyConfig sample_lib ''/w'' \<lparr>CThread = sample_uuid, CCWD = ''/w'', CName = n, CInbound = ''accept'', CPermission = ''bypass'',
     CDelivery = ''app-server'', CAppSocket = ''/s'', CExecutable = [], CLease = 86400, CHostPID = 0, CHostStart = []\<rparr> first_options = Inr (c\<lparr>CExecutable := []\<rparr>)" for n
    using v [of "c\<lparr>CExecutable := []\<rparr>"]
    by (simp add: applyConfig_def first_options_def apply_option_def Let_def number_def str_def fld_def trunc_def c_def)
  have e: "enable_config live_host sample_lib ?dir ''/w'' ''/s'' (Inr ''/x'') (Inl NotExist) first_options = Inr c"
    using v [of c] by (simp add: enable_config_def b a) (simp add: c_def checkHost_def sample_start)
  have "Enable first_enable sample_uuid first_options = enable_new first_enable ?dir first_options"
    by (simp add: Enable_def lock) (simp add: first_enable_def)
  also have "\<dots> = Some (Inr [(''runtime'', GStr ''go'')], [SavedConfig c, Spawned ''/x'' ?dir ''/w''])"
    by (simp add: enable_new_def first_enable_def rec none e spawn_worker_def private_file_def) (simp add: c_def)
  finally show ?thesis by blast
qed

theorem enable_starts_checked_witness:
  "\<exists>r effs. Enable first_enable sample_uuid first_options = Some (r, effs) \<and> Spawned ''/x'' (JoinPath [''/r'', sample_uuid]) ''/w'' \<in> set effs
     \<and> e_executable first_enable = Inr ''/x''"
proof -
  obtain c where e: "Enable first_enable sample_uuid first_options = Some (Inr [(''runtime'', GStr ''go'')],
     [SavedConfig c, Spawned ''/x'' (JoinPath [''/r'', sample_uuid]) ''/w''])" using first_enabled by blast
  from enable_starts_checked [OF e, of "''/x''" "JoinPath [''/r'', sample_uuid]" "''/w''"] e show ?thesis by auto
qed

definition start_event :: obj where
  "start_event = [(''session_id'', GStr sample_uuid), (''hook_event_name'', GStr ''SessionStart''), (''cwd'', GStr ''/z'')]"

theorem hook_keeps_choices_witness:
  "\<exists>r calls opts. handleHook sample_lib ''/x'' (\<lambda>_ _. Inr []) start_event = (r, calls) \<and> (sample_uuid, ''configure'', opts) \<in> set calls
     \<and> canonicalThread sample_lib (str start_event ''session_id'') = Inr sample_uuid"
proof -
  have can: "canonicalThread sample_lib sample_uuid = Inr sample_uuid"
    by (simp add: canonicalThread_def sample_lib_def sample_uuid_def nil_uuid_def)
  obtain r where h: "handleHook sample_lib ''/x'' (\<lambda>_ _. Inr []) start_event =
      (r, [(sample_uuid, ''info'', []), (sample_uuid, ''configure'', hook_options start_event)])"
    by (simp add: handleHook_def Let_def start_event_def str_def fld_def can)
  from hook_keeps_choices [OF h] h show ?thesis by auto
qed

end
