(* ===== verification/Rpc_Loop.thy ===== *)
theory Rpc_Loop
  imports Serving Manager_Safety
begin

section \<open>A client and a worker\<close>

text \<open>
  \<open>RPC\<close> of manager.go composed with \<open>controlConnection\<close> of worker.go: the client's request as the worker reads it, the
  operation, and the worker's answer as the client reads it.
\<close>

definition request_fields :: "string \<Rightarrow> obj \<Rightarrow> obj" where
  "request_fields op args = set_fld (clone args) ''op'' (GStr op)"

definition answer_fields :: "obj res \<Rightarrow> obj" where
  "answer_fields r = (case r of Inl e \<Rightarrow> [(''error'', GStr (err_text e))] | Inr result \<Rightarrow> [(''result'', GObj result)])"

lemma rpc_response_read:
  "rpc_response (as_read (GObj (answer_fields r))) =
     (case r of Inl e \<Rightarrow> if encode_runes (runes (err_text e)) = [] then Inr [] else Inl (Failure (encode_runes (runes (err_text e))))
      | Inr result \<Rightarrow> Inr (read_obj result))"
proof -
  have d: "distinct (map fst (answer_fields r))" by (simp add: answer_fields_def split: sum.splits)
  show ?thesis unfolding as_read_obj rpc_response_def object_of_json_simps rbind_simps dec_obj_def dec_str_def fld_read [OF d]
    by (cases r) (simp_all add: answer_fields_def fld_def as_read_obj del: as_read.simps(4))
qed

text \<open>C12. Client and worker understand each other: when the client is connected to the worker's control socket and both
  ends know the encoding's numbers, the operation runs once on exactly the client's operation and arguments
  (as JSON reads them), and \<open>RPC\<close> returns its result or fails with the text of its error.\<close>

theorem rpc_runs_operation:
  assumes "threadDir (q_lib Q) (q_root Q) thread = Inr dir" and "worker_meta (q_files Q) dir = Inr m" and "MThread m = Base dir"
    and "q_connect Q (MControl m) (MPID m) (MStart m) = Inr ()" and "q_unmarshal Q = json_unmarshal"
    and "\<And>b. q_write Q b = Inr ()"
    and "\<And>x. newline \<notin> set (fmt_float (q_lib Q) x)" and "\<And>x. newline \<notin> set (fmt_float (elib E) x)"
    and "length (rpc_request (q_lib Q) op args) \<le> MaxBuffer" and "readable (fmt_float (q_lib Q)) (GObj (request_fields op args))"
    and "operation E A evs w (read_obj (request_fields op args)) = (r, w')"
    and "readable (fmt_float (elib E)) (GObj (answer_fields r))" and "length (control_response (elib E) r) \<le> MaxRPCResponse"
    and "\<And>b. q_reply Q b = (case fst (controlConnection E A evs json_unmarshal (Inr (client, uid)) uid b w) of None \<Rightarrow> [] | Some line \<Rightarrow> line)"
  shows "snd (controlConnection E A evs json_unmarshal (Inr (client, uid)) uid (rpc_request (q_lib Q) op args) w) = w'
    \<and> RPC Q thread op args = (case r of
        Inl e \<Rightarrow> if encode_runes (runes (err_text e)) = [] then Inr [] else Inl (Failure (encode_runes (runes (err_text e))))
      | Inr result \<Rightarrow> Inr (read_obj result))"
proof -
  let ?req = "compact (fmt_float (q_lib Q)) (GObj (request_fields op args))"
  let ?ans = "compact (fmt_float (elib E)) (GObj (answer_fields r))"
  have req: "rpc_request (q_lib Q) op args = ?req @ [newline]" by (simp add: rpc_request_def request_fields_def)
  have "newline \<notin> set ?req" by (rule compact_line) (rule assms(7))
  then have l1: "readLine MaxBuffer (?req @ [newline]) = Inr (?req @ [newline], [])"
    using readLine_line [of ?req MaxBuffer "[]"] assms(9) unfolding req by simp
  have u1: "json_unmarshal (?req @ [newline]) = Inr (GObj (read_obj (request_fields op args)))"
    using read_back [OF assms(10)] by (simp only: as_read_obj)
  have resp: "control_response (elib E) r = ?ans @ [newline]" by (simp add: control_response_def answer_fields_def)
  have c: "controlConnection E A evs json_unmarshal (Inr (client, uid)) uid (?req @ [newline]) w = (Some (?ans @ [newline]), w')"
    using assms(11) by (simp add: controlConnection_def l1 u1 resp del: compact.simps)
  have "newline \<notin> set ?ans" by (rule compact_line) (rule assms(8))
  then have l2: "readLine MaxRPCResponse (?ans @ [newline]) = Inr (?ans @ [newline], [])"
    using readLine_line [of ?ans MaxRPCResponse "[]"] assms(13) unfolding resp by simp
  have u2: "json_unmarshal (?ans @ [newline]) = Inr (as_read (GObj (answer_fields r)))" using read_back [OF assms(12)] by blast
  have "\<not> MaxBuffer < length (?req @ [newline])" using assms(9) req by simp
  then have "RPC Q thread op args = rpc_response (as_read (GObj (answer_fields r)))"
    using assms(1-6) c l2 u2 by (simp add: RPC_def req assms(14) del: compact.simps as_read.simps)
  then show ?thesis using c req rpc_response_read by simp
qed

subsection \<open>A concrete request\<close>

text \<open>The client asks the worker with process 9 to stop.\<close>

definition stop_site :: rpc_site where
  "stop_site = \<lparr>q_lib = sample_lib, q_root = ''/d'',
     q_files = sample_files\<lparr>json_file := (\<lambda>_. Inr (GObj [(''pid'', GInt 9), (''procStart'', GStr ''3''),
       (''control'', GStr ''/tmp/cc-socks/9.control.sock''), (''thread_id'', GStr sample_uuid)]))\<rparr>,
     q_connect = (\<lambda>_ _ _. Inr ()), q_write = (\<lambda>_. Inr ()),
     q_reply = (\<lambda>b. case fst (controlConnection sample_env sample_app [] json_unmarshal (Inr (4, 1)) 1 b (sample_worker empty_store)) of
        None \<Rightarrow> [] | Some line \<Rightarrow> line),
     q_unmarshal = json_unmarshal\<rparr>"

theorem rpc_runs_operation_witness:
  "RPC stop_site sample_uuid ''stop'' [] = Inr [(''stopping'', GBool True)]
     \<and> cancelled (snd (controlConnection sample_env sample_app [] json_unmarshal (Inr (4, 1)) 1 (rpc_request sample_lib ''stop'' []) (sample_worker empty_store)))"
proof -
  let ?args = "request_fields ''stop'' []" and ?w = "sample_worker empty_store" and ?r = "Inr [(''stopping'', GBool True)] :: obj res"
  have args: "?args = [(''op'', GStr ''stop'')]" by (simp add: request_fields_def clone_def)
  have v: "ValidString ''op''" "ValidString ''stop''" "ValidString ''result''" "ValidString ''stopping''" by code_simp+
  have read: "read_obj ?args = [(''op'', GStr ''stop'')]" by (simp add: args read_obj_def valid_utf8 v)
  have t: "threadDir (q_lib stop_site) (q_root stop_site) sample_uuid = Inr (JoinPath [''/d'', sample_uuid])"
    by (simp add: stop_site_def threadDir_def canonicalThread_def sample_lib_def sample_uuid_def nil_uuid_def)
  have b: "Base (JoinPath [''/d'', sample_uuid]) = sample_uuid" "JoinPath [JoinPath [''/d'', sample_uuid], ''worker.json''] \<noteq> ''/r''"
    by code_simp+
  have m: "\<exists>m. worker_meta (q_files stop_site) (JoinPath [''/d'', sample_uuid]) = Inr m \<and> MThread m = sample_uuid"
    using b by (simp add: worker_meta_def stop_site_def readJSON_def owned_def sample_files_def sample_stat_def perm_mask_def
        MaxBuffer_def meta_of_json_def dec_int_def dec_str_def fld_def)
  then obtain m where m: "worker_meta (q_files stop_site) (JoinPath [''/d'', sample_uuid]) = Inr m"
    and mt: "MThread m = Base (JoinPath [''/d'', sample_uuid])" using b by auto
  have c: "q_connect stop_site (MControl m) (MPID m) (MStart m) = Inr ()" "q_unmarshal stop_site = json_unmarshal" "q_write stop_site x = Inr ()" for x
    by (simp_all add: stop_site_def)
  have n: "newline \<notin> set (fmt_float (q_lib stop_site) x)" "newline \<notin> set (fmt_float (elib sample_env) x)" for x
    by (simp_all add: stop_site_def sample_env_def sample_lib_def Itoa_line)
  have l: "length (rpc_request (q_lib stop_site) ''stop'' []) \<le> MaxBuffer"
    by (simp add: rpc_request_def request_fields_def [symmetric] args)
      (simp add: Join_def MaxBuffer_def json_str_def json_chars.simps escape_ascii_def quote_def backslash_def newline_def)
  have l2: "length (control_response (elib sample_env) ?r) \<le> MaxRPCResponse"
    by (simp add: control_response_def)
      (simp add: Join_def MaxRPCResponse_def MaxBuffer_def json_str_def json_chars.simps escape_ascii_def quote_def backslash_def newline_def)
  have r: "readable ff (GObj ?args)" "readable ff (GObj (answer_fields ?r))" for ff
    by (simp_all add: args v answer_fields_def)
  have o: "operation sample_env sample_app [] ?w (read_obj ?args) = (?r, ?w\<lparr>lastTouch := 50, cancelled := True\<rparr>)"
    unfolding read by (simp add: operation_def fld_def str_def sample_env_def)
  have q: "q_reply stop_site b = (case fst (controlConnection sample_env sample_app [] json_unmarshal (Inr (4, 1)) 1 b ?w) of None \<Rightarrow> [] | Some line \<Rightarrow> line)" for b
    by (simp add: stop_site_def)
  have s: "read_obj [(''stopping'', GBool True)] = [(''stopping'', GBool True)]" by (simp add: read_obj_def)
  from rpc_runs_operation [OF t m mt c n l r(1) o r(2) l2 q] show ?thesis by (simp add: s stop_site_def)
qed

end
