(* ===== verification/Command_Props.thy ===== *)
theory Command_Props
  imports Command_Line Flag_Props Rpc_Loop
begin

section \<open>From the command line to the worker\<close>

text \<open>
  What a command that passes the checks of cli.go sends, as the worker reads it, and what the command line
  never starts.
\<close>

subsection \<open>The requests of a command\<close>

lemma list_ids: "id_strings (map GStr ids) = Inr ids"
  by (induction ids) auto

inductive well_formed :: "string \<Rightarrow> obj \<Rightarrow> bool" where
  info: "well_formed ''info'' []"
| deliver: "op \<in> {''send'', ''reply''} \<Longrightarrow>
    well_formed op [(''body'', GStr body), (if op = ''reply'' then ''message_id'' else ''target'', GStr to)]"
| decide: "op \<in> {''ack'', ''release'', ''decline''} \<Longrightarrow> ids \<noteq> [] \<Longrightarrow> length ids \<le> 100 \<Longrightarrow> well_formed op [(''ids'', GArr (map GStr ids))]"
| read: "1 \<le> n \<Longrightarrow> n \<le> 50 \<Longrightarrow> after = [] \<or> after = [(''after'', GStr a)] \<Longrightarrow>
    well_formed ''read'' ([(''state'', GStr state), (''limit'', GInt n)] @ after)"
| wait: "0 \<le> x \<Longrightarrow> x \<le> 25 \<Longrightarrow> well_formed ''wait'' [(''timeout'', GFloat x)]"
| sent: "which = [] \<or> which = [(''message_id'', GStr m)] \<Longrightarrow> well_formed ''sent'' which"

lemma params_cases:
  assumes "cli_params C command st rest = Inr params"
  obtains body to where "command \<in> {''send'', ''reply''}" "cli_body C st = Inr body" "rest = [to]"
      "params = [(''body'', GStr body), (if command = ''reply'' then ''message_id'' else ''target'', GStr to)]"
  | "command \<in> {''ack'', ''release'', ''decline''}" "params = [(''ids'', GArr (map GStr rest))]" "rest \<noteq> []" "length rest \<le> 100"
  | "command \<notin> {''send'', ''reply'', ''ack'', ''release'', ''decline''}" "params = []" "rest = []"
proof -
  consider "command \<in> {''send'', ''reply''}" | "command \<in> {''ack'', ''release'', ''decline''}"
    | "command \<notin> {''send'', ''reply'', ''ack'', ''release'', ''decline''}" by blast
  then show thesis
  proof cases
    case 1
    with assms have "length rest = 1" by (auto simp: cli_params_def refuse_def split: if_splits)
    then obtain to where "rest = [to]" by (cases rest) auto
    with assms 1 that(1) show thesis by (auto simp: cli_params_def cbind_Inr)
  next
    case 2
    with assms that(2) show thesis by (auto simp: cli_params_def split: if_splits)
  next
    case 3
    with assms that(3) show thesis by (auto simp: cli_params_def split: if_splits)
  qed
qed

lemma well_formed_read:
  assumes "\<not> n < 1" "\<not> 50 < n"
  shows "well_formed ''read'' [(''state'', GStr state), (''limit'', GInt n)]"
    and "well_formed ''read'' [(''state'', GStr state), (''limit'', GInt n), (''after'', GStr a)]"
  using assms well_formed.read [of n "[]"] well_formed.read [of n "[(''after'', GStr a)]"] by simp_all

lemma cli_thread_request:
  assumes "cli_thread command i st params = Inr (Request j op msg)" "cli_params C command st rest = Inr params" "thread_defs command \<noteq> None"
  shows "j = i \<and> well_formed op msg"
proof -
  from assms(2) show ?thesis
  proof (cases rule: params_cases)
    case (1 body to)
    then show ?thesis using assms(1) well_formed.deliver [of command body to] by (auto simp: cli_thread_def)
  next
    case 2
    then show ?thesis using assms(1) well_formed.decide [of command rest] by (auto simp: cli_thread_def)
  next
    case 3
    then have "command \<in> {''start'', ''enable'', ''status'', ''disable'', ''read'', ''wait'', ''sent''}"
      using assms(3) by (auto simp: thread_defs_def split: if_splits)
    then show ?thesis using assms(1) 3(2)
      by (auto simp: cli_thread_def Let_def intro: well_formed.intros well_formed_read split: if_splits go_float.splits)
  qed
qed

lemma stateful_request:
  assumes "runCLI C all = Inr (Request i op msg)"
  obtains thread where "canonicalThread (c_lib C) thread = Inr i" "well_formed op msg"
proof -
  from assms obtain command args where "cli_stateful C command args = Inr (Request i op msg)"
    by (auto simp: runCLI_def cli_shutdown_def cli_install_def cli_launch_def cbind_Inr Let_def split: list.splits if_splits prod.splits)
  then show thesis using that cli_thread_request
    by (fastforce simp: cli_stateful_def cbind_Inr attempted_Inr split: option.splits)
qed

lemma op_text: "well_formed op msg \<Longrightarrow> ValidString op \<and> ''op'' \<notin> fst ` set msg \<and> distinct (map fst msg)"
proof -
  have v: "list_all ValidString [''info'', ''send'', ''reply'', ''ack'', ''release'', ''decline'', ''read'', ''wait'', ''sent'']"
    by code_simp
  assume "well_formed op msg"
  then show ?thesis using v by (cases rule: well_formed.cases) auto
qed


subsection \<open>What is started\<close>

lemma map_of_chosen:
  "distinct (map fst xs) \<Longrightarrow> map_of (map (\<lambda>(k, v). (k, g v)) (filter (\<lambda>(k, v). P v) xs)) k =
     (case map_of xs k of None \<Rightarrow> None | Some v \<Rightarrow> if P v then Some (g v) else None)"
proof (induction xs)
  case (Cons x xs)
  then have "map_of xs (fst x) = None" by (simp add: map_of_eq_None_iff)
  with Cons show ?case by (cases x) (auto split: option.splits)
qed simp

lemma start_options_fld:
  "fld (start_options st) k = (case map_of config_flags k of
     None \<Rightarrow> GNil | Some flag \<Rightarrow> if visited st flag then GStr (flag_text st flag []) else GNil)"
proof -
  have "distinct (map fst config_flags)" by (simp add: config_flags_def)
  from map_of_chosen [OF this, of "\<lambda>flag. GStr (flag_text st flag [])" "visited st" k] show ?thesis
    by (simp add: fld_def start_options_def split: option.splits)
qed

lemma split_client_spec: "split_client args = (own, client) \<Longrightarrow>
    ''--'' \<notin> set own \<and> (args = own @ ''--'' # client \<or> args = own \<and> client = [])"
  by (induction args arbitrary: own) (auto split: if_splits prod.splits)

lemma if_InrE:
  assumes "(if b then x else y) = Inr a" obtains "b" "x = Inr a" | "y = Inr a"
  using assms by (auto split: if_splits)

lemma runCLI_split:
  assumes "runCLI C (command # args) = Inr a"
  shows "cli_shutdown C args = Inr a \<or> command = ''install'' \<and> cli_install C args = Inr a \<or> cli_launch C args = Inr a
    \<or> command = ''worker'' \<and> (\<exists>dir. args = [dir] \<and> a = RunWorkerIn dir) \<or> cli_stateful C command args = Inr a
    \<or> (\<exists>t. a = WriteText t) \<or> (\<exists>m. a = Answer m) \<or> a = ServeMCP \<or> (\<exists>e. a = RunHook e) \<or> a = ListPeers"
    (is "?stop \<or> ?install \<or> ?launch \<or> ?worker \<or> ?thread \<or> ?text \<or> ?answer \<or> ?mcp \<or> ?hook \<or> ?list")
proof -
  have worker: ?worker if "command = ''worker''" "(case args of [dir] \<Rightarrow> Inr (RunWorkerIn dir) | _ \<Rightarrow> refuse t) = Inr a" for t
    using that by (simp split: list.splits)
  from assms show ?thesis unfolding runCLI_def list.case(2)
    by (elim if_InrE) (simp_all only: refuse_not, simp_all add: worker cbind_Inr, auto)
qed

lemma runCLI_cases:
  assumes "runCLI C (command # args) = Inr a"
  shows "case a of
      StopServer socket check \<Rightarrow> cli_shutdown C args = Inr a
    | InstallWith opts \<Rightarrow> command = ''install''
    | LaunchWith opts \<Rightarrow> cli_launch C args = Inr a
    | RunWorkerIn dir \<Rightarrow> command = ''worker'' \<and> args = [dir]
    | EnableThread i options \<Rightarrow> command \<in> {''start'', ''enable''} \<and> cli_stateful C command args = Inr a
    | DisableThread i \<Rightarrow> command = ''disable''
    | _ \<Rightarrow> True"
proof -
  have shape: "(\<exists>i opts. b = EnableThread i opts \<and> command \<in> {''start'', ''enable''}) \<or> (\<exists>i. b = DisableThread i \<and> command = ''disable'') \<or> (\<exists>i op m. b = Request i op m)"
    if "cli_thread command i st params = Inr b" for i st params b
    using that by (auto simp: cli_thread_def Let_def split: if_splits go_float.splits)
  have stateful: "(\<exists>i opts. a = EnableThread i opts \<and> command \<in> {''start'', ''enable''}) \<or> (\<exists>i. a = DisableThread i \<and> command = ''disable'') \<or> (\<exists>i op m. a = Request i op m)"
    if st: "cli_stateful C command args = Inr a"
  proof -
    from st obtain i st params where "cli_thread command i st params = Inr a"
      by (cases "thread_defs command") (auto simp: cli_stateful_def cbind_Inr)
    then show ?thesis by (rule shape)
  qed
  have other: "\<exists>opts. a = InstallWith opts" if "cli_install C args = Inr a"
    using that by (auto simp: cli_install_def cbind_Inr split: if_splits)
  have stop: "\<exists>s c. a = StopServer s c" if "cli_shutdown C args = Inr a"
    using that by (auto simp: cli_shutdown_def cbind_Inr split: if_splits)
  have launch: "\<exists>opts. a = LaunchWith opts" if "cli_launch C args = Inr a"
    using that by (auto simp: cli_launch_def cbind_Inr Let_def split: if_splits prod.splits)
  from runCLI_split [OF assms] show ?thesis
  proof (elim disjE conjE exE)
    assume s: "cli_shutdown C args = Inr a"
    then obtain t c where a: "a = StopServer t c" using stop by blast
    from s show ?thesis unfolding a action.case .
  next
    assume c: "command = ''install''" and "cli_install C args = Inr a"
    then obtain opts where a: "a = InstallWith opts" using other by blast
    from c show ?thesis unfolding a action.case .
  next
    assume s: "cli_launch C args = Inr a"
    then obtain opts where a: "a = LaunchWith opts" using launch by blast
    from s show ?thesis unfolding a action.case .
  next
    fix dir assume c: "command = ''worker''" "args = [dir]" and a: "a = RunWorkerIn dir"
    show ?thesis unfolding a action.case by (intro conjI c)
  next
    assume s: "cli_stateful C command args = Inr a"
    from stateful [OF s] show ?thesis
    proof (elim disjE exE conjE)
      fix i opts assume a: "a = EnableThread i opts" and c: "command \<in> {''start'', ''enable''}"
      show ?thesis using s c unfolding a action.case by (intro conjI)
    next
      fix i assume a: "a = DisableThread i" and c: "command = ''disable''"
      show ?thesis using c unfolding a action.case .
    next
      fix i op m assume a: "a = Request i op m"
      show ?thesis unfolding a action.case ..
    qed
  qed (simp_all only: action.case)
qed

text \<open>The command line stops the shared server only for a check or outside every Codex session, launches with both
  descriptors of the handoff or with none, passes to Codex exactly what stands behind the first separator,
  and changes of a thread's configuration exactly the options that were given, to the values given.\<close>

theorem cli_guards:
  assumes "runCLI C (command # args) = Inr a"
  shows "case a of
      StopServer socket check \<Rightarrow> check \<or> c_thread C = []
    | LaunchWith opts \<Rightarrow> (oReadyFD opts = - 1 \<and> oContinueFD opts = - 1 \<or> 3 \<le> oReadyFD opts \<and> 3 \<le> oContinueFD opts)
        \<and> (\<exists>own. ''--'' \<notin> set own \<and> (args = own @ ''--'' # oClientArgs opts \<or> args = own \<and> oClientArgs opts = []))
    | EnableThread i options \<Rightarrow> command \<in> {''start'', ''enable''}
        \<and> (\<exists>defs st. thread_defs command = Some defs \<and> parseFlags (c_float C) defs args = Inr (st, [])
            \<and> (\<forall>k. fld options k = (case map_of config_flags k of
                 None \<Rightarrow> GNil | Some flag \<Rightarrow> if visited st flag then GStr (flag_text st flag []) else GNil)))
    | InstallWith opts \<Rightarrow> command = ''install''
    | RunWorkerIn dir \<Rightarrow> command = ''worker'' \<and> args = [dir]
    | DisableThread i \<Rightarrow> command = ''disable''
    | _ \<Rightarrow> True"
proof (cases a)
  case (StopServer socket check)
  then show ?thesis using runCLI_cases [OF assms] by (auto simp: cli_shutdown_def cbind_Inr split: if_splits)
next
  case (LaunchWith opts)
  then obtain own client st where s: "split_client args = (own, client)" and "parseFlags (c_float C) launch_defs own = Inr (st, [])"
    and fds: "(visited st ''ready-fd'' \<or> visited st ''continue-fd'') \<longrightarrow> 3 \<le> oReadyFD opts \<and> 3 \<le> oContinueFD opts"
    and o: "oReadyFD opts = flag_int st ''ready-fd'' (- 1)" "oContinueFD opts = flag_int st ''continue-fd'' (- 1)" "oClientArgs opts = client"
    using runCLI_cases [OF assms] by (auto simp: cli_launch_def cbind_Inr Let_def split: if_splits prod.splits)
  have "oReadyFD opts = - 1 \<and> oContinueFD opts = - 1 \<or> 3 \<le> oReadyFD opts \<and> 3 \<le> oContinueFD opts"
    using fds by (auto simp: o visited_def flag_int_def)
  then show ?thesis using LaunchWith split_client_spec [OF s] o(3) by auto
next
  case (EnableThread i options)
  then have c: "command \<in> {''start'', ''enable''}" and st: "cli_stateful C command args = Inr (EnableThread i options)"
    using runCLI_cases [OF assms] by auto
  from st obtain defs st rest j params where d: "thread_defs command = Some defs" "parseFlags (c_float C) defs args = Inr (st, rest)"
    and p: "cli_params C command st rest = Inr params" and t: "cli_thread command j st params = Inr (EnableThread i options)"
    by (auto simp: cli_stateful_def cbind_Inr split: option.splits)
  have n: "command \<notin> {''send'', ''reply''}" "command \<notin> {''ack'', ''release'', ''decline''}" using c by (elim insertE; simp)+
  from p have "params = [] \<and> rest = []"
  proof (cases rule: params_cases)
    case 1
    from n(1) 1(1) show ?thesis by (rule notE)
  next
    case 2
    from n(2) 2(1) show ?thesis by (rule notE)
  next
    case 3
    show ?thesis by (rule conjI [OF 3(2,3)])
  qed
  then have "params = []" "rest = []" by simp_all
  moreover have "options = params @ start_options st" using t unfolding cli_thread_def if_P [OF c] by simp
  ultimately show ?thesis using EnableThread c d start_options_fld by auto
qed (use runCLI_cases [OF assms] in auto)

subsection \<open>Concrete commands\<close>

definition sample_cli :: cli_env where
  "sample_cli = \<lparr>c_lib = sample_lib, c_float = (\<lambda>_. None), c_thread = sample_uuid, c_session = [], c_socket = ''/s'', c_version = ''1'', c_commit = ''c'',
     c_built = ''d'', c_go = ''g'', c_os = ''linux'', c_arch = ''amd64'', c_install = \<lparr>iPrefix = ''/p'', iBinDir = ''/b'', iSkillDir = ''/s'', iNoSkill = False\<rparr>,
     c_stdin = Inr [], c_open = (\<lambda>_. Inl NotExist), c_unmarshal = (\<lambda>_. Inr GNil)\<rparr>"

lemma sample_canonical: "canonicalThread sample_lib sample_uuid = Inr sample_uuid"
  by (simp add: canonicalThread_def sample_lib_def sample_uuid_def nil_uuid_def)


theorem cli_guards_witness:
  "\<exists>options. runCLI sample_cli [''start'', ''--name'', ''amy''] = Inr (EnableThread sample_uuid options) \<and> fld options ''cwd'' = GNil"
proof -
  have "runCLI sample_cli [''start'', ''--name'', ''amy''] = Inr (EnableThread sample_uuid [(''name'', GStr ''amy'')])"
    by (simp add: runCLI_def cli_stateful_def thread_defs_def texts_def sample_cli_def parseFlags_def HasPrefix_def cbind_def flag_text_def
        sample_canonical attempted_def cli_params_def cli_thread_def Contains_char option_name_def Cut_def TrimLeft_def strip_dashes_def split_flag_def
        read_flag_def start_options_def config_flags_def visited_def)
  with cli_guards [OF this] show ?thesis by (auto simp: fld_def)
qed

end
