(* ===== verification/Install_Props.thy ===== *)
theory Install_Props
  imports Install Artifact_Safety
begin

section \<open>The installer spares what is not its own\<close>

text \<open>
  What \<open>Install\<close> may replace, whatever step fails, and what stands on the disk when it succeeds.
\<close>

text \<open>Everything that was there, up to the paths \<open>S\<close>, still is.\<close>

definition unchanged :: "string set \<Rightarrow> disk_state \<Rightarrow> disk_state \<Rightarrow> bool" where
  "unchanged S d0 d \<longleftrightarrow> (\<forall>p n. p \<notin> S \<and> nodes d0 p = Some n \<longrightarrow> nodes d p = Some n)"

definition clear :: "disk_state \<Rightarrow> string \<Rightarrow> bool" where
  "clear d p \<longleftrightarrow> (\<forall>q. below p q \<longrightarrow> nodes d q = None)"

text \<open>Nothing lies below a path that does not exist.\<close>

definition tree_shaped :: "disk_state \<Rightarrow> bool" where
  "tree_shaped d \<longleftrightarrow> (\<forall>p. p \<noteq> [] \<and> nodes d p = None \<longrightarrow> clear d p)"

lemma unchanged_refl [simp]: "unchanged S d d"
  by (simp add: unchanged_def)

lemma unchanged_mono: "unchanged S d0 d \<Longrightarrow> S \<subseteq> T \<Longrightarrow> unchanged T d0 d"
  unfolding unchanged_def by blast

lemma unchanged_none: "unchanged {} d0 d \<Longrightarrow> nodes d p = None \<Longrightarrow> nodes d0 p = None"
  unfolding unchanged_def by (cases "nodes d0 p") auto

lemma unchanged_nodes: "unchanged S d0 d \<Longrightarrow> nodes d' = nodes d \<Longrightarrow> unchanged S d0 d'"
  by (simp add: unchanged_def)

lemma unchanged_new: "unchanged S d0 d \<Longrightarrow> nodes d p = None \<Longrightarrow> (\<And>q. q \<noteq> p \<Longrightarrow> nodes d' q = nodes d q) \<Longrightarrow> unchanged S d0 d'"
  unfolding unchanged_def by (metis option.distinct(1))

lemma unchanged_at: "unchanged S d0 d \<Longrightarrow> p \<in> S \<Longrightarrow> (\<And>q. q \<noteq> p \<Longrightarrow> nodes d' q = nodes d q) \<Longrightarrow> unchanged S d0 d'"
  unfolding unchanged_def by metis

lemma dbind_snd: "snd (dbind m f) = (case m of (Inl e, d) \<Rightarrow> d | (Inr a, d) \<Rightarrow> snd (f a d))"
  by (simp add: dbind_def split: prod.splits sum.splits)

lemma dbind_unchanged:
  assumes "unchanged S d0 (snd m)" "\<And>a d. m = (Inr a, d) \<Longrightarrow> unchanged S d0 d \<Longrightarrow> unchanged S d0 (snd (f a d))"
  shows "unchanged S d0 (snd (dbind m f))"
  using assms by (auto simp: dbind_snd split: prod.splits sum.splits)

lemma dbind_lift:
  assumes "unchanged {} d0 (snd m)" "\<And>a d. unchanged {} d0 d \<Longrightarrow> unchanged S d0 (snd (f a d))"
  shows "unchanged S d0 (snd (dbind m f))"
  using assms unchanged_mono [OF assms(1)] by (auto simp: dbind_snd split: prod.splits sum.splits)

lemma ask_snd [simp]: "snd (ask r d) = d"
  by (simp add: ask_def)

lemma ask_Inr: "ask r d = (Inr a, d') \<longleftrightarrow> r = Inr a \<and> d' = d"
  by (auto simp: ask_def)

subsection \<open>Directories\<close>

lemma make_dir_unchanged: "unchanged S d0 d \<Longrightarrow> unchanged S d0 (make_dir uid p d)"
  by (auto simp: make_dir_def intro: unchanged_new)

lemma MkdirAll_unchanged: "unchanged S d0 d \<Longrightarrow> unchanged S d0 (snd (MkdirAll E i path d))"
proof -
  have "unchanged S d0 (fold (make_dir uid) ps d)" if "unchanged S d0 d" for uid ps d
    using that by (induction ps arbitrary: d) (simp_all add: make_dir_unchanged)
  then show "unchanged S d0 d \<Longrightarrow> ?thesis" by (auto simp: MkdirAll_def split: sum.splits)
qed

lemma own_directory_unchanged: "unchanged S d0 d \<Longrightarrow> unchanged S d0 (snd (own_directory E i path d))"
  using MkdirAll_unchanged [of S d0 d E i path] by (auto simp: own_directory_def Let_def split: prod.splits)

lemma take_lock_unchanged: "unchanged S d0 d \<Longrightarrow> unchanged S d0 (snd (take_lock E opts d))"
  by (auto simp: take_lock_def split: sum.splits intro: unchanged_new)

subsection \<open>Files\<close>

lemma replaceFile_frame: "replaceFile E i path text mode d = (r, d') \<Longrightarrow> q \<noteq> path \<Longrightarrow> nodes d' q = nodes d q"
  using atomicJSON_error atomicJSON_success by (cases r) (fastforce simp: replaceFile_def)+

lemma replaceFile_unchanged: "unchanged S d0 d \<Longrightarrow> path \<in> S \<Longrightarrow> unchanged S d0 (snd (replaceFile E i path text mode d))"
  using replaceFile_frame by (auto intro: unchanged_at simp: prod_eq_iff)

lemma put_files_frame:
  "q \<notin> (\<lambda>f. JoinPath [dir, fst f]) ` set fs \<Longrightarrow> nodes (snd (put_files E i dir fs d)) q = nodes d q"
proof (induction E i dir fs d rule: put_files.induct)
  case (2 E i dir name data fs d)
  let ?m = "replaceFile E i (JoinPath [dir, name]) data (if name = ''cross-session-codex'' then 493 else 420) d"
  obtain r d1 where m: "?m = (r, d1)" by fastforce
  have "nodes d1 q = nodes d q" using "2.prems" by (intro replaceFile_frame [OF m]) auto
  moreover have "nodes (snd (put_files E (i + 1) dir fs d1)) q = nodes d1 q" using "2.IH" "2.prems" by auto
  ultimately show ?case by (cases r) (simp_all add: m dbind_def)
qed simp

lemma in_order_names: "set (map fst (in_order E fs)) = set (map fst fs)"
  by (force simp: in_order_def map_of_eq_None_iff)

subsection \<open>Paths\<close>

lemma join_normal: "IsAbs d \<Longrightarrow> normal a \<Longrightarrow> JoinPath [d, a] = ''/'' @ Join (path_parts d @ [a]) ''/''"
proof -
  assume d: "IsAbs d" and a: "normal a"
  have "Split a CHR ''/'' = [a]" "a \<noteq> []" using a Split_plain by (auto simp: normal_def)
  from join_parts [OF d, of "[a]" a] this a have "path_parts (JoinPath [d, a]) = path_parts d @ [a]" "IsAbs (JoinPath [d, a])"
    "Clean (JoinPath [d, a]) = JoinPath [d, a]" by simp_all
  then show ?thesis using Clean_abs by metis
qed

lemma Join_snoc: "ps \<noteq> [] \<Longrightarrow> Join (ps @ [b]) sep = Join ps sep @ sep @ b"
  by (cases ps) (simp_all add: Join_def)

lemma join_inside:
  assumes "IsAbs d" "normal a" "normal b"
  shows "JoinPath [JoinPath [d, a], b] = JoinPath [d, a] @ ''/'' @ b" and "below (JoinPath [d, a]) (JoinPath [JoinPath [d, a], b])"
proof -
  have "\<forall>c \<in> set (path_parts d @ [a]). normal c" using abs_parts_normal [OF assms(1)] assms(2) by auto
  then have parts: "path_parts (JoinPath [d, a]) = path_parts d @ [a]" using parts_rooted join_normal [OF assms(1,2)] by metis
  have "IsAbs (JoinPath [d, a])" using JoinPath_abs [OF assms(1)] .
  from join_normal [OF this assms(3)] have "JoinPath [JoinPath [d, a], b] = ''/'' @ Join ((path_parts d @ [a]) @ [b]) ''/''"
    by (simp only: parts)
  also have "\<dots> = JoinPath [d, a] @ ''/'' @ b"
    unfolding join_normal [OF assms(1,2)] by (subst Join_snoc) simp_all
  finally show e: "JoinPath [JoinPath [d, a], b] = JoinPath [d, a] @ ''/'' @ b" .
  then show "below (JoinPath [d, a]) (JoinPath [JoinPath [d, a], b])" by (simp add: below_def)
qed

lemma join_not_empty: "IsAbs d \<Longrightarrow> JoinPath (d # ps) \<noteq> []"
  using JoinPath_abs [of d ps] by (auto simp: IsAbs_def HasPrefix_def)

subsection \<open>The release\<close>

lemma release_names: "name \<in> fst ` set (release_files E binary) \<Longrightarrow> normal name"
  by (auto simp: release_files_def normal_def)

lemma stage_release_unchanged:
  assumes "unchanged {} d0 d" "tree_shaped d0" "IsAbs releases" "normal (n_stage E)"
    and "release \<noteq> []" "nodes d release = None" "\<forall>f \<in> set fs. normal (fst f)"
  shows "unchanged {} d0 (snd (stage_release E releases release fs d))"
proof -
  define stage where "stage = JoinPath [releases, n_stage E]"
  show ?thesis
  proof (cases "syscall (n_faults E 7) 0 (if nodes d stage \<noteq> None then Inl (Failure ''file exists'') else Inr ())")
    case (Inl e)
    then show ?thesis using assms(1) by (simp add: stage_release_def stage_def)
  next
    case (Inr u)
    then have "nodes d stage = None" by (simp add: syscall_Inr split: if_splits)
    moreover have "stage \<noteq> []" using assms(3) by (simp add: stage_def join_not_empty)
    ultimately have clear: "clear d0 stage" "clear d0 release"
      using assms(2,5,6) unchanged_none [OF assms(1)] by (auto simp: tree_shaped_def)
    define d1 where "d1 = create DirectoryFile (getuid (n_base E)) 448 None stage d"
    have keep: "nodes d1 p = Some n \<and> \<not> below stage p \<and> \<not> below release p" if "nodes d0 p = Some n" for p n
    proof -
      have "\<not> below stage p" "\<not> below release p" using clear that by (auto simp: clear_def)
      moreover have "p \<noteq> stage" using calculation by (auto simp: below_def)
      ultimately show ?thesis using that assms(1) by (simp add: d1_def create_def unchanged_def)
    qed
    obtain r d2 where put: "put_files E 8 stage (in_order E fs) d1 = (r, d2)" by fastforce
    have "below stage (JoinPath [stage, fst f])" if "f \<in> set (in_order E fs)" for f
    proof -
      have "fst f \<in> set (map fst fs)" using that in_order_names [of E fs] by (metis image_eqI list.set_map)
      then show ?thesis using join_inside(2) [OF assms(3,4)] assms(7) by (auto simp: stage_def)
    qed
    then have "p \<notin> (\<lambda>f. JoinPath [stage, fst f]) ` set (in_order E fs)" if "\<not> below stage p" for p
      using that by auto
    then have "nodes d2 p = nodes d1 p" if "\<not> below stage p" for p
      using that put_files_frame [of p stage "in_order E fs" E 8 d1] put by auto
    then have "nodes (remove_all stage d2) p = Some n \<and> nodes (remove_all stage (move_tree stage release d2)) p = Some n"
      if "nodes d0 p = Some n" for p n
      using keep [OF that] by (simp add: remove_all_def move_tree_def)
    then have "unchanged {} d0 (remove_all stage d2)" "unchanged {} d0 (remove_all stage (move_tree stage release d2))"
      by (simp_all add: unchanged_def)
    then show ?thesis using Inr
      by (simp add: stage_release_def stage_def [symmetric] d1_def [symmetric] put dbind_def split: sum.splits)
  qed
qed

lemma place_release_unchanged:
  assumes "unchanged {} d0 d" "tree_shaped d0" "IsAbs releases" "normal (n_stage E)" "release \<noteq> []" "\<forall>f \<in> set fs. normal (fst f)"
  shows "unchanged {} d0 (snd (place_release E releases release fs d))"
proof (cases "syscall (n_faults E 6) 0 (Lstat d release)")
  case (Inl e)
  show ?thesis
  proof (cases "e = NotExist")
    case True
    with Inl have "nodes d release = None" by (simp add: syscall_NotExist Lstat_simps)
    from stage_release_unchanged [OF assms(1-5) this assms(6)] show ?thesis using Inl True by (simp add: place_release_def)
  next
    case False
    then show ?thesis using assms(1) unfolding place_release_def Inl sum.case by (cases e) simp_all
  qed
qed (use assms(1) in \<open>simp add: place_release_def\<close>)

lemma switch_current_unchanged:
  assumes "unchanged S d0 d" "current_path opts \<in> S" "\<And>p. nodes d p = None \<Longrightarrow> p \<in> S \<or> nodes d0 p = None"
  shows "unchanged S d0 (snd (switch_current E opts tag d))"
proof -
  define link where "link = link_path opts tag"
  define d1 where "d1 = create SymlinkFile (getuid (n_base E)) 511 (Some (GStr (JoinPath [''releases'', tag]))) link d"
  show ?thesis
  proof (cases "nodes d link")
    case None
    have "nodes d1 q = nodes d q" if "q \<noteq> link" for q using that by (simp add: d1_def)
    then have "nodes (remove link d1) p = Some n \<and> nodes (remove link (rename link (current_path opts) d1)) p = Some n"
      if "nodes d0 p = Some n" "p \<notin> S" for p n
      using that None assms by (auto simp: unchanged_def rename_def)
    then have "unchanged S d0 (remove link d1)" "unchanged S d0 (remove link (rename link (current_path opts) d1))"
      by (simp_all add: unchanged_def)
    moreover have "switch_current E opts tag d =
      (case syscall (n_faults E 11) 0 (Inr ()) of Inl e \<Rightarrow> (Inl e, d)
       | Inr _ \<Rightarrow> (case syscall (n_faults E 11) 1 (if is_directory (current_path opts) d1 then Inl (Failure ''file exists'') else Inr ()) of
           Inl e \<Rightarrow> (Inl e, remove link d1) | Inr _ \<Rightarrow> (Inr (), remove link (rename link (current_path opts) d1))))"
      using None unfolding switch_current_def Let_def d1_def link_def by simp
    ultimately show ?thesis using assms(1) by (simp split: sum.splits)
  qed (use assms(1) in \<open>simp add: switch_current_def Let_def link_def syscall_def split: option.splits\<close>)
qed

subsection \<open>What may be replaced\<close>

lemma absolute_abs: "absolute wd p = Inr q \<Longrightarrow> \<forall>cwd. wd = Inr cwd \<longrightarrow> IsAbs cwd \<Longrightarrow> IsAbs q"
  using parts_Clean(2) JoinPath_abs by (auto simp: absolute_def rbind_Inr split: if_splits)

lemma resolved_abs:
  assumes "resolve_options E opts0 = Inr opts" "\<forall>cwd. n_wd E = Inr cwd \<longrightarrow> IsAbs cwd"
  shows "IsAbs (iPrefix opts)" "IsAbs (iBinDir opts)" "IsAbs (iSkillDir opts)" "iNoSkill opts = iNoSkill opts0"
  using assms absolute_abs by (auto simp: resolve_options_def rbind_Inr split: if_splits)

definition managed :: "InstallOptions \<Rightarrow> string set" where
  "managed opts = {launcher_path opts, current_path opts} \<union> (if iNoSkill opts then {} else {skill_path opts})"

lemma managed_paths: "launcher_path opts \<in> managed opts" "current_path opts \<in> managed opts" "\<not> iNoSkill opts \<Longrightarrow> skill_path opts \<in> managed opts"
  by (simp_all add: managed_def)

lemma install_release_unchanged:
  assumes u: "unchanged {} d0 d" and t: "tree_shaped d0" and p: "IsAbs (iPrefix opts)" and s: "normal (n_stage E)"
  shows "unchanged (managed opts) d0 (snd (install_release E opts d))"
proof -
  have rel: "IsAbs (releases_path opts)" using JoinPath_abs [OF p] by (simp add: releases_path_def)
  have after: "unchanged (managed opts) d0 (snd (dbind (switch_current E opts tag d) (\<lambda>_ d.
      dbind (replaceFile E 12 (launcher_path opts) (launcher_text opts) 493 d) (\<lambda>_ d.
      dbind (write_skill E opts d) (\<lambda>_ d. (Inr report, d))))))" if d: "unchanged {} d0 d" for tag report d
  proof (rule dbind_unchanged)
    show "unchanged (managed opts) d0 (snd (switch_current E opts tag d))"
      using unchanged_none [OF d] unchanged_mono [OF d] by (intro switch_current_unchanged managed_paths) auto
  next
    fix u d1 assume d1: "unchanged (managed opts) d0 d1"
    show "unchanged (managed opts) d0 (snd (dbind (replaceFile E 12 (launcher_path opts) (launcher_text opts) 493 d1) (\<lambda>_ d.
        dbind (write_skill E opts d) (\<lambda>_ d. (Inr report, d)))))"
    proof (rule dbind_unchanged)
      show "unchanged (managed opts) d0 (snd (replaceFile E 12 (launcher_path opts) (launcher_text opts) 493 d1))"
        by (rule replaceFile_unchanged [OF d1 managed_paths(1)])
    next
      fix u d2 assume d2: "unchanged (managed opts) d0 d2"
      have "unchanged (managed opts) d0 (snd (write_skill E opts d2))"
        using d2 by (auto simp: write_skill_def intro: dbind_unchanged own_directory_unchanged replaceFile_unchanged managed_paths)
      then show "unchanged (managed opts) d0 (snd (dbind (write_skill E opts d2) (\<lambda>_ d. (Inr report, d))))"
        by (rule dbind_unchanged) simp
    qed
  qed
  have place: "unchanged {} d0 (snd (place_release E (releases_path opts) release (release_files E binary) d))"
    if "release \<noteq> []" for release binary
    using release_names by (intro place_release_unchanged [OF u t rel s that]) auto
  show ?thesis unfolding install_release_def Let_def
  proof (rule dbind_unchanged)
    show "unchanged (managed opts) d0 (snd (ask (rbind (n_exe E) (n_binary E)) d))" using unchanged_mono [OF u] by simp
  next
    fix binary d1 assume "ask (rbind (n_exe E) (n_binary E)) d = (Inr binary, d1)"
    then have d1: "d1 = d" by (simp add: ask_Inr)
    let ?release = "JoinPath [releases_path opts, release_id E binary]"
    note pl = place [OF join_not_empty [OF rel], of "[release_id E binary]" binary]
    show "unchanged (managed opts) d0 (snd (dbind (place_release E (releases_path opts) ?release (release_files E binary) d1) (\<lambda>_ d.
        dbind (switch_current E opts (release_id E binary) d) (\<lambda>_ d.
        dbind (replaceFile E 12 (launcher_path opts) (launcher_text opts) 493 d) (\<lambda>_ d.
        dbind (write_skill E opts d) (\<lambda>_ d. (Inr (install_report E opts ?release), d)))))))"
      unfolding d1 by (rule dbind_lift [OF pl after])
  qed
qed

lemma managed_checked:
  assumes "ensureManaged E i d path marker = Inr ()" "nodes d path = Some n"
  shows "fkind (nstat n) = RegularFile \<and> fuid (nstat n) = getuid (n_base E) \<and> Contains (file_text d path) marker"
  using assms by (auto simp: ensureManaged_def Lstat_def owned_def seen_by_def ReadFile_def rbind_Inr syscall_Inr split: if_splits)

lemma current_checked:
  assumes "current_ok E opts d = Inr ()" "nodes d (current_path opts) = Some n"
  shows "fkind (nstat n) = SymlinkFile \<and> (\<exists>resolved rel. real_path (n_base E) (current_path opts) = Inr resolved
    \<and> Rel (releases_path opts) resolved = Inr rel \<and> \<not> leaves rel)"
proof -
  from assms have k: "fkind (nstat n) = SymlinkFile" by (simp add: current_ok_def Lstat_def split: if_splits)
  with assms obtain resolved where r: "real_path (n_base E) (current_path opts) = Inr resolved"
    and "(case Rel (releases_path opts) resolved of Inl _ \<Rightarrow> Inl (Failure ''current install link points outside managed releases'')
      | Inr rel \<Rightarrow> if leaves rel then Inl (Failure ''current install link points outside managed releases'') else Inr ()) = Inr ()"
    by (auto simp: current_ok_def Lstat_def rbind_Inr)
  then have "\<exists>rel. Rel (releases_path opts) resolved = Inr rel \<and> \<not> leaves rel" by (auto split: sum.splits if_splits)
  with k r show ?thesis by blast
qed

text \<open>A launcher or a skill of this user with the marker, or a link into the releases.\<close>

definition replaceable :: "install_env \<Rightarrow> InstallOptions \<Rightarrow> disk_state \<Rightarrow> string \<Rightarrow> node \<Rightarrow> bool" where
  "replaceable E opts d p n \<longleftrightarrow>
     p = launcher_path opts \<and> fkind (nstat n) = RegularFile \<and> fuid (nstat n) = getuid (n_base E) \<and> Contains (file_text d p) launcherMarker
     \<or> \<not> iNoSkill opts \<and> p = skill_path opts \<and> fkind (nstat n) = RegularFile \<and> fuid (nstat n) = getuid (n_base E)
       \<and> Contains (file_text d p) skillMarker
     \<or> p = current_path opts \<and> fkind (nstat n) = SymlinkFile
       \<and> (\<exists>resolved rel. real_path (n_base E) p = Inr resolved \<and> Rel (releases_path opts) resolved = Inr rel \<and> \<not> leaves rel)"

text \<open>C20. Whatever step fails and however the installation ends, every file, directory and link that was there still is,
  as it was, except the three paths the installer manages; and of these the launcher and the skill are replaced
  only when they were files of this user that carry the marker of the installer, and \<open>current\<close> only when it
  was a link into the managed releases.\<close>

theorem install_spares_unrelated:
  assumes "tree_shaped d" and "\<forall>cwd. n_wd E = Inr cwd \<longrightarrow> IsAbs cwd" and "normal (n_stage E)" and "nodes d p = Some n"
  shows "nodes (snd (Install E opts0 d)) p = Some n \<or> (\<exists>opts. resolve_options E opts0 = Inr opts
    \<and> replaceable E opts d p n)"
proof (cases "rbind (resolve_options E opts0) (\<lambda>opts. rbind (check_install E opts d) (\<lambda>_. Inr opts))")
  case (Inl e)
  then show ?thesis using assms(4) by (simp add: Install_def ask_def dbind_def)
next
  case (Inr opts)
  then have o: "resolve_options E opts0 = Inr opts" and c: "check_install E opts d = Inr ()" by (auto simp: rbind_Inr)
  have "unchanged (managed opts) d (snd (Install E opts0 d))"
  proof -
    have "snd (Install E opts0 d) = snd (dbind (own_directory E 2 (iPrefix opts) d) (\<lambda>_ d.
       dbind (own_directory E 3 (releases_path opts) d) (\<lambda>_ d.
       dbind (own_directory E 4 (iBinDir opts) d) (\<lambda>_ d.
       dbind (take_lock E opts d) (\<lambda>_ d. install_release E opts d)))))"
      by (simp add: Install_def Inr ask_def dbind_def)
    also have "unchanged (managed opts) d \<dots>"
      by (intro dbind_lift own_directory_unchanged take_lock_unchanged unchanged_refl)
        (assumption | rule install_release_unchanged [OF _ assms(1) resolved_abs(1) [OF o assms(2)] assms(3)])+
    finally show ?thesis .
  qed
  then have "nodes (snd (Install E opts0 d)) p = Some n \<or> p \<in> managed opts" using assms(4) by (auto simp: unchanged_def)
  moreover from c have "ensureManaged E 1 d (launcher_path opts) launcherMarker = Inr ()" "current_ok E opts d = Inr ()"
    "\<not> iNoSkill opts \<Longrightarrow> ensureManaged E 2 d (skill_path opts) skillMarker = Inr ()"
    by (auto simp: check_install_def rbind_Inr split: if_splits)
  ultimately show ?thesis using o managed_checked current_checked assms(4)
    by (auto simp: managed_def replaceable_def split: if_splits)
qed

subsection \<open>What stands in the end\<close>

definition has_text :: "disk_state \<Rightarrow> string \<Rightarrow> string \<Rightarrow> bool" where
  "has_text d p s \<longleftrightarrow> nodes d p \<noteq> None \<and> file_text d p = s"

lemma has_text_same: "nodes d' p = nodes d p \<Longrightarrow> has_text d' p s = has_text d p s"
  by (simp add: has_text_def file_text_def)

lemma has_text_unchanged: "unchanged {} d d' \<Longrightarrow> has_text d p s \<Longrightarrow> has_text d' p s"
  by (auto simp: unchanged_def has_text_def file_text_def)

lemma parts_join: "IsAbs d \<Longrightarrow> normal a \<Longrightarrow> path_parts (JoinPath [d, a]) = path_parts d @ [a]"
proof -
  assume "IsAbs d" "normal a"
  then have "\<forall>c \<in> set (path_parts d @ [a]). normal c" using abs_parts_normal by auto
  then show ?thesis using join_normal [OF \<open>IsAbs d\<close> \<open>normal a\<close>] parts_rooted by metis
qed

lemma replaceFile_ok:
  "replaceFile E i path text mode d = (Inr u, d') \<Longrightarrow> n_tmp E i \<noteq> path \<Longrightarrow> has_text d' path text"
  using atomicJSON_success [of "n_faults E i" 0 "getuid (n_base E)" "n_tmp E i" path "GStr text" mode d d']
  by (simp add: replaceFile_def has_text_def file_text_def)

lemma dbind_Inr: "dbind m f = (Inr b, d') \<longleftrightarrow> (\<exists>a d. m = (Inr a, d) \<and> f a d = (Inr b, d'))"
  by (auto simp: dbind_def split: prod.splits sum.splits)

lemma put_files_ok:
  "put_files E i dir fs d = (Inr u, d') \<Longrightarrow> inj_on (\<lambda>name. JoinPath [dir, name]) (fst ` set fs) \<Longrightarrow> distinct (map fst fs)
     \<Longrightarrow> \<forall>j. \<forall>f \<in> set fs. n_tmp E j \<noteq> JoinPath [dir, fst f] \<Longrightarrow> f \<in> set fs \<Longrightarrow> has_text d' (JoinPath [dir, fst f]) (snd f)"
proof (induction E i dir fs d arbitrary: u rule: put_files.induct)
  case (2 E i dir name data fs d)
  from "2.prems"(1) obtain u1 d1 where m: "replaceFile E i (JoinPath [dir, name]) data (if name = ''cross-session-codex'' then 493 else 420) d = (Inr u1, d1)"
    and rest: "put_files E (i + 1) dir fs d1 = (Inr u, d')" by (auto simp: dbind_Inr)
  have inj: "inj_on (\<lambda>name. JoinPath [dir, name]) (fst ` set fs)" using "2.prems"(2) by (auto simp: inj_on_def)
  show ?case
  proof (cases "f = (name, data)")
    case True
    have "JoinPath [dir, name] \<notin> (\<lambda>f. JoinPath [dir, fst f]) ` set fs"
      using "2.prems"(2,3) by (auto simp: inj_on_def image_iff)
    from put_files_frame [OF this, of E "i + 1" d1] have same: "nodes d' (JoinPath [dir, name]) = nodes d1 (JoinPath [dir, name])"
      using rest by simp
    have "has_text d1 (JoinPath [dir, name]) data" using replaceFile_ok [OF m] "2.prems"(4) by simp
    then show ?thesis unfolding True fst_conv snd_conv has_text_same [OF same] .
  next
    case False
    then show ?thesis using "2.IH" [OF rest inj] "2.prems" by auto
  qed
qed simp

lemma in_order_set: "distinct (map fst fs) \<Longrightarrow> set (in_order E fs) = set fs"
  by (force simp: in_order_def map_of_eq_None_iff)

lemma in_order_distinct: "distinct (map fst (in_order E fs))"
  by (simp add: in_order_def o_def)

lemma same_files_ok: "same_files E i release fs d = Inr () \<Longrightarrow> f \<in> set fs \<Longrightarrow> has_text d (JoinPath [release, fst f]) (snd f)"
  by (induction E i release fs d rule: same_files.induct)
    (auto simp: Let_def rbind_Inr ReadFile_def syscall_Inr has_text_def split: if_splits option.splits)

lemma release_texts:
  assumes "place_release E releases release fs d = (Inr u, d')" "IsAbs releases" "release = JoinPath [releases, tag]"
    and "normal tag" "normal (n_stage E)" "n_stage E \<noteq> tag" "distinct (map fst fs)" "\<forall>f \<in> set fs. normal (fst f)"
    and tmp: "\<forall>i. \<forall>f \<in> set fs. last (path_parts (n_tmp E i)) \<noteq> fst f" and f: "f \<in> set fs"
  shows "has_text d' (JoinPath [release, fst f]) (snd f)"
proof (cases "syscall (n_faults E 6) 0 (Lstat d release)")
  case (Inr st)
  then have "same_files E 8 release (in_order E fs) d = Inr ()" "d' = d"
    using assms(1) by (auto simp: place_release_def rbind_Inr)
  then show ?thesis using same_files_ok f in_order_set [OF assms(7)] by simp
next
  case (Inl e)
  define stage where "stage = JoinPath [releases, n_stage E]"
  have "e = NotExist" using assms(1) unfolding place_release_def Inl sum.case by (cases e) simp_all
  then have st: "stage_release E releases release fs d = (Inr u, d')" using assms(1) Inl by (simp add: place_release_def)
  define d1 where "d1 = create DirectoryFile (getuid (n_base E)) 448 None stage d"
  from st obtain v d2 where p: "put_files E 8 stage (in_order E fs) d1 = (Inr v, d2)" and d': "d' = remove_all stage (move_tree stage release d2)"
    by (auto simp: stage_release_def Let_def stage_def d1_def dbind_def split: sum.splits prod.splits)
  have in_stage: "JoinPath [stage, a] = stage @ ''/'' @ a" and in_release: "JoinPath [release, a] = release @ ''/'' @ a" if "normal a" for a
    using that join_inside(1) assms(2-5) by (simp_all add: stage_def)
  have n: "normal (fst f)" using assms(8) f by blast
  have "has_text d2 (JoinPath [stage, fst f]) (snd f)"
  proof (rule put_files_ok [OF p _ in_order_distinct])
    have names: "fst ` set (in_order E fs) = fst ` set fs" using in_order_names [of E fs] by simp
    then show "inj_on (\<lambda>name. JoinPath [stage, name]) (fst ` set (in_order E fs))"
      using in_stage assms(8) by (auto simp: inj_on_def)
    have "IsAbs stage" using JoinPath_abs [OF assms(2)] by (simp add: stage_def)
    then have "last (path_parts (JoinPath [stage, a])) = a" if "normal a" for a using that by (simp add: parts_join)
    then show "\<forall>j. \<forall>f \<in> set (in_order E fs). n_tmp E j \<noteq> JoinPath [stage, fst f]"
      using tmp assms(8) in_order_set [OF assms(7), of E] by metis
  qed (use f in_order_set [OF assms(7), of E] in simp)
  moreover have "nodes d' (JoinPath [release, fst f]) = nodes d2 (JoinPath [stage, fst f])"
  proof -
    have "path_parts (JoinPath [release, fst f]) = path_parts releases @ [tag, fst f]"
      using assms(2-4) n JoinPath_abs [OF assms(2)] by (simp add: parts_join)
    have "\<not> below stage (JoinPath [release, fst f])"
    proof
      assume "below stage (JoinPath [release, fst f])"
      moreover have "\<exists>t. stage = t @ ''/'' @ n_stage E \<and> release = t @ ''/'' @ tag"
        using join_normal [OF assms(2)] assms(3-5) by (cases "path_parts releases") (auto simp: stage_def Join_snoc Join_def)
      then obtain t where t: "stage = t @ ''/'' @ n_stage E" "release = t @ ''/'' @ tag" by blast
      ultimately have "prefix (n_stage E @ ''/'') (tag @ ''/'' @ fst f) \<or> n_stage E = tag @ ''/'' @ fst f"
        unfolding below_def in_release [OF n] unfolding t by auto
      then show False
      proof
        assume "prefix (n_stage E @ ''/'') (tag @ ''/'' @ fst f)"
        then obtain z where "n_stage E @ CHR ''/'' # z = tag @ CHR ''/'' # fst f" by (auto simp: prefix_def)
        then have "takeWhile (\<lambda>c. c \<noteq> CHR ''/'') (n_stage E @ CHR ''/'' # z) = takeWhile (\<lambda>c. c \<noteq> CHR ''/'') (tag @ CHR ''/'' # fst f)"
          by simp
        then have "n_stage E = tag" using assms(4,5) by (simp add: takeWhile_append normal_def split: if_splits)
        then show False using assms(6) by simp
      qed (use assms(5) in \<open>auto simp: normal_def\<close>)
    qed
    then show ?thesis using n by (simp add: d' remove_all_def move_tree_def in_release in_stage below_def)
  qed
  ultimately show ?thesis using has_text_same by (metis has_text_def file_text_def)
qed

definition has_link :: "disk_state \<Rightarrow> string \<Rightarrow> string \<Rightarrow> bool" where
  "has_link d p s \<longleftrightarrow> (case nodes d p of None \<Rightarrow> False | Some n \<Rightarrow> fkind (nstat n) = SymlinkFile \<and> nvalue n = Some (GStr s))"

lemma switch_current_ok:
  assumes "switch_current E opts tag d = (Inr u, d')" "link_path opts tag \<noteq> current_path opts"
  shows "has_link d' (current_path opts) (JoinPath [''releases'', tag])"
    and "q \<noteq> current_path opts \<Longrightarrow> q \<noteq> link_path opts tag \<Longrightarrow> nodes d' q = nodes d q"
  using assms by (auto simp: switch_current_def Let_def has_link_def rename_def create_def split: sum.splits)

text \<open>The paths of an installation differ, unless a directory of the user lies inside the releases.\<close>

lemma install_paths:
  assumes "IsAbs (iPrefix opts)" "IsAbs (iBinDir opts)" "IsAbs (iSkillDir opts)" "normal tag" "normal name"
  shows "path_parts (launcher_path opts) = path_parts (iBinDir opts) @ [''cross-session-codex'']"
    "path_parts (skill_path opts) = path_parts (iSkillDir opts) @ [''SKILL.md'']"
    "path_parts (current_path opts) = path_parts (iPrefix opts) @ [''current'']"
    "path_parts (releases_path opts) = path_parts (iPrefix opts) @ [''releases'']"
    "path_parts (link_path opts tag) = path_parts (iPrefix opts) @ [''.current-'' @ tag]"
    "path_parts (JoinPath [JoinPath [releases_path opts, tag], name]) = path_parts (iPrefix opts) @ [''releases'', tag, name]"
  using assms JoinPath_abs
  by (simp_all add: launcher_path_def skill_path_def current_path_def releases_path_def link_path_def parts_join normal_def)


subsection \<open>A concrete installation\<close>

definition plain_node :: "fkind \<Rightarrow> gval option \<Rightarrow> node" where
  "plain_node k v = \<lparr>nstat = \<lparr>fkind = k, fuid = 1, fperm = 493, fsticky = False, fino = 3, fsize = 0\<rparr>, nvalue = v\<rparr>"

definition install_disk :: disk_state where
  "install_disk = \<lparr>nodes = [''/p'' \<mapsto> plain_node DirectoryFile None, ''/p/releases'' \<mapsto> plain_node DirectoryFile None,
     ''/b'' \<mapsto> plain_node DirectoryFile None, ''/b/x'' \<mapsto> plain_node RegularFile None], next_inode = 9\<rparr>"

definition sample_install :: install_env where
  "sample_install = \<lparr>n_codex = True, n_wd = Inr ''/w'',
     n_base = \<lparr>lstat = (\<lambda>_. Inl NotExist), stat = (\<lambda>_. Inl NotExist), real_path = Inr, readdir = (\<lambda>_. Inr []), json_file = (\<lambda>_. Inl NotExist), getuid = 1\<rparr>,
     n_faults = (\<lambda>_ _. None), n_tmp = (\<lambda>_. ''/t''), n_lock = Inr (), n_exe = Inr ''/e'', n_binary = (\<lambda>_. Inr ''B''),
     n_readme = ''R'', n_messaging = ''M'', n_sha = (\<lambda>_. ''ab''), n_stage = ''st'', n_order = [], n_version = ''1''\<rparr>"

definition install_options :: InstallOptions where
  "install_options = \<lparr>iPrefix = ''/p'', iBinDir = ''/b'', iSkillDir = ''/s'', iNoSkill = True\<rparr>"

lemma sample_installed: "is_ok (fst (Install sample_install install_options install_disk))"
  by code_simp

lemma sample_resolved: "resolve_options sample_install install_options = Inr install_options"
  by (simp add: resolve_options_def sample_install_def install_options_def absolute_def) code_simp

lemma sample_tree: "tree_shaped install_disk"
proof -
  have "p = [] \<or> p = ''/p'' \<or> p = ''/b'' \<or> p = q" if "below p q" "q \<in> {''/p'', ''/p/releases'', ''/b'', ''/b/x''}" for p q
    using that by (auto simp: below_def prefix_def append_eq_Cons_conv)
  moreover have "q \<in> {''/p'', ''/p/releases'', ''/b'', ''/b/x''}" if "nodes install_disk q = Some n" for q n
    using that by (auto simp: install_disk_def split: if_splits)
  moreover have "nodes install_disk ''/p'' \<noteq> None" "nodes install_disk ''/b'' \<noteq> None" by (simp_all add: install_disk_def)
  ultimately show ?thesis unfolding tree_shaped_def clear_def by (metis option.exhaust)
qed

theorem install_spares_unrelated_witness:
  "nodes (snd (Install sample_install install_options install_disk)) ''/b/x'' = Some (plain_node RegularFile None)"
proof -
  have n: "nodes install_disk ''/b/x'' = Some (plain_node RegularFile None)" by (simp add: install_disk_def)
  have e: "\<forall>cwd. n_wd sample_install = Inr cwd \<longrightarrow> IsAbs cwd" "normal (n_stage sample_install)"
    by (simp_all add: sample_install_def normal_def)
  have p: "launcher_path install_options \<noteq> ''/b/x''" "current_path install_options \<noteq> ''/b/x''" "iNoSkill install_options" by code_simp+
  from p have "\<not> replaceable sample_install install_options install_disk ''/b/x'' (plain_node RegularFile None)"
    unfolding replaceable_def by simp
  with install_spares_unrelated [OF sample_tree e n, of install_options] show ?thesis
    unfolding sample_resolved by (elim disjE exE conjE) simp_all
qed


end
