(* ===== verification/Shell.thy ===== *)
theory Shell
  imports Control
begin

section \<open>Quoted words\<close>

text \<open>
  What a POSIX shell makes of a word that is quoted by \<open>shellQuote\<close> of appserver.go: the reader of one word
  with its single and double quotes.  A character that means something else to the shell gives \<open>None\<close>.
\<close>

definition blank_char :: "char \<Rightarrow> bool" where
  "blank_char c \<longleftrightarrow> c \<in> {CHR '' '', CHR 0x09, newline}"

definition ordinary :: "char \<Rightarrow> bool" where
  "ordinary c \<longleftrightarrow> \<not> blank_char c \<and> c \<notin> set ''|&;<>()$`*?[]#~=%!{}'' \<and> c \<noteq> backslash"

definition plain_quoted :: "char \<Rightarrow> bool" where
  "plain_quoted c \<longleftrightarrow> c \<notin> set ''$`'' \<and> c \<noteq> backslash"

definition prepend_char :: "char \<Rightarrow> (string \<times> string) option \<Rightarrow> (string \<times> string) option" where
  "prepend_char c r = map_option (\<lambda>(word, rest). (c # word, rest)) r"

datatype quoting = Bare | Single | Double

fun shell_word :: "quoting \<Rightarrow> string \<Rightarrow> (string \<times> string) option" where
  "shell_word q [] = (if q = Bare then Some ([], []) else None)"
| "shell_word q (c # cs) =
     (case q of
        Bare \<Rightarrow>
          if blank_char c then Some ([], c # cs)
          else if c = CHR 0x27 then shell_word Single cs
          else if c = quote then shell_word Double cs
          else if ordinary c then prepend_char c (shell_word Bare cs) else None
      | Single \<Rightarrow> if c = CHR 0x27 then shell_word Bare cs else prepend_char c (shell_word Single cs)
      | Double \<Rightarrow>
          if c = quote then shell_word Bare cs
          else if plain_quoted c then prepend_char c (shell_word Double cs) else None)"

lemma quoted_text:
  "shell_word Single (replaceSingleQuotes s @ CHR 0x27 # rest) = map_option (\<lambda>(word, after). (s @ word, after)) (shell_word Bare rest)"
proof (induction s)
  case (Cons c s)
  have q: "\<not> blank_char (CHR 0x27)" "\<not> blank_char quote" "plain_quoted (CHR 0x27)" "quote \<noteq> CHR 0x27" "CHR 0x27 \<noteq> quote"
    by (simp_all add: blank_char_def plain_quoted_def quote_def backslash_def newline_def)
  have step: "replaceSingleQuotes (c # s) = (if c = CHR 0x27 then [CHR 0x27, quote, CHR 0x27, quote, CHR 0x27] else [c]) @ replaceSingleQuotes s"
    by (simp add: replaceSingleQuotes_def)
  show ?case
    by (cases "shell_word Bare rest") (simp_all add: step Cons q prepend_char_def option.map_comp o_def case_prod_beta)
qed (simp add: replaceSingleQuotes_def option.map_ident)

text \<open>C25. A shell reads a word that \<open>shellQuote\<close> wrote as exactly the text that was quoted, whatever it contains, before a
  blank and at the end of a line: the notice shows the executable, and the launcher runs the file, that was meant.\<close>

theorem shell_quote_word:
  "shell_word Bare (shellQuote s) = Some (s, []) \<and> shell_word Bare (shellQuote s @ CHR '' '' # rest) = Some (s, CHR '' '' # rest)"
proof -
  have "\<not> blank_char (CHR 0x27)" "blank_char (CHR '' '')" by (simp_all add: blank_char_def newline_def)
  then show ?thesis using quoted_text [of s "[]"] quoted_text [of s "CHR '' '' # rest"] by (simp add: shellQuote_def)
qed

end
