(* ===== verification/Release_Command.thy ===== *)
theory Release_Command
  imports Flag_Props Release_Order
begin

section \<open>The release command\<close>

text \<open>
  cmd/csc-release: the options of the command, \<open>run\<close> with the release it starts, and \<open>main\<close>.  The printing of the
  manifest is the argument \<open>emit\<close>, which answers whether the output stream took it.
\<close>

definition release_flags :: flag_defs where
  "release_flags =
     [(''source'', StringFlag), (''out'', StringFlag), (''tag'', StringFlag), (''snapshot'', BoolFlag),
      (''build'', BoolFlag), (''cross-build'', BoolFlag)]"

definition release_options :: "settings \<Rightarrow> Options" where
  "release_options st =
     \<lparr>Source = flag_text st ''source'' ''.'', Output = flag_text st ''out'' [], Tag = flag_text st ''tag'' [],
      Snapshot = flag_switch st ''snapshot'', Build = flag_switch st ''build'', CrossBuild = flag_switch st ''cross-build''\<rparr>"

text \<open>The manifest that was printed, or none after the help text.\<close>

definition csc_release ::
  "release_env \<Rightarrow> (string \<Rightarrow> go_float option) \<Rightarrow> (Manifest \<Rightarrow> unit res) \<Rightarrow> string list \<Rightarrow> Manifest option job" where
  "csc_release E pf emit args =
     (case flag_Parse pf release_flags args [] of
        Inl HelpShown \<Rightarrow> quiet (Inr None)
      | Inl (CliError e) \<Rightarrow> quiet (Inl e)
      | Inr (st, rest) \<Rightarrow>
          if rest \<noteq> [] then quiet (Inl (Failure ''unexpected positional arguments''))
          else jbind (run_release E (release_options st)) (\<lambda>m. quiet (rbind (emit m) (\<lambda>_. Inr (Some m)))))"

definition csc_release_exit :: "Manifest option job \<Rightarrow> int" where
  "csc_release_exit j = (case fst j of Inl e \<Rightarrow> 1 | Inr _ \<Rightarrow> 0)"

subsection \<open>A successful release is published\<close>

definition published :: "Options \<Rightarrow> Target list \<Rightarrow> disk_effect list \<Rightarrow> bool" where
  "published opts ts es \<longleftrightarrow>
     (if packaging opts then \<exists>artifacts output. PublishedDirectory artifacts output \<in> set es
      else \<exists>work output. \<forall>t \<in> set ts. Replaced (JoinPath [work, rawName t]) (destination_of opts output t) \<in> set es)"

lemma replace_artifacts_all:
  "replace_artifacts E opts repo work output ts = (Inr (), es) \<Longrightarrow>
     \<forall>t \<in> set ts. Replaced (JoinPath [work, rawName t]) (destination_of opts output t) \<in> set es"
proof (induction ts arbitrary: es)
  case (Cons t ts)
  then show ?case by (auto simp: jbind_iff quiet_def attempt_def split: sum.splits)
qed simp

lemma publish_artifacts_published:
  assumes "publish_artifacts E opts repo work artifacts output ts = (Inr (), es)"
  shows "published opts ts es"
proof (cases "packaging opts")
  case True
  then show ?thesis using assms by (auto simp: published_def publish_artifacts_def attempt_def split: sum.splits)
next
  case False
  then have "replace_artifacts E opts repo work output ts = (Inr (), es)" using assms by (simp add: publish_artifacts_def)
  from replace_artifacts_all [OF this] False show ?thesis by (auto simp: published_def)
qed

lemma published_more: "published opts ts es \<Longrightarrow> set es \<subseteq> set es' \<Longrightarrow> published opts ts es'"
  unfolding published_def by (cases "packaging opts") (simp_all, blast+)

lemma published_append: "(\<not> published opts ts es \<Longrightarrow> published opts ts es') \<Longrightarrow> published opts ts (es @ es')"
  by (cases "published opts ts es") (auto elim: published_more)

lemma run_staged_success:
  assumes "run_staged E opts repo before m stage output = (Inr m', es)"
  shows "published opts (run_targets E opts) es"
proof -
  from assms obtain work artifacts post where
    "publish_artifacts E opts repo work artifacts output (run_targets E opts) = (Inr (), post)" "set post \<subseteq> set es"
    by (fastforce simp: run_staged_def Let_def jbind_iff quiet_def)
  then show ?thesis using publish_artifacts_published published_more by blast
qed

lemma jbind_InrE:
  assumes "jbind j f = (Inr y, es)"
  obtains x es1 es2 where "j = (Inr x, es1)" "f x = (Inr y, es2)" "es = es1 @ es2"
  using assms unfolding jbind_iff by blast

lemma run_release_success:
  assumes "run_release E opts = (Inr m', es)"
  shows "published opts (run_targets E opts) es \<and> (\<exists>stage. last es = RemovedTree stage)"
  using assms unfolding run_release_def Let_def
  by (auto elim!: jbind_InrE split: prod.splits dest!: run_staged_success intro!: published_append)


subsection \<open>What the command does\<close>

definition chosen :: "Options \<Rightarrow> bool" where
  "chosen opts \<longleftrightarrow>
     count_if (\<lambda>b. b) [Tag opts \<noteq> [], Snapshot opts, Build opts, CrossBuild opts] = 1 \<and> Output opts \<noteq> []
     \<and> (Tag opts \<noteq> [] \<longrightarrow> validTag (Tag opts))"

lemma run_release_chosen:
  assumes "run_release E opts = (r, es)" "es \<noteq> []"
  shows "chosen opts"
proof (rule ccontr)
  let ?n = "count_if (\<lambda>b. b) [Tag opts \<noteq> [], Snapshot opts, Build opts, CrossBuild opts]"
  assume "\<not> chosen opts"
  then have "(?n \<noteq> 1 \<or> Output opts = []) \<or> \<not> (?n \<noteq> 1 \<or> Output opts = []) \<and> Tag opts \<noteq> [] \<and> \<not> validTag (Tag opts)"
    unfolding chosen_def by argo
  then have "\<exists>e. prepare_release E opts = Inl e"
  proof (rule disjE)
    assume c: "?n \<noteq> 1 \<or> Output opts = []"
    show ?thesis unfolding prepare_release_def if_P [OF c] by blast
  next
    assume c: "\<not> (?n \<noteq> 1 \<or> Output opts = []) \<and> Tag opts \<noteq> [] \<and> \<not> validTag (Tag opts)"
    show ?thesis unfolding prepare_release_def if_not_P [OF conjunct1 [OF c]] if_P [OF conjunct2 [OF c]] by blast
  qed
  then show False using assms by (auto simp: run_release_def)
qed

lemma csc_release_options:
  assumes "list_all (item_ok pf release_flags) its" "\<forall>it \<in> set its. \<not> is_positional it"
  shows "csc_release E pf emit (concat (map render its)) =
    jbind (run_release E (release_options (fold (assign pf release_flags) its []))) (\<lambda>m. quiet (rbind (emit m) (\<lambda>_. Inr (Some m))))"
proof -
  have "options_of its = concat (map render its)" using assms(2) by (simp add: options_of_def filter_True)
  with flag_Parse_options [OF assms(1), of "[]" "[]"] show ?thesis by (simp add: csc_release_def)
qed


definition build_command :: "string list" where
  "build_command = [''--out'', ''/o/x'', ''-source=/r'', ''--build'']"

lemma build_command_options:
  "\<exists>st. flag_Parse pf release_flags build_command [] = Inr (st, []) \<and> release_options st = build_options"
  by (simp add: build_command_def release_flags_def release_options_def build_options_def flag_text_def flag_switch_def
    strip_dashes_def split_flag_def Cut_def read_flag_def ParseBool_def)


end
