(* ===== verification/Spec2Isabelle.thy ===== *)
theory Spec2Isabelle
  imports Worker_Props App_Calls Connection_Count Launching Mcp_Runs Mcp_Tools Release_Order Release_Facts App_Start Command_Props Install_Props Shell Release_Command
begin

section \<open>Cross-session messaging for Codex: a verification development\<close>

text \<open>
  The program lets Codex sessions exchange messages with each other and with Claude sessions on one
  machine.  Each Codex thread has a worker process with a socket that peers write frames to, a database
  with its inbox and outbox, and a control socket that the command line and the MCP server use.  The
  launcher starts Codex on a shared app-server, and the worker tells a thread about new messages through
  it.  A second program builds releases.

  Conventions.  A Go struct is a record or, when it lives in JSON or in the database, an association
  list \<open>obj\<close> of the dynamic values \<open>gval\<close> (Values); \<open>(value, error)\<close> is a sum \<open>gerr + 'a\<close> (Prelude);
  strings are lists of bytes, with the UTF-8 decoding of Go's ranges in Utf8; Go's functions on strings
  and paths that the code uses are modelled in GoText and GoPath.  What the operating system, SQLite, a
  peer or the app-server answers is an argument of the definition that asks, in the order the code asks;
  two answers to the same question at different times are two arguments.  What the code does to the
  world is returned: a new state, the list of bytes written, the list of effects.

  \<^bold>\<open>Theories and source.\<close>

  \<^item> Protocol, Peers, Identity: protocol.go, peer_identity.go, peer_identity_linux.go and the name check of
    lifecycle.go: frames, envelopes, names, the line reader, trusted files, process identity, discovery,
    sending.  Frames: the round trip of a message, the reader, names.  Discovery: what a listed peer
    is, how a target is resolved, what is written to a peer.

  \<^item> Store: store.go, one function per query or transaction on the tables \<open>inbox\<close>, \<open>outbox\<close>,
    \<open>metadata\<close>.  Store_Rows and Store_Inv: rows and the invariant of every reachable store.
    Message_States: the life cycle of a message and the locale of its state machine.  Inbox, Wake,
    Receipts, Paging: accepting, deciding, expiring; the pending notice and the locale of its latch; sent
    messages; pages.

  \<^item> Config: manager.go's configuration, validation, recovery of a stale worker, and lifecycle.go's check of
    the owner.  Worker and Control: worker.go, its admission of frames, receipts, batches of dropped
    messages, notices, and the operations of the control socket.  Worker_Inv: the locale of a simulation
    and its interpretation, every step of the worker being a run of operations of the store.
    Worker_Props: properties of a running worker.

  \<^item> AppServer: appserver.go, the client that multiplexes calls, and the walks over loaded threads, history
    and active threads.  App_Calls and App_Walks: their properties, the latter on the locale of a paged
    walk that three loops of the code interpret.

  \<^item> Connections and Connection_Count: appserver_connections_linux.go, the parsers of \<open>/proc\<close> and the exact
    count of connections.  Shutdown and Stop_Safety: appserver_stop.go.

  \<^item> Handshake and Handoff: launch_handshake.go.  Launch and Launching: launch.go.

  \<^item> Mcp, Mcp_Runs, Mcp_Tools: mcp.go, the tools, the server with its goroutines as a transition system, and
    what its checks guarantee to the worker.

  \<^item> Directories, Directory_Props: the private directories, lock files and socket directories of protocol.go,
    install.go, appserver_start.go and lifecycle.go.  Artifacts, Artifact_Safety: the files a worker creates,
    replaces and removes, on a file system as a state.  Running, Running_Props, Serving: \<open>RunWorker\<close> and its
    goroutines, from the checks at the start to the answers on its connections.  Manager, Manager_Safety:
    \<open>RPC\<close>, \<open>Enable\<close> and \<open>Stop\<close> of manager.go and the hook of hooks.go.  App_Start: appserver_start.go.

  \<^item> Json, Json_Round_Trip: the reading of JSON by the standard library, and that it inverts \<open>compact\<close>.
    Rpc_Loop: a request of a client and its answer by a worker, end to end.

  \<^item> Flags, Flag_Props: the flag package and \<open>parseFlags\<close> of cli.go.  Command_Line, Command_Props: \<open>runCLI\<close> and
    \<open>Main\<close>, and what a request of the command line is to the worker.  Install, Install_Props: install.go on
    the file system of Artifacts.  Shell: what a shell makes of \<open>shellQuote\<close>.
    Release_Command: the command of cmd/csc-release, from its options to the published artifacts.

  \<^item> Release_Tags, Release, Archives, Release_Run: release.go, archive.go, build.go.  Release_Paths,
    Release_Order, Release_Facts: where a release may write, in which order, and what it contains.

  \<^bold>\<open>What the lemmas show.\<close>  For each component: the invariant of its state and its preservation (\<open>store_inv\<close>,
  \<open>worker_ok\<close>, \<open>client_ok\<close>, \<open>mcp_ok\<close>); the exact result of its operations, errors included; the
  refinement of an abstract description (the worker by the store, \<open>transition\<close> by an update of a map,
  the tag check by a grammar); what cannot happen in any interleaving (a notice shown twice, a second
  client on a thread, a signal to the wrong process, artifacts published early); and the end of every
  loop.  The properties are numbered C1 and on, in the order of their importance; each stands in the
  theory of its component, followed by a witness at a concrete input.

  \<^bold>\<open>Bounds and fuel.\<close>  The loops of the code are structural recursion on the answers they consume, or
  recursion with a measure; an exhausted list of events stands for a deadline.  The walks over pages
  have the bound of the code (one hundred pages).  The search for an existing ancestor of an output has
  fuel, the length of the path and two, and \<open>ancestor_search_ends\<close> shows that it is enough.

  \<^bold>\<open>Idealisations.\<close>  A \<open>float64\<close> is a rational number.  A column or file that holds JSON holds the decoded
  value, and the keys of structs match exactly.  Faults of the disk below SQLite are not modelled.  Rows
  with equal sort keys keep the order of their row numbers.  Identifiers, the clock, and the order in
  which a map is iterated are arguments.  \<open>uuid.Parse\<close>, \<open>html.UnescapeString\<close> and the printing of floats
  are the record \<open>lib\<close>, SHA-256 the argument \<open>sha\<close>.  A file that is checked and then opened is the same
  file.  An error text formatted with a quoted value omits the value, and text after a wrapped error is
  dropped.  Success of \<open>Launch\<close> is the successful exec.  The file operations of a worker and of the installer run without
  interference, other processes acting between them, and inode numbers are not reused; a system call that fails
  changes nothing.  The reader of JSON has neither the rounding and range of \<open>float64\<close> nor a limit on nesting.

  \<^bold>\<open>Not modelled.\<close>  The processes themselves (a started worker, app-server or compiler is an effect, what it
  does is an answer), the WebSocket dialling of appserver.go, the schema statements and the reopening of the
  database file in store.go, the logging, and the files for other systems.
\<close>

end
